(* ===== verification/Prelude.thy ===== *)
theory Prelude
  imports Main "HOL-Library.Word"
begin

text \<open>
  Shared vocabulary of the development: the machine integers and strings of Go, the byte-string
  operations of package \<open>strings\<close> that the provider calls, and a small Hoare logic for Go
  functions with early returns. A Go function body is a list of steps over a state; a step either
  falls through (\<open>None\<close>) or returns (\<open>Some r\<close>), and \<open>run_steps\<close> executes the list up to the
  first return. \<open>triple P f Q R\<close> states that from \<open>P\<close> the step \<open>f\<close> falls through with \<open>Q\<close> or
  returns with \<open>R\<close>.
\<close>

named_theorems go_simps \<open>evaluation rules of the modelled Go standard library\<close>
named_theorems triple_intros \<open>composition rules of the early-return Hoare logic\<close>
named_theorems log_simps \<open>what each API call appends to the call log\<close>

type_synonym int32 = "32 word"
type_synonym int64 = "64 word"
type_synonym smap = "string \<rightharpoonup> string"

section \<open>Byte strings\<close>

text \<open>\<open>strings.HasPrefix\<close> and \<open>strings.TrimPrefix\<close>.\<close>

definition hasPrefix :: "string \<Rightarrow> string \<Rightarrow> bool" where
  "hasPrefix s p \<longleftrightarrow> take (length p) s = p"

definition trimPrefix :: "string \<Rightarrow> string \<Rightarrow> string" where
  "trimPrefix s p = (if hasPrefix s p then drop (length p) s else s)"

text \<open>\<open>strings.Split\<close> for a separator of one byte.\<close>

fun splitOn :: "char \<Rightarrow> string \<Rightarrow> string list" where
  "splitOn c [] = [[]]"
| "splitOn c (x # xs) =
     (if x = c then [] # splitOn c xs
      else (case splitOn c xs of [] \<Rightarrow> [[x]] | y # ys \<Rightarrow> (x # y) # ys))"

text \<open>\<open>bytealg.IndexByteString\<close> and \<open>LastIndexByteString\<close>; \<open>None\<close> is the code's \<open>-1\<close>.\<close>

fun indexByte :: "string \<Rightarrow> char \<Rightarrow> nat option" where
  "indexByte [] c = None"
| "indexByte (x # xs) c = (if x = c then Some 0 else map_option Suc (indexByte xs c))"

fun lastIndexByte :: "string \<Rightarrow> char \<Rightarrow> nat option" where
  "lastIndexByte [] c = None"
| "lastIndexByte (x # xs) c =
     (case lastIndexByte xs c of
        Some i \<Rightarrow> Some (Suc i)
      | None \<Rightarrow> if x = c then Some 0 else None)"

lemma hasPrefix_append [simp]: "hasPrefix (p @ s) p"
  by (simp add: hasPrefix_def)

lemma hasPrefix_iff: "hasPrefix s p \<longleftrightarrow> (\<exists>t. s = p @ t)"
  by (metis append_eq_conv_conj hasPrefix_def)

lemma trimPrefix_append [simp]: "trimPrefix (p @ s) p = s"
  by (simp add: trimPrefix_def)

lemma splitOn_neq_Nil [simp]: "splitOn c s \<noteq> []"
  by (cases s) (auto split: list.splits)

lemma splitOn_no_sep [simp]: "c \<notin> set s \<Longrightarrow> splitOn c s = [s]"
  by (induction s) auto

lemma splitOn_append_sep [simp]: "c \<notin> set s \<Longrightarrow> splitOn c (s @ c # t) = s # splitOn c t"
  by (induction s) auto

lemma splitOn_singleD: "splitOn c s = [x] \<Longrightarrow> s = x"
  by (induction s arbitrary: x) (auto split: if_splits list.splits)

lemma splitOn_ConsD:
  "splitOn c s = x # y # ys \<Longrightarrow> \<exists>t. s = x @ c # t \<and> splitOn c t = y # ys"
proof (induction s arbitrary: x)
  case (Cons z s)
  show ?case
  proof (cases "z = c")
    case True
    with Cons.prems show ?thesis by auto
  next
    case False
    with Cons.prems obtain x' where x': "splitOn c s = x' # y # ys" "x = z # x'"
      by (auto split: list.splits)
    from Cons.IH [OF x'(1)] x'(2) show ?thesis by auto
  qed
qed simp

lemma distinct_count_list: "distinct xs \<Longrightarrow> count_list xs x = (if x \<in> set xs then 1 else 0)"
  by (induction xs) auto

lemma ran_delete: "m n = Some i \<Longrightarrow> ran m = insert i (ran (m(n := None)))"
  by (metis fun_upd_same fun_upd_triv fun_upd_upd ran_map_upd)

lemma length_splitOn: "length (splitOn c s) = Suc (count_list s c)"
  by (induction s) (auto split: list.splits)

lemma splitOn_single_iff: "length (splitOn c s) = 1 \<longleftrightarrow> c \<notin> set s"
  by (simp add: length_splitOn count_list_0_iff)

lemma indexByte_None_iff [simp]: "indexByte s c = None \<longleftrightarrow> c \<notin> set s"
  by (induction s) auto

lemma indexByte_append_sep [simp]: "c \<notin> set s \<Longrightarrow> indexByte (s @ c # t) c = Some (length s)"
  by (induction s) auto

lemma lastIndexByte_None_iff [simp]: "lastIndexByte s c = None \<longleftrightarrow> c \<notin> set s"
  by (induction s) (auto split: option.splits)

lemma lastIndexByte_absent [simp]: "c \<notin> set s \<Longrightarrow> lastIndexByte s c = None"
  by simp

lemma indexByte_absent [simp]: "c \<notin> set s \<Longrightarrow> indexByte s c = None"
  by simp

lemma lastIndexByte_append_sep [simp]:
  "c \<notin> set t \<Longrightarrow> lastIndexByte (s @ c # t) c = Some (length s)"
  by (induction s) (auto split: option.splits)

lemma lastIndexByte_SomeD:
  "lastIndexByte s c = Some i \<Longrightarrow> \<exists>u v. s = u @ c # v \<and> c \<notin> set v \<and> length u = i"
proof (induction s arbitrary: i)
  case (Cons x xs)
  show ?case
  proof (cases "lastIndexByte xs c")
    case None
    with Cons.prems show ?thesis
      by (intro exI [of _ "[]"] exI [of _ xs]) (auto split: if_splits)
  next
    case (Some j)
    from Cons.IH [OF this] obtain u v where "xs = u @ c # v" "c \<notin> set v" "length u = j" by blast
    with Some Cons.prems show ?thesis by (intro exI [of _ "x # u"] exI [of _ v]) auto
  qed
qed simp

lemma indexByte_SomeD:
  "indexByte s c = Some i \<Longrightarrow> \<exists>u v. s = u @ c # v \<and> c \<notin> set u \<and> length u = i"
proof (induction s arbitrary: i)
  case (Cons x xs)
  show ?case
  proof (cases "x = c")
    case True
    with Cons.prems show ?thesis by (intro exI [of _ "[]"] exI [of _ xs]) auto
  next
    case False
    with Cons.prems obtain j where j: "indexByte xs c = Some j" "i = Suc j" by auto
    from Cons.IH [OF j(1)] obtain u v where "xs = u @ c # v" "c \<notin> set u" "length u = j" by blast
    with False j(2) show ?thesis by (intro exI [of _ "x # u"] exI [of _ v]) auto
  qed
qed simp

section \<open>Go functions with early returns\<close>

type_synonym ('s, 'r) step = "'s \<Rightarrow> 'r option \<times> 's"

fun run_steps :: "('s, 'r) step list \<Rightarrow> ('s, 'r) step" where
  "run_steps [] s = (None, s)"
| "run_steps (f # fs) s =
     (case f s of
        (Some r, s') \<Rightarrow> (Some r, s')
      | (None, s') \<Rightarrow> run_steps fs s')"

definition triple ::
  "('s \<Rightarrow> bool) \<Rightarrow> ('s, 'r) step \<Rightarrow> ('s \<Rightarrow> bool) \<Rightarrow> ('r \<Rightarrow> 's \<Rightarrow> bool) \<Rightarrow> bool" where
  "triple P f Q R \<longleftrightarrow>
     (\<forall>s. P s \<longrightarrow> (case f s of (None, s') \<Rightarrow> Q s' | (Some r, s') \<Rightarrow> R r s'))"

lemma tripleI:
  assumes "\<And>s s'. P s \<Longrightarrow> f s = (None, s') \<Longrightarrow> Q s'"
    and "\<And>s s' r. P s \<Longrightarrow> f s = (Some r, s') \<Longrightarrow> R r s'"
  shows "triple P f Q R"
  using assms by (auto simp: triple_def split: prod.splits option.splits)

lemma tripleD_None: "triple P f Q R \<Longrightarrow> P s \<Longrightarrow> f s = (None, s') \<Longrightarrow> Q s'"
  by (fastforce simp: triple_def)

lemma tripleD_Some: "triple P f Q R \<Longrightarrow> P s \<Longrightarrow> f s = (Some r, s') \<Longrightarrow> R r s'"
  by (fastforce simp: triple_def)

lemma triple_Nil [triple_intros]: "(\<And>s. P s \<Longrightarrow> Q s) \<Longrightarrow> triple P (run_steps []) Q R"
  by (simp add: triple_def)

lemma triple_Cons [triple_intros]:
  "triple P f P' R \<Longrightarrow> triple P' (run_steps fs) Q R \<Longrightarrow> triple P (run_steps (f # fs)) Q R"
  unfolding triple_def by (fastforce split: prod.splits option.splits)

lemma triple_weaken:
  "triple P f Q R \<Longrightarrow> (\<And>s. P' s \<Longrightarrow> P s) \<Longrightarrow> (\<And>s. Q s \<Longrightarrow> Q' s) \<Longrightarrow>
   (\<And>r s. R r s \<Longrightarrow> R' r s) \<Longrightarrow> triple P' f Q' R'"
  unfolding triple_def by (fastforce split: prod.splits option.splits)

lemma run_steps_append:
  "run_steps (fs @ gs) s =
     (case run_steps fs s of (Some r, s') \<Rightarrow> (Some r, s') | (None, s') \<Rightarrow> run_steps gs s')"
  by (induction fs arbitrary: s) (auto split: prod.splits option.splits)

text \<open>An invariant that every step keeps is kept by the whole body, however it returns.\<close>

definition keeps :: "('s \<Rightarrow> bool) \<Rightarrow> ('s, 'r) step \<Rightarrow> bool" where
  "keeps I f \<longleftrightarrow> (\<forall>s. I s \<longrightarrow> I (snd (f s)))"

lemma keepsI: "(\<And>s. I s \<Longrightarrow> I (snd (f s))) \<Longrightarrow> keeps I f"
  by (simp add: keeps_def)

lemma keepsD: "keeps I f \<Longrightarrow> I s \<Longrightarrow> I (snd (f s))"
  by (simp add: keeps_def)

lemma triple_keeps:
  assumes "\<And>s. I s \<Longrightarrow> I (snd (f s))" "\<And>s. I s \<Longrightarrow> R s"
  shows "triple I f I (\<lambda>_. R)"
proof (rule tripleI)
  fix s s' assume "I s" "f s = (None, s')"
  with assms(1) [of s] show "I s'" by simp
next
  fix s s' r assume "I s" "f s = (Some r, s')"
  with assms(1) [of s] assms(2) show "R s'" by simp
qed

lemma keeps_run_steps: "(\<And>f. f \<in> set fs \<Longrightarrow> keeps I f) \<Longrightarrow> keeps I (run_steps fs)"
proof (induction fs)
  case Nil
  show ?case by (simp add: keeps_def)
next
  case (Cons f fs)
  then have "keeps I f" "keeps I (run_steps fs)" by simp_all
  then show ?case
    by (fastforce simp: keeps_def split: prod.splits option.splits)
qed

end
