(* ===== verification/Go_Std.thy ===== *)
theory Go_Std
  imports Prelude
begin

text \<open>
  What the provider uses of the Go language and its standard library: error values with their
  chains of wrapped causes (\<open>errors.Is\<close>, \<open>errors.As\<close>, the reason of an API status error),
  \<open>net.SplitHostPort\<close>, \<open>strconv.ParseInt\<close> and \<open>strconv.Itoa\<close>. The lemmas characterise the
  accepted inputs of the two parsers and give their round trips.
\<close>

section \<open>Errors\<close>

text \<open>
  Package-level error variables are compared by identity, so each one is a constructor of its own.
  \<open>ErrNew\<close> is an error made on the spot by \<open>errors.New\<close> or \<open>fmt.Errorf\<close> with no wrapped cause;
  \<open>ErrWrap\<close> is \<open>errors.Wrap\<close> of \<open>pkg/errors\<close>, \<open>ErrFmtW\<close> is \<open>fmt.Errorf\<close> with a \<open>%w\<close> verb.
  \<open>ErrPanic\<close> is no Go error value but a run-time panic (a nil dereference) on its way up the
  stack: the functions that would wrap or record an error let it pass unchanged.
\<close>

datatype sentinel =
    ErrEnqueueBack
  | ErrUnsupportedCertificateSAN
  | ErrExternalClusterReferenceNotEnabled
  | ErrExternalClusterReferenceCrossNamespaceReference
  | ErrExternalCLusterReferenceSecretEmptyError
  | ErrExternalClusterReferenceSecretKeyEmpty
  | ErrExternalClusterReferenceNonInitializedStore
  | ErrExternalClusterReferenceTenantControlPlaneNotFound

datatype api_reason = NotFound | Conflict | AlreadyExists | OtherReason string

datatype num_error = ErrSyntax | ErrRange

datatype error =
    ErrNew string
  | Sentinel sentinel
  | UnmanagedControlPlaneAddressError string
  | AddrError string string
  | NumError string num_error
  | ApiError api_reason
  | ErrPanic string
  | ErrWrap string error
  | ErrFmtW string error

primrec errors_Is :: "error \<Rightarrow> sentinel \<Rightarrow> bool" where
  "errors_Is (ErrNew m) t = False"
| "errors_Is (Sentinel e) t = (e = t)"
| "errors_Is (UnmanagedControlPlaneAddressError k) t = False"
| "errors_Is (AddrError w a) t = False"
| "errors_Is (NumError n e) t = False"
| "errors_Is (ApiError r) t = False"
| "errors_Is (ErrPanic m) t = False"
| "errors_Is (ErrWrap m e) t = errors_Is e t"
| "errors_Is (ErrFmtW m e) t = errors_Is e t"

text \<open>\<open>errors.As(err, &UnmanagedControlPlaneAddressError{})\<close>.\<close>

primrec errors_As_Unmanaged :: "error \<Rightarrow> bool" where
  "errors_As_Unmanaged (ErrNew m) = False"
| "errors_As_Unmanaged (Sentinel e) = False"
| "errors_As_Unmanaged (UnmanagedControlPlaneAddressError k) = True"
| "errors_As_Unmanaged (AddrError w a) = False"
| "errors_As_Unmanaged (NumError n e) = False"
| "errors_As_Unmanaged (ApiError r) = False"
| "errors_As_Unmanaged (ErrPanic m) = False"
| "errors_As_Unmanaged (ErrWrap m e) = errors_As_Unmanaged e"
| "errors_As_Unmanaged (ErrFmtW m e) = errors_As_Unmanaged e"

text \<open>The status reason that \<open>apierrors.IsNotFound\<close> and \<open>IsConflict\<close> look for along the chain.\<close>

primrec apiReason :: "error \<Rightarrow> api_reason option" where
  "apiReason (ErrNew m) = None"
| "apiReason (Sentinel e) = None"
| "apiReason (UnmanagedControlPlaneAddressError k) = None"
| "apiReason (AddrError w a) = None"
| "apiReason (NumError n e) = None"
| "apiReason (ApiError r) = Some r"
| "apiReason (ErrPanic m) = None"
| "apiReason (ErrWrap m e) = apiReason e"
| "apiReason (ErrFmtW m e) = apiReason e"

definition isNotFound :: "error \<Rightarrow> bool" where
  "isNotFound e \<longleftrightarrow> apiReason e = Some NotFound"

definition isConflict :: "error \<Rightarrow> bool" where
  "isConflict e \<longleftrightarrow> apiReason e = Some Conflict"

primrec isPanic :: "error \<Rightarrow> bool" where
  "isPanic (ErrNew m) = False"
| "isPanic (Sentinel e) = False"
| "isPanic (UnmanagedControlPlaneAddressError k) = False"
| "isPanic (AddrError w a) = False"
| "isPanic (NumError n e) = False"
| "isPanic (ApiError r) = False"
| "isPanic (ErrPanic m) = True"
| "isPanic (ErrWrap m e) = False"
| "isPanic (ErrFmtW m e) = False"

text \<open>\<open>errors.Wrap\<close> at a return statement: a panic never reaches it.\<close>

definition wrapErr :: "string \<Rightarrow> error \<Rightarrow> error" where
  "wrapErr m e = (if isPanic e then e else ErrWrap m e)"

lemma wrapErr_simps [simp]:
  "errors_Is (wrapErr m e) t = errors_Is e t"
  "errors_As_Unmanaged (wrapErr m e) = errors_As_Unmanaged e"
  "apiReason (wrapErr m e) = apiReason e"
  "isPanic (wrapErr m e) = isPanic e"
  by (simp_all add: wrapErr_def)

lemma isNotFound_wrapErr [simp]: "isNotFound (wrapErr m e) = isNotFound e"
  by (simp add: isNotFound_def)

section \<open>net.SplitHostPort\<close>

definition SplitHostPort :: "string \<Rightarrow> error + (string \<times> string)" where
  "SplitHostPort hostport =
     (let missingPort = ''missing port in address'';
          tooManyColons = ''too many colons in address'';
          addrErr = (\<lambda>why. Inl (AddrError why hostport));
          finish = (\<lambda>host j k i.
            if CHR ''['' \<in> set (drop j hostport) then addrErr ''unexpected '[' in address''
            else if CHR '']'' \<in> set (drop k hostport) then addrErr ''unexpected ']' in address''
            else Inr (host, drop (Suc i) hostport))
      in case lastIndexByte hostport CHR '':'' of
           None \<Rightarrow> addrErr missingPort
         | Some i \<Rightarrow>
             if hd hostport = CHR ''['' then
               (case indexByte hostport CHR '']'' of
                  None \<Rightarrow> addrErr ''missing ']' in address''
                | Some e \<Rightarrow>
                    if Suc e = length hostport then addrErr missingPort
                    else if Suc e = i then finish (take (e - 1) (drop 1 hostport)) 1 (Suc e) i
                    else if hostport ! Suc e = CHR '':'' then addrErr tooManyColons
                    else addrErr missingPort)
             else
               (let host = take i hostport
                in if CHR '':'' \<in> set host then addrErr tooManyColons
                   else finish host 0 0 i))"

lemma SplitHostPort_no_colon [go_simps]:
  "CHR '':'' \<notin> set s \<Longrightarrow> SplitHostPort s = Inl (AddrError ''missing port in address'' s)"
  by (simp add: SplitHostPort_def Let_def)

definition plain_host :: "string \<Rightarrow> bool" where
  "plain_host h \<longleftrightarrow> CHR '':'' \<notin> set h \<and> CHR ''['' \<notin> set h \<and> CHR '']'' \<notin> set h"

lemma SplitHostPort_plain [go_simps]:
  assumes "plain_host h" and "plain_host p"
  shows "SplitHostPort (h @ CHR '':'' # p) = Inr (h, p)"
proof -
  have "lastIndexByte (h @ CHR '':'' # p) CHR '':'' = Some (length h)"
    using assms by (simp add: plain_host_def)
  moreover have "hd (h @ CHR '':'' # p) \<noteq> CHR ''[''"
    using assms by (cases h) (auto simp: plain_host_def)
  ultimately show ?thesis
    using assms by (simp add: SplitHostPort_def Let_def plain_host_def)
qed

text \<open>A bracketed host (an IPv6 literal) keeps its colons and loses its brackets.\<close>

lemma SplitHostPort_bracketed [go_simps]:
  assumes "CHR ''['' \<notin> set h" "CHR '']'' \<notin> set h" and "plain_host p"
  shows "SplitHostPort (CHR ''['' # h @ CHR '']'' # CHR '':'' # p) = Inr (h, p)"
proof -
  have "lastIndexByte (h @ CHR '']'' # CHR '':'' # p) CHR '':'' = Some (Suc (length h))"
    using lastIndexByte_append_sep [of "CHR '':''" p "h @ [CHR '']'']"] assms
    by (simp add: plain_host_def)
  with assms show ?thesis
    by (simp add: SplitHostPort_def Let_def plain_host_def)
qed

text \<open>
  Everything \<open>SplitHostPort\<close> accepts has one of the two shapes: the host of a plain address has no
  colon, and the port never has one.
\<close>

lemma SplitHostPort_InrD:
  assumes "SplitHostPort s = Inr (h, p)"
  shows "(s = h @ CHR '':'' # p \<and> CHR '':'' \<notin> set h \<or>
          s = CHR ''['' # h @ CHR '']'' # CHR '':'' # p) \<and>
         CHR '':'' \<notin> set p"
proof -
  from assms obtain i where i: "lastIndexByte s CHR '':'' = Some i"
    by (cases "lastIndexByte s CHR '':''") (auto simp: SplitHostPort_def Let_def)
  from lastIndexByte_SomeD [OF i] obtain u v where
    s: "s = u @ CHR '':'' # v" and v: "CHR '':'' \<notin> set v" and u: "length u = i" by blast
  show ?thesis
  proof (cases "hd s = CHR ''[''")
    case False
    with assms i s u v show ?thesis
      by (auto simp: SplitHostPort_def Let_def split: if_splits)
  next
    case True
    from assms i True obtain e where e: "indexByte s CHR '']'' = Some e" and ei: "Suc e = i"
      and h: "h = take (e - 1) (drop 1 s)" and p: "p = drop (Suc i) s"
      by (auto simp: SplitHostPort_def Let_def split: option.splits if_splits)
    from indexByte_SomeD [OF e] obtain a b where
      ab: "s = a @ CHR '']'' # b" "CHR '']'' \<notin> set a" "length a = e" by blast
    from True ab obtain a' where a': "a = CHR ''['' # a'" by (cases a) auto
    from ab a' s u ei have "u = a @ [CHR '']'']"
      by (metis append.assoc append_Cons append_eq_append_conv append_Nil length_append_singleton)
    with s a' have s': "s = CHR ''['' # a' @ CHR '']'' # CHR '':'' # v" by simp
    moreover have "h = a'" using h s' ab(3) a' by simp
    moreover have "p = v" using p s u by simp
    ultimately show ?thesis using v by simp
  qed
qed

section \<open>strconv\<close>

definition isDigit :: "char \<Rightarrow> bool" where
  "isDigit c \<longleftrightarrow> 48 \<le> (of_char c :: nat) \<and> (of_char c :: nat) \<le> 57"

definition digitVal :: "char \<Rightarrow> nat" where
  "digitVal c = of_char c - 48"

text \<open>
  The digit loop of \<open>strconv.ParseUint\<close> in base 10: a character that is no digit is a syntax error,
  a value beyond \<open>maxVal = 1<<bitSize - 1\<close> a range error, whichever comes first. The loop's test
  \<open>n >= maxUint64/10 + 1\<close> and the test for wrapped addition fire only beyond \<open>maxVal\<close>, so both
  are the comparison with \<open>maxVal\<close> on unbounded naturals.
\<close>

fun parseUintLoop :: "nat \<Rightarrow> nat \<Rightarrow> string \<Rightarrow> num_error + nat" where
  "parseUintLoop maxVal n [] = Inr n"
| "parseUintLoop maxVal n (c # cs) =
     (if \<not> isDigit c then Inl ErrSyntax
      else let n1 = n * 10 + digitVal c
           in if n1 > maxVal then Inl ErrRange else parseUintLoop maxVal n1 cs)"

definition ParseUint :: "string \<Rightarrow> nat \<Rightarrow> num_error + nat" where
  "ParseUint s bitSize = (if s = [] then Inl ErrSyntax else parseUintLoop (2 ^ bitSize - 1) 0 s)"

text \<open>
  \<open>strconv.ParseInt(s, 10, bitSize)\<close>: an optional sign, then the unsigned digits, then the bounds of
  a signed \<open>bitSize\<close>-bit integer.
\<close>

definition ParseInt :: "string \<Rightarrow> nat \<Rightarrow> error + int64" where
  "ParseInt s bitSize =
     (if s = [] then Inl (NumError s ErrSyntax)
      else
        let neg = (hd s = CHR ''-'');
            digits = (if hd s = CHR ''+'' \<or> hd s = CHR ''-'' then tl s else s);
            cutoff = 2 ^ (bitSize - 1)
        in case ParseUint digits bitSize of
             Inl e \<Rightarrow> Inl (NumError s e)
           | Inr un \<Rightarrow>
               if \<not> neg \<and> un \<ge> cutoff then Inl (NumError s ErrRange)
               else if neg \<and> un > cutoff then Inl (NumError s ErrRange)
               else Inr (word_of_int (if neg then - int un else int un)))"

text \<open>\<open>strconv.Itoa\<close> for the non-negative constants the provider prints.\<close>

fun Itoa :: "nat \<Rightarrow> string" where
  "Itoa n = (if n < 10 then [char_of (48 + n)] else Itoa (n div 10) @ [char_of (48 + n mod 10)])"

declare Itoa.simps [simp del]

lemma isDigit_char_of [simp]: "(d::nat) < 10 \<Longrightarrow> isDigit (char_of (48 + d))"
  by (simp add: isDigit_def)

lemma digitVal_char_of [simp]: "(d::nat) < 10 \<Longrightarrow> digitVal (char_of (48 + d)) = d"
  by (simp add: digitVal_def)

lemma parseUintLoop_append:
  "parseUintLoop m n (xs @ ys) =
     (case parseUintLoop m n xs of Inl e \<Rightarrow> Inl e | Inr k \<Rightarrow> parseUintLoop m k ys)"
  by (induction m n xs rule: parseUintLoop.induct) (auto simp: Let_def)

lemma parseUintLoop_bound: "parseUintLoop m n s = Inr k \<Longrightarrow> n \<le> m \<Longrightarrow> k \<le> m"
  by (induction m n s rule: parseUintLoop.induct) (auto simp: Let_def split: if_splits)

lemma parseUintLoop_digits: "parseUintLoop m n s = Inr k \<Longrightarrow> list_all isDigit s"
  by (induction m n s rule: parseUintLoop.induct) (auto simp: Let_def split: if_splits)

lemma parseUintLoop_Itoa: "n \<le> m \<Longrightarrow> parseUintLoop m 0 (Itoa n) = Inr n"
proof (induction n rule: Itoa.induct)
  case (1 n)
  show ?case
  proof (cases "n < 10")
    case True
    with "1.prems" show ?thesis by (simp add: Itoa.simps [of n])
  next
    case False
    with "1" have IH: "parseUintLoop m 0 (Itoa (n div 10)) = Inr (n div 10)"
      by (simp add: div_le_dividend [THEN order_trans])
    from "1.prems" have "n div 10 * 10 + n mod 10 \<le> m" by simp
    with False IH show ?thesis
      by (simp add: Itoa.simps [of n] parseUintLoop_append Let_def)
  qed
qed

lemma Itoa_digits: "list_all isDigit (Itoa n)"
  using parseUintLoop_digits [OF parseUintLoop_Itoa [of n n]] by simp

lemma Itoa_neq_Nil [simp]: "Itoa n \<noteq> []"
  by (simp add: Itoa.simps [of n])

lemma isDigit_not_punct [simp]:
  "\<not> isDigit CHR ''+''" "\<not> isDigit CHR ''-''" "\<not> isDigit CHR '':''"
  "\<not> isDigit CHR ''[''" "\<not> isDigit CHR '']''"
  by (simp_all add: isDigit_def)

lemma digits_plain_host: "list_all isDigit s \<Longrightarrow> plain_host s"
  unfolding plain_host_def list_all_iff using isDigit_not_punct(3-5) by blast

lemma hd_Itoa_no_sign [simp]: "hd (Itoa n) \<noteq> CHR ''+''" "hd (Itoa n) \<noteq> CHR ''-''"
  using Itoa_digits [of n] isDigit_not_punct(1,2)
  by (cases "Itoa n"; auto)+

lemma two_power_le_minus_one: "n < 2 ^ (k - 1) \<Longrightarrow> n \<le> 2 ^ k - (1::nat)"
  by (cases k) auto

text \<open>Printing and parsing again gives the number, as long as it fits the requested width.\<close>

lemma ParseInt_Itoa [go_simps]:
  assumes "n < 2 ^ (k - 1)"
  shows "ParseInt (Itoa n) k = Inr (word_of_int (int n))"
  using assms parseUintLoop_Itoa [OF two_power_le_minus_one [OF assms]]
  by (simp add: ParseInt_def ParseUint_def Let_def)

lemma ParseInt_Itoa_out_of_range [go_simps]:
  assumes "2 ^ (k - 1) \<le> n" "n < 2 ^ k"
  shows "ParseInt (Itoa n) k = Inl (NumError (Itoa n) ErrRange)"
proof -
  from assms(2) have "parseUintLoop (2 ^ k - 1) 0 (Itoa n) = Inr n"
    by (intro parseUintLoop_Itoa) simp
  with assms(1) show ?thesis
    by (simp add: ParseInt_def ParseUint_def Let_def)
qed

lemma ParseInt_cases:
  assumes "ParseInt s k = Inr w"
  obtains un where "w = word_of_int (int un)" "un < 2 ^ (k - 1)"
    | un where "w = word_of_int (- int un)" "un \<le> 2 ^ (k - 1)"
  using assms
  by (fastforce simp: ParseInt_def Let_def not_le not_less split: if_splits sum.splits)

lemma sint_word_of_int_id:
  assumes "- (2 ^ 63) \<le> n" "n < 2 ^ 63"
  shows "sint (word_of_int n :: int64) = n"
  using assms by (simp add: signed_take_bit_int_eq_self_iff sint_sbintrunc')

text \<open>A successful parse lies within the signed range of the requested width.\<close>

lemma ParseInt_bounds:
  assumes p: "ParseInt s k = Inr w" and k: "0 < k" "k \<le> 64"
  shows "- (2 ^ (k - 1)) \<le> sint w \<and> sint w < 2 ^ (k - 1)"
proof -
  have le: "(2::int) ^ (k - 1) \<le> 2 ^ 63" using k by (intro power_increasing) auto
  show ?thesis using p
  proof (cases rule: ParseInt_cases)
    case (1 un)
    then have "int un < 2 ^ (k - 1)" by (simp flip: of_nat_less_iff)
    from this le have "int un < 2 ^ 63" by (rule less_le_trans)
    then have "sint w = int un" unfolding 1(1) by (intro sint_word_of_int_id) auto
    moreover have "- (2 ^ (k - 1)) \<le> int un" by (rule order_trans [of _ 0]) auto
    ultimately show ?thesis using \<open>int un < 2 ^ (k - 1)\<close> by simp
  next
    case (2 un)
    then have "int un \<le> 2 ^ (k - 1)" by (simp flip: of_nat_le_iff)
    from this le have "int un \<le> 2 ^ 63" by (rule order_trans)
    then have "sint w = - int un" unfolding 2(1) by (intro sint_word_of_int_id) auto
    moreover have "- int un < 2 ^ (k - 1)" by (rule le_less_trans [of _ 0]) auto
    ultimately show ?thesis using \<open>int un \<le> 2 ^ (k - 1)\<close> by simp
  qed
qed

end
