(* ===== verification/Api_Types.thy ===== *)
theory Api_Types
  imports Go_Std
begin

text \<open>
  The data the provider works on. The types of \<open>api/v1alpha1\<close> are records with one field per Go
  field, in source order: a pointer is an \<open>option\<close>, an embedded struct a field of its own. Types of
  other modules (Kubernetes, Cluster API, Steward, Gateway API) are records of the fields the
  provider reads or writes; values it only copies, and the remaining fields of such a type, are
  \<open>json\<close>, their wire form. A Go map is a partial function, except the data of a Secret, over which
  the code iterates: an association list in the order of that iteration. A slice is a list, and an
  \<open>option\<close> of one where the code tells \<open>nil\<close> from empty.
\<close>

section \<open>Types of other modules\<close>

datatype json =
    JNull
  | JBool bool
  | JInt int
  | JString string
  | JList "json list"
  | JObj "(string \<times> json) list"

type_synonym VolumeMount = json
type_synonym ResourceRequirements = json
type_synonym ParentReference = json
type_synonym Container = json
type_synonym Volume = json
type_synonym Toleration = json
type_synonym TopologySpreadConstraint = json
type_synonym Affinity = json
type_synonym DeploymentStrategy = json
type_synonym KubeletSpec = json
type_synonym AddonSpec = json

record OwnerReference =
  or_Kind :: string
  or_Name :: string
  or_UID :: string

record ObjectMeta =
  om_Name :: string
  om_Namespace :: string
  om_UID :: string
  om_ResourceVersion :: string
  om_Generation :: int64
  om_Labels :: smap
  om_Annotations :: smap
  om_OwnerReferences :: "OwnerReference list"
  om_Finalizers :: "string list"
  om_DeletionTimestamp :: "int option"
  om_CreationTimestamp :: "int option"

type_synonym NamespacedName = "string \<times> string"

definition nsname :: "ObjectMeta \<Rightarrow> NamespacedName" where
  "nsname m = (om_Namespace m, om_Name m)"

datatype ConditionStatus = StatusUnset | ConditionTrue | ConditionFalse | ConditionUnknown

text \<open>
  The message of a condition is \<open>err.Error()\<close>; the model keeps the error whose text it is.
\<close>

datatype message = Text string | ErrorText error

record Condition =
  c_Type :: string
  c_Status :: ConditionStatus
  c_ObservedGeneration :: int64
  c_LastTransitionTime :: "int option"
  c_Reason :: string
  c_Message :: message

record APIEndpoint =
  ep_Host :: string
  ep_Port :: int32

record ObjectReference =
  ref_APIVersion :: string
  ref_Kind :: string
  ref_Name :: string
  ref_Namespace :: string

record ClusterNetwork =
  cn_APIServerPort :: "int32 option"
  cn_Services :: "string list option"
  cn_Pods :: "string list option"
  cn_ServiceDomain :: string

record Cluster =
  cl_meta :: ObjectMeta
  cl_Paused :: bool
  cl_ClusterNetwork :: "ClusterNetwork option"
  cl_ControlPlaneEndpoint :: APIEndpoint
  cl_InfrastructureRef :: "ObjectReference option"
  cl_InfrastructureReady :: bool

type_synonym bytes = string

record Secret =
  sec_meta :: ObjectMeta
  sec_Data :: "(string \<times> bytes option) list option"
  sec_Type :: string

definition secret_data :: "Secret \<Rightarrow> (string \<times> bytes option) list" where
  "secret_data s = (case sec_Data s of None \<Rightarrow> [] | Some d \<Rightarrow> d)"

text \<open>An infrastructure cluster, read as \<open>unstructured.Unstructured\<close>.\<close>

record Unstructured =
  u_ref :: ObjectReference
  u_Object :: json

record AdditionalMetadata =
  am_Labels :: smap
  am_Annotations :: smap

text \<open>The \<open>TenantControlPlane\<close> of Steward.\<close>

record TCPAddons =
  ad_CoreDNS :: "AddonSpec option"
  ad_Rest :: json

record TCPNetworkProfile =
  np_Address :: string
  np_Port :: int32
  np_ServiceCIDR :: string
  np_PodCIDR :: string
  np_ClusterDomain :: string
  np_DNSServiceIPs :: "string list"
  np_CertSANs :: "string list"
  np_LoadBalancerClass :: "string option"
  np_LoadBalancerSourceRanges :: "string list option"
  np_Rest :: json

record TCPRegistrySettings =
  rs_Registry :: string
  rs_ControllerManagerImage :: string
  rs_SchedulerImage :: string
  rs_APIServerImage :: string
  rs_Rest :: json

record AdditionalVolumeMounts =
  vm_ControllerManager :: "VolumeMount list"
  vm_Scheduler :: "VolumeMount list"
  vm_APIServer :: "VolumeMount list"

record ControlPlaneExtraArgs =
  ea_ControllerManager :: "string list"
  ea_Scheduler :: "string list"
  ea_APIServer :: "string list"
  ea_Kine :: "string list"

record ControlPlaneComponentsResources =
  cr_ControllerManager :: "ResourceRequirements option"
  cr_Scheduler :: "ResourceRequirements option"
  cr_APIServer :: "ResourceRequirements option"
  cr_Kine :: "ResourceRequirements option"

record TCPDeployment =
  td_Replicas :: "int32 option"
  td_RegistrySettings :: TCPRegistrySettings
  td_AdditionalVolumeMounts :: "AdditionalVolumeMounts option"
  td_ExtraArgs :: "ControlPlaneExtraArgs option"
  td_Resources :: "ControlPlaneComponentsResources option"
  td_NodeSelector :: smap
  td_RuntimeClassName :: string
  td_ServiceAccountName :: string
  td_AdditionalMetadata :: AdditionalMetadata
  td_PodAdditionalMetadata :: AdditionalMetadata
  td_Strategy :: DeploymentStrategy
  td_Affinity :: "Affinity option"
  td_Tolerations :: "Toleration list"
  td_TopologySpreadConstraints :: "TopologySpreadConstraint list"
  td_AdditionalInitContainers :: "Container list"
  td_AdditionalContainers :: "Container list"
  td_AdditionalVolumes :: "Volume list"
  td_Rest :: json

record TCPService =
  ts_ServiceType :: string
  ts_AdditionalMetadata :: AdditionalMetadata
  ts_Rest :: json

record IngressSpec =
  is_AdditionalMetadata :: AdditionalMetadata
  is_IngressClassName :: string
  is_Hostname :: string
  is_ControllerType :: string

record GatewaySpec =
  gs_AdditionalMetadata :: AdditionalMetadata
  gs_GatewayParentRefs :: "ParentReference list"
  gs_Hostname :: string

record TCPKubernetes =
  tk_Version :: string
  tk_AdmissionControllers :: "string list"
  tk_Kubelet :: KubeletSpec

record TCPSpec =
  tp_NetworkProfile :: TCPNetworkProfile
  tp_Deployment :: TCPDeployment
  tp_Service :: TCPService
  tp_Ingress :: "IngressSpec option"
  tp_Gateway :: "GatewaySpec option"
  tp_Kubernetes :: TCPKubernetes
  tp_Addons :: TCPAddons
  tp_DataStore :: string
  tp_DataStoreSchema :: string
  tp_DataStoreUsername :: string
  tp_Rest :: json

datatype KubernetesVersionStatus = VersionReady | VersionUpgrading | VersionOther string

record TCPStatus =
  tst_ControlPlaneEndpoint :: string
  tst_VersionStatus :: "KubernetesVersionStatus option"
  tst_Version :: string
  tst_ReadyReplicas :: int32
  tst_Replicas :: int32
  tst_UnavailableReplicas :: int32
  tst_UpdatedReplicas :: int32
  tst_AdminSecretName :: string
  tst_CASecretName :: string

record TenantControlPlane =
  tcp_meta :: ObjectMeta
  tcp_spec :: TCPSpec
  tcp_status :: TCPStatus

section \<open>api/v1alpha1\<close>

record ControlPlaneComponent =
  ExtraVolumeMounts :: "VolumeMount list"
  ExtraArgs :: "string list"
  Resources :: ResourceRequirements
  ContainerImageName :: string

record KineComponent =
  kine_ExtraArgs :: "string list"
  kine_Resources :: ResourceRequirements

record IngressComponent =
  ing_ClassName :: string
  ing_Hostname :: string
  ing_ControllerType :: string
  ing_ExtraLabels :: smap
  ing_ExtraAnnotations :: smap

record GatewayComponent =
  gw_ParentRefs :: "ParentReference list"
  gw_Hostname :: string
  gw_ExtraLabels :: smap
  gw_ExtraAnnotations :: smap

record LoadBalancerConfig =
  lb_SourceRanges :: "string list option"
  lb_Class :: "string option"

record NetworkComponent =
  net_LoadBalancerConfig :: "LoadBalancerConfig option"
  net_Ingress :: "IngressComponent option"
  net_Gateway :: "GatewayComponent option"
  net_ServiceType :: string
  net_ServiceAddress :: string
  net_ServiceLabels :: smap
  net_ServiceAnnotations :: smap
  net_CertSANs :: "string list"
  net_DNSServiceIPs :: "string list"

record CoreDNSAddonSpec =
  dns_AddonSpec :: "AddonSpec option"
  dns_DNSServiceIPs :: "string list"

record AddonsSpec =
  addons_AddonsSpec :: TCPAddons
  addons_CoreDNS :: "CoreDNSAddonSpec option"

record ExternalClusterReference =
  ecr_KubeconfigSecretName :: string
  ecr_KubeconfigSecretKey :: string
  ecr_KubeconfigSecretNamespace :: string
  ecr_DeploymentNamespace :: string

record DeploymentComponent =
  dep_NodeSelector :: smap
  dep_RuntimeClassName :: string
  dep_AdditionalMetadata :: AdditionalMetadata
  dep_PodAdditionalMetadata :: AdditionalMetadata
  dep_ServiceAccountName :: string
  dep_Strategy :: DeploymentStrategy
  dep_Affinity :: "Affinity option"
  dep_Tolerations :: "Toleration list"
  dep_TopologySpreadConstraints :: "TopologySpreadConstraint list"
  dep_ExtraInitContainers :: "Container list"
  dep_ExtraContainers :: "Container list"
  dep_ExtraVolumes :: "Volume list"
  dep_ExternalClusterReference :: "ExternalClusterReference option"

record StewardControlPlaneFields =
  DataStoreName :: string
  DataStoreSchema :: string
  DataStoreUsername :: string
  Addons :: AddonsSpec
  AdmissionControllers :: "string list"
  ContainerRegistry :: string
  ControllerManager :: ControlPlaneComponent
  ApiServer :: ControlPlaneComponent
  Scheduler :: ControlPlaneComponent
  Kine :: KineComponent
  Kubelet :: KubeletSpec
  Network :: NetworkComponent
  Deployment :: DeploymentComponent

record StewardControlPlaneSpec =
  spec_Fields :: StewardControlPlaneFields
  spec_ControlPlaneEndpoint :: APIEndpoint
  spec_Replicas :: "int32 option"
  spec_Version :: string

record StewardControlPlaneStatus =
  Initialized :: bool
  Ready :: bool
  ReadyReplicas :: int32
  Replicas :: int32
  Selector :: string
  UnavailableReplicas :: int32
  UpdatedReplicas :: int32
  ExternalManagedControlPlane :: "bool option"
  FailureReason :: string
  FailureMessage :: string
  status_Version :: string
  Conditions :: "Condition list"

record StewardControlPlane =
  scp_meta :: ObjectMeta
  scp_Spec :: StewardControlPlaneSpec
  scp_Status :: StewardControlPlaneStatus

abbreviation scp_Network :: "StewardControlPlane \<Rightarrow> NetworkComponent" where
  "scp_Network scp \<equiv> Network (spec_Fields (scp_Spec scp))"

abbreviation scp_Deployment :: "StewardControlPlane \<Rightarrow> DeploymentComponent" where
  "scp_Deployment scp \<equiv> Deployment (spec_Fields (scp_Spec scp))"

abbreviation scp_ecr :: "StewardControlPlane \<Rightarrow> ExternalClusterReference option" where
  "scp_ecr scp \<equiv> dep_ExternalClusterReference (scp_Deployment scp)"

abbreviation scp_key :: "StewardControlPlane \<Rightarrow> NamespacedName" where
  "scp_key scp \<equiv> nsname (scp_meta scp)"

section \<open>Condition types\<close>

datatype StewardControlPlaneConditionType =
    FoundExternalClusterReferenceConditionType
  | TenantControlPlaneCreatedConditionType
  | TenantControlPlaneAddressReadyConditionType
  | ControlPlaneEndpointPatchedConditionType
  | InfrastructureClusterPatchedConditionType
  | StewardControlPlaneInitializedConditionType
  | StewardControlPlaneReadyConditionType
  | KubeadmResourcesCreatedReadyConditionType

primrec conditionTypeString :: "StewardControlPlaneConditionType \<Rightarrow> string" where
  "conditionTypeString FoundExternalClusterReferenceConditionType = ''FoundExternalReferenceClient''"
| "conditionTypeString TenantControlPlaneCreatedConditionType = ''TenantControlPlaneCreated''"
| "conditionTypeString TenantControlPlaneAddressReadyConditionType = ''TenantControlPlaneAddressReady''"
| "conditionTypeString ControlPlaneEndpointPatchedConditionType = ''ControlPlaneEndpointPatched''"
| "conditionTypeString InfrastructureClusterPatchedConditionType = ''InfrastructureClusterPatched''"
| "conditionTypeString StewardControlPlaneInitializedConditionType = ''StewardControlPlaneIsInitialized''"
| "conditionTypeString StewardControlPlaneReadyConditionType = ''StewardControlPlaneIsReady''"
| "conditionTypeString KubeadmResourcesCreatedReadyConditionType = ''KubeadmResourcesCreated''"

lemma conditionTypeString_inject [simp]:
  "conditionTypeString a = conditionTypeString b \<longleftrightarrow> a = b"
  by (cases a; cases b) simp_all

end
