(* ===== verification/Zero_Values.thy ===== *)
theory Zero_Values
  imports Api_Types
begin

text \<open>
  The zero values of the Go struct types that the code allocates with a composite literal or \<open>var\<close>.
\<close>

definition zeroMeta :: ObjectMeta where
  "zeroMeta = \<lparr>om_Name = '''', om_Namespace = '''', om_UID = '''', om_ResourceVersion = '''',
     om_Generation = 0, om_Labels = Map.empty, om_Annotations = Map.empty, om_OwnerReferences = [],
     om_Finalizers = [], om_DeletionTimestamp = None, om_CreationTimestamp = None\<rparr>"

definition zeroSecret :: Secret where
  "zeroSecret = \<lparr>sec_meta = zeroMeta, sec_Data = None, sec_Type = ''''\<rparr>"

definition zeroEndpoint :: APIEndpoint where
  "zeroEndpoint = \<lparr>ep_Host = '''', ep_Port = 0\<rparr>"

definition zeroCluster :: Cluster where
  "zeroCluster = \<lparr>cl_meta = zeroMeta, cl_Paused = False, cl_ClusterNetwork = None,
     cl_ControlPlaneEndpoint = zeroEndpoint, cl_InfrastructureRef = None,
     cl_InfrastructureReady = False\<rparr>"

definition zeroMetadata :: AdditionalMetadata where
  "zeroMetadata = \<lparr>am_Labels = Map.empty, am_Annotations = Map.empty\<rparr>"

definition zeroAddons :: TCPAddons where
  "zeroAddons = \<lparr>ad_CoreDNS = None, ad_Rest = JNull\<rparr>"

definition zeroTCPDeployment :: TCPDeployment where
  "zeroTCPDeployment = \<lparr>td_Replicas = None,
     td_RegistrySettings = \<lparr>rs_Registry = '''', rs_ControllerManagerImage = '''',
       rs_SchedulerImage = '''', rs_APIServerImage = '''', rs_Rest = JNull\<rparr>,
     td_AdditionalVolumeMounts = None, td_ExtraArgs = None, td_Resources = None,
     td_NodeSelector = Map.empty, td_RuntimeClassName = '''', td_ServiceAccountName = '''',
     td_AdditionalMetadata = zeroMetadata, td_PodAdditionalMetadata = zeroMetadata,
     td_Strategy = JNull, td_Affinity = None, td_Tolerations = [],
     td_TopologySpreadConstraints = [], td_AdditionalInitContainers = [],
     td_AdditionalContainers = [], td_AdditionalVolumes = [], td_Rest = JNull\<rparr>"

definition zeroTCPSpec :: TCPSpec where
  "zeroTCPSpec = \<lparr>
     tp_NetworkProfile = \<lparr>np_Address = '''', np_Port = 0, np_ServiceCIDR = '''', np_PodCIDR = '''',
       np_ClusterDomain = '''', np_DNSServiceIPs = [], np_CertSANs = [], np_LoadBalancerClass = None,
       np_LoadBalancerSourceRanges = None, np_Rest = JNull\<rparr>,
     tp_Deployment = zeroTCPDeployment,
     tp_Service = \<lparr>ts_ServiceType = '''', ts_AdditionalMetadata = zeroMetadata, ts_Rest = JNull\<rparr>,
     tp_Ingress = None, tp_Gateway = None,
     tp_Kubernetes = \<lparr>tk_Version = '''', tk_AdmissionControllers = [], tk_Kubelet = JNull\<rparr>,
     tp_Addons = zeroAddons, tp_DataStore = '''', tp_DataStoreSchema = '''',
     tp_DataStoreUsername = '''', tp_Rest = JNull\<rparr>"

definition zeroTCPStatus :: TCPStatus where
  "zeroTCPStatus = \<lparr>tst_ControlPlaneEndpoint = '''', tst_VersionStatus = None, tst_Version = '''',
     tst_ReadyReplicas = 0, tst_Replicas = 0, tst_UnavailableReplicas = 0, tst_UpdatedReplicas = 0,
     tst_AdminSecretName = '''', tst_CASecretName = ''''\<rparr>"

definition zeroTCP :: TenantControlPlane where
  "zeroTCP = \<lparr>tcp_meta = zeroMeta, tcp_spec = zeroTCPSpec, tcp_status = zeroTCPStatus\<rparr>"

definition zeroComponent :: ControlPlaneComponent where
  "zeroComponent = \<lparr>ExtraVolumeMounts = [], ExtraArgs = [], Resources = JNull, ContainerImageName = ''''\<rparr>"

definition zeroNetwork :: NetworkComponent where
  "zeroNetwork = \<lparr>net_LoadBalancerConfig = None, net_Ingress = None, net_Gateway = None,
     net_ServiceType = '''', net_ServiceAddress = '''', net_ServiceLabels = Map.empty,
     net_ServiceAnnotations = Map.empty, net_CertSANs = [], net_DNSServiceIPs = []\<rparr>"

definition zeroDeployment :: DeploymentComponent where
  "zeroDeployment = \<lparr>dep_NodeSelector = Map.empty, dep_RuntimeClassName = '''',
     dep_AdditionalMetadata = zeroMetadata, dep_PodAdditionalMetadata = zeroMetadata,
     dep_ServiceAccountName = '''', dep_Strategy = JNull, dep_Affinity = None, dep_Tolerations = [],
     dep_TopologySpreadConstraints = [], dep_ExtraInitContainers = [], dep_ExtraContainers = [],
     dep_ExtraVolumes = [], dep_ExternalClusterReference = None\<rparr>"

definition zeroFields :: StewardControlPlaneFields where
  "zeroFields = \<lparr>DataStoreName = '''', DataStoreSchema = '''', DataStoreUsername = '''',
     Addons = \<lparr>addons_AddonsSpec = zeroAddons, addons_CoreDNS = None\<rparr>, AdmissionControllers = [],
     ContainerRegistry = '''', ControllerManager = zeroComponent, ApiServer = zeroComponent,
     Scheduler = zeroComponent, Kine = \<lparr>kine_ExtraArgs = [], kine_Resources = JNull\<rparr>,
     Kubelet = JNull, Network = zeroNetwork, Deployment = zeroDeployment\<rparr>"

definition zeroSCP :: StewardControlPlane where
  "zeroSCP = \<lparr>scp_meta = zeroMeta,
     scp_Spec = \<lparr>spec_Fields = zeroFields, spec_ControlPlaneEndpoint = zeroEndpoint,
       spec_Replicas = None, spec_Version = ''''\<rparr>,
     scp_Status = \<lparr>Initialized = False, Ready = False, ReadyReplicas = 0, Replicas = 0,
       Selector = '''', UnavailableReplicas = 0, UpdatedReplicas = 0,
       ExternalManagedControlPlane = None, FailureReason = '''', FailureMessage = '''',
       status_Version = '''', Conditions = []\<rparr>\<rparr>"

end
