(* ===== verification/External_Names.thy ===== *)
theory External_Names
  imports Zero_Values
begin

text \<open>
  \<open>pkg/externalclusterreference/name_generator.go\<close>: the names that tie a \<open>StewardControlPlane\<close> to
  its remote \<open>TenantControlPlane\<close> and to the Secret with the kubeconfig. A dereference of a nil
  \<open>ExternalClusterReference\<close> is the result \<open>None\<close>. The lemmas show that the UID survives the trip
  through the remote name, and that the key computed from a control plane is among the keys of a
  Secret exactly when the control plane refers to that Secret and one of its entries.
\<close>

definition RemoteTCPPrefix :: string where
  "RemoteTCPPrefix = ''kcp-''"

definition ParseStewardControlPlaneUIDFromTenantControlPlane :: "TenantControlPlane \<Rightarrow> string" where
  "ParseStewardControlPlaneUIDFromTenantControlPlane tcp =
     (if \<not> hasPrefix (om_Name (tcp_meta tcp)) RemoteTCPPrefix then ''''
      else trimPrefix (om_Name (tcp_meta tcp)) RemoteTCPPrefix)"

definition GenerateRemoteTenantControlPlaneNames ::
  "StewardControlPlane \<Rightarrow> (string \<times> string) option" where
  "GenerateRemoteTenantControlPlaneNames kcp =
     (case scp_ecr kcp of
        None \<Rightarrow> None
      | Some ecr \<Rightarrow> Some (RemoteTCPPrefix @ om_UID (scp_meta kcp), ecr_DeploymentNamespace ecr))"

definition joinKey :: "string \<Rightarrow> string \<Rightarrow> string \<Rightarrow> string" where
  "joinKey ns n k = ns @ ''/'' @ n @ ''/'' @ k"

definition GenerateKeyNameFromSecret :: "Secret \<Rightarrow> string list" where
  "GenerateKeyNameFromSecret secret =
     map (\<lambda>(k, v). joinKey (om_Namespace (sec_meta secret)) (om_Name (sec_meta secret)) k)
         (secret_data secret)"

definition referenceNamespace :: "StewardControlPlane \<Rightarrow> ExternalClusterReference \<Rightarrow> string" where
  "referenceNamespace kcp ecr =
     (if ecr_KubeconfigSecretNamespace ecr \<noteq> '''' then ecr_KubeconfigSecretNamespace ecr
      else om_Namespace (scp_meta kcp))"

definition GenerateKeyNameFromSteward :: "StewardControlPlane \<Rightarrow> string option" where
  "GenerateKeyNameFromSteward kcp =
     (case scp_ecr kcp of
        None \<Rightarrow> None
      | Some ecr \<Rightarrow> Some (joinKey (referenceNamespace kcp ecr) (ecr_KubeconfigSecretName ecr)
                                  (ecr_KubeconfigSecretKey ecr)))"

text \<open>Names of namespaces and Secrets in Kubernetes have no slash; data keys neither.\<close>

definition slashFree :: "string \<Rightarrow> bool" where
  "slashFree s \<longleftrightarrow> CHR ''/'' \<notin> set s"

definition secretNamed :: "Secret \<Rightarrow> bool" where
  "secretNamed s \<longleftrightarrow> slashFree (om_Namespace (sec_meta s)) \<and> slashFree (om_Name (sec_meta s)) \<and>
     list_all (slashFree \<circ> fst) (secret_data s) \<and> distinct (map fst (secret_data s))"

lemma joinKey_inject:
  assumes "slashFree a" "slashFree a'" "slashFree b" "slashFree b'"
  shows "joinKey a b c = joinKey a' b' c' \<longleftrightarrow> a = a' \<and> b = b' \<and> c = c'"
proof
  assume eq: "joinKey a b c = joinKey a' b' c'"
  have cut: "takeWhile ((\<noteq>) CHR ''/'') (x @ CHR ''/'' # y) = x"
    and rest: "dropWhile ((\<noteq>) CHR ''/'') (x @ CHR ''/'' # y) = CHR ''/'' # y"
    if "slashFree x" for x y
    using that by (induction x) (auto simp: slashFree_def)
  from eq have "a @ CHR ''/'' # (b @ CHR ''/'' # c) = a' @ CHR ''/'' # (b' @ CHR ''/'' # c')"
    by (simp add: joinKey_def)
  with assms cut rest have a: "a = a'" and bc: "b @ CHR ''/'' # c = b' @ CHR ''/'' # c'"
    by (metis, metis list.inject)
  from bc assms cut rest have "b = b'" "c = c'" by (metis, metis list.inject)
  with a show "a = a' \<and> b = b' \<and> c = c'" by simp
qed auto

text \<open>The Secret reconciler recovers the data key as the third component of the key name.\<close>

lemma splitOn_joinKey:
  "slashFree a \<Longrightarrow> slashFree b \<Longrightarrow> slashFree c \<Longrightarrow> splitOn CHR ''/'' (joinKey a b c) = [a, b, c]"
  by (simp add: joinKey_def slashFree_def)

lemma secret_keys_iff:
  assumes "secretNamed s" "slashFree ns" "slashFree n"
  shows "joinKey ns n k \<in> set (GenerateKeyNameFromSecret s) \<longleftrightarrow>
         om_Namespace (sec_meta s) = ns \<and> om_Name (sec_meta s) = n \<and> k \<in> fst ` set (secret_data s)"
  using assms
  by (auto simp: GenerateKeyNameFromSecret_def secretNamed_def joinKey_inject image_iff
      case_prod_unfold)

lemma distinct_secret_keys:
  "secretNamed s \<Longrightarrow> distinct (GenerateKeyNameFromSecret s)"
  by (auto simp: GenerateKeyNameFromSecret_def secretNamed_def distinct_map inj_on_def joinKey_def
      case_prod_unfold)

section \<open>Properties\<close>

text \<open>
  (C28) The UID of a control plane survives the trip through the name of its remote
  \<open>TenantControlPlane\<close>, which is therefore also a different one for every UID.
\<close>

theorem remote_name_roundtrip:
  assumes "GenerateRemoteTenantControlPlaneNames kcp = Some (name, ns)"
    and "om_Name (tcp_meta tcp) = name"
  shows "ParseStewardControlPlaneUIDFromTenantControlPlane tcp = om_UID (scp_meta kcp)"
proof -
  from assms have "om_Name (tcp_meta tcp) = RemoteTCPPrefix @ om_UID (scp_meta kcp)"
    by (simp add: GenerateRemoteTenantControlPlaneNames_def split: option.splits)
  then show ?thesis by (simp add: ParseStewardControlPlaneUIDFromTenantControlPlane_def)
qed

definition remoteSCP :: StewardControlPlane where
  "remoteSCP = zeroSCP\<lparr>scp_meta := zeroMeta\<lparr>om_Name := ''cp'', om_Namespace := ''team'', om_UID := ''u-1''\<rparr>,
     scp_Spec := (scp_Spec zeroSCP)\<lparr>spec_Fields := zeroFields\<lparr>Deployment :=
       zeroDeployment\<lparr>dep_ExternalClusterReference := Some \<lparr>ecr_KubeconfigSecretName = ''remote'',
         ecr_KubeconfigSecretKey = ''conf'', ecr_KubeconfigSecretNamespace = '''',
         ecr_DeploymentNamespace = ''tenants''\<rparr>\<rparr>\<rparr>\<rparr>\<rparr>"

theorem remote_name_roundtrip_witness:
  "ParseStewardControlPlaneUIDFromTenantControlPlane
     (zeroTCP\<lparr>tcp_meta := zeroMeta\<lparr>om_Name := ''kcp-u-1''\<rparr>\<rparr>) = ''u-1''"
proof -
  have "GenerateRemoteTenantControlPlaneNames remoteSCP = Some (''kcp-u-1'', ''tenants'')"
    by (simp add: GenerateRemoteTenantControlPlaneNames_def remoteSCP_def zeroSCP_def RemoteTCPPrefix_def)
  from remote_name_roundtrip [OF this, of "zeroTCP\<lparr>tcp_meta := zeroMeta\<lparr>om_Name := ''kcp-u-1''\<rparr>\<rparr>"]
  show ?thesis by (simp add: remoteSCP_def)
qed

text \<open>
  (C27) The two key generators agree: the key of a control plane is among the keys of a Secret exactly when
  the control plane names that Secret (by default in its own namespace) and a data entry it has.
\<close>

theorem key_generators_agree:
  assumes "secretNamed secret" "scp_ecr kcp = Some ecr"
    and "slashFree (referenceNamespace kcp ecr)" "slashFree (ecr_KubeconfigSecretName ecr)"
  shows "the (GenerateKeyNameFromSteward kcp) \<in> set (GenerateKeyNameFromSecret secret) \<longleftrightarrow>
           nsname (sec_meta secret) = (referenceNamespace kcp ecr, ecr_KubeconfigSecretName ecr) \<and>
           ecr_KubeconfigSecretKey ecr \<in> fst ` set (secret_data secret)"
  using secret_keys_iff [OF assms(1,3,4)] assms(2)
  by (simp add: GenerateKeyNameFromSteward_def nsname_def)

definition remoteSecret :: Secret where
  "remoteSecret = zeroSecret\<lparr>sec_meta := zeroMeta\<lparr>om_Name := ''remote'', om_Namespace := ''team''\<rparr>,
     sec_Data := Some [(''conf'', Some ''kubeconfig'')]\<rparr>"

lemma remote_sample [simp]:
  "scp_ecr remoteSCP = Some \<lparr>ecr_KubeconfigSecretName = ''remote'', ecr_KubeconfigSecretKey = ''conf'',
     ecr_KubeconfigSecretNamespace = '''', ecr_DeploymentNamespace = ''tenants''\<rparr>"
  "om_Namespace (scp_meta remoteSCP) = ''team''" "om_UID (scp_meta remoteSCP) = ''u-1''"
  "nsname (sec_meta remoteSecret) = (''team'', ''remote'')"
  "secret_data remoteSecret = [(''conf'', Some ''kubeconfig'')]" "secretNamed remoteSecret"
  by (simp_all add: remoteSCP_def zeroSCP_def remoteSecret_def secret_data_def secretNamed_def
      slashFree_def nsname_def)

theorem key_generators_agree_witness:
  "the (GenerateKeyNameFromSteward remoteSCP) \<in> set (GenerateKeyNameFromSecret remoteSecret)"
  by (subst key_generators_agree [OF remote_sample(6,1)])
    (simp_all add: referenceNamespace_def slashFree_def)

end
