(* ===== verification/Indexers.thy ===== *)
theory Indexers
  imports External_Names
begin

text \<open>
  \<open>pkg/indexers\<close>: the three field indexes of the manager's cache. The Go interface (\<open>Object\<close>,
  \<open>Field\<close>, \<open>ExtractValue\<close>) is the locale \<open>field_index\<close>, whose parameter \<open>refers\<close> says what a value
  of the index means for an object; its three interpretations are the indexers of the package.
  \<open>matching\<close> is a cached \<open>List\<close> with \<open>client.MatchingFields\<close>, which returns the objects whose
  extracted values contain the given one.
\<close>

datatype objectKind = KindStewardControlPlane | KindSecret

definition ExternalClusterReferenceStewardControlPlaneField :: string where
  "ExternalClusterReferenceStewardControlPlaneField = ''externalClusterReferenceStewardControlPlane''"

definition ExternalClusterReferenceSecretField :: string where
  "ExternalClusterReferenceSecretField = ''externalClusterReferenceSecret''"

definition StewardControlPlaneUIDField :: string where
  "StewardControlPlaneUIDField = ''stewardControlPlaneUID''"

definition ecrScp_ExtractValue :: "StewardControlPlane \<Rightarrow> string list" where
  "ecrScp_ExtractValue kcp =
     (if scp_ecr kcp \<noteq> None
      then (case GenerateKeyNameFromSteward kcp of None \<Rightarrow> [] | Some k \<Rightarrow> [k])
      else [])"

definition ecrSecret_ExtractValue :: "Secret \<Rightarrow> string list" where
  "ecrSecret_ExtractValue secret = GenerateKeyNameFromSecret secret"

definition scpUID_ExtractValue :: "StewardControlPlane \<Rightarrow> string list" where
  "scpUID_ExtractValue kcp = [om_UID (scp_meta kcp)]"

record indexer =
  idx_Object :: objectKind
  idx_Field :: string

text \<open>The methods \<open>Object\<close> and \<open>Field\<close> of the three indexers.\<close>

definition ecrScpIndexer :: indexer where
  "ecrScpIndexer = \<lparr>idx_Object = KindStewardControlPlane, idx_Field = ExternalClusterReferenceStewardControlPlaneField\<rparr>"

definition ecrSecretIndexer :: indexer where
  "ecrSecretIndexer = \<lparr>idx_Object = KindSecret, idx_Field = ExternalClusterReferenceSecretField\<rparr>"

definition scpUIDIndexer :: indexer where
  "scpUIDIndexer = \<lparr>idx_Object = KindStewardControlPlane, idx_Field = StewardControlPlaneUIDField\<rparr>"

definition indexersList :: "indexer list" where
  "indexersList = [ecrScpIndexer, ecrSecretIndexer, scpUIDIndexer]"

text \<open>
  \<open>SetupWithManager\<close>: the loop over the indexers, over a field indexer of the manager that keeps a
  state \<open>'w\<close> and may fail; the first failure ends it.
\<close>

fun setupIndexers ::
  "(objectKind \<Rightarrow> string \<Rightarrow> 'w \<Rightarrow> error option \<times> 'w) \<Rightarrow> indexer list \<Rightarrow> 'w \<Rightarrow> error option \<times> 'w" where
  "setupIndexers indexField [] w = (None, w)"
| "setupIndexers indexField (i # is) w =
     (case indexField (idx_Object i) (idx_Field i) w of
        (Some e, w') \<Rightarrow> (Some (wrapErr (''failed to set up indexer '' @ idx_Field i) e), w')
      | (None, w') \<Rightarrow> setupIndexers indexField is w')"

definition indexers_SetupWithManager ::
  "(objectKind \<Rightarrow> string \<Rightarrow> 'w \<Rightarrow> error option \<times> 'w) \<Rightarrow> 'w \<Rightarrow> error option \<times> 'w" where
  "indexers_SetupWithManager indexField w = setupIndexers indexField indexersList w"

section \<open>The contract of an index\<close>

locale field_index =
  fixes extractValue :: "'o \<Rightarrow> string list"
    and valid :: "'o \<Rightarrow> bool"
    and refers :: "string \<Rightarrow> 'o \<Rightarrow> bool"
  assumes extract_iff: "valid x \<Longrightarrow> k \<in> set (extractValue x) \<longleftrightarrow> refers k x"
    and extract_distinct: "valid x \<Longrightarrow> distinct (extractValue x)"
begin

definition matching :: "'o list \<Rightarrow> string \<Rightarrow> 'o list" where
  "matching objs k = filter (\<lambda>x. k \<in> set (extractValue x)) objs"

lemma matching_refers:
  "list_all valid objs \<Longrightarrow> matching objs k = filter (refers k) objs"
  by (auto simp: matching_def list_all_iff extract_iff intro!: filter_cong)

text \<open>Each object contributes one index entry per value: the buckets never list it twice.\<close>

lemma bucket_count: "valid x \<Longrightarrow> count_list (extractValue x) k = (if refers k x then 1 else 0)"
  by (simp add: distinct_count_list extract_distinct extract_iff)

end

text \<open>
  A control plane refers to the entry \<open>k\<close> of the Secret named \<open>ns/n\<close>, stated on its spec, and a
  Secret holds that entry.
\<close>

definition refersToEntry :: "string \<Rightarrow> StewardControlPlane \<Rightarrow> bool" where
  "refersToEntry key kcp \<longleftrightarrow>
     (case scp_ecr kcp of
        None \<Rightarrow> False
      | Some ecr \<Rightarrow> key = joinKey (referenceNamespace kcp ecr) (ecr_KubeconfigSecretName ecr)
                                 (ecr_KubeconfigSecretKey ecr))"

definition holdsEntry :: "string \<Rightarrow> Secret \<Rightarrow> bool" where
  "holdsEntry key s \<longleftrightarrow>
     (\<exists>k \<in> fst ` set (secret_data s).
        splitOn CHR ''/'' key = [om_Namespace (sec_meta s), om_Name (sec_meta s), k])"

interpretation scp_index: field_index ecrScp_ExtractValue "\<lambda>_. True" refersToEntry
proof
  fix kcp k
  show "k \<in> set (ecrScp_ExtractValue kcp) \<longleftrightarrow> refersToEntry k kcp"
    and "distinct (ecrScp_ExtractValue kcp)"
    by (cases "scp_ecr kcp";
        simp add: ecrScp_ExtractValue_def refersToEntry_def GenerateKeyNameFromSteward_def)+
qed

lemma splitOn_joinKey_iff:
  assumes "slashFree a" "slashFree b" "slashFree c"
  shows "splitOn CHR ''/'' s = [a, b, c] \<longleftrightarrow> s = joinKey a b c"
proof
  assume "splitOn CHR ''/'' s = [a, b, c]"
  from splitOn_ConsD [OF this] obtain t where t: "s = a @ CHR ''/'' # t" "splitOn CHR ''/'' t = [b, c]"
    by blast
  from splitOn_ConsD [OF t(2)] obtain u where "t = b @ CHR ''/'' # u" "splitOn CHR ''/'' u = [c]"
    by blast
  with t(1) splitOn_singleD [of _ u c] show "s = joinKey a b c" by (simp add: joinKey_def)
qed (simp add: splitOn_joinKey assms)

interpretation secret_index: field_index ecrSecret_ExtractValue secretNamed holdsEntry
proof
  fix s k
  assume s: "secretNamed s"
  show "k \<in> set (ecrSecret_ExtractValue s) \<longleftrightarrow> holdsEntry k s"
    using s
    by (auto simp: ecrSecret_ExtractValue_def GenerateKeyNameFromSecret_def holdsEntry_def
        secretNamed_def list_all_iff splitOn_joinKey_iff image_iff case_prod_unfold)
  show "distinct (ecrSecret_ExtractValue s)"
    using s by (simp add: ecrSecret_ExtractValue_def distinct_secret_keys)
qed

interpretation uid_index: field_index scpUID_ExtractValue "\<lambda>_. True"
  "\<lambda>uid kcp. om_UID (scp_meta kcp) = uid"
  by unfold_locales (auto simp: scpUID_ExtractValue_def)

end
