(* ===== verification/External_Store.thy ===== *)
theory External_Store
  imports External_Names
begin

text \<open>
  \<open>pkg/externalclusterreference/store.go\<close>: the store of running managers, one per kubeconfig entry.
  A manager and a cancel function are handles. The Go interface \<open>Store\<close> is the locale
  \<open>manager_store\<close>; \<open>mapStore\<close> is its implementation and the interpretation at the end. Each
  operation runs under the store's mutex, hence as one atomic step; calling a stop function is
  recorded in \<open>ms_cancelled\<close>, in call order.
\<close>

type_synonym Manager = nat
type_synonym CancelFunc = nat

record inst =
  inst_ResourceVersion :: string
  inst_Manager :: Manager
  inst_StopFunc :: CancelFunc

record mapStore =
  ms_store :: "string \<rightharpoonup> inst"
  ms_cancelled :: "CancelFunc list"

definition NewStore :: mapStore where
  "NewStore = \<lparr>ms_store = Map.empty, ms_cancelled = []\<rparr>"

definition store_Get :: "mapStore \<Rightarrow> string \<Rightarrow> string \<Rightarrow> Manager option \<times> bool" where
  "store_Get m name resourceVersion =
     (case ms_store m name of
        None \<Rightarrow> (None, False)
      | Some value \<Rightarrow>
          if inst_ResourceVersion value \<noteq> resourceVersion then (Some (inst_Manager value), False)
          else (Some (inst_Manager value), True))"

definition store_Stop :: "mapStore \<Rightarrow> string \<Rightarrow> bool \<times> mapStore" where
  "store_Stop m name =
     (case ms_store m name of
        None \<Rightarrow> (False, m)
      | Some v \<Rightarrow>
          (True, m\<lparr>ms_store := (ms_store m)(name := None),
                   ms_cancelled := ms_cancelled m @ [inst_StopFunc v]\<rparr>))"

definition store_Add ::
  "mapStore \<Rightarrow> string \<Rightarrow> string \<Rightarrow> Manager \<Rightarrow> CancelFunc \<Rightarrow> bool \<times> mapStore" where
  "store_Add m name resourceVersion manager cancelFn =
     (case ms_store m name of
        Some _ \<Rightarrow> (False, m)
      | None \<Rightarrow>
          (True, m\<lparr>ms_store := (ms_store m)(name \<mapsto>
             \<lparr>inst_ResourceVersion = resourceVersion, inst_Manager = manager,
              inst_StopFunc = cancelFn\<rparr>)\<rparr>))"

text \<open>
  The contract of the interface. \<open>entries\<close> is what the store holds, \<open>cancelled\<close> the stop functions
  it has called. A lookup succeeds only for the resource version the manager was added with; an
  addition never replaces an entry; a stop removes the entry and calls its stop function once.
\<close>

locale manager_store =
  fixes new :: 's
    and get :: "'s \<Rightarrow> string \<Rightarrow> string \<Rightarrow> Manager option \<times> bool"
    and stop :: "'s \<Rightarrow> string \<Rightarrow> bool \<times> 's"
    and add :: "'s \<Rightarrow> string \<Rightarrow> string \<Rightarrow> Manager \<Rightarrow> CancelFunc \<Rightarrow> bool \<times> 's"
    and entries :: "'s \<Rightarrow> string \<rightharpoonup> inst"
    and cancelled :: "'s \<Rightarrow> CancelFunc list"
  assumes new_entries: "entries new = Map.empty"
    and new_cancelled: "cancelled new = []"
    and get_spec: "get s n rv =
      (map_option inst_Manager (entries s n),
       case entries s n of None \<Rightarrow> False | Some i \<Rightarrow> inst_ResourceVersion i = rv)"
    and stop_result: "fst (stop s n) = (entries s n \<noteq> None)"
    and stop_entries: "entries (snd (stop s n)) = (entries s)(n := None)"
    and stop_cancelled: "cancelled (snd (stop s n)) =
      (case entries s n of None \<Rightarrow> cancelled s | Some i \<Rightarrow> cancelled s @ [inst_StopFunc i])"
    and add_result: "fst (add s n rv m c) = (entries s n = None)"
    and add_entries: "entries (snd (add s n rv m c)) =
      (if entries s n = None
       then (entries s)(n \<mapsto> \<lparr>inst_ResourceVersion = rv, inst_Manager = m, inst_StopFunc = c\<rparr>)
       else entries s)"
    and add_cancelled: "cancelled (snd (add s n rv m c)) = cancelled s"
begin

lemmas store_specs = get_spec stop_result stop_entries stop_cancelled add_result add_entries
  add_cancelled

lemma get_after_add:
  "entries s n = None \<Longrightarrow> get (snd (add s n rv m c)) n rv' = (Some m, rv = rv')"
  by (simp add: store_specs)

lemma get_after_stop: "get (snd (stop s n)) n rv = (None, False)"
  by (simp add: store_specs)

lemma add_keeps_entry: "entries s n = Some i \<Longrightarrow> entries (snd (add s n rv m c)) n = Some i"
  by (simp add: store_specs)

text \<open>A stop and then an addition replace the entry, whatever was there, and are always accepted.\<close>

lemma replace_entries:
  "entries (snd (add (snd (stop s n)) n rv m c)) =
     (entries s)(n \<mapsto> \<lparr>inst_ResourceVersion = rv, inst_Manager = m, inst_StopFunc = c\<rparr>)"
  by (simp add: store_specs)

lemma replace_accepted: "fst (add (snd (stop s n)) n rv m c)"
  by (simp add: store_specs)

lemma replace_cancelled:
  "cancelled (snd (add (snd (stop s n)) n rv m c)) =
     (case entries s n of None \<Rightarrow> cancelled s | Some i \<Rightarrow> cancelled s @ [inst_StopFunc i])"
  by (simp add: store_specs split: option.splits)

text \<open>
  A manager in the store is running: no stop function of an entry has been called, no two entries
  share one, and none is called twice.
\<close>

definition live :: "'s \<Rightarrow> bool" where
  "live s \<longleftrightarrow> distinct (cancelled s) \<and>
     (\<forall>n i. entries s n = Some i \<longrightarrow> inst_StopFunc i \<notin> set (cancelled s)) \<and>
     (\<forall>n n' i i'. entries s n = Some i \<longrightarrow> entries s n' = Some i' \<longrightarrow>
        inst_StopFunc i = inst_StopFunc i' \<longrightarrow> n = n')"

definition fresh_cancel :: "'s \<Rightarrow> CancelFunc \<Rightarrow> bool" where
  "fresh_cancel s c \<longleftrightarrow> c \<notin> set (cancelled s) \<and> (\<forall>n i. entries s n = Some i \<longrightarrow> inst_StopFunc i \<noteq> c)"

text \<open>The handles of the stop functions that entries of the store hold.\<close>

definition held :: "'s \<Rightarrow> CancelFunc set" where
  "held s = inst_StopFunc ` ran (entries s)"

lemma live_new: "live new"
  by (simp add: live_def new_entries new_cancelled)

lemma live_stop: "live s \<Longrightarrow> live (snd (stop s n))"
  by (cases "entries s n") (auto simp: live_def store_specs split: if_splits)

lemma live_add: "live s \<Longrightarrow> fresh_cancel s c \<Longrightarrow> live (snd (add s n rv m c))"
  by (auto simp: live_def fresh_cancel_def store_specs split: if_splits)

text \<open>
  Stopping moves the handle of the entry from the held to the called ones; adding holds a new one, or,
  for a name in use, changes nothing.
\<close>

lemma held_new: "held new = {}"
  by (simp add: held_def new_entries)

lemma held_stop:
  assumes "live s"
  shows "held (snd (stop s n)) \<union> set (cancelled (snd (stop s n))) = held s \<union> set (cancelled s)"
proof (cases "entries s n")
  case None
  then have "(entries s)(n := None) = entries s" by auto
  with None show ?thesis by (simp add: held_def stop_entries stop_cancelled)
next
  case (Some i)
  then have "ran (entries s) = insert i (ran ((entries s)(n := None)))"
    by (rule ran_delete)
  then have "held s = insert (inst_StopFunc i) (held (snd (stop s n)))"
    by (simp add: held_def stop_entries)
  with Some show ?thesis by (simp add: stop_cancelled)
qed

lemma held_add:
  "held (snd (add s n rv m c)) = (if fst (add s n rv m c) then insert c (held s) else held s)"
  by (cases "entries s n") (simp_all add: held_def add_entries add_result ran_map_upd)

lemma live_disjoint: "live s \<Longrightarrow> held s \<inter> set (cancelled s) = {}"
  by (auto simp: live_def held_def ran_def)

lemma fresh_held: "c \<notin> held s \<union> set (cancelled s) \<Longrightarrow> fresh_cancel s c"
  by (auto simp: fresh_cancel_def held_def ran_def)

end

interpretation mapstore: manager_store NewStore store_Get store_Stop store_Add ms_store ms_cancelled
  by unfold_locales
    (auto simp: NewStore_def store_Get_def store_Stop_def store_Add_def fun_upd_idem
      split: option.splits)

section \<open>Sequences of operations\<close>

text \<open>
  Any interleaving of the callers is a sequence of the locked operations. \<open>runOps\<close> also returns the
  cancel handles whose \<open>Add\<close> was accepted.
\<close>

datatype storeOp = OpStop string | OpAdd string string Manager CancelFunc

primrec runOps :: "storeOp list \<Rightarrow> mapStore \<Rightarrow> mapStore \<times> CancelFunc list" where
  "runOps [] m = (m, [])"
| "runOps (op # ops) m =
     (case op of
        OpStop n \<Rightarrow> runOps ops (snd (store_Stop m n))
      | OpAdd n rv mgr c \<Rightarrow>
          (case store_Add m n rv mgr c of
             (ok, m1) \<Rightarrow> (case runOps ops m1 of (m2, acc) \<Rightarrow> (m2, if ok then c # acc else acc))))"

primrec handles :: "storeOp list \<Rightarrow> CancelFunc list" where
  "handles [] = []"
| "handles (op # ops) = (case op of OpStop n \<Rightarrow> [] | OpAdd n rv mgr c \<Rightarrow> [c]) @ handles ops"

definition accounted :: "mapStore \<Rightarrow> CancelFunc set" where
  "accounted m = mapstore.held m \<union> set (ms_cancelled m)"

lemma runOps_accounted:
  assumes "mapstore.live m" "distinct (handles ops)" "set (handles ops) \<inter> accounted m = {}"
    and "runOps ops m = (m', acc)"
  shows "mapstore.live m' \<and> accounted m' = accounted m \<union> set acc"
  using assms
proof (induction ops arbitrary: m m' acc)
  case Nil
  then show ?case by simp
next
  case (Cons op ops)
  show ?case
  proof (cases op)
    case (OpStop n)
    have "accounted (snd (store_Stop m n)) = accounted m"
      using mapstore.held_stop [OF Cons.prems(1)] by (simp add: accounted_def)
    with Cons.IH [OF mapstore.live_stop [OF Cons.prems(1)], of n m' acc] Cons.prems OpStop
    show ?thesis by simp
  next
    case (OpAdd n rv mgr c)
    obtain ok m1 where add: "store_Add m n rv mgr c = (ok, m1)" by fastforce
    obtain m2 acc2 where run: "runOps ops m1 = (m2, acc2)" by fastforce
    from add have m1: "m1 = snd (store_Add m n rv mgr c)" "ok = fst (store_Add m n rv mgr c)" by simp_all
    from Cons.prems(3) OpAdd have c: "c \<notin> accounted m" "set (handles ops) \<inter> accounted m = {}" by auto
    from Cons.prems(2) OpAdd have d: "c \<notin> set (handles ops)" "distinct (handles ops)" by auto
    have live: "mapstore.live m1"
      unfolding m1 using mapstore.live_add [OF Cons.prems(1) mapstore.fresh_held] c(1)
      by (simp add: accounted_def)
    have acc1: "accounted m1 = (if ok then insert c (accounted m) else accounted m)"
      unfolding m1 accounted_def mapstore.held_add mapstore.add_cancelled by simp
    have "set (handles ops) \<inter> accounted m1 = {}" using c d acc1 by simp
    from Cons.IH [OF live d(2) this run] have "mapstore.live m2 \<and> accounted m2 = accounted m1 \<union> set acc2" .
    moreover from Cons.prems(4) OpAdd add run have "m' = m2" "acc = (if ok then c # acc2 else acc2)" by simp_all
    ultimately show ?thesis using acc1 by simp
  qed
qed

section \<open>Properties\<close>

text \<open>
  (C22) The store neither loses nor stops a manager twice: after any sequence of \<open>Add\<close> and \<open>Stop\<close>, each
  accepted manager is either still in the store and running, or was stopped exactly once, and nothing
  else was stopped. (Each \<open>Add\<close> brings a cancel function of its own.)
\<close>

theorem mapStore_accounts_managers:
  assumes "distinct (handles ops)" "runOps ops NewStore = (m, accepted)"
  shows "set accepted = set (ms_cancelled m) \<union> inst_StopFunc ` ran (ms_store m) \<and>
         set (ms_cancelled m) \<inter> inst_StopFunc ` ran (ms_store m) = {} \<and>
         distinct (ms_cancelled m)"
proof -
  have "accounted NewStore = {}"
    by (simp add: accounted_def mapstore.held_new mapstore.new_cancelled)
  with runOps_accounted [OF mapstore.live_new assms(1) _ assms(2)]
  have "mapstore.live m" "accounted m = set accepted" by simp_all
  with mapstore.live_disjoint [of m] show ?thesis
    by (auto simp: accounted_def mapstore.held_def mapstore.live_def)
qed

theorem mapStore_accounts_managers_witness:
  "\<exists>m accepted. runOps [OpAdd ''a'' ''1'' 1 10, OpAdd ''a'' ''2'' 2 20, OpStop ''a''] NewStore = (m, accepted) \<and>
     set accepted = set (ms_cancelled m) \<union> inst_StopFunc ` ran (ms_store m)"
proof -
  let ?ops = "[OpAdd ''a'' ''1'' 1 10, OpAdd ''a'' ''2'' 2 20, OpStop ''a'']"
  have "distinct (handles ?ops)" by simp
  from mapStore_accounts_managers [OF this prod.collapse [symmetric]] show ?thesis by (metis prod.collapse)
qed

text \<open>
  A lookup after an \<open>Add\<close> of a free name gives that manager, for the resource version it was added with and
  no other; it stays through additions under any name, and a \<open>Stop\<close> of the name makes it unavailable.
\<close>

theorem mapStore_lookup:
  assumes "ms_store m n = None"
  shows "let m1 = snd (store_Add m n rv mgr c) in
           (\<forall>rv'. store_Get m1 n rv' = (Some mgr, rv = rv')) \<and>
           (\<forall>n' rv1 mgr' c' rv'. store_Get (snd (store_Add m1 n' rv1 mgr' c')) n rv' = (Some mgr, rv = rv')) \<and>
           (\<forall>rv'. store_Get (snd (store_Stop m1 n)) n rv' = (None, False))"
  using assms
  by (simp add: Let_def mapstore.get_spec mapstore.add_entries mapstore.stop_entries)

theorem mapStore_lookup_witness:
  "store_Get (snd (store_Add NewStore ''k'' ''7'' 1 2)) ''k'' ''8'' = (Some 1, False)"
  using mapStore_lookup [of NewStore "''k''" "''7''" 1 2] by (simp add: Let_def NewStore_def)

end
