(* ===== verification/Environment.thy ===== *)
theory Environment
  imports External_Store
begin

text \<open>
  What surrounds the reconcilers. Code of other modules is a parameter: \<open>client\<close> collects the API
  operations of a controller-runtime client over an arbitrary world \<open>'w\<close> (the API server, its other
  writers, the network), and \<open>env\<close> the client of the management cluster, the clients of the remote
  managers, the library functions the provider calls and the constants of those modules. Nothing is assumed about them here; a
  theorem that relies on documented behaviour names it as a hypothesis.

  \<open>rst\<close> is the state of one reconciliation: the world, the manager store, the variables of
  \<open>Reconcile\<close> that its closures capture, and \<open>calls\<close>, the API calls made so far with their
  outcomes, in order.
\<close>

section \<open>API calls\<close>

datatype target = Management | Remote Manager

datatype call =
    GetSCP NamespacedName "error option"
  | UpdateSCP StewardControlPlane "error option"
  | PatchSCP StewardControlPlane StewardControlPlane "error option"
  | StatusUpdateSCP StewardControlPlane "error option"
  | GetCluster NamespacedName "error option"
  | GetSecret target NamespacedName "error option"
  | GetInfra ObjectReference "error option"
  | PatchInfra Unstructured Unstructured "error option"
  | CreateOrUpdateTCP target NamespacedName "error option"
  | DeleteTCP target NamespacedName "error option"
  | CreateOrUpdateSecret NamespacedName "error option"

text \<open>The calls that change an object of some cluster.\<close>

fun isWrite :: "call \<Rightarrow> bool" where
  "isWrite (GetSCP k e) = False"
| "isWrite (GetCluster k e) = False"
| "isWrite (GetSecret t k e) = False"
| "isWrite (GetInfra r e) = False"
| "isWrite c = True"

definition writes :: "call list \<Rightarrow> call list" where
  "writes cs = filter isWrite cs"

lemma writes_simps [simp]:
  "writes [] = []"
  "writes (c # cs) = (if isWrite c then c # writes cs else writes cs)"
  "writes (cs @ ds) = writes cs @ writes ds"
  by (simp_all add: writes_def)

text \<open>
  The typed operations of \<open>client.Client\<close> in use. \<open>Inl\<close> is the error; on success an operation that
  takes a pointer to the object leaves the server's answer in it. The two \<open>CreateOrUpdate\<close> are
  \<open>controllerutil.CreateOrUpdate\<close> with the mutate function as an argument.
\<close>

record 'w client =
  k_getSCP :: "NamespacedName \<Rightarrow> 'w \<Rightarrow> (error + StewardControlPlane) \<times> 'w"
  k_updateSCP :: "StewardControlPlane \<Rightarrow> 'w \<Rightarrow> (error + StewardControlPlane) \<times> 'w"
  k_patchSCP :: "StewardControlPlane \<Rightarrow> StewardControlPlane \<Rightarrow> 'w \<Rightarrow> (error + StewardControlPlane) \<times> 'w"
  k_statusUpdateSCP :: "StewardControlPlane \<Rightarrow> 'w \<Rightarrow> (error + StewardControlPlane) \<times> 'w"
  k_getCluster :: "NamespacedName \<Rightarrow> 'w \<Rightarrow> (error + Cluster) \<times> 'w"
  k_getSecret :: "NamespacedName \<Rightarrow> 'w \<Rightarrow> (error + Secret) \<times> 'w"
  k_getInfra :: "ObjectReference \<Rightarrow> 'w \<Rightarrow> (error + Unstructured) \<times> 'w"
  k_patchInfra :: "Unstructured \<Rightarrow> Unstructured \<Rightarrow> 'w \<Rightarrow> error option \<times> 'w"
  k_createOrUpdateTCP :: "TenantControlPlane \<Rightarrow> (TenantControlPlane \<Rightarrow> error option \<times> TenantControlPlane) \<Rightarrow>
      'w \<Rightarrow> (error option \<times> TenantControlPlane) \<times> 'w"
  k_deleteTCP :: "NamespacedName \<Rightarrow> 'w \<Rightarrow> error option \<times> 'w"
  k_createOrUpdateSecret :: "Secret \<Rightarrow> (Secret \<Rightarrow> error option \<times> Secret) \<Rightarrow>
      'w \<Rightarrow> (error option \<times> Secret) \<times> 'w"

section \<open>The state of a reconciliation\<close>

text \<open>
  \<open>v_conds\<close> is the slice \<open>conditions\<close> of \<open>Reconcile\<close>, which starts out sharing its backing array
  with \<open>scp.Status.Conditions\<close>; \<open>v_shared\<close> says whether it still does. \<open>v_remote\<close> is
  \<open>remoteClient\<close>, named by the manager it belongs to.
\<close>

record 'w rst =
  world :: 'w
  calls :: "call list"
  mstore :: mapStore
  v_scp :: StewardControlPlane
  v_cluster :: Cluster
  v_tcp :: TenantControlPlane
  v_secret :: Secret
  v_finalizers :: "string set"
  v_conds :: "Condition list"
  v_shared :: bool
  v_remote :: "Manager option"
  v_err :: "error option"

text \<open>At the start of a reconciliation every variable is zero.\<close>

definition startState :: "'w \<Rightarrow> mapStore \<Rightarrow> 'w rst" where
  "startState w ms = \<lparr>world = w, calls = [], mstore = ms, v_scp = zeroSCP, v_cluster = zeroCluster,
     v_tcp = zeroTCP, v_secret = zeroSecret, v_finalizers = {}, v_conds = [], v_shared = False,
     v_remote = None, v_err = None\<rparr>"

record 'w env =
  r_client :: "'w client"
  r_FeatureGates :: "string \<Rightarrow> bool"
  r_DynamicInfrastructureClusters :: "string set"
  mgr_GetClient :: "Manager \<Rightarrow> 'w client"
  mgr_KindFor :: "Manager \<Rightarrow> 'w \<Rightarrow> error option \<times> 'w"
  retryOnConflict :: "('w rst \<Rightarrow> error option \<times> 'w rst) \<Rightarrow> 'w rst \<Rightarrow> error option \<times> 'w rst"
  timeNow :: "'w \<Rightarrow> int \<times> 'w"
  isPaused :: "Cluster \<Rightarrow> StewardControlPlane \<Rightarrow> bool"
  findStatusCondition :: "Condition list \<Rightarrow> string \<Rightarrow> nat option"
  setStatusCondition :: "Condition list \<Rightarrow> Condition \<Rightarrow> 'w \<Rightarrow> Condition list \<times> 'w"
  decodedCondition :: "Condition list \<Rightarrow> nat \<Rightarrow> Condition \<Rightarrow> Condition"
  formatLabelSelector :: "smap \<Rightarrow> string"
  setControllerReferenceTCP :: "StewardControlPlane \<Rightarrow> TenantControlPlane \<Rightarrow> error + TenantControlPlane"
  setControllerReferenceSecret :: "StewardControlPlane \<Rightarrow> Secret \<Rightarrow> error + Secret"
  nestedString :: "json \<Rightarrow> string list \<Rightarrow> error + string"
  nestedInt64 :: "json \<Rightarrow> string list \<Rightarrow> error + int64"
  setNested :: "json \<Rightarrow> json \<Rightarrow> string list \<Rightarrow> error + json"
  newPatchHelper :: "Unstructured \<Rightarrow> error option"
  unsortedList :: "string set \<Rightarrow> string list"
  LastAppliedConfigAnnotation :: string
  KubeconfigSecretKeyAnnotation :: string
  ClusterNameLabel :: string
  ClusterSecretType :: string
  TLSCertKey :: string
  TLSPrivateKeyKey :: string
  versionString :: "KubernetesVersionStatus \<Rightarrow> string"

definition clientOf :: "'w env \<Rightarrow> Manager option \<Rightarrow> 'w client" where
  "clientOf env remote = (case remote of None \<Rightarrow> r_client env | Some m \<Rightarrow> mgr_GetClient env m)"

definition targetOf :: "Manager option \<Rightarrow> target" where
  "targetOf remote = (case remote of None \<Rightarrow> Management | Some m \<Rightarrow> Remote m)"

definition errOf :: "error + 'a \<Rightarrow> error option" where
  "errOf r = (case r of Inl e \<Rightarrow> Some e | Inr _ \<Rightarrow> None)"

lemma errOf_simps [simp]: "errOf (Inl e) = Some e" "errOf (Inr x) = None"
  by (simp_all add: errOf_def)

definition logged :: "('w \<Rightarrow> 'a \<times> 'w) \<Rightarrow> ('a \<Rightarrow> call) \<Rightarrow> 'w rst \<Rightarrow> 'a \<times> 'w rst" where
  "logged op mk s =
     (case op (world s) of (r, w) \<Rightarrow> (r, s\<lparr>world := w, calls := calls s @ [mk r]\<rparr>))"

lemma logged_log [log_simps]: "logged op mk s = (r, s') \<Longrightarrow> calls s' = calls s @ [mk r]"
  by (auto simp: logged_def split: prod.splits)

lemma logged_frame:
  assumes "logged op mk s = (r, s')"
  shows "mstore s' = mstore s" "v_scp s' = v_scp s" "v_cluster s' = v_cluster s"
    "v_tcp s' = v_tcp s" "v_secret s' = v_secret s" "v_finalizers s' = v_finalizers s"
    "v_conds s' = v_conds s" "v_shared s' = v_shared s" "v_remote s' = v_remote s"
    "v_err s' = v_err s"
  using assms by (auto simp: logged_def split: prod.splits)

section \<open>Calls on the StewardControlPlane\<close>

text \<open>
  \<open>r.client.Get(ctx, key, scp)\<close>: the object is replaced by a copy of the cached one, so its conditions
  no longer share memory with a slice taken before.
\<close>

definition getSCP :: "'w env \<Rightarrow> NamespacedName \<Rightarrow> 'w rst \<Rightarrow> error option \<times> 'w rst" where
  "getSCP env k s =
     (case logged (k_getSCP (r_client env) k) (\<lambda>r. GetSCP k (errOf r)) s of
        (Inl e, s1) \<Rightarrow> (Some e, s1)
      | (Inr x, s1) \<Rightarrow> (None, s1\<lparr>v_scp := x, v_shared := False\<rparr>))"

definition updateSCP :: "'w env \<Rightarrow> 'w rst \<Rightarrow> error option \<times> 'w rst" where
  "updateSCP env s =
     (case logged (k_updateSCP (r_client env) (v_scp s)) (\<lambda>r. UpdateSCP (v_scp s) (errOf r)) s of
        (Inl e, s1) \<Rightarrow> (Some e, s1)
      | (Inr x, s1) \<Rightarrow> (None, s1\<lparr>v_scp := x\<rparr>))"

definition statusUpdateSCP :: "'w env \<Rightarrow> 'w rst \<Rightarrow> error option \<times> 'w rst" where
  "statusUpdateSCP env s =
     (case logged (k_statusUpdateSCP (r_client env) (v_scp s))
             (\<lambda>r. StatusUpdateSCP (v_scp s) (errOf r)) s of
        (Inl e, s1) \<Rightarrow> (Some e, s1)
      | (Inr x, s1) \<Rightarrow> (None, s1\<lparr>v_scp := x\<rparr>))"

text \<open>
  \<open>r.client.Patch(ctx, scp, MergeFrom(orig))\<close> decodes the answer of the server into \<open>scp\<close>. Where
  \<open>scp.Status.Conditions\<close> still shares its array with \<open>conditions\<close>, the decoder may write through
  it: entry \<open>i\<close> of the array becomes \<open>decodedCondition server i old\<close>.
\<close>

definition patchSCP :: "'w env \<Rightarrow> StewardControlPlane \<Rightarrow> 'w rst \<Rightarrow> error option \<times> 'w rst" where
  "patchSCP env orig s =
     (case logged (k_patchSCP (r_client env) orig (v_scp s))
             (\<lambda>r. PatchSCP orig (v_scp s) (errOf r)) s of
        (Inl e, s1) \<Rightarrow> (Some e, s1)
      | (Inr x, s1) \<Rightarrow>
          (None, s1\<lparr>v_scp := x,
             v_conds :=
               (if v_shared s1
                then map (\<lambda>i. decodedCondition env (Conditions (scp_Status x)) i (v_conds s1 ! i))
                         [0..<length (v_conds s1)]
                else v_conds s1)\<rparr>))"

lemmas scp_call_defs = getSCP_def updateSCP_def statusUpdateSCP_def patchSCP_def

section \<open>Documented behaviour of the parameters\<close>

text \<open>
  \<open>retry.RetryOnConflict\<close> runs its function at least once, again as long as the outcome was a
  conflict, and returns the outcome of the last run.
\<close>

inductive retryRuns :: "('s \<Rightarrow> error option \<times> 's) \<Rightarrow> 's \<Rightarrow> error option \<times> 's \<Rightarrow> bool"
  for fn where
  last_run: "retryRuns fn s (fn s)"
| run_again: "fn s = (Some e, s') \<Longrightarrow> isConflict e \<Longrightarrow> retryRuns fn s' r \<Longrightarrow> retryRuns fn s r"

definition retryContract ::
  "(('s \<Rightarrow> error option \<times> 's) \<Rightarrow> 's \<Rightarrow> error option \<times> 's) \<Rightarrow> bool" where
  "retryContract retry \<longleftrightarrow> (\<forall>fn s. retryRuns fn s (retry fn s))"

lemma retryRuns_invariant:
  assumes "retryRuns fn s r" and "I s" and "\<And>s. I s \<Longrightarrow> I (snd (fn s))"
  shows "I (snd r)"
  using assms by (induction rule: retryRuns.induct) (auto, metis snd_conv)

text \<open>The last run of the function starts in a state that satisfies the invariant too.\<close>

lemma retryRuns_last:
  assumes "retryRuns fn s r" and "I s" and "\<And>s. I s \<Longrightarrow> I (snd (fn s))"
  shows "\<exists>t. I t \<and> r = fn t"
  using assms by (induction rule: retryRuns.induct) (auto, metis snd_conv)

lemma retry_invariant:
  "retryContract retry \<Longrightarrow> I s \<Longrightarrow> (\<And>s. I s \<Longrightarrow> I (snd (fn s))) \<Longrightarrow> I (snd (retry fn s))"
  unfolding retryContract_def by (blast intro: retryRuns_invariant)

lemma retry_last:
  "retryContract retry \<Longrightarrow> I s \<Longrightarrow> (\<And>s. I s \<Longrightarrow> I (snd (fn s))) \<Longrightarrow> \<exists>t. I t \<and> retry fn s = fn t"
  unfolding retryContract_def by (blast intro: retryRuns_last)

text \<open>\<open>retry.DefaultRetry\<close> as a function: at most \<open>n\<close> runs. It satisfies the contract.\<close>

fun boundedRetry :: "nat \<Rightarrow> ('s \<Rightarrow> error option \<times> 's) \<Rightarrow> 's \<Rightarrow> error option \<times> 's" where
  "boundedRetry 0 fn s = fn s"
| "boundedRetry (Suc n) fn s =
     (case fn s of
        (Some e, s') \<Rightarrow> if isConflict e then boundedRetry n fn s' else (Some e, s')
      | (None, s') \<Rightarrow> (None, s'))"

lemma boundedRetry_contract: "retryContract (boundedRetry n)"
proof -
  have "retryRuns fn s (boundedRetry n fn s)" for fn :: "'a \<Rightarrow> error option \<times> 'a" and s
  proof (induction n arbitrary: s)
    case 0
    show ?case by (simp add: retryRuns.last_run)
  next
    case (Suc n)
    obtain e s' where e: "fn s = (e, s')" by fastforce
    with retryRuns.last_run [of fn s] Suc.IH [of s'] show ?case
      by (auto split: option.splits intro: retryRuns.run_again)
  qed
  then show ?thesis by (simp add: retryContract_def)
qed

text \<open>\<open>meta.FindStatusCondition\<close> points at the first condition of the given type.\<close>

definition findContract :: "(Condition list \<Rightarrow> string \<Rightarrow> nat option) \<Rightarrow> bool" where
  "findContract findc \<longleftrightarrow>
     (\<forall>cs t. case findc cs t of
        None \<Rightarrow> t \<notin> c_Type ` set cs
      | Some i \<Rightarrow> i < length cs \<and> c_Type (cs ! i) = t \<and> t \<notin> c_Type ` set (take i cs))"

text \<open>
  \<open>meta.SetStatusCondition\<close> appends a condition of a new type as it is, if its transition time is set,
  and otherwise brings the first condition of that type to the given status, reason, message and
  generation; the transition time changes only with the status.
\<close>

definition setContract ::
  "(Condition list \<Rightarrow> string \<Rightarrow> nat option) \<Rightarrow>
   (Condition list \<Rightarrow> Condition \<Rightarrow> 'w \<Rightarrow> Condition list \<times> 'w) \<Rightarrow> bool" where
  "setContract findc setc \<longleftrightarrow>
     (\<forall>cs c w. case findc cs (c_Type c) of
        None \<Rightarrow> c_LastTransitionTime c \<noteq> None \<longrightarrow> fst (setc cs c w) = cs @ [c]
      | Some i \<Rightarrow>
          c_Status (cs ! i) = c_Status c \<or> c_LastTransitionTime c \<noteq> None \<longrightarrow>
          fst (setc cs c w) =
            cs[i := (cs ! i)\<lparr>c_Status := c_Status c, c_Reason := c_Reason c,
               c_Message := c_Message c, c_ObservedGeneration := c_ObservedGeneration c,
               c_LastTransitionTime :=
                 (if c_Status (cs ! i) = c_Status c then c_LastTransitionTime (cs ! i)
                  else c_LastTransitionTime c)\<rparr>])"

text \<open>\<open>sets.Set.UnsortedList\<close> lists the elements once each, in some order.\<close>

definition unsortedContract :: "(string set \<Rightarrow> string list) \<Rightarrow> bool" where
  "unsortedContract f \<longleftrightarrow> (\<forall>S. finite S \<longrightarrow> set (f S) = S \<and> distinct (f S))"

end
