(* ===== verification/Sample_Environment.thy ===== *)
theory Sample_Environment
  imports Environment "HOL-Library.Char_ord" "HOL-Library.List_Lexorder"
begin

text \<open>
  One concrete environment: an in-memory API server with a single writer, a library that does what its
  documentation says. It shows that the hypotheses on the parameters can hold together, and gives
  the witnesses of the theorems an input to evaluate on.
\<close>

record mem =
  m_scps :: "NamespacedName \<rightharpoonup> StewardControlPlane"
  m_clusters :: "NamespacedName \<rightharpoonup> Cluster"
  m_secrets :: "NamespacedName \<rightharpoonup> Secret"
  m_infras :: "ObjectReference \<rightharpoonup> Unstructured"
  m_tcps :: "NamespacedName \<rightharpoonup> TenantControlPlane"
  m_clock :: int

definition emptyMem :: mem where
  "emptyMem = \<lparr>m_scps = Map.empty, m_clusters = Map.empty, m_secrets = Map.empty,
     m_infras = Map.empty, m_tcps = Map.empty, m_clock = 0\<rparr>"

definition found :: "'a option \<Rightarrow> error + 'a" where
  "found x = (case x of None \<Rightarrow> Inl (ApiError NotFound) | Some y \<Rightarrow> Inr y)"

definition storeSCP :: "StewardControlPlane \<Rightarrow> mem \<Rightarrow> (error + StewardControlPlane) \<times> mem" where
  "storeSCP scp w =
     (if m_scps w (scp_key scp) = None then (Inl (ApiError NotFound), w)
      else (Inr scp, w\<lparr>m_scps := (m_scps w)(scp_key scp \<mapsto> scp)\<rparr>))"

definition sampleCreateOrUpdate ::
  "('a \<Rightarrow> NamespacedName) \<Rightarrow> (NamespacedName \<rightharpoonup> 'a) \<Rightarrow> 'a \<Rightarrow> ('a \<Rightarrow> error option \<times> 'a) \<Rightarrow>
   (error option \<times> 'a) \<times> (NamespacedName \<rightharpoonup> 'a)" where
  "sampleCreateOrUpdate key m x f =
     (case f (case m (key x) of None \<Rightarrow> x | Some y \<Rightarrow> if key y = key x then y else x) of
        (Some e, y) \<Rightarrow> ((Some e, y), m)
      | (None, y) \<Rightarrow> ((None, y), m(key x \<mapsto> y)))"

definition sampleClient :: "mem client" where
  "sampleClient = \<lparr>
     k_getSCP = (\<lambda>k w. (found (m_scps w k), w)),
     k_updateSCP = storeSCP,
     k_patchSCP = (\<lambda>orig scp. storeSCP scp),
     k_statusUpdateSCP = storeSCP,
     k_getCluster = (\<lambda>k w. (found (m_clusters w k), w)),
     k_getSecret = (\<lambda>k w. (found (m_secrets w k), w)),
     k_getInfra = (\<lambda>r w. (found (m_infras w r), w)),
     k_patchInfra = (\<lambda>b a w. (None, w\<lparr>m_infras := (m_infras w)(u_ref a \<mapsto> a)\<rparr>)),
     k_createOrUpdateTCP = (\<lambda>x f w.
       case sampleCreateOrUpdate (\<lambda>t. nsname (tcp_meta t)) (m_tcps w) x f of (r, m) \<Rightarrow> (r, w\<lparr>m_tcps := m\<rparr>)),
     k_deleteTCP = (\<lambda>k w. if m_tcps w k = None then (Some (ApiError NotFound), w)
                          else (None, w\<lparr>m_tcps := (m_tcps w)(k := None)\<rparr>)),
     k_createOrUpdateSecret = (\<lambda>x f w.
       case sampleCreateOrUpdate (\<lambda>x. nsname (sec_meta x)) (m_secrets w) x f of (r, m) \<Rightarrow> (r, w\<lparr>m_secrets := m\<rparr>))\<rparr>"

section \<open>Library functions\<close>

fun sampleFind :: "Condition list \<Rightarrow> string \<Rightarrow> nat option" where
  "sampleFind [] t = None"
| "sampleFind (c # cs) t = (if c_Type c = t then Some 0 else map_option Suc (sampleFind cs t))"

definition sampleSet :: "Condition list \<Rightarrow> Condition \<Rightarrow> mem \<Rightarrow> Condition list \<times> mem" where
  "sampleSet cs c w =
     (case sampleFind cs (c_Type c) of
        None \<Rightarrow> (cs @ [if c_LastTransitionTime c = None then c\<lparr>c_LastTransitionTime := Some (m_clock w)\<rparr> else c], w)
      | Some i \<Rightarrow>
          (cs[i := (cs ! i)\<lparr>c_Status := c_Status c, c_Reason := c_Reason c, c_Message := c_Message c,
              c_ObservedGeneration := c_ObservedGeneration c,
              c_LastTransitionTime :=
                (if c_Status (cs ! i) = c_Status c then c_LastTransitionTime (cs ! i)
                 else if c_LastTransitionTime c = None then Some (m_clock w)
                 else c_LastTransitionTime c)\<rparr>], w))"

text \<open>Nested fields of an unstructured object.\<close>

fun jsonGet :: "json \<Rightarrow> string list \<Rightarrow> json option" where
  "jsonGet j [] = Some j"
| "jsonGet (JObj kvs) (p # ps) = (case map_of kvs p of None \<Rightarrow> None | Some j \<Rightarrow> jsonGet j ps)"
| "jsonGet j (p # ps) = None"

fun jsonSet :: "json \<Rightarrow> json \<Rightarrow> string list \<Rightarrow> error + json" where
  "jsonSet j v [] = Inr v"
| "jsonSet (JObj kvs) v (p # ps) =
     (case jsonSet (case map_of kvs p of None \<Rightarrow> JObj [] | Some j \<Rightarrow> j) v ps of
        Inl e \<Rightarrow> Inl e
      | Inr j \<Rightarrow> Inr (JObj ((p, j) # filter (\<lambda>kv. fst kv \<noteq> p) kvs)))"
| "jsonSet j v (p # ps) = Inl (ErrNew ''value cannot be set'')"

definition sampleNestedString :: "json \<Rightarrow> string list \<Rightarrow> error + string" where
  "sampleNestedString j ps =
     (case jsonGet j ps of None \<Rightarrow> Inr '''' | Some (JString s) \<Rightarrow> Inr s | Some _ \<Rightarrow> Inl (ErrNew ''wrong type''))"

definition sampleNestedInt64 :: "json \<Rightarrow> string list \<Rightarrow> error + int64" where
  "sampleNestedInt64 j ps =
     (case jsonGet j ps of None \<Rightarrow> Inr 0 | Some (JInt i) \<Rightarrow> Inr (word_of_int i) | Some _ \<Rightarrow> Inl (ErrNew ''wrong type''))"

definition ownedBy :: "StewardControlPlane \<Rightarrow> ObjectMeta \<Rightarrow> ObjectMeta" where
  "ownedBy scp m = m\<lparr>om_OwnerReferences :=
     [\<lparr>or_Kind = ''StewardControlPlane'', or_Name = om_Name (scp_meta scp), or_UID = om_UID (scp_meta scp)\<rparr>]\<rparr>"

definition sampleEnv :: "mem env" where
  "sampleEnv = \<lparr>
     r_client = sampleClient,
     r_FeatureGates = (\<lambda>f. f = ''ExternalClusterReference''),
     r_DynamicInfrastructureClusters = {},
     mgr_GetClient = (\<lambda>_. sampleClient),
     mgr_KindFor = (\<lambda>_ w. (None, w)),
     retryOnConflict = boundedRetry 4,
     timeNow = (\<lambda>w. (m_clock w, w\<lparr>m_clock := m_clock w + 1\<rparr>)),
     isPaused = (\<lambda>c scp. cl_Paused c),
     findStatusCondition = sampleFind,
     setStatusCondition = sampleSet,
     decodedCondition = (\<lambda>cs i c. if i < length cs then cs ! i else c),
     formatLabelSelector = (\<lambda>_. ''<none>''),
     setControllerReferenceTCP = (\<lambda>scp t. Inr (t\<lparr>tcp_meta := ownedBy scp (tcp_meta t)\<rparr>)),
     setControllerReferenceSecret = (\<lambda>scp x. Inr (x\<lparr>sec_meta := ownedBy scp (sec_meta x)\<rparr>)),
     nestedString = sampleNestedString,
     nestedInt64 = sampleNestedInt64,
     setNested = jsonSet,
     newPatchHelper = (\<lambda>_. None),
     unsortedList = sorted_list_of_set,
     LastAppliedConfigAnnotation = ''kubectl.kubernetes.io/last-applied-configuration'',
     KubeconfigSecretKeyAnnotation = ''kubeconfig-secret-key'',
     ClusterNameLabel = ''cluster.x-k8s.io/cluster-name'',
     ClusterSecretType = ''cluster.x-k8s.io/secret'',
     TLSCertKey = ''tls.crt'',
     TLSPrivateKeyKey = ''tls.key'',
     versionString = (\<lambda>v. case v of VersionReady \<Rightarrow> ''Ready'' | VersionUpgrading \<Rightarrow> ''Upgrading'' | VersionOther x \<Rightarrow> x)\<rparr>"

section \<open>The contracts hold\<close>

lemma sample_retryContract [simp]: "retryContract (retryOnConflict sampleEnv)"
  by (simp add: sampleEnv_def boundedRetry_contract)

lemma sampleFind_None: "sampleFind cs t = None \<longleftrightarrow> t \<notin> c_Type ` set cs"
  by (induction cs) auto

lemma sampleFind_Some:
  "sampleFind cs t = Some i \<Longrightarrow>
   i < length cs \<and> c_Type (cs ! i) = t \<and> t \<notin> c_Type ` set (take i cs)"
  by (induction cs arbitrary: i) (auto split: if_splits)

lemma sample_findContract [simp]: "findContract (findStatusCondition sampleEnv)"
  by (simp add: findContract_def sampleEnv_def split: option.splits)
    (metis sampleFind_None sampleFind_Some)

lemma sample_setContract [simp]:
  "setContract (findStatusCondition sampleEnv) (setStatusCondition sampleEnv)"
  by (simp add: setContract_def sampleEnv_def sampleSet_def split: option.splits)

lemma sample_unsortedContract [simp]: "unsortedContract (unsortedList sampleEnv)"
  by (simp add: unsortedContract_def sampleEnv_def)

end
