(* ===== verification/Conditions.thy ===== *)
theory Conditions
  imports Sample_Environment
begin

text \<open>
  \<open>controllers/conditions.go\<close>: \<open>TrackConditionType\<close> runs a function and records its outcome in the
  slice \<open>conditions\<close>. The pointer from \<open>FindStatusCondition\<close> is an index into the slice, read again
  after the function ran, since the function may have changed the array. A panic of the function
  skips the body but not the deferred \<open>SetStatusCondition\<close>, and is handed on.
\<close>

definition zeroCondition :: Condition where
  "zeroCondition = \<lparr>c_Type = '''', c_Status = StatusUnset, c_ObservedGeneration = 0,
     c_LastTransitionTime = None, c_Reason = '''', c_Message = Text ''''\<rparr>"

text \<open>Writing to \<open>conditions\<close> in place is visible in \<open>scp.Status.Conditions\<close> while they share.\<close>

definition setConds :: "Condition list \<Rightarrow> 'w rst \<Rightarrow> 'w rst" where
  "setConds cs s =
     (if v_shared s
      then s\<lparr>v_conds := cs, v_scp := (v_scp s)\<lparr>scp_Status := (scp_Status (v_scp s))\<lparr>Conditions := cs\<rparr>\<rparr>\<rparr>
      else s\<lparr>v_conds := cs\<rparr>)"

definition touch :: "'w env \<Rightarrow> ConditionStatus \<Rightarrow> Condition \<Rightarrow> 'w rst \<Rightarrow> Condition \<times> 'w rst" where
  "touch env status c s =
     (if c_Status c \<noteq> status
      then (case timeNow env (world s) of
              (t, w) \<Rightarrow> (c\<lparr>c_LastTransitionTime := Some t\<rparr>, s\<lparr>world := w\<rparr>))
      else (c, s))"

definition finishCondition ::
  "'w env \<Rightarrow> error option \<Rightarrow> Condition \<Rightarrow> 'w rst \<Rightarrow> Condition \<times> 'w rst" where
  "finishCondition env result c s =
     (case result of
        Some err \<Rightarrow>
          if isPanic err then (c, s)
          else (case touch env ConditionFalse c s of
                  (c1, s1) \<Rightarrow>
                    (c1\<lparr>c_Reason := (if errors_Is err ErrEnqueueBack then ''Failed'' else ''Pending''),
                        c_Status := ConditionFalse,
                        c_Message := ErrorText err\<rparr>, s1))
      | None \<Rightarrow>
          (case touch env ConditionTrue c s of
             (c1, s1) \<Rightarrow>
               (c1\<lparr>c_Reason := ''Succeeded'', c_Status := ConditionTrue, c_Message := Text ''''\<rparr>, s1)))"

definition applySetStatusCondition :: "'w env \<Rightarrow> Condition \<Rightarrow> 'w rst \<Rightarrow> 'w rst" where
  "applySetStatusCondition env c s =
     (case setStatusCondition env (v_conds s) c (world s) of
        (cs, w) \<Rightarrow> setConds cs (s\<lparr>world := w\<rparr>))"

definition beginTrack ::
  "'w env \<Rightarrow> StewardControlPlaneConditionType \<Rightarrow> int64 \<Rightarrow> 'w rst \<Rightarrow> 'w rst" where
  "beginTrack env conditionType observedGeneration s =
     (case findStatusCondition env (v_conds s) (conditionTypeString conditionType) of
        Some i \<Rightarrow> setConds ((v_conds s)[i :=
                    (v_conds s ! i)\<lparr>c_ObservedGeneration := observedGeneration\<rparr>]) s
      | None \<Rightarrow> s)"

definition TrackConditionType ::
  "'w env \<Rightarrow> StewardControlPlaneConditionType \<Rightarrow> int64 \<Rightarrow> ('w rst \<Rightarrow> error option \<times> 'w rst) \<Rightarrow>
   'w rst \<Rightarrow> error option \<times> 'w rst" where
  "TrackConditionType env conditionType observedGeneration fn s =
     (let panicked = (\<lambda>result. case result of
            Some err \<Rightarrow> if isPanic err then Some err else None
          | None \<Rightarrow> None)
      in case fn (beginTrack env conditionType observedGeneration s) of
           (result, s1) \<Rightarrow>
             (case findStatusCondition env (v_conds s) (conditionTypeString conditionType) of
                Some i \<Rightarrow>
                  (case finishCondition env result (v_conds s1 ! i) s1 of
                     (c, s2) \<Rightarrow>
                       (panicked result,
                        applySetStatusCondition env c (setConds ((v_conds s2)[i := c]) s2)))
              | None \<Rightarrow>
                  (case finishCondition env result
                          (zeroCondition\<lparr>c_Type := conditionTypeString conditionType,
                             c_ObservedGeneration := observedGeneration\<rparr>) s1 of
                     (c, s2) \<Rightarrow>
                       (panicked result, applySetStatusCondition env c (s2\<lparr>v_shared := False\<rparr>)))))"

section \<open>What is recorded\<close>

text \<open>A condition records the outcome \<open>result\<close> for the generation \<open>gen\<close>.\<close>

definition records :: "Condition \<Rightarrow> int64 \<Rightarrow> error option \<Rightarrow> bool" where
  "records c gen result \<longleftrightarrow> c_ObservedGeneration c = gen \<and>
     (case result of
        None \<Rightarrow> c_Status c = ConditionTrue \<and> c_Reason c = ''Succeeded'' \<and> c_Message c = Text ''''
      | Some err \<Rightarrow> c_Status c = ConditionFalse \<and> c_Message c = ErrorText err \<and>
          c_Reason c = (if errors_Is err ErrEnqueueBack then ''Failed'' else ''Pending''))"

lemma setConds_frame [simp]:
  "v_conds (setConds cs s) = cs" "calls (setConds cs s) = calls s" "world (setConds cs s) = world s"
  "mstore (setConds cs s) = mstore s" "v_cluster (setConds cs s) = v_cluster s"
  "v_tcp (setConds cs s) = v_tcp s" "v_remote (setConds cs s) = v_remote s"
  "v_err (setConds cs s) = v_err s" "v_shared (setConds cs s) = v_shared s"
  "v_secret (setConds cs s) = v_secret s" "v_finalizers (setConds cs s) = v_finalizers s"
  "scp_meta (v_scp (setConds cs s)) = scp_meta (v_scp s)"
  "scp_Spec (v_scp (setConds cs s)) = scp_Spec (v_scp s)"
  "Initialized (scp_Status (v_scp (setConds cs s))) = Initialized (scp_Status (v_scp s))"
  "Ready (scp_Status (v_scp (setConds cs s))) = Ready (scp_Status (v_scp s))"
  by (simp_all add: setConds_def)

text \<open>Two states that differ in the conditions, the clock and the memory sharing only.\<close>

definition sameButConds :: "'w rst \<Rightarrow> 'w rst \<Rightarrow> bool" where
  "sameButConds s t \<longleftrightarrow>
     calls t = calls s \<and> mstore t = mstore s \<and> v_cluster t = v_cluster s \<and> v_tcp t = v_tcp s \<and>
     v_remote t = v_remote s \<and> v_err t = v_err s \<and> v_secret t = v_secret s \<and>
     v_finalizers t = v_finalizers s \<and>
     scp_meta (v_scp t) = scp_meta (v_scp s) \<and> scp_Spec (v_scp t) = scp_Spec (v_scp s) \<and>
     Initialized (scp_Status (v_scp t)) = Initialized (scp_Status (v_scp s)) \<and>
     Ready (scp_Status (v_scp t)) = Ready (scp_Status (v_scp s))"

lemma sameButConds_refl [simp]: "sameButConds s s"
  by (simp add: sameButConds_def)

lemma sameButConds_trans: "sameButConds s t \<Longrightarrow> sameButConds t u \<Longrightarrow> sameButConds s u"
  by (simp add: sameButConds_def)

lemma sameButConds_setConds [simp]: "sameButConds s (setConds cs s)"
  by (simp add: sameButConds_def)

lemma sameButConds_beginTrack [simp]: "sameButConds s (beginTrack env ct gen s)"
  by (simp add: beginTrack_def split: option.splits)

lemma touch_frame:
  "touch env st c s = (c', s') \<Longrightarrow>
   v_conds s' = v_conds s \<and> sameButConds s s' \<and> c_Type c' = c_Type c \<and>
   c_ObservedGeneration c' = c_ObservedGeneration c \<and>
   (c_Status c \<noteq> st \<longrightarrow> c_LastTransitionTime c' \<noteq> None) \<and>
   (c_Status c = st \<longrightarrow> c_LastTransitionTime c' = c_LastTransitionTime c)"
  by (auto simp: touch_def sameButConds_def split: if_splits prod.splits)

lemma finishCondition_frame:
  assumes "finishCondition env result c s = (c', s')"
  shows "v_conds s' = v_conds s \<and> sameButConds s s' \<and> c_Type c' = c_Type c"
  using assms by (auto simp: finishCondition_def split: option.splits if_splits prod.splits
      dest: touch_frame)

lemma finishCondition_records:
  assumes "finishCondition env result c s = (c', s')"
    and "\<And>e. result = Some e \<Longrightarrow> \<not> isPanic e"
  shows "records c' (c_ObservedGeneration c) result \<and>
    (c_Status c \<noteq> c_Status c' \<longrightarrow> c_LastTransitionTime c' \<noteq> None) \<and>
    (c_Status c = c_Status c' \<longrightarrow> c_LastTransitionTime c' = c_LastTransitionTime c)"
  using assms
  by (auto simp: finishCondition_def records_def split: option.splits prod.splits dest: touch_frame)

lemma applySetStatusCondition_frame:
  "sameButConds s (applySetStatusCondition env c s)"
  by (auto simp: applySetStatusCondition_def sameButConds_def split: prod.splits)

lemma TrackConditionType_frame:
  assumes "TrackConditionType env ct gen fn s = (p, s')"
  shows "\<exists>result s1. fn (beginTrack env ct gen s) = (result, s1) \<and> sameButConds s1 s' \<and>
           p = (case result of Some e \<Rightarrow> if isPanic e then Some e else None | None \<Rightarrow> None)"
proof -
  obtain result s1 where fn: "fn (beginTrack env ct gen s) = (result, s1)" by fastforce
  show ?thesis
  proof (cases "findStatusCondition env (v_conds s) (conditionTypeString ct)")
    case None
    obtain c s2 where fin: "finishCondition env result
        (zeroCondition\<lparr>c_Type := conditionTypeString ct, c_ObservedGeneration := gen\<rparr>) s1 = (c, s2)"
      by fastforce
    have "sameButConds s2 (applySetStatusCondition env c (s2\<lparr>v_shared := False\<rparr>))"
      using applySetStatusCondition_frame [of "s2\<lparr>v_shared := False\<rparr>" env c]
      by (simp add: sameButConds_def)
    with finishCondition_frame [OF fin] have
      "sameButConds s1 (applySetStatusCondition env c (s2\<lparr>v_shared := False\<rparr>))"
      by (blast intro: sameButConds_trans)
    with assms fn None fin show ?thesis
      by (auto simp: TrackConditionType_def Let_def)
  next
    case (Some i)
    obtain c s2 where fin: "finishCondition env result (v_conds s1 ! i) s1 = (c, s2)"
      by fastforce
    have "sameButConds s2 (applySetStatusCondition env c (setConds ((v_conds s2)[i := c]) s2))"
      by (blast intro: sameButConds_trans sameButConds_setConds applySetStatusCondition_frame)
    with finishCondition_frame [OF fin] have
      "sameButConds s1 (applySetStatusCondition env c (setConds ((v_conds s2)[i := c]) s2))"
      by (blast intro: sameButConds_trans)
    with assms fn Some fin show ?thesis
      by (auto simp: TrackConditionType_def Let_def)
  qed
qed

lemma findContractD:
  "findContract f \<Longrightarrow>
   (case f cs t of
      None \<Rightarrow> t \<notin> c_Type ` set cs
    | Some i \<Rightarrow> i < length cs \<and> c_Type (cs ! i) = t \<and> t \<notin> c_Type ` set (take i cs))"
  by (simp add: findContract_def)

lemma findContract_NoneD:
  "findContract f \<Longrightarrow> f cs t = None \<Longrightarrow> t \<notin> c_Type ` set cs"
  using findContractD [where f = f and cs = cs and t = t] by simp

lemma findContract_SomeD:
  assumes "findContract f" "f cs t = Some i"
  shows "i < length cs \<and> c_Type (cs ! i) = t \<and> (\<forall>j < i. c_Type (cs ! j) \<noteq> t)"
proof -
  from findContractD [OF assms(1), where cs = cs and t = t] assms(2)
  have i: "i < length cs" "c_Type (cs ! i) = t" "t \<notin> c_Type ` set (take i cs)" by simp_all
  have "cs ! j \<in> set (take i cs)" if "j < i" for j
    using that i(1) by (auto simp: in_set_conv_nth intro!: exI [of _ j])
  with i show ?thesis by blast
qed

lemma findContract_SomeI:
  assumes f: "findContract f" and i: "i < length cs" "c_Type (cs ! i) = t"
    and first: "\<And>j. j < i \<Longrightarrow> c_Type (cs ! j) \<noteq> t"
  shows "f cs t = Some i"
proof (cases "f cs t")
  case None
  with findContract_NoneD [OF f] i show ?thesis by (metis image_eqI nth_mem)
next
  case (Some j)
  from findContract_SomeD [OF f Some] i first [of j] Some show ?thesis
    by (metis linorder_neqE_nat)
qed

lemma findc_update:
  assumes "findContract f" "f cs t = Some i" "c_Type c = t"
  shows "f (cs[i := c]) t = Some i"
  using findContract_SomeD [OF assms(1,2)] assms(3)
  by (intro findContract_SomeI [OF assms(1)]) simp_all

lemma setContractD:
  "setContract findc setc \<Longrightarrow>
   (case findc cs (c_Type c) of
        None \<Rightarrow> c_LastTransitionTime c \<noteq> None \<longrightarrow> fst (setc cs c w) = cs @ [c]
      | Some i \<Rightarrow>
          c_Status (cs ! i) = c_Status c \<or> c_LastTransitionTime c \<noteq> None \<longrightarrow>
          fst (setc cs c w) =
            cs[i := (cs ! i)\<lparr>c_Status := c_Status c, c_Reason := c_Reason c,
               c_Message := c_Message c, c_ObservedGeneration := c_ObservedGeneration c,
               c_LastTransitionTime :=
                 (if c_Status (cs ! i) = c_Status c then c_LastTransitionTime (cs ! i)
                  else c_LastTransitionTime c)\<rparr>])"
  by (simp add: setContract_def)

lemma v_conds_applySet:
  "v_conds (applySetStatusCondition env c s) = fst (setStatusCondition env (v_conds s) c (world s))"
  by (simp add: applySetStatusCondition_def split: prod.splits)

lemma applySet_in_place:
  assumes "findContract (findStatusCondition env)"
    and "setContract (findStatusCondition env) (setStatusCondition env)"
    and "findStatusCondition env cs (c_Type c) = Some i"
  shows "v_conds (applySetStatusCondition env c (setConds (cs[i := c]) s)) = cs[i := c]"
proof -
  have "i < length cs" using findContract_SomeD [OF assms(1,3)] by simp
  moreover have "findStatusCondition env (cs[i := c]) (c_Type c) = Some i"
    using findc_update [OF assms(1,3)] by simp
  ultimately show ?thesis
    using setContractD [OF assms(2), where cs = "cs[i := c]" and c = c and w = "world s"] by (simp add: v_conds_applySet)
qed

lemma applySet_append:
  assumes "setContract (findStatusCondition env) (setStatusCondition env)"
    and "findStatusCondition env (v_conds s) (c_Type c) = None" "c_LastTransitionTime c \<noteq> None"
  shows "v_conds (applySetStatusCondition env c s) = v_conds s @ [c]"
  using setContractD [OF assms(1), where cs = "v_conds s" and c = c and w = "world s"] assms(2,3)
  by (simp add: v_conds_applySet)

section \<open>Properties\<close>

text \<open>
  (C16) \<open>TrackConditionType\<close> records what its function did: afterwards the condition of the tracked type
  has the status, reason, message and generation of the outcome; every other condition is as before;
  and the transition time moves only if the status does. (For a function that returns normally and
  leaves the slice alone.)
\<close>

theorem TrackConditionType_records:
  assumes f: "findContract (findStatusCondition env)"
    and st: "setContract (findStatusCondition env) (setStatusCondition env)"
    and fn: "fn (beginTrack env ct gen s) = (result, s1)"
    and conds: "v_conds s1 = v_conds (beginTrack env ct gen s)"
    and normal: "\<And>e. result = Some e \<Longrightarrow> \<not> isPanic e"
  shows "\<exists>i. let cs' = v_conds (snd (TrackConditionType env ct gen fn s)) in
           findStatusCondition env cs' (conditionTypeString ct) = Some i \<and>
           records (cs' ! i) gen result \<and>
           (\<forall>j < length (v_conds s). j \<noteq> i \<longrightarrow> cs' ! j = v_conds s ! j) \<and>
           (i < length (v_conds s) \<longrightarrow> c_Status (cs' ! i) = c_Status (v_conds s ! i) \<longrightarrow>
              c_LastTransitionTime (cs' ! i) = c_LastTransitionTime (v_conds s ! i))"
proof (cases "findStatusCondition env (v_conds s) (conditionTypeString ct)")
  case (Some i)
  let ?cs = "(v_conds s)[i := (v_conds s ! i)\<lparr>c_ObservedGeneration := gen\<rparr>]"
  from findContract_SomeD [OF f Some] have i: "i < length (v_conds s)"
    "c_Type (v_conds s ! i) = conditionTypeString ct" by simp_all
  obtain c s2 where fin: "finishCondition env result (v_conds s1 ! i) s1 = (c, s2)" by fastforce
  have cs: "v_conds s1 = ?cs" using conds Some by (simp add: beginTrack_def)
  note fr = finishCondition_frame [OF fin] and rec = finishCondition_records [OF fin normal]
  have ct: "c_Type c = conditionTypeString ct" using fr cs i by simp
  have "findStatusCondition env ?cs (c_Type c) = Some i"
    using findc_update [OF f Some] ct i by simp
  then have "v_conds (applySetStatusCondition env c (setConds (?cs[i := c]) s2)) = ?cs[i := c]"
    by (rule applySet_in_place [OF f st])
  then have "v_conds (snd (TrackConditionType env ct gen fn s)) = (v_conds s)[i := c]"
    using Some fn fin fr cs by (simp add: TrackConditionType_def Let_def)
  moreover have "findStatusCondition env ((v_conds s)[i := c]) (conditionTypeString ct) = Some i"
    using findc_update [OF f Some ct] .
  ultimately show ?thesis using rec cs i by (intro exI [of _ i]) (auto simp: Let_def)
next
  case None
  let ?c0 = "zeroCondition\<lparr>c_Type := conditionTypeString ct, c_ObservedGeneration := gen\<rparr>"
  obtain c s2 where fin: "finishCondition env result ?c0 s1 = (c, s2)" by fastforce
  have cs: "v_conds s1 = v_conds s" using conds None by (simp add: beginTrack_def)
  note fr = finishCondition_frame [OF fin] and rec = finishCondition_records [OF fin normal]
  have ct: "c_Type c = conditionTypeString ct" using fr by simp
  have "c_Status c \<noteq> StatusUnset" using rec by (auto simp: records_def split: option.splits)
  with rec have lt: "c_LastTransitionTime c \<noteq> None" by (auto simp: zeroCondition_def)
  have "v_conds (snd (TrackConditionType env ct gen fn s)) = v_conds s @ [c]"
    using applySet_append [OF st, of "s2\<lparr>v_shared := False\<rparr>" c] None fn fin fr cs ct lt
    by (simp add: TrackConditionType_def Let_def)
  moreover have "findStatusCondition env (v_conds s @ [c]) (conditionTypeString ct) = Some (length (v_conds s))"
    using findContract_NoneD [OF f None] ct
    by (intro findContract_SomeI [OF f]) (auto simp: nth_append image_iff dest!: nth_mem)
  ultimately show ?thesis
    using rec by (intro exI [of _ "length (v_conds s)"]) (auto simp: Let_def nth_append)
qed

theorem TrackConditionType_records_witness:
  "\<exists>i. let cs' = v_conds (snd (TrackConditionType sampleEnv TenantControlPlaneCreatedConditionType 7
              (\<lambda>s. (None, s)) (startState emptyMem NewStore))) in
        findStatusCondition sampleEnv cs' ''TenantControlPlaneCreated'' = Some i \<and>
        records (cs' ! i) 7 None"
  using TrackConditionType_records [of sampleEnv "\<lambda>s. (None, s)" TenantControlPlaneCreatedConditionType 7
      "startState emptyMem NewStore" None, OF sample_findContract sample_setContract refl refl]
  by (auto simp: Let_def)

end
