(* ===== verification/Tenant_Control_Plane.thy ===== *)
theory Tenant_Control_Plane
  imports Sample_Environment
begin

text \<open>
  \<open>controllers/stewardcontrolplane_controller_tcp.go\<close>: the mutate function that brings a
  \<open>TenantControlPlane\<close> in line with the \<open>StewardControlPlane\<close>, in the source's order, and
  \<open>createOrUpdateTenantControlPlane\<close> around it.

  The write of a default \<open>AddonSpec\<close> into \<open>scp.Spec.Addons.CoreDNS\<close> goes to the caller's struct too;
  it makes a later run of the mutate function find the default it would itself supply, so the
  model supplies it where it is read.
\<close>

definition overwrite :: "('a \<rightharpoonup> 'b) \<Rightarrow> ('a \<rightharpoonup> 'b) \<Rightarrow> 'a set \<Rightarrow> ('a \<rightharpoonup> 'b)" where
  "overwrite base upd skip = (\<lambda>k. if k \<in> skip then base k else case upd k of None \<Rightarrow> base k | Some v \<Rightarrow> Some v)"

definition mutateMetadata :: "'w env \<Rightarrow> StewardControlPlane \<Rightarrow> TenantControlPlane \<Rightarrow> TenantControlPlane" where
  "mutateMetadata env scp tcp =
     (let anns = om_Annotations (scp_meta scp);
          merged = overwrite (om_Annotations (tcp_meta tcp)) anns {LastAppliedConfigAnnotation env};
          final = (case anns (KubeconfigSecretKeyAnnotation env) of
                     Some key \<Rightarrow> if key \<noteq> '''' then merged(KubeconfigSecretKeyAnnotation env \<mapsto> key)
                                 else merged(KubeconfigSecretKeyAnnotation env := None)
                   | None \<Rightarrow> merged(KubeconfigSecretKeyAnnotation env := None))
      in tcp\<lparr>tcp_meta := (tcp_meta tcp)\<lparr>om_Annotations := final, om_Labels := om_Labels (scp_meta scp)\<rparr>\<rparr>)"

definition onNetwork :: "(TCPNetworkProfile \<Rightarrow> TCPNetworkProfile) \<Rightarrow> TenantControlPlane \<Rightarrow> TenantControlPlane" where
  "onNetwork f tcp = tcp\<lparr>tcp_spec := (tcp_spec tcp)\<lparr>tp_NetworkProfile := f (tp_NetworkProfile (tcp_spec tcp))\<rparr>\<rparr>"

definition onDeployment :: "(TCPDeployment \<Rightarrow> TCPDeployment) \<Rightarrow> TenantControlPlane \<Rightarrow> TenantControlPlane" where
  "onDeployment f tcp = tcp\<lparr>tcp_spec := (tcp_spec tcp)\<lparr>tp_Deployment := f (tp_Deployment (tcp_spec tcp))\<rparr>\<rparr>"

definition firstOr :: "string \<Rightarrow> string list option \<Rightarrow> string" where
  "firstOr old blocks = (case blocks of Some (b # bs) \<Rightarrow> b | _ \<Rightarrow> old)"

definition mutateClusterNetwork :: "Cluster \<Rightarrow> TenantControlPlane \<Rightarrow> TenantControlPlane" where
  "mutateClusterNetwork cluster tcp =
     (case cl_ClusterNetwork cluster of
        None \<Rightarrow> tcp
      | Some cn \<Rightarrow>
          onNetwork (\<lambda>np. np\<lparr>
              np_Port := (case cn_APIServerPort cn of Some p \<Rightarrow> p | None \<Rightarrow> np_Port np),
              np_ServiceCIDR := firstOr (np_ServiceCIDR np) (cn_Services cn),
              np_PodCIDR := firstOr (np_PodCIDR np) (cn_Pods cn),
              np_ClusterDomain := cn_ServiceDomain cn\<rparr>) tcp)"

definition normalizeVersion :: "string \<Rightarrow> string" where
  "normalizeVersion v = (if \<not> hasPrefix v ''v'' then ''v'' @ v else v)"

definition mutateVersion :: "StewardControlPlane \<Rightarrow> TenantControlPlane \<Rightarrow> TenantControlPlane" where
  "mutateVersion scp tcp =
     (let tcp = onDeployment (\<lambda>d. d\<lparr>td_Replicas := spec_Replicas (scp_Spec scp)\<rparr>) tcp
      in tcp\<lparr>tcp_spec := (tcp_spec tcp)\<lparr>tp_Kubernetes := (tp_Kubernetes (tcp_spec tcp))\<lparr>
           tk_Version := normalizeVersion (spec_Version (scp_Spec scp))\<rparr>\<rparr>\<rparr>)"

definition emptyAddonSpec :: AddonSpec where
  "emptyAddonSpec = JObj []"

definition mutateAddons :: "StewardControlPlane \<Rightarrow> TenantControlPlane \<Rightarrow> TenantControlPlane" where
  "mutateAddons scp tcp =
     (let fields = spec_Fields (scp_Spec scp);
          tcp1 = onNetwork (\<lambda>np. np\<lparr>np_DNSServiceIPs := net_DNSServiceIPs (Network fields)\<rparr>) tcp;
          tcp2 = tcp1\<lparr>tcp_spec := (tcp_spec tcp1)\<lparr>tp_Addons := addons_AddonsSpec (Addons fields)\<rparr>\<rparr>
      in case addons_CoreDNS (Addons fields) of
           None \<Rightarrow> tcp2
         | Some dns \<Rightarrow>
             let tcp3 = onNetwork (\<lambda>np. np\<lparr>np_DNSServiceIPs := dns_DNSServiceIPs dns\<rparr>) tcp2;
                 addon = (case dns_AddonSpec dns of None \<Rightarrow> emptyAddonSpec | Some a \<Rightarrow> a)
             in tcp3\<lparr>tcp_spec := (tcp_spec tcp3)\<lparr>tp_Addons :=
                  (tp_Addons (tcp_spec tcp3))\<lparr>ad_CoreDNS := Some addon\<rparr>\<rparr>\<rparr>)"

definition mutateDataStore :: "StewardControlPlane \<Rightarrow> TenantControlPlane \<Rightarrow> TenantControlPlane" where
  "mutateDataStore scp tcp =
     (let fields = spec_Fields (scp_Spec scp); sp = tcp_spec tcp
      in tcp\<lparr>tcp_spec := sp\<lparr>
           tp_DataStore := DataStoreName fields,
           tp_DataStoreSchema :=
             (if DataStoreSchema fields \<noteq> '''' then DataStoreSchema fields else tp_DataStoreSchema sp),
           tp_DataStoreUsername :=
             (if DataStoreUsername fields \<noteq> '''' then DataStoreUsername fields else tp_DataStoreUsername sp),
           tp_Kubernetes := (tp_Kubernetes sp)\<lparr>tk_AdmissionControllers := AdmissionControllers fields\<rparr>,
           tp_Deployment := (tp_Deployment sp)\<lparr>td_RegistrySettings :=
             (td_RegistrySettings (tp_Deployment sp))\<lparr>rs_Registry := ContainerRegistry fields\<rparr>\<rparr>\<rparr>\<rparr>)"

text \<open>Volume mounts, extra arguments, resources and images; a nil struct is allocated first.\<close>

definition emptyVolumeMounts :: AdditionalVolumeMounts where
  "emptyVolumeMounts = \<lparr>vm_ControllerManager = [], vm_Scheduler = [], vm_APIServer = []\<rparr>"

definition emptyExtraArgs :: ControlPlaneExtraArgs where
  "emptyExtraArgs = \<lparr>ea_ControllerManager = [], ea_Scheduler = [], ea_APIServer = [], ea_Kine = []\<rparr>"

definition emptyResources :: ControlPlaneComponentsResources where
  "emptyResources = \<lparr>cr_ControllerManager = None, cr_Scheduler = None, cr_APIServer = None, cr_Kine = None\<rparr>"

definition orNew :: "'a option \<Rightarrow> 'a \<Rightarrow> 'a" where
  "orNew p new = (case p of None \<Rightarrow> new | Some x \<Rightarrow> x)"

definition mutateComponents :: "StewardControlPlane \<Rightarrow> TenantControlPlane \<Rightarrow> TenantControlPlane" where
  "mutateComponents scp tcp =
     (let fields = spec_Fields (scp_Spec scp)
      in onDeployment (\<lambda>d. d\<lparr>
           td_AdditionalVolumeMounts := Some ((orNew (td_AdditionalVolumeMounts d) emptyVolumeMounts)\<lparr>
             vm_ControllerManager := ExtraVolumeMounts (ControllerManager fields),
             vm_Scheduler := ExtraVolumeMounts (Scheduler fields),
             vm_APIServer := ExtraVolumeMounts (ApiServer fields)\<rparr>),
           td_ExtraArgs := Some ((orNew (td_ExtraArgs d) emptyExtraArgs)\<lparr>
             ea_ControllerManager := ExtraArgs (ControllerManager fields),
             ea_Scheduler := ExtraArgs (Scheduler fields),
             ea_APIServer := ExtraArgs (ApiServer fields),
             ea_Kine := kine_ExtraArgs (Kine fields)\<rparr>),
           td_Resources := Some ((orNew (td_Resources d) emptyResources)\<lparr>
             cr_ControllerManager := Some (Resources (ControllerManager fields)),
             cr_Scheduler := Some (Resources (Scheduler fields)),
             cr_APIServer := Some (Resources (ApiServer fields)),
             cr_Kine := Some (kine_Resources (Kine fields))\<rparr>),
           td_RegistrySettings := (td_RegistrySettings d)\<lparr>
             rs_ControllerManagerImage := ContainerImageName (ControllerManager fields),
             rs_SchedulerImage := ContainerImageName (Scheduler fields),
             rs_APIServerImage := ContainerImageName (ApiServer fields)\<rparr>\<rparr>) tcp)"

definition mutateService :: "StewardControlPlane \<Rightarrow> TenantControlPlane \<Rightarrow> TenantControlPlane" where
  "mutateService scp tcp =
     (let net = scp_Network scp;
          tcp1 = onNetwork (\<lambda>np. np\<lparr>np_Address := net_ServiceAddress net\<rparr>) tcp;
          sp = tcp_spec tcp1
      in tcp1\<lparr>tcp_spec := sp\<lparr>
           tp_Kubernetes := (tp_Kubernetes sp)\<lparr>tk_Kubelet := Kubelet (spec_Fields (scp_Spec scp))\<rparr>,
           tp_Service := (tp_Service sp)\<lparr>
             ts_ServiceType := net_ServiceType net,
             ts_AdditionalMetadata := \<lparr>am_Labels = net_ServiceLabels net,
                                       am_Annotations = net_ServiceAnnotations net\<rparr>\<rparr>\<rparr>\<rparr>)"

text \<open>The loop over the certificate SANs: the first entry of the form \<open>host:port\<close> is an error.\<close>

fun checkCertSANs :: "string list \<Rightarrow> error option" where
  "checkCertSANs [] = None"
| "checkCertSANs (i # is) =
     (case SplitHostPort i of
        Inr _ \<Rightarrow> Some (ErrWrap (''entry '' @ i @ '' is invalid'') (Sentinel ErrUnsupportedCertificateSAN))
      | Inl _ \<Rightarrow> checkCertSANs is)"

definition hostOf :: "string \<Rightarrow> string" where
  "hostOf hostname = (case SplitHostPort hostname of Inr (host, _) \<Rightarrow> host | Inl _ \<Rightarrow> hostname)"

definition appendSAN :: "string \<Rightarrow> TenantControlPlane \<Rightarrow> TenantControlPlane" where
  "appendSAN hostname = onNetwork (\<lambda>np. np\<lparr>np_CertSANs := np_CertSANs np @ [hostOf hostname]\<rparr>)"

definition mutateIngress :: "StewardControlPlane \<Rightarrow> TenantControlPlane \<Rightarrow> TenantControlPlane" where
  "mutateIngress scp tcp =
     (case net_Ingress (scp_Network scp) of
        Some ing \<Rightarrow>
          appendSAN (ing_Hostname ing)
            (tcp\<lparr>tcp_spec := (tcp_spec tcp)\<lparr>tp_Ingress := Some \<lparr>
               is_AdditionalMetadata = \<lparr>am_Labels = ing_ExtraLabels ing, am_Annotations = ing_ExtraAnnotations ing\<rparr>,
               is_IngressClassName = ing_ClassName ing,
               is_Hostname = ing_Hostname ing,
               is_ControllerType = ing_ControllerType ing\<rparr>\<rparr>\<rparr>)
      | None \<Rightarrow> tcp\<lparr>tcp_spec := (tcp_spec tcp)\<lparr>tp_Ingress := None\<rparr>\<rparr>)"

definition mutateGateway :: "StewardControlPlane \<Rightarrow> TenantControlPlane \<Rightarrow> TenantControlPlane" where
  "mutateGateway scp tcp =
     (case net_Gateway (scp_Network scp) of
        Some gw \<Rightarrow>
          appendSAN (gw_Hostname gw)
            (tcp\<lparr>tcp_spec := (tcp_spec tcp)\<lparr>tp_Gateway := Some \<lparr>
               gs_AdditionalMetadata = \<lparr>am_Labels = gw_ExtraLabels gw, am_Annotations = gw_ExtraAnnotations gw\<rparr>,
               gs_GatewayParentRefs = gw_ParentRefs gw,
               gs_Hostname = gw_Hostname gw\<rparr>\<rparr>\<rparr>)
      | None \<Rightarrow> tcp\<lparr>tcp_spec := (tcp_spec tcp)\<lparr>tp_Gateway := None\<rparr>\<rparr>)"

definition mutateLoadBalancer :: "StewardControlPlane \<Rightarrow> TenantControlPlane \<Rightarrow> TenantControlPlane" where
  "mutateLoadBalancer scp tcp =
     (case net_LoadBalancerConfig (scp_Network scp) of
        None \<Rightarrow> tcp
      | Some lb \<Rightarrow>
          onNetwork (\<lambda>np. np\<lparr>
            np_LoadBalancerClass :=
              (case lb_Class lb of Some c \<Rightarrow> Some c | None \<Rightarrow> np_LoadBalancerClass np),
            np_LoadBalancerSourceRanges :=
              (case lb_SourceRanges lb of Some r \<Rightarrow> Some r | None \<Rightarrow> np_LoadBalancerSourceRanges np)\<rparr>) tcp)"

definition mutateDeployment :: "StewardControlPlane \<Rightarrow> TenantControlPlane \<Rightarrow> TenantControlPlane" where
  "mutateDeployment scp tcp =
     (let dep = scp_Deployment scp
      in onDeployment (\<lambda>d. d\<lparr>
           td_NodeSelector := dep_NodeSelector dep,
           td_RuntimeClassName := dep_RuntimeClassName dep,
           td_ServiceAccountName := dep_ServiceAccountName dep,
           td_AdditionalMetadata := dep_AdditionalMetadata dep,
           td_PodAdditionalMetadata := dep_PodAdditionalMetadata dep,
           td_Strategy := dep_Strategy dep,
           td_Affinity := dep_Affinity dep,
           td_Tolerations := dep_Tolerations dep,
           td_TopologySpreadConstraints := dep_TopologySpreadConstraints dep,
           td_AdditionalInitContainers := dep_ExtraInitContainers dep,
           td_AdditionalContainers := dep_ExtraContainers dep,
           td_AdditionalVolumes := dep_ExtraVolumes dep\<rparr>) tcp)"

definition setCertSANs :: "StewardControlPlane \<Rightarrow> TenantControlPlane \<Rightarrow> TenantControlPlane" where
  "setCertSANs scp = onNetwork (\<lambda>np. np\<lparr>np_CertSANs := net_CertSANs (scp_Network scp)\<rparr>)"

text \<open>The mutate function: what is assigned before, and what after, the check of the SANs.\<close>

definition mutateBefore :: "'w env \<Rightarrow> Cluster \<Rightarrow> StewardControlPlane \<Rightarrow> TenantControlPlane \<Rightarrow> TenantControlPlane" where
  "mutateBefore env cluster scp tcp =
     mutateService scp (mutateComponents scp (mutateDataStore scp (mutateAddons scp
       (mutateVersion scp (mutateClusterNetwork cluster (mutateMetadata env scp tcp))))))"

definition mutateAfter :: "StewardControlPlane \<Rightarrow> TenantControlPlane \<Rightarrow> TenantControlPlane" where
  "mutateAfter scp tcp =
     mutateDeployment scp (mutateLoadBalancer scp (mutateGateway scp (mutateIngress scp
       (setCertSANs scp tcp))))"

text \<open>The owner reference, which an object in another cluster cannot have.\<close>

definition mutateOwner :: "'w env \<Rightarrow> StewardControlPlane \<Rightarrow> bool \<Rightarrow> TenantControlPlane \<Rightarrow> error option \<times> TenantControlPlane" where
  "mutateOwner env scp isDelegatedExternally tcp =
     (if \<not> isDelegatedExternally
      then (case setControllerReferenceTCP env scp tcp of
              Inl e \<Rightarrow> (Some e, tcp)
            | Inr tcp1 \<Rightarrow> (None, tcp1))
      else (None, tcp))"

definition mutateTCP ::
  "'w env \<Rightarrow> Cluster \<Rightarrow> StewardControlPlane \<Rightarrow> bool \<Rightarrow> TenantControlPlane \<Rightarrow>
   error option \<times> TenantControlPlane" where
  "mutateTCP env cluster scp isDelegatedExternally tcp =
     (let tcp1 = mutateBefore env cluster scp tcp
      in case checkCertSANs (net_CertSANs (scp_Network scp)) of
           Some e \<Rightarrow> (Some e, tcp1)
         | None \<Rightarrow> mutateOwner env scp isDelegatedExternally (mutateAfter scp tcp1))"

section \<open>createOrUpdateTenantControlPlane\<close>

definition tcpNamed :: "string \<times> string \<Rightarrow> TenantControlPlane \<Rightarrow> TenantControlPlane" where
  "tcpNamed nn tcp = tcp\<lparr>tcp_meta := (tcp_meta tcp)\<lparr>om_Name := fst nn, om_Namespace := snd nn\<rparr>\<rparr>"

text \<open>The closure that is retried on conflicts; \<open>v_tcp\<close> is the local \<open>tcp\<close>.\<close>

definition applyTCP :: "'w env \<Rightarrow> Manager option \<Rightarrow> Cluster \<Rightarrow> StewardControlPlane \<Rightarrow>
    'w rst \<Rightarrow> error option \<times> 'w rst" where
  "applyTCP env remoteClient cluster scp s =
     (let isDelegatedExternally = (remoteClient \<noteq> None);
          go = (\<lambda>tcp. case logged
                  (k_createOrUpdateTCP (clientOf env remoteClient) tcp
                     (mutateTCP env cluster scp isDelegatedExternally))
                  (\<lambda>r. CreateOrUpdateTCP (targetOf remoteClient) (nsname (tcp_meta tcp)) (fst r)) s of
                  ((e, tcp'), s1) \<Rightarrow> (e, s1\<lparr>v_tcp := tcp'\<rparr>))
      in if isDelegatedExternally
         then (case GenerateRemoteTenantControlPlaneNames scp of
                 None \<Rightarrow> (Some (ErrPanic ''nil ExternalClusterReference''), s)
               | Some nn \<Rightarrow> go (tcpNamed nn (v_tcp s)))
         else go (v_tcp s))"

definition createOrUpdateTenantControlPlane ::
  "'w env \<Rightarrow> Manager option \<Rightarrow> Cluster \<Rightarrow> StewardControlPlane \<Rightarrow> 'w rst \<Rightarrow> error option \<times> 'w rst" where
  "createOrUpdateTenantControlPlane env remoteClient cluster scp s =
     (let tcp = tcpNamed (om_Name (scp_meta scp), om_Namespace (scp_meta scp)) zeroTCP
      in case retryOnConflict env (applyTCP env remoteClient cluster scp) (s\<lparr>v_tcp := tcp\<rparr>) of
           (Some e, s1) \<Rightarrow> (Some (wrapErr ''cannot create or update TenantControlPlane'' e), s1)
         | (None, s1) \<Rightarrow> (None, s1))"

section \<open>Lemmas on the mutate function\<close>

lemmas mutate_defs =
  mutateBefore_def mutateAfter_def mutateMetadata_def mutateClusterNetwork_def mutateVersion_def
  mutateAddons_def mutateDataStore_def mutateComponents_def mutateService_def setCertSANs_def
  mutateIngress_def mutateGateway_def mutateLoadBalancer_def mutateDeployment_def appendSAN_def
  onNetwork_def onDeployment_def

definition mutated :: "'w env \<Rightarrow> Cluster \<Rightarrow> StewardControlPlane \<Rightarrow> TenantControlPlane \<Rightarrow> TenantControlPlane" where
  "mutated env cluster scp tcp = mutateAfter scp (mutateBefore env cluster scp tcp)"

lemma mutateTCP_eq:
  "mutateTCP env cluster scp d tcp =
     (case checkCertSANs (net_CertSANs (scp_Network scp)) of
        Some e \<Rightarrow> (Some e, mutateBefore env cluster scp tcp)
      | None \<Rightarrow>
          if d then (None, mutated env cluster scp tcp)
          else (case setControllerReferenceTCP env scp (mutated env cluster scp tcp) of
                  Inl e \<Rightarrow> (Some e, mutated env cluster scp tcp)
                | Inr t \<Rightarrow> (None, t)))"
  by (simp add: mutateTCP_def mutateOwner_def mutated_def Let_def split: option.split sum.split)

lemma checkCertSANs_None: "checkCertSANs xs = None \<longleftrightarrow> (\<forall>x \<in> set xs. \<exists>e. SplitHostPort x = Inl e)"
  by (induction xs) (auto split: sum.splits)

lemma checkCertSANs_Some:
  "checkCertSANs xs = Some e \<Longrightarrow>
   \<exists>x \<in> set xs. \<exists>hp. SplitHostPort x = Inr hp \<and>
     e = ErrWrap (''entry '' @ x @ '' is invalid'') (Sentinel ErrUnsupportedCertificateSAN)"
  by (induction xs) (auto split: sum.splits)

lemma mutated_SANs:
  "np_CertSANs (tp_NetworkProfile (tcp_spec (mutated env cluster scp tcp))) =
     net_CertSANs (scp_Network scp) @
     (case net_Ingress (scp_Network scp) of None \<Rightarrow> [] | Some i \<Rightarrow> [hostOf (ing_Hostname i)]) @
     (case net_Gateway (scp_Network scp) of None \<Rightarrow> [] | Some g \<Rightarrow> [hostOf (gw_Hostname g)])"
  by (simp add: mutated_def mutateAfter_def setCertSANs_def mutateIngress_def mutateGateway_def
      mutateLoadBalancer_def mutateDeployment_def appendSAN_def onNetwork_def onDeployment_def Let_def
      split: option.split)

lemma normalizeVersion_idem: "normalizeVersion (normalizeVersion v) = normalizeVersion v"
  by (simp add: normalizeVersion_def hasPrefix_def)

lemma overwrite_idem: "overwrite (overwrite b u S) u S = overwrite b u S"
  by (rule ext) (simp add: overwrite_def split: option.split)

lemma mutateMetadata_idem:
  "mutateMetadata env scp (mutateMetadata env scp tcp) = mutateMetadata env scp tcp"
  by (auto simp: mutateMetadata_def Let_def overwrite_def fun_eq_iff split: option.splits)

definition withOwners :: "OwnerReference list \<Rightarrow> TenantControlPlane \<Rightarrow> TenantControlPlane" where
  "withOwners refs t = t\<lparr>tcp_meta := (tcp_meta t)\<lparr>om_OwnerReferences := refs\<rparr>\<rparr>"

text \<open>The part of the mutate function that acts on the spec.\<close>

definition mutateSpec :: "Cluster \<Rightarrow> StewardControlPlane \<Rightarrow> TenantControlPlane \<Rightarrow> TenantControlPlane" where
  "mutateSpec cluster scp tcp =
     mutateAfter scp (mutateService scp (mutateComponents scp (mutateDataStore scp (mutateAddons scp
       (mutateVersion scp (mutateClusterNetwork cluster tcp))))))"

lemma mutated_eq: "mutated env cluster scp tcp = mutateSpec cluster scp (mutateMetadata env scp tcp)"
  by (simp add: mutated_def mutateSpec_def mutateBefore_def)

text \<open>
  Each assignment leaves the other parts of the object alone; the frame lemmas let the simplifier look
  through the chain of assignments one field at a time.
\<close>

lemma onNetwork_frame [simp]:
  "tcp_meta (onNetwork f t) = tcp_meta t"
  "tcp_status (onNetwork f t) = tcp_status t"
  "tp_Deployment (tcp_spec (onNetwork f t)) = tp_Deployment (tcp_spec t)"
  "tp_Service (tcp_spec (onNetwork f t)) = tp_Service (tcp_spec t)"
  "tp_Ingress (tcp_spec (onNetwork f t)) = tp_Ingress (tcp_spec t)"
  "tp_Gateway (tcp_spec (onNetwork f t)) = tp_Gateway (tcp_spec t)"
  "tp_Kubernetes (tcp_spec (onNetwork f t)) = tp_Kubernetes (tcp_spec t)"
  "tp_Addons (tcp_spec (onNetwork f t)) = tp_Addons (tcp_spec t)"
  "tp_DataStore (tcp_spec (onNetwork f t)) = tp_DataStore (tcp_spec t)"
  "tp_DataStoreSchema (tcp_spec (onNetwork f t)) = tp_DataStoreSchema (tcp_spec t)"
  "tp_DataStoreUsername (tcp_spec (onNetwork f t)) = tp_DataStoreUsername (tcp_spec t)"
  "tp_Rest (tcp_spec (onNetwork f t)) = tp_Rest (tcp_spec t)"
  by (simp_all add: onNetwork_def Let_def)

lemma onDeployment_frame [simp]:
  "tcp_meta (onDeployment f t) = tcp_meta t"
  "tcp_status (onDeployment f t) = tcp_status t"
  "tp_NetworkProfile (tcp_spec (onDeployment f t)) = tp_NetworkProfile (tcp_spec t)"
  "tp_Service (tcp_spec (onDeployment f t)) = tp_Service (tcp_spec t)"
  "tp_Ingress (tcp_spec (onDeployment f t)) = tp_Ingress (tcp_spec t)"
  "tp_Gateway (tcp_spec (onDeployment f t)) = tp_Gateway (tcp_spec t)"
  "tp_Kubernetes (tcp_spec (onDeployment f t)) = tp_Kubernetes (tcp_spec t)"
  "tp_Addons (tcp_spec (onDeployment f t)) = tp_Addons (tcp_spec t)"
  "tp_DataStore (tcp_spec (onDeployment f t)) = tp_DataStore (tcp_spec t)"
  "tp_DataStoreSchema (tcp_spec (onDeployment f t)) = tp_DataStoreSchema (tcp_spec t)"
  "tp_DataStoreUsername (tcp_spec (onDeployment f t)) = tp_DataStoreUsername (tcp_spec t)"
  "tp_Rest (tcp_spec (onDeployment f t)) = tp_Rest (tcp_spec t)"
  by (simp_all add: onDeployment_def Let_def)

lemma on_apply [simp]:
  "tp_NetworkProfile (tcp_spec (onNetwork f t)) = f (tp_NetworkProfile (tcp_spec t))"
  "tp_Deployment (tcp_spec (onDeployment g t)) = g (tp_Deployment (tcp_spec t))"
  by (simp_all add: onNetwork_def onDeployment_def)

lemma mutateVersion_frame [simp]:
  "tcp_meta (mutateVersion scp t) = tcp_meta t"
  "tcp_status (mutateVersion scp t) = tcp_status t"
  "tp_NetworkProfile (tcp_spec (mutateVersion scp t)) = tp_NetworkProfile (tcp_spec t)"
  "tp_Service (tcp_spec (mutateVersion scp t)) = tp_Service (tcp_spec t)"
  "tp_Ingress (tcp_spec (mutateVersion scp t)) = tp_Ingress (tcp_spec t)"
  "tp_Gateway (tcp_spec (mutateVersion scp t)) = tp_Gateway (tcp_spec t)"
  "tp_Addons (tcp_spec (mutateVersion scp t)) = tp_Addons (tcp_spec t)"
  "tp_DataStore (tcp_spec (mutateVersion scp t)) = tp_DataStore (tcp_spec t)"
  "tp_DataStoreSchema (tcp_spec (mutateVersion scp t)) = tp_DataStoreSchema (tcp_spec t)"
  "tp_DataStoreUsername (tcp_spec (mutateVersion scp t)) = tp_DataStoreUsername (tcp_spec t)"
  "tp_Rest (tcp_spec (mutateVersion scp t)) = tp_Rest (tcp_spec t)"
  by (simp_all add: mutateVersion_def Let_def)

lemma mutateClusterNetwork_frame [simp]:
  "tcp_meta (mutateClusterNetwork cluster t) = tcp_meta t"
  "tcp_status (mutateClusterNetwork cluster t) = tcp_status t"
  "tp_Deployment (tcp_spec (mutateClusterNetwork cluster t)) = tp_Deployment (tcp_spec t)"
  "tp_Service (tcp_spec (mutateClusterNetwork cluster t)) = tp_Service (tcp_spec t)"
  "tp_Ingress (tcp_spec (mutateClusterNetwork cluster t)) = tp_Ingress (tcp_spec t)"
  "tp_Gateway (tcp_spec (mutateClusterNetwork cluster t)) = tp_Gateway (tcp_spec t)"
  "tp_Kubernetes (tcp_spec (mutateClusterNetwork cluster t)) = tp_Kubernetes (tcp_spec t)"
  "tp_Addons (tcp_spec (mutateClusterNetwork cluster t)) = tp_Addons (tcp_spec t)"
  "tp_DataStore (tcp_spec (mutateClusterNetwork cluster t)) = tp_DataStore (tcp_spec t)"
  "tp_DataStoreSchema (tcp_spec (mutateClusterNetwork cluster t)) = tp_DataStoreSchema (tcp_spec t)"
  "tp_DataStoreUsername (tcp_spec (mutateClusterNetwork cluster t)) = tp_DataStoreUsername (tcp_spec t)"
  "tp_Rest (tcp_spec (mutateClusterNetwork cluster t)) = tp_Rest (tcp_spec t)"
  by (simp_all add: mutateClusterNetwork_def Let_def split: option.split)

lemma mutateAddons_frame [simp]:
  "tcp_meta (mutateAddons scp t) = tcp_meta t"
  "tcp_status (mutateAddons scp t) = tcp_status t"
  "tp_Deployment (tcp_spec (mutateAddons scp t)) = tp_Deployment (tcp_spec t)"
  "tp_Service (tcp_spec (mutateAddons scp t)) = tp_Service (tcp_spec t)"
  "tp_Ingress (tcp_spec (mutateAddons scp t)) = tp_Ingress (tcp_spec t)"
  "tp_Gateway (tcp_spec (mutateAddons scp t)) = tp_Gateway (tcp_spec t)"
  "tp_Kubernetes (tcp_spec (mutateAddons scp t)) = tp_Kubernetes (tcp_spec t)"
  "tp_DataStore (tcp_spec (mutateAddons scp t)) = tp_DataStore (tcp_spec t)"
  "tp_DataStoreSchema (tcp_spec (mutateAddons scp t)) = tp_DataStoreSchema (tcp_spec t)"
  "tp_DataStoreUsername (tcp_spec (mutateAddons scp t)) = tp_DataStoreUsername (tcp_spec t)"
  "tp_Rest (tcp_spec (mutateAddons scp t)) = tp_Rest (tcp_spec t)"
  by (simp_all add: mutateAddons_def Let_def split: option.split)

lemma mutateDataStore_frame [simp]:
  "tcp_meta (mutateDataStore scp t) = tcp_meta t"
  "tcp_status (mutateDataStore scp t) = tcp_status t"
  "tp_NetworkProfile (tcp_spec (mutateDataStore scp t)) = tp_NetworkProfile (tcp_spec t)"
  "tp_Service (tcp_spec (mutateDataStore scp t)) = tp_Service (tcp_spec t)"
  "tp_Ingress (tcp_spec (mutateDataStore scp t)) = tp_Ingress (tcp_spec t)"
  "tp_Gateway (tcp_spec (mutateDataStore scp t)) = tp_Gateway (tcp_spec t)"
  "tp_Addons (tcp_spec (mutateDataStore scp t)) = tp_Addons (tcp_spec t)"
  "tp_Rest (tcp_spec (mutateDataStore scp t)) = tp_Rest (tcp_spec t)"
  by (simp_all add: mutateDataStore_def Let_def)

lemma mutateComponents_frame [simp]:
  "tcp_meta (mutateComponents scp t) = tcp_meta t"
  "tcp_status (mutateComponents scp t) = tcp_status t"
  "tp_NetworkProfile (tcp_spec (mutateComponents scp t)) = tp_NetworkProfile (tcp_spec t)"
  "tp_Service (tcp_spec (mutateComponents scp t)) = tp_Service (tcp_spec t)"
  "tp_Ingress (tcp_spec (mutateComponents scp t)) = tp_Ingress (tcp_spec t)"
  "tp_Gateway (tcp_spec (mutateComponents scp t)) = tp_Gateway (tcp_spec t)"
  "tp_Kubernetes (tcp_spec (mutateComponents scp t)) = tp_Kubernetes (tcp_spec t)"
  "tp_Addons (tcp_spec (mutateComponents scp t)) = tp_Addons (tcp_spec t)"
  "tp_DataStore (tcp_spec (mutateComponents scp t)) = tp_DataStore (tcp_spec t)"
  "tp_DataStoreSchema (tcp_spec (mutateComponents scp t)) = tp_DataStoreSchema (tcp_spec t)"
  "tp_DataStoreUsername (tcp_spec (mutateComponents scp t)) = tp_DataStoreUsername (tcp_spec t)"
  "tp_Rest (tcp_spec (mutateComponents scp t)) = tp_Rest (tcp_spec t)"
  by (simp_all add: mutateComponents_def Let_def)

lemma mutateService_frame [simp]:
  "tcp_meta (mutateService scp t) = tcp_meta t"
  "tcp_status (mutateService scp t) = tcp_status t"
  "tp_Deployment (tcp_spec (mutateService scp t)) = tp_Deployment (tcp_spec t)"
  "tp_Ingress (tcp_spec (mutateService scp t)) = tp_Ingress (tcp_spec t)"
  "tp_Gateway (tcp_spec (mutateService scp t)) = tp_Gateway (tcp_spec t)"
  "tp_Addons (tcp_spec (mutateService scp t)) = tp_Addons (tcp_spec t)"
  "tp_DataStore (tcp_spec (mutateService scp t)) = tp_DataStore (tcp_spec t)"
  "tp_DataStoreSchema (tcp_spec (mutateService scp t)) = tp_DataStoreSchema (tcp_spec t)"
  "tp_DataStoreUsername (tcp_spec (mutateService scp t)) = tp_DataStoreUsername (tcp_spec t)"
  "tp_Rest (tcp_spec (mutateService scp t)) = tp_Rest (tcp_spec t)"
  by (simp_all add: mutateService_def Let_def)

lemma appendSAN_frame [simp]:
  "tcp_meta (appendSAN h t) = tcp_meta t"
  "tcp_status (appendSAN h t) = tcp_status t"
  "tp_Deployment (tcp_spec (appendSAN h t)) = tp_Deployment (tcp_spec t)"
  "tp_Service (tcp_spec (appendSAN h t)) = tp_Service (tcp_spec t)"
  "tp_Ingress (tcp_spec (appendSAN h t)) = tp_Ingress (tcp_spec t)"
  "tp_Gateway (tcp_spec (appendSAN h t)) = tp_Gateway (tcp_spec t)"
  "tp_Kubernetes (tcp_spec (appendSAN h t)) = tp_Kubernetes (tcp_spec t)"
  "tp_Addons (tcp_spec (appendSAN h t)) = tp_Addons (tcp_spec t)"
  "tp_DataStore (tcp_spec (appendSAN h t)) = tp_DataStore (tcp_spec t)"
  "tp_DataStoreSchema (tcp_spec (appendSAN h t)) = tp_DataStoreSchema (tcp_spec t)"
  "tp_DataStoreUsername (tcp_spec (appendSAN h t)) = tp_DataStoreUsername (tcp_spec t)"
  "tp_Rest (tcp_spec (appendSAN h t)) = tp_Rest (tcp_spec t)"
  by (simp_all add: appendSAN_def Let_def)

lemma setCertSANs_frame [simp]:
  "tcp_meta (setCertSANs scp t) = tcp_meta t"
  "tcp_status (setCertSANs scp t) = tcp_status t"
  "tp_Deployment (tcp_spec (setCertSANs scp t)) = tp_Deployment (tcp_spec t)"
  "tp_Service (tcp_spec (setCertSANs scp t)) = tp_Service (tcp_spec t)"
  "tp_Ingress (tcp_spec (setCertSANs scp t)) = tp_Ingress (tcp_spec t)"
  "tp_Gateway (tcp_spec (setCertSANs scp t)) = tp_Gateway (tcp_spec t)"
  "tp_Kubernetes (tcp_spec (setCertSANs scp t)) = tp_Kubernetes (tcp_spec t)"
  "tp_Addons (tcp_spec (setCertSANs scp t)) = tp_Addons (tcp_spec t)"
  "tp_DataStore (tcp_spec (setCertSANs scp t)) = tp_DataStore (tcp_spec t)"
  "tp_DataStoreSchema (tcp_spec (setCertSANs scp t)) = tp_DataStoreSchema (tcp_spec t)"
  "tp_DataStoreUsername (tcp_spec (setCertSANs scp t)) = tp_DataStoreUsername (tcp_spec t)"
  "tp_Rest (tcp_spec (setCertSANs scp t)) = tp_Rest (tcp_spec t)"
  by (simp_all add: setCertSANs_def Let_def)

lemma mutateIngress_frame [simp]:
  "tcp_meta (mutateIngress scp t) = tcp_meta t"
  "tcp_status (mutateIngress scp t) = tcp_status t"
  "tp_Deployment (tcp_spec (mutateIngress scp t)) = tp_Deployment (tcp_spec t)"
  "tp_Service (tcp_spec (mutateIngress scp t)) = tp_Service (tcp_spec t)"
  "tp_Gateway (tcp_spec (mutateIngress scp t)) = tp_Gateway (tcp_spec t)"
  "tp_Kubernetes (tcp_spec (mutateIngress scp t)) = tp_Kubernetes (tcp_spec t)"
  "tp_Addons (tcp_spec (mutateIngress scp t)) = tp_Addons (tcp_spec t)"
  "tp_DataStore (tcp_spec (mutateIngress scp t)) = tp_DataStore (tcp_spec t)"
  "tp_DataStoreSchema (tcp_spec (mutateIngress scp t)) = tp_DataStoreSchema (tcp_spec t)"
  "tp_DataStoreUsername (tcp_spec (mutateIngress scp t)) = tp_DataStoreUsername (tcp_spec t)"
  "tp_Rest (tcp_spec (mutateIngress scp t)) = tp_Rest (tcp_spec t)"
  by (simp_all add: mutateIngress_def Let_def split: option.split)

lemma mutateGateway_frame [simp]:
  "tcp_meta (mutateGateway scp t) = tcp_meta t"
  "tcp_status (mutateGateway scp t) = tcp_status t"
  "tp_Deployment (tcp_spec (mutateGateway scp t)) = tp_Deployment (tcp_spec t)"
  "tp_Service (tcp_spec (mutateGateway scp t)) = tp_Service (tcp_spec t)"
  "tp_Ingress (tcp_spec (mutateGateway scp t)) = tp_Ingress (tcp_spec t)"
  "tp_Kubernetes (tcp_spec (mutateGateway scp t)) = tp_Kubernetes (tcp_spec t)"
  "tp_Addons (tcp_spec (mutateGateway scp t)) = tp_Addons (tcp_spec t)"
  "tp_DataStore (tcp_spec (mutateGateway scp t)) = tp_DataStore (tcp_spec t)"
  "tp_DataStoreSchema (tcp_spec (mutateGateway scp t)) = tp_DataStoreSchema (tcp_spec t)"
  "tp_DataStoreUsername (tcp_spec (mutateGateway scp t)) = tp_DataStoreUsername (tcp_spec t)"
  "tp_Rest (tcp_spec (mutateGateway scp t)) = tp_Rest (tcp_spec t)"
  by (simp_all add: mutateGateway_def Let_def split: option.split)

lemma mutateLoadBalancer_frame [simp]:
  "tcp_meta (mutateLoadBalancer scp t) = tcp_meta t"
  "tcp_status (mutateLoadBalancer scp t) = tcp_status t"
  "tp_Deployment (tcp_spec (mutateLoadBalancer scp t)) = tp_Deployment (tcp_spec t)"
  "tp_Service (tcp_spec (mutateLoadBalancer scp t)) = tp_Service (tcp_spec t)"
  "tp_Ingress (tcp_spec (mutateLoadBalancer scp t)) = tp_Ingress (tcp_spec t)"
  "tp_Gateway (tcp_spec (mutateLoadBalancer scp t)) = tp_Gateway (tcp_spec t)"
  "tp_Kubernetes (tcp_spec (mutateLoadBalancer scp t)) = tp_Kubernetes (tcp_spec t)"
  "tp_Addons (tcp_spec (mutateLoadBalancer scp t)) = tp_Addons (tcp_spec t)"
  "tp_DataStore (tcp_spec (mutateLoadBalancer scp t)) = tp_DataStore (tcp_spec t)"
  "tp_DataStoreSchema (tcp_spec (mutateLoadBalancer scp t)) = tp_DataStoreSchema (tcp_spec t)"
  "tp_DataStoreUsername (tcp_spec (mutateLoadBalancer scp t)) = tp_DataStoreUsername (tcp_spec t)"
  "tp_Rest (tcp_spec (mutateLoadBalancer scp t)) = tp_Rest (tcp_spec t)"
  by (simp_all add: mutateLoadBalancer_def Let_def split: option.split)

lemma mutateDeployment_frame [simp]:
  "tcp_meta (mutateDeployment scp t) = tcp_meta t"
  "tcp_status (mutateDeployment scp t) = tcp_status t"
  "tp_NetworkProfile (tcp_spec (mutateDeployment scp t)) = tp_NetworkProfile (tcp_spec t)"
  "tp_Service (tcp_spec (mutateDeployment scp t)) = tp_Service (tcp_spec t)"
  "tp_Ingress (tcp_spec (mutateDeployment scp t)) = tp_Ingress (tcp_spec t)"
  "tp_Gateway (tcp_spec (mutateDeployment scp t)) = tp_Gateway (tcp_spec t)"
  "tp_Kubernetes (tcp_spec (mutateDeployment scp t)) = tp_Kubernetes (tcp_spec t)"
  "tp_Addons (tcp_spec (mutateDeployment scp t)) = tp_Addons (tcp_spec t)"
  "tp_DataStore (tcp_spec (mutateDeployment scp t)) = tp_DataStore (tcp_spec t)"
  "tp_DataStoreSchema (tcp_spec (mutateDeployment scp t)) = tp_DataStoreSchema (tcp_spec t)"
  "tp_DataStoreUsername (tcp_spec (mutateDeployment scp t)) = tp_DataStoreUsername (tcp_spec t)"
  "tp_Rest (tcp_spec (mutateDeployment scp t)) = tp_Rest (tcp_spec t)"
  by (simp_all add: mutateDeployment_def Let_def)

text \<open>
  What each assignment writes, as a function of the old value of the same part: \<open>TCPSpec\<close> splits into
  parts that are computed independently of each other.
\<close>

definition networkOf :: "Cluster \<Rightarrow> StewardControlPlane \<Rightarrow> TCPNetworkProfile \<Rightarrow> TCPNetworkProfile" where
  "networkOf cluster scp np =
     (let net = scp_Network scp; fields = spec_Fields (scp_Spec scp); cn = cl_ClusterNetwork cluster;
          lb = net_LoadBalancerConfig net
      in np\<lparr>np_Address := net_ServiceAddress net,
            np_Port := (case cn of None \<Rightarrow> np_Port np | Some c \<Rightarrow>
               (case cn_APIServerPort c of Some p \<Rightarrow> p | None \<Rightarrow> np_Port np)),
            np_ServiceCIDR := (case cn of None \<Rightarrow> np_ServiceCIDR np | Some c \<Rightarrow> firstOr (np_ServiceCIDR np) (cn_Services c)),
            np_PodCIDR := (case cn of None \<Rightarrow> np_PodCIDR np | Some c \<Rightarrow> firstOr (np_PodCIDR np) (cn_Pods c)),
            np_ClusterDomain := (case cn of None \<Rightarrow> np_ClusterDomain np | Some c \<Rightarrow> cn_ServiceDomain c),
            np_DNSServiceIPs := (case addons_CoreDNS (Addons fields) of
               None \<Rightarrow> net_DNSServiceIPs net | Some dns \<Rightarrow> dns_DNSServiceIPs dns),
            np_CertSANs := net_CertSANs net @
               (case net_Ingress net of None \<Rightarrow> [] | Some i \<Rightarrow> [hostOf (ing_Hostname i)]) @
               (case net_Gateway net of None \<Rightarrow> [] | Some g \<Rightarrow> [hostOf (gw_Hostname g)]),
            np_LoadBalancerClass := (case lb of None \<Rightarrow> np_LoadBalancerClass np | Some l \<Rightarrow>
               (case lb_Class l of Some c \<Rightarrow> Some c | None \<Rightarrow> np_LoadBalancerClass np)),
            np_LoadBalancerSourceRanges := (case lb of None \<Rightarrow> np_LoadBalancerSourceRanges np | Some l \<Rightarrow>
               (case lb_SourceRanges l of Some r \<Rightarrow> Some r | None \<Rightarrow> np_LoadBalancerSourceRanges np))\<rparr>)"

lemma mutate_network_writes [simp]:
  "tp_NetworkProfile (tcp_spec (mutateClusterNetwork cluster t)) =
     (case cl_ClusterNetwork cluster of None \<Rightarrow> tp_NetworkProfile (tcp_spec t) | Some cn \<Rightarrow>
       (let np = tp_NetworkProfile (tcp_spec t) in np\<lparr>
         np_Port := (case cn_APIServerPort cn of Some p \<Rightarrow> p | None \<Rightarrow> np_Port np),
         np_ServiceCIDR := firstOr (np_ServiceCIDR np) (cn_Services cn),
         np_PodCIDR := firstOr (np_PodCIDR np) (cn_Pods cn),
         np_ClusterDomain := cn_ServiceDomain cn\<rparr>))"
  "tp_NetworkProfile (tcp_spec (mutateAddons scp t)) =
     (tp_NetworkProfile (tcp_spec t))\<lparr>np_DNSServiceIPs :=
        (case addons_CoreDNS (Addons (spec_Fields (scp_Spec scp))) of
           None \<Rightarrow> net_DNSServiceIPs (scp_Network scp) | Some dns \<Rightarrow> dns_DNSServiceIPs dns)\<rparr>"
  "tp_NetworkProfile (tcp_spec (mutateService scp t)) =
     (tp_NetworkProfile (tcp_spec t))\<lparr>np_Address := net_ServiceAddress (scp_Network scp)\<rparr>"
  "tp_NetworkProfile (tcp_spec (setCertSANs scp t)) =
     (tp_NetworkProfile (tcp_spec t))\<lparr>np_CertSANs := net_CertSANs (scp_Network scp)\<rparr>"
  "tp_NetworkProfile (tcp_spec (mutateIngress scp t)) =
     (let np = tp_NetworkProfile (tcp_spec t) in np\<lparr>np_CertSANs := np_CertSANs np @
        (case net_Ingress (scp_Network scp) of None \<Rightarrow> [] | Some i \<Rightarrow> [hostOf (ing_Hostname i)])\<rparr>)"
  "tp_NetworkProfile (tcp_spec (mutateGateway scp t)) =
     (let np = tp_NetworkProfile (tcp_spec t) in np\<lparr>np_CertSANs := np_CertSANs np @
        (case net_Gateway (scp_Network scp) of None \<Rightarrow> [] | Some g \<Rightarrow> [hostOf (gw_Hostname g)])\<rparr>)"
  "tp_NetworkProfile (tcp_spec (mutateLoadBalancer scp t)) =
     (case net_LoadBalancerConfig (scp_Network scp) of None \<Rightarrow> tp_NetworkProfile (tcp_spec t) | Some lb \<Rightarrow>
       (let np = tp_NetworkProfile (tcp_spec t) in np\<lparr>
         np_LoadBalancerClass := (case lb_Class lb of Some c \<Rightarrow> Some c | None \<Rightarrow> np_LoadBalancerClass np),
         np_LoadBalancerSourceRanges :=
           (case lb_SourceRanges lb of Some r \<Rightarrow> Some r | None \<Rightarrow> np_LoadBalancerSourceRanges np)\<rparr>))"
  by (simp_all add: mutateClusterNetwork_def mutateAddons_def mutateService_def setCertSANs_def
      mutateIngress_def mutateGateway_def mutateLoadBalancer_def appendSAN_def Let_def
      split: option.split)

lemma mutateSpec_network:
  "tp_NetworkProfile (tcp_spec (mutateSpec cluster scp t)) =
     networkOf cluster scp (tp_NetworkProfile (tcp_spec t))"
  by (rule TCPNetworkProfile.equality)
    (simp_all add: mutateSpec_def mutateAfter_def networkOf_def Let_def split: option.split)

lemma networkOf_idem: "networkOf cluster scp (networkOf cluster scp np) = networkOf cluster scp np"
  by (rule TCPNetworkProfile.equality)
    (simp_all add: networkOf_def Let_def firstOr_def split: option.split list.split)

definition deploymentOf :: "StewardControlPlane \<Rightarrow> TCPDeployment \<Rightarrow> TCPDeployment" where
  "deploymentOf scp d =
     (let fields = spec_Fields (scp_Spec scp); dep = scp_Deployment scp
      in d\<lparr>td_Replicas := spec_Replicas (scp_Spec scp),
           td_RegistrySettings := (td_RegistrySettings d)\<lparr>
             rs_Registry := ContainerRegistry fields,
             rs_ControllerManagerImage := ContainerImageName (ControllerManager fields),
             rs_SchedulerImage := ContainerImageName (Scheduler fields),
             rs_APIServerImage := ContainerImageName (ApiServer fields)\<rparr>,
           td_AdditionalVolumeMounts := Some \<lparr>
             vm_ControllerManager = ExtraVolumeMounts (ControllerManager fields),
             vm_Scheduler = ExtraVolumeMounts (Scheduler fields),
             vm_APIServer = ExtraVolumeMounts (ApiServer fields)\<rparr>,
           td_ExtraArgs := Some \<lparr>
             ea_ControllerManager = ExtraArgs (ControllerManager fields),
             ea_Scheduler = ExtraArgs (Scheduler fields),
             ea_APIServer = ExtraArgs (ApiServer fields),
             ea_Kine = kine_ExtraArgs (Kine fields)\<rparr>,
           td_Resources := Some \<lparr>
             cr_ControllerManager = Some (Resources (ControllerManager fields)),
             cr_Scheduler = Some (Resources (Scheduler fields)),
             cr_APIServer = Some (Resources (ApiServer fields)),
             cr_Kine = Some (kine_Resources (Kine fields))\<rparr>,
           td_NodeSelector := dep_NodeSelector dep,
           td_RuntimeClassName := dep_RuntimeClassName dep,
           td_ServiceAccountName := dep_ServiceAccountName dep,
           td_AdditionalMetadata := dep_AdditionalMetadata dep,
           td_PodAdditionalMetadata := dep_PodAdditionalMetadata dep,
           td_Strategy := dep_Strategy dep,
           td_Affinity := dep_Affinity dep,
           td_Tolerations := dep_Tolerations dep,
           td_TopologySpreadConstraints := dep_TopologySpreadConstraints dep,
           td_AdditionalInitContainers := dep_ExtraInitContainers dep,
           td_AdditionalContainers := dep_ExtraContainers dep,
           td_AdditionalVolumes := dep_ExtraVolumes dep\<rparr>)"

lemma mutate_deployment_writes [simp]:
  "tp_Deployment (tcp_spec (mutateVersion scp t)) =
     (tp_Deployment (tcp_spec t))\<lparr>td_Replicas := spec_Replicas (scp_Spec scp)\<rparr>"
  "tp_Deployment (tcp_spec (mutateDataStore scp t)) =
     (let d = tp_Deployment (tcp_spec t) in d\<lparr>td_RegistrySettings :=
       (td_RegistrySettings d)\<lparr>rs_Registry := ContainerRegistry (spec_Fields (scp_Spec scp))\<rparr>\<rparr>)"
  by (simp_all add: mutateVersion_def mutateDataStore_def Let_def)

lemma mutateSpec_deployment:
  "tp_Deployment (tcp_spec (mutateSpec cluster scp t)) =
     deploymentOf scp (tp_Deployment (tcp_spec t))"
  by (rule TCPDeployment.equality)
    (simp_all add: mutateSpec_def mutateAfter_def mutateComponents_def mutateDeployment_def
      deploymentOf_def Let_def)

lemma deploymentOf_idem: "deploymentOf scp (deploymentOf scp d) = deploymentOf scp d"
  by (rule TCPDeployment.equality) (simp_all add: deploymentOf_def Let_def)

lemma mutate_other_writes [simp]:
  "tp_Service (tcp_spec (mutateService scp t)) = (tp_Service (tcp_spec t))\<lparr>
     ts_ServiceType := net_ServiceType (scp_Network scp),
     ts_AdditionalMetadata := \<lparr>am_Labels = net_ServiceLabels (scp_Network scp),
       am_Annotations = net_ServiceAnnotations (scp_Network scp)\<rparr>\<rparr>"
  "tp_Kubernetes (tcp_spec (mutateVersion scp t)) =
     (tp_Kubernetes (tcp_spec t))\<lparr>tk_Version := normalizeVersion (spec_Version (scp_Spec scp))\<rparr>"
  "tp_Kubernetes (tcp_spec (mutateDataStore scp t)) =
     (tp_Kubernetes (tcp_spec t))\<lparr>tk_AdmissionControllers := AdmissionControllers (spec_Fields (scp_Spec scp))\<rparr>"
  "tp_Kubernetes (tcp_spec (mutateService scp t)) =
     (tp_Kubernetes (tcp_spec t))\<lparr>tk_Kubelet := Kubelet (spec_Fields (scp_Spec scp))\<rparr>"
  "tp_DataStore (tcp_spec (mutateDataStore scp t)) = DataStoreName (spec_Fields (scp_Spec scp))"
  "tp_DataStoreSchema (tcp_spec (mutateDataStore scp t)) =
     (if DataStoreSchema (spec_Fields (scp_Spec scp)) \<noteq> [] then DataStoreSchema (spec_Fields (scp_Spec scp))
      else tp_DataStoreSchema (tcp_spec t))"
  "tp_DataStoreUsername (tcp_spec (mutateDataStore scp t)) =
     (if DataStoreUsername (spec_Fields (scp_Spec scp)) \<noteq> [] then DataStoreUsername (spec_Fields (scp_Spec scp))
      else tp_DataStoreUsername (tcp_spec t))"
  by (simp_all add: mutateService_def mutateVersion_def mutateDataStore_def Let_def)

lemma mutate_option_writes [simp]:
  "tp_Ingress (tcp_spec (mutateIngress scp t)) =
     map_option (\<lambda>ing. \<lparr>
       is_AdditionalMetadata = \<lparr>am_Labels = ing_ExtraLabels ing, am_Annotations = ing_ExtraAnnotations ing\<rparr>,
       is_IngressClassName = ing_ClassName ing, is_Hostname = ing_Hostname ing,
       is_ControllerType = ing_ControllerType ing\<rparr>) (net_Ingress (scp_Network scp))"
  "tp_Gateway (tcp_spec (mutateGateway scp t)) =
     map_option (\<lambda>gw. \<lparr>
       gs_AdditionalMetadata = \<lparr>am_Labels = gw_ExtraLabels gw, am_Annotations = gw_ExtraAnnotations gw\<rparr>,
       gs_GatewayParentRefs = gw_ParentRefs gw, gs_Hostname = gw_Hostname gw\<rparr>)
       (net_Gateway (scp_Network scp))"
  "tp_Addons (tcp_spec (mutateAddons scp t)) =
     (let a = Addons (spec_Fields (scp_Spec scp)) in
      case addons_CoreDNS a of
        None \<Rightarrow> addons_AddonsSpec a
      | Some dns \<Rightarrow> (addons_AddonsSpec a)\<lparr>ad_CoreDNS := Some (orNew (dns_AddonSpec dns) emptyAddonSpec)\<rparr>)"
  by (simp_all add: mutateIngress_def mutateGateway_def mutateAddons_def orNew_def Let_def
      split: option.split)

lemma mutateSpec_rest:
  "tp_Service (tcp_spec (mutateSpec cluster scp t)) = (tp_Service (tcp_spec t))\<lparr>
     ts_ServiceType := net_ServiceType (scp_Network scp),
     ts_AdditionalMetadata := \<lparr>am_Labels = net_ServiceLabels (scp_Network scp),
       am_Annotations = net_ServiceAnnotations (scp_Network scp)\<rparr>\<rparr>"
  "tp_Ingress (tcp_spec (mutateSpec cluster scp t)) =
     map_option (\<lambda>ing. \<lparr>
       is_AdditionalMetadata = \<lparr>am_Labels = ing_ExtraLabels ing, am_Annotations = ing_ExtraAnnotations ing\<rparr>,
       is_IngressClassName = ing_ClassName ing, is_Hostname = ing_Hostname ing,
       is_ControllerType = ing_ControllerType ing\<rparr>) (net_Ingress (scp_Network scp))"
  "tp_Gateway (tcp_spec (mutateSpec cluster scp t)) =
     map_option (\<lambda>gw. \<lparr>
       gs_AdditionalMetadata = \<lparr>am_Labels = gw_ExtraLabels gw, am_Annotations = gw_ExtraAnnotations gw\<rparr>,
       gs_GatewayParentRefs = gw_ParentRefs gw, gs_Hostname = gw_Hostname gw\<rparr>)
       (net_Gateway (scp_Network scp))"
  "tp_Kubernetes (tcp_spec (mutateSpec cluster scp t)) = \<lparr>
     tk_Version = normalizeVersion (spec_Version (scp_Spec scp)),
     tk_AdmissionControllers = AdmissionControllers (spec_Fields (scp_Spec scp)),
     tk_Kubelet = Kubelet (spec_Fields (scp_Spec scp))\<rparr>"
  "tp_Addons (tcp_spec (mutateSpec cluster scp t)) =
     (let a = Addons (spec_Fields (scp_Spec scp)) in
      case addons_CoreDNS a of
        None \<Rightarrow> addons_AddonsSpec a
      | Some dns \<Rightarrow> (addons_AddonsSpec a)\<lparr>ad_CoreDNS := Some (orNew (dns_AddonSpec dns) emptyAddonSpec)\<rparr>)"
  "tp_DataStore (tcp_spec (mutateSpec cluster scp t)) = DataStoreName (spec_Fields (scp_Spec scp))"
  "tp_DataStoreSchema (tcp_spec (mutateSpec cluster scp t)) =
     (if DataStoreSchema (spec_Fields (scp_Spec scp)) \<noteq> [] then DataStoreSchema (spec_Fields (scp_Spec scp))
      else tp_DataStoreSchema (tcp_spec t))"
  "tp_DataStoreUsername (tcp_spec (mutateSpec cluster scp t)) =
     (if DataStoreUsername (spec_Fields (scp_Spec scp)) \<noteq> [] then DataStoreUsername (spec_Fields (scp_Spec scp))
      else tp_DataStoreUsername (tcp_spec t))"
  "tp_Rest (tcp_spec (mutateSpec cluster scp t)) = tp_Rest (tcp_spec t)"
  by (simp_all add: mutateSpec_def mutateAfter_def)

lemma mutateSpec_meta [simp]: "tcp_meta (mutateSpec cluster scp t) = tcp_meta t"
  and mutateSpec_status [simp]: "tcp_status (mutateSpec cluster scp t) = tcp_status t"
  by (simp_all add: mutateSpec_def mutateAfter_def)

lemma mutateSpec_spec_cong:
  "tcp_spec t = tcp_spec u \<Longrightarrow> tcp_spec (mutateSpec cluster scp t) = tcp_spec (mutateSpec cluster scp u)"
  by (rule TCPSpec.equality)
    (simp_all add: mutateSpec_network mutateSpec_deployment mutateSpec_rest)

lemma mutateSpec_idem:
  "tcp_spec (mutateSpec cluster scp (mutateSpec cluster scp t)) = tcp_spec (mutateSpec cluster scp t)"
  by (rule TCPSpec.equality)
    (simp_all add: mutateSpec_network mutateSpec_deployment mutateSpec_rest networkOf_idem
      deploymentOf_idem)

lemma mutateMetadata_withOwners:
  "mutateMetadata env scp (withOwners r t) = withOwners r (mutateMetadata env scp t)"
  by (simp add: mutateMetadata_def withOwners_def Let_def)

lemma mutateMetadata_frame [simp]:
  "tcp_spec (mutateMetadata env scp t) = tcp_spec t"
  "tcp_status (mutateMetadata env scp t) = tcp_status t"
  "om_Name (tcp_meta (mutateMetadata env scp t)) = om_Name (tcp_meta t)"
  "om_Namespace (tcp_meta (mutateMetadata env scp t)) = om_Namespace (tcp_meta t)"
  "om_Labels (tcp_meta (mutateMetadata env scp t)) = om_Labels (scp_meta scp)"
  by (simp_all add: mutateMetadata_def Let_def)

lemma mutated_withOwners_idem:
  "mutated env cluster scp (withOwners r (mutated env cluster scp t)) =
   withOwners r (mutated env cluster scp t)"
proof (rule TenantControlPlane.equality)
  let ?m = "mutateMetadata env scp" and ?u = "mutateSpec cluster scp (mutateMetadata env scp t)"
  have meta: "tcp_meta (?m x) = tcp_meta (?m y)" if "tcp_meta x = tcp_meta y" for x y
    using that by (simp add: mutateMetadata_def Let_def)
  have "tcp_meta (?m (withOwners r ?u)) = tcp_meta (?m (withOwners r (?m t)))"
    by (rule meta) (simp add: withOwners_def)
  also have "\<dots> = tcp_meta (withOwners r (?m t))"
    by (simp add: mutateMetadata_withOwners mutateMetadata_idem)
  finally show "tcp_meta (mutated env cluster scp (withOwners r (mutated env cluster scp t))) =
    tcp_meta (withOwners r (mutated env cluster scp t))"
    by (simp add: mutated_eq withOwners_def)
  have "tcp_spec (mutateSpec cluster scp (?m (withOwners r ?u))) = tcp_spec (mutateSpec cluster scp ?u)"
    by (rule mutateSpec_spec_cong) (simp add: withOwners_def)
  then show "tcp_spec (mutated env cluster scp (withOwners r (mutated env cluster scp t))) =
    tcp_spec (withOwners r (mutated env cluster scp t))"
    by (simp add: mutated_eq mutateSpec_idem withOwners_def)
qed (simp_all add: mutated_eq withOwners_def)

text \<open>
  \<open>controllerutil.SetControllerReference\<close> changes nothing but the owner references, and has nothing
  left to change when it is applied again.
\<close>

definition ownerContract ::
  "(StewardControlPlane \<Rightarrow> TenantControlPlane \<Rightarrow> error + TenantControlPlane) \<Rightarrow> bool" where
  "ownerContract f \<longleftrightarrow>
     (\<forall>scp x y. f scp x = Inr y \<longrightarrow> (\<exists>r. y = withOwners r x) \<and> f scp y = Inr y)"

lemma sample_ownerContract [simp]: "ownerContract (setControllerReferenceTCP sampleEnv)"
  by (auto simp: ownerContract_def sampleEnv_def withOwners_def ownedBy_def)

lemma withOwners_id: "withOwners (om_OwnerReferences (tcp_meta t)) t = t"
  by (simp add: withOwners_def)

lemma mutateTCP_NoneD:
  assumes "ownerContract (setControllerReferenceTCP env)"
    and "mutateTCP env cluster scp d tcp = (None, t)"
  shows "\<exists>r. t = withOwners r (mutated env cluster scp tcp)"
  using assms
  by (auto simp: mutateTCP_eq ownerContract_def intro: withOwners_id [symmetric]
      split: option.splits if_splits sum.splits)

section \<open>Properties\<close>

text \<open>
  (C20) The desired state is a fixed point: running the mutate function on its own result changes
  nothing, so a \<open>TenantControlPlane\<close> that is in line is not written again.
\<close>

theorem mutateTCP_idempotent:
  assumes "ownerContract (setControllerReferenceTCP env)"
    and "mutateTCP env cluster scp d tcp = (None, t)"
  shows "mutateTCP env cluster scp d t = (None, t)"
proof -
  from mutateTCP_NoneD [OF assms] obtain r where t: "t = withOwners r (mutated env cluster scp tcp)" ..
  then have "mutated env cluster scp t = t" by (simp add: mutated_withOwners_idem)
  with assms show ?thesis
    by (auto simp: mutateTCP_eq ownerContract_def split: option.splits if_splits sum.splits)
qed

theorem mutateTCP_idempotent_witness:
  "mutateTCP sampleEnv zeroCluster zeroSCP False
     (withOwners (om_OwnerReferences (ownedBy zeroSCP zeroMeta)) (mutated sampleEnv zeroCluster zeroSCP zeroTCP)) =
   (None, withOwners (om_OwnerReferences (ownedBy zeroSCP zeroMeta)) (mutated sampleEnv zeroCluster zeroSCP zeroTCP))"
  by (rule mutateTCP_idempotent [OF sample_ownerContract, where tcp = zeroTCP])
    (simp add: mutateTCP_eq sampleEnv_def withOwners_def ownedBy_def zeroSCP_def zeroFields_def
      zeroNetwork_def)

text \<open>
  The desired state, written down field by field and without the assignments of the code: what the \<open>Cluster\<close> and the
  \<open>StewardControlPlane\<close> ask for, over the object as it was. \<open>deploymentOf\<close>, above, is the part for the Deployment.
\<close>

definition publicName :: "string \<Rightarrow> string" where
  "publicName h = (case SplitHostPort h of Inl _ \<Rightarrow> h | Inr hp \<Rightarrow> fst hp)"

definition desiredNetwork :: "Cluster \<Rightarrow> StewardControlPlaneFields \<Rightarrow> TCPNetworkProfile \<Rightarrow> TCPNetworkProfile" where
  "desiredNetwork cluster sf old =
     (let net = Network sf; cn = cl_ClusterNetwork cluster; lb = net_LoadBalancerConfig net
      in \<lparr>np_Address = net_ServiceAddress net,
          np_Port = (case Option.bind cn cn_APIServerPort of Some p \<Rightarrow> p | None \<Rightarrow> np_Port old),
          np_ServiceCIDR = (case Option.bind cn cn_Services of Some (b # _) \<Rightarrow> b | _ \<Rightarrow> np_ServiceCIDR old),
          np_PodCIDR = (case Option.bind cn cn_Pods of Some (b # _) \<Rightarrow> b | _ \<Rightarrow> np_PodCIDR old),
          np_ClusterDomain = (case cn of Some c \<Rightarrow> cn_ServiceDomain c | None \<Rightarrow> np_ClusterDomain old),
          np_DNSServiceIPs = (case addons_CoreDNS (Addons sf) of None \<Rightarrow> net_DNSServiceIPs net | Some d \<Rightarrow> dns_DNSServiceIPs d),
          np_CertSANs = net_CertSANs net @
            (case net_Ingress net of None \<Rightarrow> [] | Some i \<Rightarrow> [publicName (ing_Hostname i)]) @
            (case net_Gateway net of None \<Rightarrow> [] | Some g \<Rightarrow> [publicName (gw_Hostname g)]),
          np_LoadBalancerClass = (case Option.bind lb lb_Class of Some c \<Rightarrow> Some c | None \<Rightarrow> np_LoadBalancerClass old),
          np_LoadBalancerSourceRanges =
            (case Option.bind lb lb_SourceRanges of Some rs \<Rightarrow> Some rs | None \<Rightarrow> np_LoadBalancerSourceRanges old),
          np_Rest = np_Rest old\<rparr>)"

definition desiredSpec :: "Cluster \<Rightarrow> StewardControlPlane \<Rightarrow> TCPSpec \<Rightarrow> TCPSpec" where
  "desiredSpec cluster scp old =
     (let sf = spec_Fields (scp_Spec scp); net = Network sf; version = spec_Version (scp_Spec scp)
      in \<lparr>tp_NetworkProfile = desiredNetwork cluster sf (tp_NetworkProfile old),
          tp_Deployment = deploymentOf scp (tp_Deployment old),
          tp_Service = \<lparr>ts_ServiceType = net_ServiceType net,
            ts_AdditionalMetadata = \<lparr>am_Labels = net_ServiceLabels net, am_Annotations = net_ServiceAnnotations net\<rparr>,
            ts_Rest = ts_Rest (tp_Service old)\<rparr>,
          tp_Ingress = (case net_Ingress net of None \<Rightarrow> None | Some i \<Rightarrow> Some \<lparr>
            is_AdditionalMetadata = \<lparr>am_Labels = ing_ExtraLabels i, am_Annotations = ing_ExtraAnnotations i\<rparr>,
            is_IngressClassName = ing_ClassName i, is_Hostname = ing_Hostname i, is_ControllerType = ing_ControllerType i\<rparr>),
          tp_Gateway = (case net_Gateway net of None \<Rightarrow> None | Some g \<Rightarrow> Some \<lparr>
            gs_AdditionalMetadata = \<lparr>am_Labels = gw_ExtraLabels g, am_Annotations = gw_ExtraAnnotations g\<rparr>,
            gs_GatewayParentRefs = gw_ParentRefs g, gs_Hostname = gw_Hostname g\<rparr>),
          tp_Kubernetes = \<lparr>tk_Version = (if hasPrefix version ''v'' then version else ''v'' @ version),
            tk_AdmissionControllers = AdmissionControllers sf, tk_Kubelet = Kubelet sf\<rparr>,
          tp_Addons = \<lparr>ad_CoreDNS = (case addons_CoreDNS (Addons sf) of
              None \<Rightarrow> ad_CoreDNS (addons_AddonsSpec (Addons sf))
            | Some d \<Rightarrow> (case dns_AddonSpec d of None \<Rightarrow> Some (JObj []) | Some a \<Rightarrow> Some a)),
            ad_Rest = ad_Rest (addons_AddonsSpec (Addons sf))\<rparr>,
          tp_DataStore = DataStoreName sf,
          tp_DataStoreSchema = (if DataStoreSchema sf = '''' then tp_DataStoreSchema old else DataStoreSchema sf),
          tp_DataStoreUsername = (if DataStoreUsername sf = '''' then tp_DataStoreUsername old else DataStoreUsername sf),
          tp_Rest = tp_Rest old\<rparr>)"

definition desiredAnnotation :: "'w env \<Rightarrow> StewardControlPlane \<Rightarrow> smap \<Rightarrow> smap" where
  "desiredAnnotation env scp old k =
     (if k = KubeconfigSecretKeyAnnotation env then
        (if om_Annotations (scp_meta scp) k = Some '''' then None else om_Annotations (scp_meta scp) k)
      else if k = LastAppliedConfigAnnotation env \<or> om_Annotations (scp_meta scp) k = None then old k
      else om_Annotations (scp_meta scp) k)"

lemma mutateSpec_desired: "tcp_spec (mutateSpec cluster scp t) = desiredSpec cluster scp (tcp_spec t)"
proof (rule TCPSpec.equality)
  have "networkOf cluster scp np = desiredNetwork cluster (spec_Fields (scp_Spec scp)) np" for np
    by (rule TCPNetworkProfile.equality)
      (simp_all add: networkOf_def desiredNetwork_def firstOr_def hostOf_def publicName_def Let_def
        split: option.split list.split sum.split prod.split)
  then show "tp_NetworkProfile (tcp_spec (mutateSpec cluster scp t)) = tp_NetworkProfile (desiredSpec cluster scp (tcp_spec t))"
    by (simp add: mutateSpec_network desiredSpec_def Let_def)
  show "tp_Addons (tcp_spec (mutateSpec cluster scp t)) = tp_Addons (desiredSpec cluster scp (tcp_spec t))"
    by (simp add: mutateSpec_rest desiredSpec_def orNew_def emptyAddonSpec_def Let_def split: option.split)
qed (simp_all add: mutateSpec_deployment mutateSpec_rest desiredSpec_def normalizeVersion_def Let_def split: option.split)

lemma mutateMetadata_desired:
  "tcp_meta (mutateMetadata env scp t) = (tcp_meta t)\<lparr>om_Labels := om_Labels (scp_meta scp),
     om_Annotations := desiredAnnotation env scp (om_Annotations (tcp_meta t))\<rparr>"
  by (rule ObjectMeta.equality)
    (auto simp: mutateMetadata_def desiredAnnotation_def overwrite_def Let_def fun_eq_iff split: option.split)

text \<open>
  (C15) What the mutate function makes of a \<open>TenantControlPlane\<close>, completely: the spec is the desired one, every field of it; of the
  metadata the labels are those of the \<open>StewardControlPlane\<close>, the annotations are merged from it, without the
  configuration last applied and with the key of the kubeconfig only if one is named, and the owner is set for an object of the same cluster
  only; everything else, the name and the status included, is kept.
\<close>

theorem mutateTCP_result:
  assumes "ownerContract (setControllerReferenceTCP env)"
    and "mutateTCP env cluster scp d tcp = (None, t)"
  shows "tcp_spec t = desiredSpec cluster scp (tcp_spec tcp) \<and>
    (\<exists>owners. tcp_meta t = (tcp_meta tcp)\<lparr>om_Labels := om_Labels (scp_meta scp),
        om_Annotations := desiredAnnotation env scp (om_Annotations (tcp_meta tcp)), om_OwnerReferences := owners\<rparr> \<and>
      (if d then owners = om_OwnerReferences (tcp_meta tcp) else setControllerReferenceTCP env scp t = Inr t)) \<and>
    tcp_status t = tcp_status tcp"
proof -
  let ?m = "mutated env cluster scp tcp"
  have m: "tcp_spec ?m = desiredSpec cluster scp (tcp_spec tcp)" "tcp_status ?m = tcp_status tcp"
    "tcp_meta ?m = (tcp_meta tcp)\<lparr>om_Labels := om_Labels (scp_meta scp),
       om_Annotations := desiredAnnotation env scp (om_Annotations (tcp_meta tcp))\<rparr>"
    by (simp_all add: mutated_eq mutateSpec_desired mutateMetadata_desired)
  show ?thesis
  proof (cases d)
    case True
    with assms(2) have "t = ?m" by (auto simp: mutateTCP_eq split: option.splits)
    with m True show ?thesis by simp
  next
    case False
    with assms(2) have o: "setControllerReferenceTCP env scp ?m = Inr t" by (auto simp: mutateTCP_eq split: option.splits sum.splits)
    with assms(1) obtain refs where "t = withOwners refs ?m" "setControllerReferenceTCP env scp t = Inr t"
      unfolding ownerContract_def by blast
    with m False show ?thesis by (auto simp: withOwners_def)
  qed
qed

theorem mutateTCP_result_witness:
  "\<exists>t. mutateTCP sampleEnv zeroCluster (zeroSCP\<lparr>scp_Spec := (scp_Spec zeroSCP)\<lparr>spec_Version := ''1.29.0''\<rparr>\<rparr>) False zeroTCP = (None, t) \<and>
     tk_Version (tp_Kubernetes (tcp_spec t)) = ''v1.29.0''"
proof -
  let ?scp = "zeroSCP\<lparr>scp_Spec := (scp_Spec zeroSCP)\<lparr>spec_Version := ''1.29.0''\<rparr>\<rparr>"
  obtain t where t: "mutateTCP sampleEnv zeroCluster ?scp False zeroTCP = (None, t)"
    by (simp add: mutateTCP_eq sampleEnv_def zeroSCP_def zeroFields_def zeroNetwork_def)
  from mutateTCP_result [OF sample_ownerContract t] have "tcp_spec t = desiredSpec zeroCluster ?scp (tcp_spec zeroTCP)" by simp
  then have "tk_Version (tp_Kubernetes (tcp_spec t)) = ''v1.29.0''" by (simp add: desiredSpec_def hasPrefix_def Let_def)
  with t show ?thesis by blast
qed

text \<open>
  A remote \<open>TenantControlPlane\<close> is refused exactly when some certificate SAN carries a port, and
  then with an error that is \<open>ErrUnsupportedCertificateSAN\<close>.
\<close>

theorem mutateTCP_certSANs:
  "(fst (mutateTCP env cluster scp True tcp) = None \<longleftrightarrow>
      (\<nexists>x h p. x \<in> set (net_CertSANs (scp_Network scp)) \<and> SplitHostPort x = Inr (h, p))) \<and>
   (\<nexists>e. fst (mutateTCP env cluster scp True tcp) = Some e \<and> \<not> errors_Is e ErrUnsupportedCertificateSAN)"
proof (cases "checkCertSANs (net_CertSANs (scp_Network scp))")
  case None
  then show ?thesis
    using checkCertSANs_None [of "net_CertSANs (scp_Network scp)"] by (fastforce simp: mutateTCP_eq)
next
  case (Some e)
  from checkCertSANs_Some [OF this] show ?thesis using Some by (force simp: mutateTCP_eq)
qed

text \<open>
  Annotations of the \<open>StewardControlPlane\<close> reach the \<open>TenantControlPlane\<close>, those set there by
  others stay, the last-applied configuration of kubectl is never copied, and the annotation that
  names the kubeconfig key is present exactly when the \<open>StewardControlPlane\<close> has a non-empty one.
\<close>

theorem mutateTCP_annotations:
  assumes "ownerContract (setControllerReferenceTCP env)"
    and "mutateTCP env cluster scp d tcp = (None, t)"
  shows "om_Annotations (tcp_meta t) k =
    (if k = KubeconfigSecretKeyAnnotation env then
       (case om_Annotations (scp_meta scp) k of Some v \<Rightarrow> if v = [] then None else Some v | None \<Rightarrow> None)
     else if k = LastAppliedConfigAnnotation env then om_Annotations (tcp_meta tcp) k
     else (case om_Annotations (scp_meta scp) k of Some v \<Rightarrow> Some v | None \<Rightarrow> om_Annotations (tcp_meta tcp) k))"
proof -
  from mutateTCP_NoneD [OF assms] obtain r where t: "t = withOwners r (mutated env cluster scp tcp)" ..
  show ?thesis unfolding t
    by (simp add: withOwners_def mutated_eq mutateMetadata_def overwrite_def Let_def split: option.split)
qed

theorem mutateTCP_annotations_witness:
  "om_Annotations (tcp_meta (mutated sampleEnv zeroCluster
      (zeroSCP\<lparr>scp_meta := zeroMeta\<lparr>om_Annotations := [''team'' \<mapsto> ''a'']\<rparr>\<rparr>) zeroTCP)) ''team'' = Some ''a''"
  using mutateTCP_annotations [OF sample_ownerContract, of zeroCluster
      "zeroSCP\<lparr>scp_meta := zeroMeta\<lparr>om_Annotations := [''team'' \<mapsto> ''a'']\<rparr>\<rparr>" True zeroTCP
      "mutated sampleEnv zeroCluster (zeroSCP\<lparr>scp_meta := zeroMeta\<lparr>om_Annotations := [''team'' \<mapsto> ''a'']\<rparr>\<rparr>) zeroTCP"
      "''team''"]
  by (simp add: mutateTCP_eq zeroSCP_def zeroFields_def zeroNetwork_def sampleEnv_def)

end
