(* ===== verification/Cluster_Patch.thy ===== *)
theory Cluster_Patch
  imports Sample_Environment
begin

text \<open>
  \<open>controllers/stewardcontrolplane_controller_cluster_patch.go\<close>: the control plane endpoint computed
  from the address of the \<open>TenantControlPlane\<close> and the network section, its publication on the
  \<open>StewardControlPlane\<close>, and the patch or check of the infrastructure cluster by provider kind.
\<close>

section \<open>The endpoint\<close>

definition defaultIngressPort :: nat where
  "defaultIngressPort = 443"

definition defaultGatewayPort :: nat where
  "defaultGatewayPort = 6443"

definition parseHostnameWithDefault :: "string \<Rightarrow> nat \<Rightarrow> string \<Rightarrow> error + (string \<times> int64)" where
  "parseHostnameWithDefault hostname defaultPort label =
     (let hostname = (if length (splitOn CHR '':'' hostname) = 1
                      then hostname @ '':'' @ Itoa defaultPort else hostname)
      in case SplitHostPort hostname of
           Inl e \<Rightarrow> Inl (wrapErr (''cannot split the Steward '' @ label @ '' hostname host port pair'') e)
         | Inr (host, strPort) \<Rightarrow>
             (case ParseInt strPort 64 of
                Inl e \<Rightarrow> Inl (wrapErr (''cannot convert Steward '' @ label @ '' hostname port pair'') e)
              | Inr port \<Rightarrow> Inr (host, port)))"

definition controlPlaneEndpoint :: "StewardControlPlane \<Rightarrow> string \<Rightarrow> error + (string \<times> int64)" where
  "controlPlaneEndpoint controlPlane statusEndpoint =
     (case SplitHostPort statusEndpoint of
        Inl e \<Rightarrow> Inl (wrapErr ''cannot split the Steward endpoint host port pair'' e)
      | Inr (endpoint, strPort) \<Rightarrow>
          (case ParseInt strPort 16 of
             Inl e \<Rightarrow> Inl (wrapErr ''cannot convert port to integer'' e)
           | Inr port \<Rightarrow>
               let afterIngress =
                     (case net_Ingress (scp_Network controlPlane) of
                        Some ingress \<Rightarrow> parseHostnameWithDefault (ing_Hostname ingress) defaultIngressPort ''Ingress''
                      | None \<Rightarrow> Inr (endpoint, port))
               in case afterIngress of
                    Inl e \<Rightarrow> Inl e
                  | Inr ep \<Rightarrow>
                      (case net_Gateway (scp_Network controlPlane) of
                         Some gateway \<Rightarrow> parseHostnameWithDefault (gw_Hostname gateway) defaultGatewayPort ''Gateway''
                       | None \<Rightarrow> Inr ep)))"

definition toInt32 :: "int64 \<Rightarrow> int32" where
  "toInt32 p = word_of_int (sint p)"

definition patchControlPlaneEndpoint :: "'w env \<Rightarrow> string \<Rightarrow> 'w rst \<Rightarrow> error option \<times> 'w rst" where
  "patchControlPlaneEndpoint env hostPort s =
     (case controlPlaneEndpoint (v_scp s) hostPort of
        Inl e \<Rightarrow> (Some (wrapErr ''cannot retrieve ControlPlaneEndpoint'' e), s)
      | Inr (endpoint, port) \<Rightarrow>
          let orig = v_scp s;
              s1 = s\<lparr>v_scp := orig\<lparr>scp_Spec := (scp_Spec orig)\<lparr>
                     spec_ControlPlaneEndpoint := \<lparr>ep_Host = endpoint, ep_Port = toInt32 port\<rparr>\<rparr>\<rparr>\<rparr>
          in case patchSCP env orig s1 of
               (Some e, s2) \<Rightarrow> (Some (wrapErr ''cannot patch StewardControlPlane with ControlPlaneEndpoint'' e), s2)
             | (None, s2) \<Rightarrow> (None, s2))"

section \<open>The infrastructure cluster\<close>

definition getInfra :: "'w env \<Rightarrow> ObjectReference \<Rightarrow> 'w rst \<Rightarrow> (error + Unstructured) \<times> 'w rst" where
  "getInfra env r s = logged (k_getInfra (r_client env) r) (\<lambda>x. GetInfra r (errOf x)) s"

definition patchInfra :: "'w env \<Rightarrow> Unstructured \<Rightarrow> Unstructured \<Rightarrow> 'w rst \<Rightarrow> error option \<times> 'w rst" where
  "patchInfra env orig changed s =
     logged (k_patchInfra (r_client env) orig changed) (\<lambda>e. PatchInfra orig changed e) s"

definition cannotRetrieve :: "ObjectReference \<Rightarrow> string" where
  "cannotRetrieve r = ''cannot retrieve the '' @ ref_Kind r @ '' resource''"

definition endpointMap :: "string \<Rightarrow> int64 \<Rightarrow> json" where
  "endpointMap endpoint port = JObj [(''host'', JString endpoint), (''port'', JInt (sint port))]"

definition patchGenericCluster ::
  "'w env \<Rightarrow> ObjectReference \<Rightarrow> string \<Rightarrow> int64 \<Rightarrow> bool \<Rightarrow> 'w rst \<Rightarrow> error option \<times> 'w rst" where
  "patchGenericCluster env ref endpoint port patchStatus s =
     (case getInfra env ref s of
        (Inl e, s1) \<Rightarrow> (Some (wrapErr (cannotRetrieve ref) e), s1)
      | (Inr infraCluster, s1) \<Rightarrow>
          (case newPatchHelper env infraCluster of
             Some e \<Rightarrow> (Some (wrapErr ''unable to create patch helper'' e), s1)
           | None \<Rightarrow>
               (case setNested env (u_Object infraCluster) (endpointMap endpoint port)
                       [''spec'', ''controlPlaneEndpoint''] of
                  Inl e \<Rightarrow> (Some (wrapErr (''unable to set unstructured '' @ ref_Kind ref @ '' spec patch'') e), s1)
                | Inr obj \<Rightarrow>
                    (case (if patchStatus then setNested env obj (JBool True) [''status'', ''ready'']
                           else Inr obj) of
                       Inl e \<Rightarrow> (Some (wrapErr (''unable to set unstructured '' @ ref_Kind ref @ '' status patch'') e), s1)
                     | Inr obj' \<Rightarrow>
                         (case patchInfra env infraCluster (infraCluster\<lparr>u_Object := obj'\<rparr>) s1 of
                            (Some e, s2) \<Rightarrow>
                              (Some (wrapErr (''cannot perform PATCH update for the '' @ ref_Kind ref @ '' resource'') e), s2)
                          | (None, s2) \<Rightarrow> (None, s2))))))"

definition checkGenericCluster ::
  "'w env \<Rightarrow> ObjectReference \<Rightarrow> string \<Rightarrow> int64 \<Rightarrow> 'w rst \<Rightarrow> error option \<times> 'w rst" where
  "checkGenericCluster env ref endpoint port s =
     (case getInfra env ref s of
        (Inl e, s1) \<Rightarrow> (Some (wrapErr (cannotRetrieve ref) e), s1)
      | (Inr gkc, s1) \<Rightarrow>
          (case nestedString env (u_Object gkc) [''spec'', ''controlPlaneEndpoint'', ''host''] of
             Inl e \<Rightarrow> (Some (wrapErr ''cannot extract control plane endpoint host'' e), s1)
           | Inr cpHost \<Rightarrow>
               if cpHost = '''' then (Some (UnmanagedControlPlaneAddressError (ref_Kind ref)), s1)
               else (case nestedInt64 env (u_Object gkc) [''spec'', ''controlPlaneEndpoint'', ''port''] of
                  Inl e \<Rightarrow> (Some (wrapErr ''cannot extract control plane endpoint host'' e), s1)
                | Inr cpPort \<Rightarrow>
                    if cpHost = '''' \<and> cpPort = 0
                    then (Some (UnmanagedControlPlaneAddressError (ref_Kind ref)), s1)
                    else if cpHost \<noteq> endpoint
                    then (Some (ErrNew (''the '' @ ref_Kind ref @ '' cluster has been provisioned with a mismatching host'')), s1)
                    else if cpPort \<noteq> port
                    then (Some (ErrNew (''the '' @ ref_Kind ref @ '' cluster has been provisioned with a mismatching port'')), s1)
                    else (None, s1))))"

definition checkOrPatchGenericCluster ::
  "'w env \<Rightarrow> ObjectReference \<Rightarrow> string \<Rightarrow> int64 \<Rightarrow> 'w rst \<Rightarrow> error option \<times> 'w rst" where
  "checkOrPatchGenericCluster env ref endpoint port s =
     (case checkGenericCluster env ref endpoint port s of
        (Some err, s1) \<Rightarrow>
          if errors_As_Unmanaged err then patchGenericCluster env ref endpoint port False s1
          else (Some err, s1)
      | (None, s1) \<Rightarrow> (None, s1))"

definition patchOpenStackCluster ::
  "'w env \<Rightarrow> ObjectReference \<Rightarrow> string \<Rightarrow> int64 \<Rightarrow> 'w rst \<Rightarrow> error option \<times> 'w rst" where
  "patchOpenStackCluster env ref endpoint port s =
     (case getInfra env ref s of
        (Inl e, s1) \<Rightarrow> (Some (wrapErr (cannotRetrieve ref) e), s1)
      | (Inr osc, s1) \<Rightarrow>
          (case newPatchHelper env osc of
             Some e \<Rightarrow> (Some (wrapErr ''unable to create patch helper'' e), s1)
           | None \<Rightarrow>
               (case setNested env (u_Object osc) (JString endpoint) [''spec'', ''apiServerFixedIP''] of
                  Inl e \<Rightarrow> (Some (wrapErr (''unable to set unstructured '' @ ref_Kind ref @ '' spec apiServerFixedIP'') e), s1)
                | Inr obj \<Rightarrow>
                    (case setNested env obj (JInt (sint port)) [''spec'', ''apiServerPort''] of
                       Inl e \<Rightarrow> (Some (wrapErr (''unable to set unstructured '' @ ref_Kind ref @ '' spec apiServerPort'') e), s1)
                     | Inr obj' \<Rightarrow>
                         (case patchInfra env osc (osc\<lparr>u_Object := obj'\<rparr>) s1 of
                            (Some e, s2) \<Rightarrow>
                              (Some (wrapErr ''cannot perform PATCH update for the OpenStackCluster resource'' e), s2)
                          | (None, s2) \<Rightarrow> (None, s2))))))"

definition patchCluster :: "'w env \<Rightarrow> Cluster \<Rightarrow> string \<Rightarrow> 'w rst \<Rightarrow> error option \<times> 'w rst" where
  "patchCluster env cluster hostPort s =
     (case cl_InfrastructureRef cluster of
        None \<Rightarrow> (Some (ErrNew ''capiv1beta1.Cluster has no InfrastructureRef''), s)
      | Some ref \<Rightarrow>
          (case controlPlaneEndpoint (v_scp s) hostPort of
             Inl e \<Rightarrow> (Some (wrapErr ''cannot retrieve ControlPlaneEndpoint'' e), s)
           | Inr (endpoint, port) \<Rightarrow>
               let kind = ref_Kind ref
               in if kind = ''AWSCluster'' then patchGenericCluster env ref endpoint port False s
                  else if kind = ''AzureCluster'' then patchGenericCluster env ref endpoint port False s
                  else if kind = ''HetznerCluster'' then patchGenericCluster env ref endpoint port False s
                  else if kind = ''IonosCloudCluster'' then patchGenericCluster env ref endpoint port False s
                  else if kind = ''KubevirtCluster'' then patchGenericCluster env ref endpoint port True s
                  else if kind = ''Metal3Cluster'' then checkGenericCluster env ref endpoint port s
                  else if kind = ''NutanixCluster'' then patchGenericCluster env ref endpoint port True s
                  else if kind = ''OpenStackCluster'' then patchOpenStackCluster env ref endpoint port s
                  else if kind = ''PacketCluster'' then patchGenericCluster env ref endpoint port True s
                  else if kind = ''ProxmoxCluster'' then checkOrPatchGenericCluster env ref endpoint port s
                  else if kind = ''TinkerbellCluster'' then checkOrPatchGenericCluster env ref endpoint port s
                  else if kind = ''VSphereCluster'' then checkOrPatchGenericCluster env ref endpoint port s
                  else if kind \<in> r_DynamicInfrastructureClusters env
                  then patchGenericCluster env ref endpoint port False s
                  else (Some (ErrNew ''unsupported infrastructure provider''), s)))"

section \<open>Lemmas on the endpoint\<close>

lemma parseHostname_no_port [go_simps]:
  assumes "plain_host h" "d < 2 ^ 63"
  shows "parseHostnameWithDefault h d label = Inr (h, word_of_int (int d))"
proof -
  from assms(1) have "length (splitOn CHR '':'' h) = 1"
    by (simp add: splitOn_single_iff plain_host_def)
  moreover have "SplitHostPort (h @ CHR '':'' # Itoa d) = Inr (h, Itoa d)"
    by (intro SplitHostPort_plain assms digits_plain_host Itoa_digits)
  ultimately show ?thesis
    using ParseInt_Itoa [of d 64] assms(2) by (simp add: parseHostnameWithDefault_def)
qed

lemma parseHostname_port [go_simps]:
  assumes "plain_host h" "n < 2 ^ 63"
  shows "parseHostnameWithDefault (h @ CHR '':'' # Itoa n) d label = Inr (h, word_of_int (int n))"
proof -
  have "length (splitOn CHR '':'' (h @ CHR '':'' # Itoa n)) \<noteq> 1"
    by (simp add: splitOn_single_iff [unfolded One_nat_def])
  moreover have "SplitHostPort (h @ CHR '':'' # Itoa n) = Inr (h, Itoa n)"
    by (intro SplitHostPort_plain assms digits_plain_host Itoa_digits)
  ultimately show ?thesis
    using ParseInt_Itoa [of n 64] assms(2) by (simp add: parseHostnameWithDefault_def)
qed

text \<open>The conversion \<open>int32(port)\<close> is exact on the 32-bit range and on nothing else.\<close>

lemma toInt32_exact: "sint (toInt32 p) = sint p \<longleftrightarrow> - (2 ^ 31) \<le> sint p \<and> sint p < 2 ^ 31"
proof -
  have "sint (toInt32 p) = signed_take_bit 31 (sint p)"
    unfolding toInt32_def by (subst sint_sbintrunc') simp
  then show ?thesis
    by (simp add: signed_take_bit_int_eq_self_iff)
qed

lemma sint_port [simp]:
  assumes "n < 2 ^ 63"
  shows "sint (word_of_nat n :: int64) = int n"
  using sint_word_of_int_id [of "int n"] assms by simp

definition directNetwork :: "StewardControlPlane \<Rightarrow> bool" where
  "directNetwork scp \<longleftrightarrow> net_Ingress (scp_Network scp) = None \<and> net_Gateway (scp_Network scp) = None"

lemma controlPlaneEndpoint_plain:
  assumes "directNetwork scp" "plain_host h" "n < 32768"
  shows "controlPlaneEndpoint scp (h @ CHR '':'' # Itoa n) = Inr (h, word_of_nat n)"
proof -
  have "SplitHostPort (h @ CHR '':'' # Itoa n) = Inr (h, Itoa n)"
    by (intro SplitHostPort_plain assms digits_plain_host Itoa_digits)
  then show ?thesis
    using assms ParseInt_Itoa [of n 16] by (simp add: controlPlaneEndpoint_def directNetwork_def)
qed

lemma directNetwork_zeroSCP [simp]: "directNetwork zeroSCP"
  by (simp add: directNetwork_def zeroSCP_def zeroFields_def zeroNetwork_def)

section \<open>Properties of the endpoint\<close>

text \<open>
  The address Steward reports is taken over as it is: with neither Ingress nor Gateway, a status
  endpoint \<open>host:port\<close> with a port below 32768 gives that host and that port, and the 32-bit port
  published on the \<open>StewardControlPlane\<close> is the same number.
\<close>

theorem controlPlaneEndpoint_direct:
  assumes "directNetwork scp" "plain_host h" "n < 32768"
  shows "\<exists>p. controlPlaneEndpoint scp (h @ CHR '':'' # Itoa n) = Inr (h, p) \<and>
             sint p = int n \<and> sint (toInt32 p) = int n"
  using controlPlaneEndpoint_plain [OF assms] toInt32_exact [of "word_of_nat n"] assms(3)
  by simp

theorem controlPlaneEndpoint_direct_witness:
  "\<exists>p. controlPlaneEndpoint zeroSCP (''cp'' @ CHR '':'' # Itoa 6443) = Inr (''cp'', p) \<and>
       sint p = 6443 \<and> sint (toInt32 p) = 6443"
  using controlPlaneEndpoint_direct [of zeroSCP "''cp''" 6443]
  by (simp add: plain_host_def)

text \<open>
  (C26) The port of the status endpoint is parsed as a signed 16-bit integer, so the upper half of the
  port range is refused: a well-formed endpoint with a port from 32768 to 65535 is an error, whatever
  the network section says.
\<close>

theorem controlPlaneEndpoint_rejects_high_ports:
  assumes "plain_host h" "32768 \<le> n" "n < 65536"
  shows "controlPlaneEndpoint scp (h @ CHR '':'' # Itoa n) =
           Inl (ErrWrap ''cannot convert port to integer'' (NumError (Itoa n) ErrRange))"
proof -
  have "SplitHostPort (h @ CHR '':'' # Itoa n) = Inr (h, Itoa n)"
    by (intro SplitHostPort_plain assms digits_plain_host Itoa_digits)
  then show ?thesis
    using ParseInt_Itoa_out_of_range [of 16 n] assms(2,3)
    by (simp add: controlPlaneEndpoint_def wrapErr_def)
qed

theorem controlPlaneEndpoint_rejects_high_ports_witness:
  "controlPlaneEndpoint zeroSCP (''cp'' @ CHR '':'' # Itoa 40000) =
     Inl (ErrWrap ''cannot convert port to integer'' (NumError (Itoa 40000) ErrRange))"
  using controlPlaneEndpoint_rejects_high_ports [of "''cp''" 40000 zeroSCP]
  by (simp add: plain_host_def)

text \<open>
  Every endpoint computed without Ingress and Gateway fits the 32-bit port field of the
  \<open>StewardControlPlane\<close>: its port is in the signed 16-bit range, so the conversion is exact.
\<close>

theorem controlPlaneEndpoint_port_bounds:
  assumes "directNetwork scp" "controlPlaneEndpoint scp e = Inr (h, p)"
  shows "- 32768 \<le> sint p \<and> sint p < 32768 \<and> sint (toInt32 p) = sint p"
proof -
  from assms obtain sp where "ParseInt sp 16 = Inr p"
    by (auto simp: controlPlaneEndpoint_def directNetwork_def split: sum.splits prod.splits)
  then have "- 32768 \<le> sint p \<and> sint p < 32768"
    using ParseInt_bounds [of sp 16 p] by simp
  then show ?thesis using toInt32_exact [of p] by simp
qed

theorem controlPlaneEndpoint_port_bounds_witness:
  "- 32768 \<le> sint (word_of_nat 443 :: int64) \<and> sint (word_of_nat 443 :: int64) < 32768 \<and>
   sint (toInt32 (word_of_nat 443)) = sint (word_of_nat 443 :: int64)"
  by (rule controlPlaneEndpoint_port_bounds [OF directNetwork_zeroSCP
        controlPlaneEndpoint_plain [of zeroSCP "''cp''" 443]]) (simp_all add: plain_host_def)

definition exposedAt :: "NetworkComponent \<Rightarrow> string \<Rightarrow> nat \<Rightarrow> bool" where
  "exposedAt net h n \<longleftrightarrow>
     (case net_Gateway net of
        Some gw \<Rightarrow> gw_Hostname gw = h \<and> n = 6443 \<or> gw_Hostname gw = h @ CHR '':'' # Itoa n
      | None \<Rightarrow> (case net_Ingress net of
          Some ing \<Rightarrow> ing_Hostname ing = h \<and> n = 443 \<or> ing_Hostname ing = h @ CHR '':'' # Itoa n
        | None \<Rightarrow> False))"

definition ingressWellFormed :: "NetworkComponent \<Rightarrow> bool" where
  "ingressWellFormed net \<longleftrightarrow>
     (case net_Ingress net of
        None \<Rightarrow> True
      | Some ing \<Rightarrow> \<exists>ep. parseHostnameWithDefault (ing_Hostname ing) defaultIngressPort ''Ingress'' = Inr ep)"

text \<open>
  (C19) An exposed control plane is reached at its public name: with a Gateway the endpoint is the
  Gateway hostname, else with an Ingress the Ingress hostname, on the port written in the hostname or
  by default 6443 and 443; the Gateway wins when both are set.
\<close>

theorem controlPlaneEndpoint_exposed:
  assumes "exposedAt (scp_Network scp) h n" "ingressWellFormed (scp_Network scp)"
    and "plain_host h" "n < 2 ^ 63" "plain_host addr" "m < 32768"
  shows "controlPlaneEndpoint scp (addr @ CHR '':'' # Itoa m) = Inr (h, word_of_int (int n))"
proof -
  have "SplitHostPort (addr @ CHR '':'' # Itoa m) = Inr (addr, Itoa m)"
    by (intro SplitHostPort_plain assms digits_plain_host Itoa_digits)
  moreover have "ParseInt (Itoa m) 16 = Inr (word_of_int (int m))"
    using assms(6) by (intro ParseInt_Itoa) simp
  ultimately show ?thesis
    using assms(1-4) parseHostname_no_port [OF assms(3)] parseHostname_port [OF assms(3,4)]
    by (auto simp: controlPlaneEndpoint_def exposedAt_def ingressWellFormed_def defaultIngressPort_def
        defaultGatewayPort_def split: option.splits)
qed

definition ingressSCP :: "string \<Rightarrow> StewardControlPlane" where
  "ingressSCP h = zeroSCP\<lparr>scp_Spec := (scp_Spec zeroSCP)\<lparr>spec_Fields := zeroFields\<lparr>Network :=
     zeroNetwork\<lparr>net_Ingress := Some \<lparr>ing_ClassName = '''', ing_Hostname = h, ing_ControllerType = '''',
       ing_ExtraLabels = Map.empty, ing_ExtraAnnotations = Map.empty\<rparr>\<rparr>\<rparr>\<rparr>\<rparr>"

theorem controlPlaneEndpoint_exposed_witness:
  "controlPlaneEndpoint (ingressSCP ''kube.example'') (''10.0.0.1'' @ CHR '':'' # Itoa 6443) =
     Inr (''kube.example'', word_of_int 443)"
proof -
  have "ingressWellFormed (scp_Network (ingressSCP ''kube.example''))"
    using parseHostname_no_port [of "''kube.example''" 443 "''Ingress''"]
    by (simp add: ingressWellFormed_def ingressSCP_def zeroNetwork_def defaultIngressPort_def
        plain_host_def)
  moreover have "exposedAt (scp_Network (ingressSCP ''kube.example'')) ''kube.example'' 443"
    by (simp add: exposedAt_def ingressSCP_def zeroNetwork_def)
  ultimately show ?thesis
    using controlPlaneEndpoint_exposed
      [of "ingressSCP ''kube.example''" "''kube.example''" 443 "''10.0.0.1''" 6443]
    by (simp add: plain_host_def)
qed

section \<open>Lemmas on the infrastructure cluster\<close>

text \<open>
  \<open>unstructured.SetNestedMap\<close> and \<open>SetNestedField\<close> store a value at a path, and \<open>NestedString\<close> and
  \<open>NestedInt64\<close> read it back; a value at a diverging path is not affected.
\<close>

fun diverge :: "string list \<Rightarrow> string list \<Rightarrow> bool" where
  "diverge (x # xs) (y # ys) = (x \<noteq> y \<or> diverge xs ys)"
| "diverge _ _ = False"

definition nestedContract :: "'w env \<Rightarrow> bool" where
  "nestedContract env \<longleftrightarrow>
     (\<forall>j kvs path j' k x. setNested env j (JObj kvs) path = Inr j' \<longrightarrow> map_of kvs k = Some (JString x) \<longrightarrow>
        nestedString env j' (path @ [k]) = Inr x) \<and>
     (\<forall>j kvs path j' k p. setNested env j (JObj kvs) path = Inr j' \<longrightarrow> map_of kvs k = Some (JInt (sint p)) \<longrightarrow>
        nestedInt64 env j' (path @ [k]) = Inr p) \<and>
     (\<forall>j path j' x. setNested env j (JString x) path = Inr j' \<longrightarrow> nestedString env j' path = Inr x) \<and>
     (\<forall>j path j' p. setNested env j (JInt (sint p)) path = Inr j' \<longrightarrow> nestedInt64 env j' path = Inr p) \<and>
     (\<forall>j v path j' q. setNested env j v path = Inr j' \<longrightarrow> diverge path q \<longrightarrow>
        nestedString env j' q = nestedString env j q \<and> nestedInt64 env j' q = nestedInt64 env j q)"

text \<open>The infrastructure cluster carries the control plane endpoint \<open>h:p\<close>.\<close>

definition carries :: "'w env \<Rightarrow> Unstructured \<Rightarrow> string \<Rightarrow> int64 \<Rightarrow> bool" where
  "carries env obj h p \<longleftrightarrow>
     nestedString env (u_Object obj) [''spec'', ''controlPlaneEndpoint'', ''host''] = Inr h \<and>
     nestedInt64 env (u_Object obj) [''spec'', ''controlPlaneEndpoint'', ''port''] = Inr p"

lemma jsonGet_jsonSet: "jsonSet j v path = Inr j' \<Longrightarrow> jsonGet j' (path @ q) = jsonGet v q"
  by (induction j v path arbitrary: j' rule: jsonSet.induct) (auto split: sum.splits option.splits)

lemma map_of_filter_other: "g \<noteq> f \<Longrightarrow> map_of (filter (\<lambda>kv. fst kv \<noteq> f) kvs) g = map_of kvs g"
  by (induction kvs) auto

lemma jsonGet_jsonSet_other:
  "jsonSet j v path = Inr j' \<Longrightarrow> diverge path q \<Longrightarrow> jsonGet j' q = jsonGet j q"
proof (induction j v path arbitrary: j' q rule: jsonSet.induct)
  case (2 kvs v p ps)
  from "2.prems"(2) obtain r q' where q: "q = r # q'" by (cases q) auto
  from "2.prems"(1) obtain j where
    j: "jsonSet (case map_of kvs p of None \<Rightarrow> JObj [] | Some j \<Rightarrow> j) v ps = Inr j"
    "j' = JObj ((p, j) # filter (\<lambda>kv. fst kv \<noteq> p) kvs)" by (auto split: sum.splits)
  show ?case
  proof (cases "r = p")
    case True
    have empty: "jsonGet (JObj []) q' = None" if "diverge ps q'"
      using that by (cases q') auto
    from True "2.prems"(2) q have d: "diverge ps q'" by simp
    from "2.IH" [OF j(1) d] empty [OF d] True j(2) q show ?thesis by (auto split: option.splits)
  qed (simp add: q j(2) map_of_filter_other)
qed auto

lemma sample_nestedContract [simp]: "nestedContract sampleEnv"
proof -
  have self: "jsonGet j' path = Some v" if "jsonSet j v path = Inr j'" for j v path j'
    using jsonGet_jsonSet [OF that, of "[]"] by simp
  show ?thesis
    by (auto simp: nestedContract_def sampleEnv_def sampleNestedString_def sampleNestedInt64_def
        jsonGet_jsonSet jsonGet_jsonSet_other self)
qed

lemma nestedContractD:
  assumes "nestedContract env"
  shows "setNested env j (JObj kvs) path = Inr j' \<Longrightarrow> map_of kvs k = Some (JString x) \<Longrightarrow>
      nestedString env j' (path @ [k]) = Inr x"
    and "setNested env j (JObj kvs) path = Inr j' \<Longrightarrow> map_of kvs k = Some (JInt (sint p)) \<Longrightarrow>
      nestedInt64 env j' (path @ [k]) = Inr p"
    and "setNested env j (JString x) path = Inr j' \<Longrightarrow> nestedString env j' path = Inr x"
    and "setNested env j (JInt (sint p)) path = Inr j' \<Longrightarrow> nestedInt64 env j' path = Inr p"
    and "setNested env j v path = Inr j' \<Longrightarrow> diverge path q \<Longrightarrow>
      nestedString env j' q = nestedString env j q"
    and "setNested env j v path = Inr j' \<Longrightarrow> diverge path q \<Longrightarrow>
      nestedInt64 env j' q = nestedInt64 env j q"
  using assms unfolding nestedContract_def by metis+

lemma setNested_carries:
  assumes "nestedContract env"
    and "setNested env j (endpointMap h p) [''spec'', ''controlPlaneEndpoint''] = Inr j'"
  shows "carries env (obj\<lparr>u_Object := j'\<rparr>) h p"
proof -
  note set = assms(2) [unfolded endpointMap_def]
  show ?thesis
    using nestedContractD(1) [OF assms(1) set, of "''host''" h]
      nestedContractD(2) [OF assms(1) set, of "''port''" p]
    by (simp add: carries_def)
qed

lemma setNested_status_carries:
  assumes "nestedContract env" "carries env (obj\<lparr>u_Object := j\<rparr>) h p"
    and "setNested env j v [''status'', ''ready''] = Inr j'"
  shows "carries env (obj\<lparr>u_Object := j'\<rparr>) h p"
  using assms(2) nestedContractD(5,6) [OF assms(1,3)] by (simp add: carries_def)

lemma getInfra_calls: "getInfra env r s = (x, s1) \<Longrightarrow> calls s1 = calls s @ [GetInfra r (errOf x)]"
  by (simp add: getInfra_def logged_log)

lemma patchInfra_calls: "patchInfra env b a s = (e, s1) \<Longrightarrow> calls s1 = calls s @ [PatchInfra b a e]"
  by (simp add: patchInfra_def logged_log)

lemma patchGenericCluster_success:
  assumes "nestedContract env" "patchGenericCluster env ref h p st s = (None, s')"
  shows "\<exists>before after. calls s' = calls s @ [GetInfra ref None, PatchInfra before after None] \<and>
           carries env after h p"
proof -
  from assms(2) obtain infra s1 j j' where
    get: "getInfra env ref s = (Inr infra, s1)" and
    j: "setNested env (u_Object infra) (endpointMap h p) [''spec'', ''controlPlaneEndpoint''] = Inr j" and
    j': "(if st then setNested env j (JBool True) [''status'', ''ready''] else Inr j) = Inr j'" and
    pat: "patchInfra env infra (infra\<lparr>u_Object := j'\<rparr>) s1 = (None, s')"
    by (auto simp: patchGenericCluster_def split: prod.splits sum.splits option.splits)
  have "carries env (infra\<lparr>u_Object := j'\<rparr>) h p"
    using j' setNested_status_carries [OF assms(1) setNested_carries [OF assms(1) j], of _ j']
      setNested_carries [OF assms(1) j] by (auto split: if_splits)
  with getInfra_calls [OF get] patchInfra_calls [OF pat] show ?thesis by simp
qed

lemma checkGenericCluster_success:
  assumes "checkGenericCluster env ref h p s = (None, s')"
  shows "\<exists>obj w. k_getInfra (r_client env) ref (world s) = (Inr obj, w) \<and> carries env obj h p \<and>
           h \<noteq> [] \<and> calls s' = calls s @ [GetInfra ref None]"
proof -
  from assms obtain obj where
    get: "getInfra env ref s = (Inr obj, s')" and
    c: "carries env obj h p" "h \<noteq> []"
    by (auto simp: checkGenericCluster_def carries_def split: prod.splits sum.splits if_splits)
  from get obtain w where "k_getInfra (r_client env) ref (world s) = (Inr obj, w)"
    by (auto simp: getInfra_def logged_def split: prod.splits)
  with c getInfra_calls [OF get] show ?thesis by auto
qed

lemma checkGenericCluster_calls:
  assumes "checkGenericCluster env ref h p s = (e, s')"
  shows "\<exists>x. calls s' = calls s @ [GetInfra ref x]"
proof -
  obtain x s1 where get: "getInfra env ref s = (x, s1)" by fastforce
  with assms have "s' = s1"
    by (auto simp: checkGenericCluster_def split: sum.splits if_splits)
  with getInfra_calls [OF get] show ?thesis by auto
qed

lemma patchOpenStackCluster_success:
  assumes "nestedContract env" "patchOpenStackCluster env ref h p s = (None, s')"
  shows "\<exists>before after. calls s' = calls s @ [GetInfra ref None, PatchInfra before after None] \<and>
           nestedString env (u_Object after) [''spec'', ''apiServerFixedIP''] = Inr h \<and>
           nestedInt64 env (u_Object after) [''spec'', ''apiServerPort''] = Inr p"
proof -
  from assms(2) obtain osc s1 j j' where
    get: "getInfra env ref s = (Inr osc, s1)" and
    j: "setNested env (u_Object osc) (JString h) [''spec'', ''apiServerFixedIP''] = Inr j" and
    j': "setNested env j (JInt (sint p)) [''spec'', ''apiServerPort''] = Inr j'" and
    pat: "patchInfra env osc (osc\<lparr>u_Object := j'\<rparr>) s1 = (None, s')"
    by (auto simp: patchOpenStackCluster_def split: prod.splits sum.splits option.splits)
  have "nestedString env j' [''spec'', ''apiServerFixedIP''] = Inr h"
    using nestedContractD(3) [OF assms(1) j] nestedContractD(5) [OF assms(1) j'] by simp
  with nestedContractD(4) [OF assms(1) j'] getInfra_calls [OF get] patchInfra_calls [OF pat]
  show ?thesis by auto
qed

lemma patchGenericCluster_calls:
  assumes "patchGenericCluster env ref h p st s = (e, s')"
  shows "\<exists>x ds. calls s' = calls s @ GetInfra ref x # ds \<and> (\<forall>d \<in> set ds. \<exists>b a y. d = PatchInfra b a y)"
proof -
  obtain x s1 where get: "getInfra env ref s = (x, s1)" by fastforce
  have "s' = s1 \<or> (\<exists>b a y. patchInfra env b a s1 = (y, s'))"
    using assms get
    by (auto simp: patchGenericCluster_def split: prod.splits sum.splits option.splits if_splits)
  with getInfra_calls [OF get] show ?thesis by (auto dest!: patchInfra_calls)
qed

definition publishes :: "'w env \<Rightarrow> ObjectReference \<Rightarrow> Unstructured \<Rightarrow> string \<Rightarrow> int64 \<Rightarrow> bool" where
  "publishes env ref obj h p \<longleftrightarrow>
     (if ref_Kind ref = ''OpenStackCluster''
      then nestedString env (u_Object obj) [''spec'', ''apiServerFixedIP''] = Inr h \<and>
           nestedInt64 env (u_Object obj) [''spec'', ''apiServerPort''] = Inr p
      else carries env obj h p)"

definition readCarries :: "'w env \<Rightarrow> ObjectReference \<Rightarrow> 'w rst \<Rightarrow> string \<Rightarrow> int64 \<Rightarrow> 'w rst \<Rightarrow> bool" where
  "readCarries env ref s h p s' \<longleftrightarrow>
     (\<exists>obj w. k_getInfra (r_client env) ref (world s) = (Inr obj, w) \<and> carries env obj h p \<and>
        calls s' = calls s @ [GetInfra ref None])"

definition patchedWith :: "'w env \<Rightarrow> ObjectReference \<Rightarrow> 'w rst \<Rightarrow> string \<Rightarrow> int64 \<Rightarrow> 'w rst \<Rightarrow> bool" where
  "patchedWith env ref s h p s' \<longleftrightarrow>
     (\<exists>reads before after. calls s' = calls s @ reads @ [PatchInfra before after None] \<and>
        writes reads = [] \<and> publishes env ref after h p)"

lemma patchGeneric_patched:
  assumes "nestedContract env" "ref_Kind ref \<noteq> ''OpenStackCluster''"
    and "patchGenericCluster env ref h p st s = (None, s')"
  shows "patchedWith env ref s h p s'"
proof -
  from patchGenericCluster_success [OF assms(1,3)] obtain b a where
    "calls s' = calls s @ [GetInfra ref None] @ [PatchInfra b a None]" "carries env a h p" by auto
  with assms(2) show ?thesis
    unfolding patchedWith_def publishes_def by (intro exI [of _ "[GetInfra ref None]"]) auto
qed

lemma patchOpenStack_patched:
  assumes "nestedContract env" "ref_Kind ref = ''OpenStackCluster''"
    and "patchOpenStackCluster env ref h p s = (None, s')"
  shows "patchedWith env ref s h p s'"
proof -
  from patchOpenStackCluster_success [OF assms(1,3)] obtain b a where
    "calls s' = calls s @ [GetInfra ref None] @ [PatchInfra b a None]"
    "nestedString env (u_Object a) [''spec'', ''apiServerFixedIP''] = Inr h"
    "nestedInt64 env (u_Object a) [''spec'', ''apiServerPort''] = Inr p" by auto
  with assms(2) show ?thesis
    unfolding patchedWith_def publishes_def by (intro exI [of _ "[GetInfra ref None]"]) auto
qed

lemma check_read:
  "checkGenericCluster env ref h p s = (None, s') \<Longrightarrow> readCarries env ref s h p s'"
  unfolding readCarries_def by (blast dest: checkGenericCluster_success)

lemma checkOrPatch_success:
  assumes "nestedContract env" "ref_Kind ref \<noteq> ''OpenStackCluster''"
    and "checkOrPatchGenericCluster env ref h p s = (None, s')"
  shows "readCarries env ref s h p s' \<or> patchedWith env ref s h p s'"
proof (cases "checkGenericCluster env ref h p s")
  case (Pair e s1)
  show ?thesis
  proof (cases e)
    case None
    with Pair assms(3) show ?thesis by (auto simp: checkOrPatchGenericCluster_def dest: check_read)
  next
    case (Some err)
    with Pair assms(3) have "patchGenericCluster env ref h p False s1 = (None, s')"
      by (auto simp: checkOrPatchGenericCluster_def split: if_splits)
    from patchGeneric_patched [OF assms(1,2) this] checkGenericCluster_calls [OF Pair]
    obtain x reads b a where "calls s' = calls s @ (GetInfra ref x # reads) @ [PatchInfra b a None]"
      "writes reads = []" "publishes env ref a h p" by (auto simp: patchedWith_def)
    then show ?thesis
      unfolding patchedWith_def by (intro disjI2 exI [of _ "GetInfra ref x # reads"]) auto
  qed
qed

lemma patchCluster_InrD:
  assumes "patchCluster env cluster hostPort s = (None, s')"
  shows "\<exists>ref h p. cl_InfrastructureRef cluster = Some ref \<and>
           controlPlaneEndpoint (v_scp s) hostPort = Inr (h, p)"
  using assms by (auto simp: patchCluster_def split: option.splits sum.splits)

section \<open>Properties of the publication\<close>

text \<open>
  (C13) When the infrastructure cluster is handled without error, it shows the computed endpoint: either
  the object just read already carries that host and port and nothing was written, or the last call is
  a successful patch whose new object does (in \<open>apiServerFixedIP\<close> and \<open>apiServerPort\<close> for OpenStack).
\<close>

theorem patchCluster_publishes:
  assumes "nestedContract env" and ok: "patchCluster env cluster hostPort s = (None, s')"
  shows "\<exists>ref h p. cl_InfrastructureRef cluster = Some ref \<and>
           controlPlaneEndpoint (v_scp s) hostPort = Inr (h, p) \<and>
           (readCarries env ref s h p s' \<or> patchedWith env ref s h p s')"
proof -
  from patchCluster_InrD [OF ok] obtain ref h p where
    r: "cl_InfrastructureRef cluster = Some ref" "controlPlaneEndpoint (v_scp s) hostPort = Inr (h, p)"
    by blast
  have "readCarries env ref s h p s' \<or> patchedWith env ref s h p s'"
    using ok r patchGeneric_patched [OF assms(1), of ref h p _ s s']
      patchOpenStack_patched [OF assms(1), of ref h p s s'] check_read [of env ref h p s s']
      checkOrPatch_success [OF assms(1), of ref h p s s']
    by (simp add: patchCluster_def Let_def split: if_splits)
  with r show ?thesis by blast
qed

definition infraRef :: "string \<Rightarrow> ObjectReference" where
  "infraRef kind = \<lparr>ref_APIVersion = ''v1'', ref_Kind = kind, ref_Name = ''infra'', ref_Namespace = ''default''\<rparr>"

text \<open>A state with one infrastructure cluster, of the given kind and content, and its Cluster.\<close>

definition infraState :: "string \<Rightarrow> json \<Rightarrow> mem rst" where
  "infraState kind j =
     startState (emptyMem\<lparr>m_infras := [infraRef kind \<mapsto> \<lparr>u_ref = infraRef kind, u_Object = j\<rparr>]\<rparr>) NewStore"

definition infraClusterOf :: "string \<Rightarrow> Cluster" where
  "infraClusterOf kind = zeroCluster\<lparr>cl_InfrastructureRef := Some (infraRef kind)\<rparr>"

lemma sample_getInfra [simp]:
  "getInfra sampleEnv (infraRef kind) (infraState kind j) =
     (Inr \<lparr>u_ref = infraRef kind, u_Object = j\<rparr>,
      (infraState kind j)\<lparr>calls := [GetInfra (infraRef kind) None]\<rparr>)"
  by (simp add: getInfra_def logged_def infraState_def startState_def sampleEnv_def sampleClient_def
      emptyMem_def found_def)

lemma sample_getInfra_again [simp]:
  "getInfra sampleEnv (infraRef kind) ((infraState kind j)\<lparr>calls := cs\<rparr>) =
     (Inr \<lparr>u_ref = infraRef kind, u_Object = j\<rparr>,
      (infraState kind j)\<lparr>calls := cs @ [GetInfra (infraRef kind) None]\<rparr>)"
  by (simp add: getInfra_def logged_def infraState_def startState_def sampleEnv_def sampleClient_def
      emptyMem_def found_def)

lemma infraState_fields [simp]:
  "v_scp (infraState kind j) = zeroSCP" "calls (infraState kind j) = []"
  by (simp_all add: infraState_def startState_def)

lemma sample_patchInfra_eq:
  "patchInfra sampleEnv b a s =
     (None, s\<lparr>world := (world s)\<lparr>m_infras := (m_infras (world s))(u_ref a \<mapsto> a)\<rparr>,
              calls := calls s @ [PatchInfra b a None]\<rparr>)"
  by (simp add: patchInfra_def logged_def sampleEnv_def sampleClient_def)

lemma sample_library [simp]:
  "newPatchHelper sampleEnv u = None" "setNested sampleEnv = jsonSet"
  "nestedString sampleEnv = sampleNestedString" "nestedInt64 sampleEnv = sampleNestedInt64"
  by (simp_all add: sampleEnv_def)

definition sampleHostPort :: string where
  "sampleHostPort = ''cp'' @ CHR '':'' # Itoa 6443"

lemma sample_endpoint [simp]:
  "controlPlaneEndpoint zeroSCP sampleHostPort = Inr (''cp'', word_of_nat 6443)"
  unfolding sampleHostPort_def by (rule controlPlaneEndpoint_plain) (simp_all add: plain_host_def)

lemma infraRef_kind [simp]:
  "ref_Kind (infraRef kind) = kind"
  "cl_InfrastructureRef (infraClusterOf kind) = Some (infraRef kind)"
  by (simp_all add: infraRef_def infraClusterOf_def)

theorem patchCluster_publishes_witness:
  "\<exists>s'. patchCluster sampleEnv (infraClusterOf ''AWSCluster'') sampleHostPort
          (infraState ''AWSCluster'' (JObj [])) = (None, s') \<and>
        (readCarries sampleEnv (infraRef ''AWSCluster'') (infraState ''AWSCluster'' (JObj [])) ''cp''
           (word_of_nat 6443) s' \<or>
         patchedWith sampleEnv (infraRef ''AWSCluster'') (infraState ''AWSCluster'' (JObj [])) ''cp''
           (word_of_nat 6443) s')"
proof -
  let ?s = "infraState ''AWSCluster'' (JObj [])"
  let ?r = "patchCluster sampleEnv (infraClusterOf ''AWSCluster'') sampleHostPort ?s"
  have "fst (patchGenericCluster sampleEnv (infraRef ''AWSCluster'') h p False ?s) = None" for h p
    by (simp add: patchGenericCluster_def endpointMap_def sample_patchInfra_eq)
  then have "fst ?r = None" by (simp add: patchCluster_def Let_def)
  then obtain s' where r: "?r = (None, s')" by (cases ?r) simp
  from patchCluster_publishes [OF sample_nestedContract r] r show ?thesis by simp
qed

text \<open>
  Errors of the API client and of package \<open>unstructured\<close> are not this package's error type.
\<close>

definition foreignErrors :: "'w env \<Rightarrow> bool" where
  "foreignErrors env \<longleftrightarrow>
     (\<forall>r w x w'. k_getInfra (r_client env) r w = (Inl x, w') \<longrightarrow> \<not> errors_As_Unmanaged x) \<and>
     (\<forall>j q x. nestedString env j q = Inl x \<longrightarrow> \<not> errors_As_Unmanaged x) \<and>
     (\<forall>j q x. nestedInt64 env j q = Inl x \<longrightarrow> \<not> errors_As_Unmanaged x)"

lemma sample_foreignErrors [simp]: "foreignErrors sampleEnv"
  by (auto simp: foreignErrors_def sampleNestedString_def sampleNestedInt64_def sampleClient_def
      sampleEnv_def found_def split: option.splits json.splits)

lemma unmanaged_iff_empty_host:
  assumes "foreignErrors env" "checkGenericCluster env ref h p s = (Some err, s1)" "errors_As_Unmanaged err"
  shows "\<exists>obj w. k_getInfra (r_client env) ref (world s) = (Inr obj, w) \<and>
           nestedString env (u_Object obj) [''spec'', ''controlPlaneEndpoint'', ''host''] = Inr ''''"
proof -
  have "\<not> errors_As_Unmanaged x" if "getInfra env ref s = (Inl x, s2)" for x s2
    using that assms(1) by (auto simp: getInfra_def logged_def foreignErrors_def split: prod.splits)
  with assms obtain obj s2 where
    "getInfra env ref s = (Inr obj, s2)"
    "nestedString env (u_Object obj) [''spec'', ''controlPlaneEndpoint'', ''host''] = Inr ''''"
    by (auto simp: checkGenericCluster_def foreignErrors_def split: prod.splits sum.splits if_splits)
  then show ?thesis by (auto simp: getInfra_def logged_def split: prod.splits)
qed

text \<open>
  (C21) \<open>checkOrPatchGenericCluster\<close> never overrides an address that is there: whenever it patches the
  infrastructure cluster, the object it had just read has an empty control plane host.
\<close>

theorem checkOrPatch_respects_address:
  assumes "foreignErrors env" and run: "checkOrPatchGenericCluster env ref h p s = (e, s')"
    and new: "calls s' = calls s @ new" and patch: "PatchInfra before after x \<in> set new"
  shows "\<exists>obj w. k_getInfra (r_client env) ref (world s) = (Inr obj, w) \<and>
           nestedString env (u_Object obj) [''spec'', ''controlPlaneEndpoint'', ''host''] = Inr ''''"
proof -
  obtain c s1 where chk: "checkGenericCluster env ref h p s = (c, s1)" by fastforce
  from checkGenericCluster_calls [OF this] new patch run
  obtain err where "c = Some err" "errors_As_Unmanaged err"
    by (auto simp: checkOrPatchGenericCluster_def chk split: option.splits if_splits)
  with unmanaged_iff_empty_host [OF assms(1)] chk show ?thesis by blast
qed

theorem checkOrPatch_respects_address_witness:
  "\<exists>e s' new before after x. checkOrPatchGenericCluster sampleEnv (infraRef ''VSphereCluster'') ''cp'' 6443
       (infraState ''VSphereCluster'' (JObj [])) = (e, s') \<and>
     calls s' = new \<and> PatchInfra before after x \<in> set new \<and>
     (\<exists>obj w. k_getInfra (r_client sampleEnv) (infraRef ''VSphereCluster'')
         (world (infraState ''VSphereCluster'' (JObj []))) = (Inr obj, w) \<and>
       nestedString sampleEnv (u_Object obj) [''spec'', ''controlPlaneEndpoint'', ''host''] = Inr '''')"
proof -
  let ?s = "infraState ''VSphereCluster'' (JObj [])"
  let ?ref = "infraRef ''VSphereCluster''"
  let ?s1 = "?s\<lparr>calls := [GetInfra ?ref None]\<rparr>"
  have "checkGenericCluster sampleEnv ?ref ''cp'' 6443 ?s =
      (Some (UnmanagedControlPlaneAddressError ''VSphereCluster''), ?s1)"
    by (simp add: checkGenericCluster_def sampleNestedString_def)
  moreover obtain e s' where "patchGenericCluster sampleEnv ?ref ''cp'' 6443 False ?s1 = (e, s')" by fastforce
  ultimately have run: "checkOrPatchGenericCluster sampleEnv ?ref ''cp'' 6443 ?s = (e, s')"
    by (simp add: checkOrPatchGenericCluster_def)
  have "\<exists>b a x. PatchInfra b a x \<in> set (calls s')"
    using \<open>patchGenericCluster sampleEnv ?ref ''cp'' 6443 False ?s1 = (e, s')\<close>
    by (auto simp: patchGenericCluster_def endpointMap_def sample_patchInfra_eq sample_getInfra_again)
  then obtain b a x where "PatchInfra b a x \<in> set (calls s')" by blast
  with checkOrPatch_respects_address [OF sample_foreignErrors run, of "calls s'" b a x] run
  show ?thesis by auto
qed

definition knownKinds :: "string list" where
  "knownKinds = [''AWSCluster'', ''AzureCluster'', ''HetznerCluster'', ''IonosCloudCluster'',
     ''KubevirtCluster'', ''Metal3Cluster'', ''NutanixCluster'', ''OpenStackCluster'', ''PacketCluster'',
     ''ProxmoxCluster'', ''TinkerbellCluster'', ''VSphereCluster'']"

text \<open>
  (C25) The provider writes to infrastructure clusters of known kinds only: for a kind that is neither in
  the source's list nor among the configured dynamic ones the result is an error before any API call,
  and a \<open>Metal3Cluster\<close> is read but never written.
\<close>

theorem patchCluster_writes_known_kinds_only:
  assumes "cl_InfrastructureRef cluster = Some ref" "patchCluster env cluster hostPort s = (e, s')"
  shows "(ref_Kind ref \<notin> set knownKinds \<union> r_DynamicInfrastructureClusters env \<longrightarrow> e \<noteq> None \<and> s' = s) \<and>
         (ref_Kind ref = ''Metal3Cluster'' \<longrightarrow> writes (calls s') = writes (calls s))"
proof -
  have "e \<noteq> None \<and> s' = s" if "ref_Kind ref \<notin> set knownKinds \<union> r_DynamicInfrastructureClusters env"
    using assms that by (auto simp: patchCluster_def knownKinds_def split: sum.splits)
  moreover have "writes (calls s') = writes (calls s)" if "ref_Kind ref = ''Metal3Cluster''"
    using assms that checkGenericCluster_calls [of env ref _ _ s e s']
    by (fastforce simp: patchCluster_def split: sum.splits)
  ultimately show ?thesis by blast
qed

theorem patchCluster_writes_known_kinds_only_witness:
  "\<exists>e s'. patchCluster sampleEnv (infraClusterOf ''DockerCluster'') sampleHostPort
            (infraState ''DockerCluster'' (JObj [])) = (e, s') \<and>
          e \<noteq> None \<and> s' = infraState ''DockerCluster'' (JObj [])"
proof -
  let ?r = "patchCluster sampleEnv (infraClusterOf ''DockerCluster'') sampleHostPort
            (infraState ''DockerCluster'' (JObj []))"
  obtain e s' where r: "?r = (e, s')" by fastforce
  have "ref_Kind (infraRef ''DockerCluster'') \<notin> set knownKinds \<union> r_DynamicInfrastructureClusters sampleEnv"
    by (simp add: knownKinds_def sampleEnv_def)
  with patchCluster_writes_known_kinds_only [OF _ r] r show ?thesis by simp
qed

text \<open>
  (C24) The endpoint reaches the \<open>StewardControlPlane\<close> by one merge patch that changes
  \<open>spec.controlPlaneEndpoint\<close> and nothing else; when no endpoint can be computed there is an error and
  no call. The port in it is the computed one exactly when that fits in 32 bits.
\<close>

theorem patchControlPlaneEndpoint_effect:
  assumes run: "patchControlPlaneEndpoint env hostPort s = (e, s')"
  shows "case controlPlaneEndpoint (v_scp s) hostPort of
           Inl _ \<Rightarrow> e \<noteq> None \<and> s' = s
         | Inr (h, p) \<Rightarrow>
             (\<exists>scp' x. calls s' = calls s @ [PatchSCP (v_scp s) scp' x] \<and> (x = None \<longleftrightarrow> e = None) \<and>
                scp'\<lparr>scp_Spec := (scp_Spec scp')\<lparr>spec_ControlPlaneEndpoint :=
                    spec_ControlPlaneEndpoint (scp_Spec (v_scp s))\<rparr>\<rparr> = v_scp s \<and>
                ep_Host (spec_ControlPlaneEndpoint (scp_Spec scp')) = h \<and>
                (sint (ep_Port (spec_ControlPlaneEndpoint (scp_Spec scp'))) = sint p \<longleftrightarrow>
                   - (2 ^ 31) \<le> sint p \<and> sint p < 2 ^ 31))"
proof (cases "controlPlaneEndpoint (v_scp s) hostPort")
  case (Inl err)
  with run show ?thesis by (auto simp: patchControlPlaneEndpoint_def)
next
  case (Inr ep)
  obtain h p where ep: "ep = (h, p)" by fastforce
  let ?scp' = "(v_scp s)\<lparr>scp_Spec := (scp_Spec (v_scp s))\<lparr>
      spec_ControlPlaneEndpoint := \<lparr>ep_Host = h, ep_Port = toInt32 p\<rparr>\<rparr>\<rparr>"
  obtain x s1 where pat: "patchSCP env (v_scp s) (s\<lparr>v_scp := ?scp'\<rparr>) = (x, s1)" by fastforce
  have "calls s1 = calls s @ [PatchSCP (v_scp s) ?scp' x]"
    using pat by (auto simp: patchSCP_def logged_def split: prod.splits sum.splits)
  moreover have "s' = s1" "x = None \<longleftrightarrow> e = None"
    using run pat Inr ep by (auto simp: patchControlPlaneEndpoint_def Let_def split: option.splits)
  ultimately show ?thesis
    using Inr ep toInt32_exact [of p] by (auto intro!: exI [of _ ?scp'])
qed

theorem patchControlPlaneEndpoint_effect_witness:
  "\<exists>s'. fst (patchControlPlaneEndpoint sampleEnv sampleHostPort (startState emptyMem NewStore)) \<noteq> None \<and>
     snd (patchControlPlaneEndpoint sampleEnv sampleHostPort (startState emptyMem NewStore)) = s' \<and>
     (\<exists>scp' x. calls s' = [PatchSCP zeroSCP scp' x] \<and> x \<noteq> None \<and>
        ep_Host (spec_ControlPlaneEndpoint (scp_Spec scp')) = ''cp'' \<and>
        sint (ep_Port (spec_ControlPlaneEndpoint (scp_Spec scp'))) = 6443)"
proof -
  let ?s = "startState emptyMem NewStore"
  obtain e s' where run: "patchControlPlaneEndpoint sampleEnv sampleHostPort ?s = (e, s')" by fastforce
  have s: "v_scp ?s = zeroSCP" "calls ?s = []" by (simp_all add: startState_def)
  have "e \<noteq> None"
    using run s by (auto simp: patchControlPlaneEndpoint_def patchSCP_def logged_def sampleEnv_def
        sampleClient_def storeSCP_def startState_def emptyMem_def Let_def)
  with patchControlPlaneEndpoint_effect [OF run] run s show ?thesis by fastforce
qed

end
