(* ===== verification/Required_Resources.thy ===== *)
theory Required_Resources
  imports Sample_Environment
begin

text \<open>
  \<open>controllers/stewardcontrolplane_controller_resources.go\<close>: the Secrets of the Cluster API contract,
  copied from those of Steward: \<open><cluster>-kubeconfig\<close> and \<open><cluster>-ca\<close>. The mutate functions are
  definitions of their own; \<open>v_secret\<close> is the local Secret that \<open>CreateOrUpdate\<close> fills.
\<close>

definition getSecret ::
  "'w env \<Rightarrow> Manager option \<Rightarrow> NamespacedName \<Rightarrow> 'w rst \<Rightarrow> (error + Secret) \<times> 'w rst" where
  "getSecret env reader k s =
     logged (k_getSecret (clientOf env reader) k) (\<lambda>r. GetSecret (targetOf reader) k (errOf r)) s"

definition createOrUpdateSecret ::
  "'w env \<Rightarrow> (Secret \<Rightarrow> error option \<times> Secret) \<Rightarrow> 'w rst \<Rightarrow> error option \<times> 'w rst" where
  "createOrUpdateSecret env mutate s =
     (case logged (k_createOrUpdateSecret (r_client env) (v_secret s) mutate)
             (\<lambda>r. CreateOrUpdateSecret (nsname (sec_meta (v_secret s))) (fst r)) s of
        ((e, x), s1) \<Rightarrow> (e, s1\<lparr>v_secret := x\<rparr>))"

definition secretNamedAs :: "string \<Rightarrow> string \<Rightarrow> Secret" where
  "secretNamedAs name ns = zeroSecret\<lparr>sec_meta := zeroMeta\<lparr>om_Name := name, om_Namespace := ns\<rparr>\<rparr>"

definition capiLabels :: "'w env \<Rightarrow> string \<Rightarrow> Cluster \<Rightarrow> TenantControlPlane \<Rightarrow> smap \<Rightarrow> smap" where
  "capiLabels env kind cluster tcp labels =
     labels(ClusterNameLabel env \<mapsto> om_Name (cl_meta cluster),
            ''steward.butlerlabs.dev/component'' \<mapsto> ''capi'',
            ''steward.butlerlabs.dev/secret'' \<mapsto> kind,
            ''steward.butlerlabs.dev/cluster'' \<mapsto> om_Name (cl_meta cluster),
            ''steward.butlerlabs.dev/tcp'' \<mapsto> om_Name (tcp_meta tcp))"

text \<open>Labels, data, the type on creation only, and the owner: the tail of both mutate functions.\<close>

definition prepareSecret ::
  "'w env \<Rightarrow> smap \<Rightarrow> (string \<times> bytes option) list \<Rightarrow> Secret \<Rightarrow> Secret" where
  "prepareSecret env labels data x =
     (let x1 = x\<lparr>sec_meta := (sec_meta x)\<lparr>om_Labels := labels\<rparr>, sec_Data := Some data\<rparr>
      in if om_CreationTimestamp (sec_meta x1) = None
         then x1\<lparr>sec_Type := ClusterSecretType env\<rparr> else x1)"

definition fillSecret ::
  "'w env \<Rightarrow> StewardControlPlane \<Rightarrow> smap \<Rightarrow> (string \<times> bytes option) list \<Rightarrow> Secret \<Rightarrow>
   error option \<times> Secret" where
  "fillSecret env scp labels data x =
     (case setControllerReferenceSecret env scp (prepareSecret env labels data x) of
        Inl e \<Rightarrow> (Some e, prepareSecret env labels data x)
      | Inr x' \<Rightarrow> (None, x'))"

definition mutateCA ::
  "'w env \<Rightarrow> Cluster \<Rightarrow> StewardControlPlane \<Rightarrow> TenantControlPlane \<Rightarrow> Secret \<Rightarrow> Secret \<Rightarrow>
   error option \<times> Secret" where
  "mutateCA env cluster scp tcp stewardCA capiCA =
     (if (case om_OwnerReferences (sec_meta capiCA) of
            [] \<Rightarrow> False | owner # _ \<Rightarrow> or_Kind owner = ''TenantControlPlane'')
      then (None, capiCA)
      else (case map_of (secret_data stewardCA) ''ca.crt'' of
              None \<Rightarrow> (Some (ErrNew ''missing Certificate value from *stewardv1alpha1.TenantControlPlane CA''), capiCA)
            | Some crt \<Rightarrow>
                (case map_of (secret_data stewardCA) ''ca.key'' of
                   None \<Rightarrow> (Some (ErrNew ''missing Private Key value from *stewardv1alpha1.TenantControlPlane CA''), capiCA)
                 | Some key \<Rightarrow>
                     fillSecret env scp
                       (capiLabels env ''ca'' cluster tcp (om_Labels (sec_meta stewardCA)))
                       [(TLSCertKey env, crt), (TLSPrivateKeyKey env, key)] capiCA)))"

definition createOrUpdateCertificateAuthority ::
  "'w env \<Rightarrow> Manager option \<Rightarrow> Cluster \<Rightarrow> StewardControlPlane \<Rightarrow> TenantControlPlane \<Rightarrow>
   'w rst \<Rightarrow> error option \<times> 'w rst" where
  "createOrUpdateCertificateAuthority env reader cluster scp tcp s =
     (let capiCA = secretNamedAs (om_Name (cl_meta cluster) @ ''-ca'') (om_Namespace (cl_meta cluster))
      in case getSecret env reader (om_Namespace (tcp_meta tcp), tst_CASecretName (tcp_status tcp)) s of
           (Inl e, s1) \<Rightarrow> (Some (wrapErr ''cannot retrieve source-of-truth as Certificate Authority'' e), s1)
         | (Inr stewardCA, s1) \<Rightarrow>
             (case retryOnConflict env
                     (createOrUpdateSecret env (mutateCA env cluster scp tcp stewardCA))
                     (s1\<lparr>v_secret := capiCA\<rparr>) of
                (Some e, s2) \<Rightarrow> (Some (wrapErr ''cannot create or update CA secret'' e), s2)
              | (None, s2) \<Rightarrow> (None, s2)))"

definition kubeconfigSecretKey :: "'w env \<Rightarrow> StewardControlPlane \<Rightarrow> string" where
  "kubeconfigSecretKey env scp =
     (case om_Annotations (scp_meta scp) (KubeconfigSecretKeyAnnotation env) of
        Some v \<Rightarrow> if v \<noteq> '''' then v else ''admin.conf''
      | None \<Rightarrow> ''admin.conf'')"

definition mutateKubeconfig ::
  "'w env \<Rightarrow> Cluster \<Rightarrow> StewardControlPlane \<Rightarrow> TenantControlPlane \<Rightarrow> Secret \<Rightarrow> Secret \<Rightarrow>
   error option \<times> Secret" where
  "mutateKubeconfig env cluster scp tcp stewardAdminKubeconfig capiAdminKubeconfig =
     (case map_of (secret_data stewardAdminKubeconfig) (kubeconfigSecretKey env scp) of
        None \<Rightarrow> (Some (ErrNew ''missing key from *stewardv1alpha1.TenantControlPlane admin kubeconfig secret''),
                 capiAdminKubeconfig)
      | Some value \<Rightarrow>
          fillSecret env scp
            (capiLabels env ''kubeconfig'' cluster tcp (om_Labels (sec_meta capiAdminKubeconfig)))
            [(''value'', value)] capiAdminKubeconfig)"

definition createOrUpdateKubeconfig ::
  "'w env \<Rightarrow> Manager option \<Rightarrow> Cluster \<Rightarrow> StewardControlPlane \<Rightarrow> TenantControlPlane \<Rightarrow>
   'w rst \<Rightarrow> error option \<times> 'w rst" where
  "createOrUpdateKubeconfig env reader cluster scp tcp s =
     (let capiAdminKubeconfig =
            secretNamedAs (om_Name (cl_meta cluster) @ ''-kubeconfig'') (om_Namespace (cl_meta cluster))
      in case getSecret env reader (om_Namespace (tcp_meta tcp), tst_AdminSecretName (tcp_status tcp)) s of
           (Inl e, s1) \<Rightarrow> (Some (wrapErr ''cannot retrieve source-of-truth for admin kubeconfig'' e), s1)
         | (Inr stewardAdminKubeconfig, s1) \<Rightarrow>
             (case retryOnConflict env
                     (createOrUpdateSecret env (mutateKubeconfig env cluster scp tcp stewardAdminKubeconfig))
                     (s1\<lparr>v_secret := capiAdminKubeconfig\<rparr>) of
                (Some e, s2) \<Rightarrow> (Some (wrapErr ''cannot create or update admin Kubeconfig secret'' e), s2)
              | (None, s2) \<Rightarrow> (None, s2)))"

definition createRequiredResources ::
  "'w env \<Rightarrow> Manager option \<Rightarrow> Cluster \<Rightarrow> StewardControlPlane \<Rightarrow> TenantControlPlane \<Rightarrow>
   'w rst \<Rightarrow> error option \<times> 'w rst" where
  "createRequiredResources env remoteClient cluster scp tcp s =
     (if tst_AdminSecretName (tcp_status tcp) = '''' then
        (Some (ErrFmtW ''admin kubeconfig still unprocessed by Steward, '' (Sentinel ErrEnqueueBack)), s)
      else (case createOrUpdateKubeconfig env remoteClient cluster scp tcp s of
              (Some e, s1) \<Rightarrow> (Some e, s1)
            | (None, s1) \<Rightarrow>
                if tst_CASecretName (tcp_status tcp) = '''' then
                  (Some (ErrFmtW ''CA still unprocessed by Steward, '' (Sentinel ErrEnqueueBack)), s1)
                else createOrUpdateCertificateAuthority env remoteClient cluster scp tcp s1))"

section \<open>Lemmas\<close>

text \<open>\<open>controllerutil.SetControllerReference\<close> changes the owner references only.\<close>

definition secretOwnerContract :: "'w env \<Rightarrow> bool" where
  "secretOwnerContract env \<longleftrightarrow>
     (\<forall>scp x x'. setControllerReferenceSecret env scp x = Inr x' \<longrightarrow>
        x'\<lparr>sec_meta := (sec_meta x')\<lparr>om_OwnerReferences := om_OwnerReferences (sec_meta x)\<rparr>\<rparr> = x)"

lemma sample_secretOwnerContract [simp]: "secretOwnerContract sampleEnv"
  by (simp add: secretOwnerContract_def sampleEnv_def ownedBy_def)

lemma secretOwnerContractD:
  assumes "secretOwnerContract env" "setControllerReferenceSecret env scp x = Inr x'"
  shows "sec_Data x' = sec_Data x" "sec_Type x' = sec_Type x"
    "om_Labels (sec_meta x') = om_Labels (sec_meta x)" "nsname (sec_meta x') = nsname (sec_meta x)"
proof -
  from assms have x: "x = x'\<lparr>sec_meta := (sec_meta x')\<lparr>om_OwnerReferences := om_OwnerReferences (sec_meta x)\<rparr>\<rparr>"
    by (simp add: secretOwnerContract_def)
  have "sec_Data x = sec_Data x'" "sec_Type x = sec_Type x'"
    "om_Labels (sec_meta x) = om_Labels (sec_meta x')" "nsname (sec_meta x) = nsname (sec_meta x')"
    by (subst x; simp add: nsname_def)+
  then show "sec_Data x' = sec_Data x" "sec_Type x' = sec_Type x"
    "om_Labels (sec_meta x') = om_Labels (sec_meta x)" "nsname (sec_meta x') = nsname (sec_meta x)"
    by simp_all
qed

text \<open>A Secret of the Cluster API contract: the data and labels it must have, its type kept or set.\<close>

definition conforms :: "'w env \<Rightarrow> smap \<Rightarrow> (string \<times> bytes option) list \<Rightarrow> Secret \<Rightarrow> Secret \<Rightarrow> bool" where
  "conforms env labels data old new \<longleftrightarrow>
     sec_Data new = Some data \<and> om_Labels (sec_meta new) = labels \<and>
     nsname (sec_meta new) = nsname (sec_meta old) \<and>
     sec_Type new = (if om_CreationTimestamp (sec_meta old) = None then ClusterSecretType env else sec_Type old)"

lemma prepareSecret_conforms: "conforms env labels data x (prepareSecret env labels data x)"
  by (simp add: conforms_def prepareSecret_def nsname_def Let_def)

lemma fillSecret_conforms:
  assumes "secretOwnerContract env" "fillSecret env scp labels data x = (None, x')"
  shows "conforms env labels data x x'"
proof -
  from assms(2) have "setControllerReferenceSecret env scp (prepareSecret env labels data x) = Inr x'"
    by (simp add: fillSecret_def split: sum.splits)
  from secretOwnerContractD [OF assms(1) this] prepareSecret_conforms [of env labels data x] show ?thesis
    by (simp add: conforms_def)
qed

text \<open>A successful copy of a Secret: retries that ended in a conflict, then one that went through.\<close>

definition secretWrites :: "NamespacedName \<Rightarrow> call list \<Rightarrow> bool" where
  "secretWrites k cs \<longleftrightarrow>
     (\<exists>tries. cs = map (\<lambda>e. CreateOrUpdateSecret k (Some e)) tries @ [CreateOrUpdateSecret k None] \<and>
        list_all isConflict tries)"

text \<open>
  \<open>CreateOrUpdate\<close> leaves the name and namespace of the object alone, if the mutate function does.
\<close>

definition keepsName :: "(Secret \<Rightarrow> error option \<times> Secret) \<Rightarrow> bool" where
  "keepsName f \<longleftrightarrow> (\<forall>x. nsname (sec_meta (snd (f x))) = nsname (sec_meta x))"

definition secretNameContract :: "'w env \<Rightarrow> bool" where
  "secretNameContract env \<longleftrightarrow>
     (\<forall>x f w. keepsName f \<longrightarrow>
        nsname (sec_meta (snd (fst (k_createOrUpdateSecret (r_client env) x f w)))) = nsname (sec_meta x))"

lemma sample_secretNameContract [simp]: "secretNameContract sampleEnv"
proof -
  have kept: "nsname (sec_meta y) = nsname (sec_meta x)" if "keepsName f" "f x = (e, y)" for f x e y
    using that unfolding keepsName_def by (metis snd_conv)
  have "nsname (sec_meta (snd (fst (sampleCreateOrUpdate (\<lambda>x. nsname (sec_meta x)) m x f)))) = nsname (sec_meta x)"
    if "keepsName f" for m x f
    by (auto simp: sampleCreateOrUpdate_def split: prod.splits option.splits if_splits
        dest!: kept [OF that])
  then show ?thesis
    by (auto simp: secretNameContract_def sampleEnv_def sampleClient_def case_prod_unfold)
qed

lemma fillSecret_keepsName:
  assumes "secretOwnerContract env"
  shows "nsname (sec_meta (snd (fillSecret env scp labels data x))) = nsname (sec_meta x)"
  using fillSecret_conforms [OF assms, of scp labels data x] prepareSecret_conforms [of env labels data x]
  by (simp add: fillSecret_def conforms_def split: sum.splits)

lemma mutate_keepsName:
  assumes "secretOwnerContract env"
  shows "keepsName (mutateCA env cluster scp tcp src)" "keepsName (mutateKubeconfig env cluster scp tcp src)"
  using fillSecret_keepsName [OF assms]
  by (simp_all add: keepsName_def mutateCA_def mutateKubeconfig_def split: list.split option.split)

lemma createOrUpdateSecret_calls:
  assumes "createOrUpdateSecret env f s = (e, s1)"
  shows "calls s1 = calls s @ [CreateOrUpdateSecret (nsname (sec_meta (v_secret s))) e]"
    and "secretNameContract env \<Longrightarrow> keepsName f \<Longrightarrow>
      nsname (sec_meta (v_secret s1)) = nsname (sec_meta (v_secret s))"
proof -
  obtain x w where k: "k_createOrUpdateSecret (r_client env) (v_secret s) f (world s) = ((e, x), w)"
    and s1: "s1 = s\<lparr>world := w, calls := calls s @ [CreateOrUpdateSecret (nsname (sec_meta (v_secret s))) e],
       v_secret := x\<rparr>"
    using assms by (auto simp: createOrUpdateSecret_def logged_def split: prod.splits)
  then show "calls s1 = calls s @ [CreateOrUpdateSecret (nsname (sec_meta (v_secret s))) e]" by simp
  assume "secretNameContract env" "keepsName f"
  with k have "nsname (sec_meta x) = nsname (sec_meta (v_secret s))"
    unfolding secretNameContract_def by (metis fst_conv snd_conv)
  with s1 show "nsname (sec_meta (v_secret s1)) = nsname (sec_meta (v_secret s))" by simp
qed

lemma retry_secretWrites:
  assumes "retryRuns (createOrUpdateSecret env f) s r" "secretNameContract env" "keepsName f" "fst r = None"
  shows "\<exists>cs. calls (snd r) = calls s @ cs \<and> secretWrites (nsname (sec_meta (v_secret s))) cs"
  using assms
proof (induction rule: retryRuns.induct)
  case (last_run s)
  obtain e s1 where "createOrUpdateSecret env f s = (e, s1)" by fastforce
  with createOrUpdateSecret_calls(1) [OF this] last_run show ?case
    by (auto simp: secretWrites_def intro!: exI [of _ "[]"])
next
  case (run_again s e s' r)
  note c = createOrUpdateSecret_calls [OF run_again.hyps(1)]
  from run_again.IH [OF run_again.prems] c(2) [OF run_again.prems(1,2)] obtain tries where
    "calls (snd r) = calls s' @ map (\<lambda>e. CreateOrUpdateSecret (nsname (sec_meta (v_secret s))) (Some e)) tries @
       [CreateOrUpdateSecret (nsname (sec_meta (v_secret s))) None]" "list_all isConflict tries"
    by (auto simp: secretWrites_def)
  with c(1) run_again.hyps(2) show ?case
    by (auto simp: secretWrites_def intro!: exI [of _ "e # tries"])
qed

lemma retryOnConflict_secretWrites:
  assumes "retryContract (retryOnConflict env)" "secretNameContract env" "keepsName f"
    and "retryOnConflict env (createOrUpdateSecret env f) s = (None, s')"
  shows "\<exists>cs. calls s' = calls s @ cs \<and> secretWrites (nsname (sec_meta (v_secret s))) cs"
proof -
  from assms(1,4) have "retryRuns (createOrUpdateSecret env f) s (None, s')"
    unfolding retryContract_def by metis
  from retry_secretWrites [OF this assms(2,3)] show ?thesis by simp
qed

lemma getSecret_calls: "getSecret env rd k s = (x, s1) \<Longrightarrow> calls s1 = calls s @ [GetSecret (targetOf rd) k (errOf x)]"
  by (simp add: getSecret_def logged_log)

lemma nsname_secretNamedAs [simp]: "nsname (sec_meta (secretNamedAs n ns)) = (ns, n)"
  by (simp add: secretNamedAs_def nsname_def)

lemma createOrUpdateKubeconfig_success:
  assumes "retryContract (retryOnConflict env)" "secretOwnerContract env" "secretNameContract env"
    and "createOrUpdateKubeconfig env rd cluster scp tcp s = (None, s')"
  shows "\<exists>cs. calls s' = calls s @
            GetSecret (targetOf rd) (om_Namespace (tcp_meta tcp), tst_AdminSecretName (tcp_status tcp)) None # cs \<and>
          secretWrites (om_Namespace (cl_meta cluster), om_Name (cl_meta cluster) @ ''-kubeconfig'') cs"
proof -
  from assms(4) obtain src s1 where
    get: "getSecret env rd (om_Namespace (tcp_meta tcp), tst_AdminSecretName (tcp_status tcp)) s = (Inr src, s1)"
    and run: "retryOnConflict env (createOrUpdateSecret env (mutateKubeconfig env cluster scp tcp src))
      (s1\<lparr>v_secret := secretNamedAs (om_Name (cl_meta cluster) @ ''-kubeconfig'') (om_Namespace (cl_meta cluster))\<rparr>)
      = (None, s')"
    by (auto simp: createOrUpdateKubeconfig_def Let_def split: prod.splits sum.splits option.splits)
  from retryOnConflict_secretWrites [OF assms(1,3) mutate_keepsName(2) [OF assms(2)] run]
    getSecret_calls [OF get] show ?thesis by auto
qed

lemma createOrUpdateCA_success:
  assumes "retryContract (retryOnConflict env)" "secretOwnerContract env" "secretNameContract env"
    and "createOrUpdateCertificateAuthority env rd cluster scp tcp s = (None, s')"
  shows "\<exists>cs. calls s' = calls s @
            GetSecret (targetOf rd) (om_Namespace (tcp_meta tcp), tst_CASecretName (tcp_status tcp)) None # cs \<and>
          secretWrites (om_Namespace (cl_meta cluster), om_Name (cl_meta cluster) @ ''-ca'') cs"
proof -
  from assms(4) obtain src s1 where
    get: "getSecret env rd (om_Namespace (tcp_meta tcp), tst_CASecretName (tcp_status tcp)) s = (Inr src, s1)"
    and run: "retryOnConflict env (createOrUpdateSecret env (mutateCA env cluster scp tcp src))
      (s1\<lparr>v_secret := secretNamedAs (om_Name (cl_meta cluster) @ ''-ca'') (om_Namespace (cl_meta cluster))\<rparr>)
      = (None, s')"
    by (auto simp: createOrUpdateCertificateAuthority_def Let_def split: prod.splits sum.splits option.splits)
  from retryOnConflict_secretWrites [OF assms(1,3) mutate_keepsName(1) [OF assms(2)] run]
    getSecret_calls [OF get] show ?thesis by auto
qed

section \<open>Properties\<close>

text \<open>
  (C14) The Secrets contract of Cluster API: when \<open>createRequiredResources\<close> succeeds, the admin kubeconfig
  was read from the cluster of the \<open>TenantControlPlane\<close> and \<open><cluster>-kubeconfig\<close> was written to the
  management cluster with success, and after that the same for the CA and \<open><cluster>-ca\<close>; every other
  write was an attempt that ended in a conflict.
\<close>

theorem createRequiredResources_replicates:
  assumes "retryContract (retryOnConflict env)" "secretOwnerContract env" "secretNameContract env"
    and ok: "createRequiredResources env remote cluster scp tcp s = (None, s')"
  shows "\<exists>kc ca. calls s' = calls s @
      GetSecret (targetOf remote) (om_Namespace (tcp_meta tcp), tst_AdminSecretName (tcp_status tcp)) None # kc @
      GetSecret (targetOf remote) (om_Namespace (tcp_meta tcp), tst_CASecretName (tcp_status tcp)) None # ca \<and>
    secretWrites (om_Namespace (cl_meta cluster), om_Name (cl_meta cluster) @ ''-kubeconfig'') kc \<and>
    secretWrites (om_Namespace (cl_meta cluster), om_Name (cl_meta cluster) @ ''-ca'') ca"
proof -
  from ok obtain s1 where "createOrUpdateKubeconfig env remote cluster scp tcp s = (None, s1)"
    "createOrUpdateCertificateAuthority env remote cluster scp tcp s1 = (None, s')"
    by (auto simp: createRequiredResources_def split: if_splits prod.splits option.splits)
  from createOrUpdateKubeconfig_success [OF assms(1-3) this(1)]
    createOrUpdateCA_success [OF assms(1-3) this(2)]
  show ?thesis by (elim exE conjE, intro exI conjI) simp_all
qed

text \<open>
  The kubeconfig Secret holds, under \<open>value\<close>, the entry of Steward's Secret named by the annotation
  (by default \<open>admin.conf\<close>), carries the Cluster API labels, and gets its type on creation only; if the
  entry is missing, nothing is changed and an error is returned.
\<close>

theorem mutateKubeconfig_result:
  assumes "secretOwnerContract env" and run: "mutateKubeconfig env cluster scp tcp src x = (e, x')"
  shows "case map_of (secret_data src) (kubeconfigSecretKey env scp) of
           None \<Rightarrow> e \<noteq> None \<and> x' = x
         | Some v \<Rightarrow> e = None \<longrightarrow>
             conforms env (capiLabels env ''kubeconfig'' cluster tcp (om_Labels (sec_meta x))) [(''value'', v)] x x'"
  using run fillSecret_conforms [OF assms(1)]
  by (auto simp: mutateKubeconfig_def split: option.splits)

definition ownedByTCP :: "Secret \<Rightarrow> bool" where
  "ownedByTCP x \<longleftrightarrow> (\<exists>owner owners. om_OwnerReferences (sec_meta x) = owner # owners \<and>
     or_Kind owner = ''TenantControlPlane'')"

text \<open>
  The CA Secret is a copy of Steward's certificate and private key, with Steward's labels and the
  Cluster API ones; a Secret that a \<open>TenantControlPlane\<close> owns is left as it is, and without
  certificate or key there is an error and no change.
\<close>

theorem mutateCA_result:
  assumes "secretOwnerContract env" and run: "mutateCA env cluster scp tcp src x = (e, x')"
  shows "if ownedByTCP x then e = None \<and> x' = x
         else case (map_of (secret_data src) ''ca.crt'', map_of (secret_data src) ''ca.key'') of
           (Some crt, Some key) \<Rightarrow> e = None \<longrightarrow>
             conforms env (capiLabels env ''ca'' cluster tcp (om_Labels (sec_meta src)))
               [(TLSCertKey env, crt), (TLSPrivateKeyKey env, key)] x x'
         | _ \<Rightarrow> e \<noteq> None \<and> x' = x"
proof (cases "ownedByTCP x")
  case True
  with run show ?thesis by (auto simp: mutateCA_def ownedByTCP_def)
next
  case False
  then have "(case om_OwnerReferences (sec_meta x) of
      [] \<Rightarrow> False | owner # _ \<Rightarrow> or_Kind owner = ''TenantControlPlane'') = False"
    by (auto simp: ownedByTCP_def split: list.splits)
  with run False fillSecret_conforms [OF assms(1)] show ?thesis
    by (simp add: mutateCA_def split: option.splits) blast+
qed

text \<open>The labels and the type of a Secret of the contract.\<close>

definition wantedLabel :: "'w env \<Rightarrow> string \<Rightarrow> string \<Rightarrow> string \<Rightarrow> smap \<Rightarrow> smap" where
  "wantedLabel env kind clusterName tcpName old l =
     (if l = ''steward.butlerlabs.dev/component'' then Some ''capi''
      else if l = ''steward.butlerlabs.dev/secret'' then Some kind
      else if l = ''steward.butlerlabs.dev/cluster'' then Some clusterName
      else if l = ''steward.butlerlabs.dev/tcp'' then Some tcpName
      else if l = ClusterNameLabel env then Some clusterName
      else old l)"

lemma capiLabels_wanted: "capiLabels env kind cluster tcp old = wantedLabel env kind (om_Name (cl_meta cluster)) (om_Name (tcp_meta tcp)) old"
  by (auto simp: capiLabels_def wantedLabel_def fun_eq_iff)

lemma fillSecret_result:
  assumes "secretOwnerContract env" "fillSecret env scp labels data x = (None, x')"
  shows "nsname (sec_meta x') = nsname (sec_meta x) \<and> sec_Data x' = Some data \<and> om_Labels (sec_meta x') = labels \<and>
    sec_Type x' = (if om_CreationTimestamp (sec_meta x) = None then ClusterSecretType env else sec_Type x)"
  using fillSecret_conforms [OF assms] by (simp add: conforms_def)


section \<open>Witnesses\<close>

definition adminSecret :: Secret where
  "adminSecret = (secretNamedAs ''adm'' ''ns'')\<lparr>sec_Data := Some [(''admin.conf'', Some ''kubeconfig'')]\<rparr>"

definition caSecret :: Secret where
  "caSecret = (secretNamedAs ''pki'' ''ns'')\<lparr>sec_Data := Some [(''ca.crt'', Some ''crt''), (''ca.key'', Some ''key'')]\<rparr>"

definition secretMem :: mem where
  "secretMem = emptyMem\<lparr>m_secrets := [(''ns'', ''adm'') \<mapsto> adminSecret, (''ns'', ''pki'') \<mapsto> caSecret]\<rparr>"

definition processedTCP :: TenantControlPlane where
  "processedTCP = zeroTCP\<lparr>tcp_meta := zeroMeta\<lparr>om_Name := ''t'', om_Namespace := ''ns''\<rparr>,
     tcp_status := zeroTCPStatus\<lparr>tst_AdminSecretName := ''adm'', tst_CASecretName := ''pki''\<rparr>\<rparr>"

definition namedCluster :: Cluster where
  "namedCluster = zeroCluster\<lparr>cl_meta := zeroMeta\<lparr>om_Name := ''c'', om_Namespace := ''ns''\<rparr>\<rparr>"

lemma processedTCP_simps [simp]:
  "tst_AdminSecretName (tcp_status processedTCP) = ''adm''"
  "tst_CASecretName (tcp_status processedTCP) = ''pki''"
  "om_Namespace (tcp_meta processedTCP) = ''ns''"
  "om_Name (cl_meta namedCluster) = ''c''" "om_Namespace (cl_meta namedCluster) = ''ns''"
  by (simp_all add: processedTCP_def namedCluster_def)

lemma sample_fill:
  "mutateKubeconfig sampleEnv c zeroSCP t adminSecret x =
     fillSecret sampleEnv zeroSCP (capiLabels sampleEnv ''kubeconfig'' c t (om_Labels (sec_meta x)))
       [(''value'', Some ''kubeconfig'')] x"
  by (simp add: mutateKubeconfig_def adminSecret_def secret_data_def kubeconfigSecretKey_def zeroSCP_def
      zeroMeta_def)

lemma sample_fill_ok: "fst (fillSecret sampleEnv scp l d x) = None"
  by (simp add: fillSecret_def sampleEnv_def)

lemma sample_ca_ok: "fst (mutateCA sampleEnv c scp t caSecret x) = None"
  using sample_fill_ok by (simp add: mutateCA_def caSecret_def secret_data_def split: list.splits)

lemma sample_createOrUpdateSecret:
  assumes "\<And>x. fst (f x) = None"
  shows "createOrUpdateSecret sampleEnv f s =
    (None, s\<lparr>world := (world s)\<lparr>m_secrets := snd (sampleCreateOrUpdate (\<lambda>x. nsname (sec_meta x)) (m_secrets (world s)) (v_secret s) f)\<rparr>,
       calls := calls s @ [CreateOrUpdateSecret (nsname (sec_meta (v_secret s))) None],
       v_secret := snd (fst (sampleCreateOrUpdate (\<lambda>x. nsname (sec_meta x)) (m_secrets (world s)) (v_secret s) f))\<rparr>)"
  using assms
  by (simp add: createOrUpdateSecret_def logged_def sampleEnv_def sampleClient_def sampleCreateOrUpdate_def
      case_prod_unfold split: option.split)

lemma sample_getSecret:
  "getSecret sampleEnv None k s = (found (m_secrets (world s) k), s\<lparr>calls := calls s @ [GetSecret Management k (errOf (found (m_secrets (world s) k)))]\<rparr>)"
  by (simp add: getSecret_def logged_def sampleEnv_def sampleClient_def clientOf_def targetOf_def)

lemma boundedRetry_None: "fn s = (None, s') \<Longrightarrow> boundedRetry n fn s = (None, s')"
  by (cases n) simp_all

lemma sample_retry_None: "fn s = (None, s') \<Longrightarrow> retryOnConflict sampleEnv fn s = (None, s')"
  by (simp add: sampleEnv_def boundedRetry_None)

lemma sample_kubeconfig_ok:
  assumes "m_secrets (world s) (''ns'', ''adm'') = Some adminSecret"
  shows "\<exists>s'. createOrUpdateKubeconfig sampleEnv None namedCluster zeroSCP processedTCP s = (None, s') \<and>
    (\<forall>k. k \<noteq> (''ns'', ''c-kubeconfig'') \<longrightarrow> m_secrets (world s') k = m_secrets (world s) k)"
proof -
  have ok: "fst (mutateKubeconfig sampleEnv namedCluster zeroSCP processedTCP adminSecret x) = None" for x
    by (simp add: sample_fill sample_fill_ok)
  show ?thesis
    using assms
    by (simp add: createOrUpdateKubeconfig_def Let_def sample_getSecret found_def
        sample_retry_None [OF sample_createOrUpdateSecret [OF ok]])
      (auto simp: sampleCreateOrUpdate_def split: prod.splits option.splits)
qed

lemma sample_ca_secret_ok:
  assumes "m_secrets (world s) (''ns'', ''pki'') = Some caSecret"
  shows "\<exists>s'. createOrUpdateCertificateAuthority sampleEnv None namedCluster zeroSCP processedTCP s = (None, s')"
  using assms
  by (simp add: createOrUpdateCertificateAuthority_def Let_def sample_getSecret found_def
      sample_retry_None [OF sample_createOrUpdateSecret [OF sample_ca_ok]])

theorem createRequiredResources_replicates_witness:
  "\<exists>s' kc ca. createRequiredResources sampleEnv None namedCluster zeroSCP processedTCP
       (startState secretMem NewStore) = (None, s') \<and>
     calls s' = GetSecret Management (''ns'', ''adm'') None # kc @ GetSecret Management (''ns'', ''pki'') None # ca \<and>
     secretWrites (''ns'', ''c-kubeconfig'') kc \<and> secretWrites (''ns'', ''c-ca'') ca"
proof -
  let ?s = "startState secretMem NewStore :: mem rst"
  have w: "m_secrets (world ?s) (''ns'', ''adm'') = Some adminSecret"
    "m_secrets (world ?s) (''ns'', ''pki'') = Some caSecret" "calls ?s = []"
    by (simp_all add: startState_def secretMem_def)
  from sample_kubeconfig_ok [OF w(1)] obtain s1 where s1:
    "createOrUpdateKubeconfig sampleEnv None namedCluster zeroSCP processedTCP ?s = (None, s1)"
    "m_secrets (world s1) (''ns'', ''pki'') = Some caSecret" using w(2) by auto
  from sample_ca_secret_ok [OF this(2)] obtain s' where
    "createOrUpdateCertificateAuthority sampleEnv None namedCluster zeroSCP processedTCP s1 = (None, s')" by blast
  with s1 have run: "createRequiredResources sampleEnv None namedCluster zeroSCP processedTCP ?s = (None, s')"
    by (simp add: createRequiredResources_def)
  from createRequiredResources_replicates [OF sample_retryContract sample_secretOwnerContract
      sample_secretNameContract run] run w(3)
  show ?thesis by (simp add: targetOf_def)
qed

theorem mutateKubeconfig_result_witness:
  "\<exists>x'. mutateKubeconfig sampleEnv namedCluster zeroSCP processedTCP adminSecret zeroSecret = (None, x') \<and>
     sec_Data x' = Some [(''value'', Some ''kubeconfig'')] \<and> sec_Type x' = ''cluster.x-k8s.io/secret''"
proof -
  let ?r = "mutateKubeconfig sampleEnv namedCluster zeroSCP processedTCP adminSecret zeroSecret"
  have "fst ?r = None" by (simp add: sample_fill sample_fill_ok)
  then obtain x' where run: "?r = (None, x')" by (cases ?r) simp
  have "map_of (secret_data adminSecret) (kubeconfigSecretKey sampleEnv zeroSCP) = Some (Some ''kubeconfig'')"
    by (simp add: adminSecret_def secret_data_def kubeconfigSecretKey_def zeroSCP_def zeroMeta_def)
  with mutateKubeconfig_result [OF sample_secretOwnerContract run] run show ?thesis
    by (simp add: conforms_def zeroSecret_def zeroMeta_def sampleEnv_def)
qed

theorem mutateCA_result_witness:
  "\<exists>x'. mutateCA sampleEnv namedCluster zeroSCP processedTCP caSecret zeroSecret = (None, x') \<and>
     sec_Data x' = Some [(''tls.crt'', Some ''crt''), (''tls.key'', Some ''key'')]"
proof -
  let ?r = "mutateCA sampleEnv namedCluster zeroSCP processedTCP caSecret zeroSecret"
  obtain x' where run: "?r = (None, x')" using sample_ca_ok by (cases ?r) (metis fst_conv)
  from mutateCA_result [OF sample_secretOwnerContract run] run show ?thesis
    by (simp add: conforms_def ownedByTCP_def zeroSecret_def zeroMeta_def caSecret_def secret_data_def)
      (simp add: sampleEnv_def)
qed


end
