(* ===== verification/External_Reference.thy ===== *)
theory External_Reference
  imports Required_Resources
begin

text \<open>
  \<open>controllers/stewardcontrolplane_controller_externalreference.go\<close> and
  \<open>controllers/stewardcontrolplane_finalizer.go\<close>: the client of the remote cluster, and the finalizer
  that keeps a \<open>StewardControlPlane\<close> until its remote \<open>TenantControlPlane\<close> is deleted.
\<close>

definition ExternalClusterReferenceFinalizer :: string where
  "ExternalClusterReferenceFinalizer = ''ecr.steward.butlerlabs.dev/finalizer''"

definition FeatureExternalClusterReference :: string where
  "FeatureExternalClusterReference = ''ExternalClusterReference''"

definition FeatureExternalClusterReferenceCrossNamespace :: string where
  "FeatureExternalClusterReferenceCrossNamespace = ''ExternalClusterReferenceCrossNamespace''"

definition FeatureSkipInfraClusterPatch :: string where
  "FeatureSkipInfraClusterPatch = ''SkipInfraClusterPatch''"

definition FeatureDynamicInfrastructureClusterPatch :: string where
  "FeatureDynamicInfrastructureClusterPatch = ''DynamicInfrastructureClusterPatch''"

definition extractRemoteClient ::
  "'w env \<Rightarrow> StewardControlPlane \<Rightarrow> 'w rst \<Rightarrow> (error + Manager) \<times> 'w rst" where
  "extractRemoteClient env scp s =
     (if \<not> r_FeatureGates env FeatureExternalClusterReference then
        (Inl (Sentinel ErrExternalClusterReferenceNotEnabled), s)
      else case scp_ecr scp of
        None \<Rightarrow> (Inl (ErrPanic ''nil ExternalClusterReference''), s)
      | Some ecr \<Rightarrow>
          if r_FeatureGates env FeatureExternalClusterReference \<and>
             \<not> r_FeatureGates env FeatureExternalClusterReferenceCrossNamespace \<and>
             ecr_KubeconfigSecretNamespace ecr \<noteq> '''' \<and>
             ecr_KubeconfigSecretNamespace ecr \<noteq> om_Namespace (scp_meta scp)
          then (Inl (Sentinel ErrExternalClusterReferenceCrossNamespaceReference), s)
          else
            let namespace = (if ecr_KubeconfigSecretNamespace ecr \<noteq> ''''
                             then ecr_KubeconfigSecretNamespace ecr else om_Namespace (scp_meta scp))
            in case getSecret env None (namespace, ecr_KubeconfigSecretName ecr) s of
                 (Inl e, s1) \<Rightarrow> (Inl (wrapErr ''could not get external cluster reference secret'' e), s1)
               | (Inr secret, s1) \<Rightarrow>
                   if sec_Data secret = None then
                     (Inl (Sentinel ErrExternalCLusterReferenceSecretEmptyError), s1)
                   else if (case map_of (secret_data secret) (ecr_KubeconfigSecretKey ecr) of
                              None \<Rightarrow> True | Some v \<Rightarrow> v = None) then
                     (Inl (Sentinel ErrExternalClusterReferenceSecretKeyEmpty), s1)
                   else (case GenerateKeyNameFromSteward scp of
                       None \<Rightarrow> (Inl (ErrPanic ''nil ExternalClusterReference''), s1)
                     | Some name \<Rightarrow>
                         (case store_Get (mstore s1) name (om_ResourceVersion (sec_meta secret)) of
                            (Some mgr, True) \<Rightarrow>
                              (case mgr_KindFor env mgr (world s1) of
                                 (Some e, w) \<Rightarrow>
                                   (Inl (Sentinel ErrExternalClusterReferenceTenantControlPlaneNotFound),
                                    s1\<lparr>world := w\<rparr>)
                               | (None, w) \<Rightarrow> (Inr mgr, s1\<lparr>world := w\<rparr>))
                          | _ \<Rightarrow> (Inl (Sentinel ErrExternalClusterReferenceNonInitializedStore), s1))))"

section \<open>The finalizer\<close>

text \<open>
  \<open>handleFinalizer\<close> computes the set of finalizers once, before the retried closure reads the object
  again; \<open>v_finalizers\<close> is that set.
\<close>

definition insertFinalizer :: "'w env \<Rightarrow> 'w rst \<Rightarrow> error option \<times> 'w rst" where
  "insertFinalizer env s =
     (case getSCP env (scp_key (v_scp s)) s of
        (Some e, s1) \<Rightarrow> (Some e, s1)
      | (None, s1) \<Rightarrow>
          let fs = insert ExternalClusterReferenceFinalizer (v_finalizers s1);
              scp = v_scp s1
          in updateSCP env (s1\<lparr>v_finalizers := fs,
               v_scp := scp\<lparr>scp_meta := (scp_meta scp)\<lparr>om_Finalizers := unsortedList env fs\<rparr>\<rparr>\<rparr>))"

definition handleFinalizer :: "'w env \<Rightarrow> 'w rst \<Rightarrow> error option \<times> 'w rst" where
  "handleFinalizer env s =
     (let finalizers = set (om_Finalizers (scp_meta (v_scp s)))
      in if ExternalClusterReferenceFinalizer \<notin> finalizers
         then retryOnConflict env (insertFinalizer env) (s\<lparr>v_finalizers := finalizers\<rparr>)
         else (None, s))"

text \<open>\<open>handleDeletion\<close> recomputes the set from the object it has just read.\<close>

definition removeFinalizer :: "'w env \<Rightarrow> 'w rst \<Rightarrow> error option \<times> 'w rst" where
  "removeFinalizer env s =
     (case getSCP env (scp_key (v_scp s)) s of
        (Some e, s1) \<Rightarrow> (Some e, s1)
      | (None, s1) \<Rightarrow>
          let scp = v_scp s1;
              fs = set (om_Finalizers (scp_meta scp)) - {ExternalClusterReferenceFinalizer}
          in updateSCP env (s1\<lparr>v_finalizers := fs,
               v_scp := scp\<lparr>scp_meta := (scp_meta scp)\<lparr>om_Finalizers := unsortedList env fs\<rparr>\<rparr>\<rparr>))"

definition deleteTCP :: "'w env \<Rightarrow> Manager \<Rightarrow> NamespacedName \<Rightarrow> 'w rst \<Rightarrow> error option \<times> 'w rst" where
  "deleteTCP env mgr k s = logged (k_deleteTCP (mgr_GetClient env mgr) k) (DeleteTCP (Remote mgr) k) s"

definition handleDeletion :: "'w env \<Rightarrow> 'w rst \<Rightarrow> error option \<times> 'w rst" where
  "handleDeletion env s =
     (let scp = v_scp s
      in if ExternalClusterReferenceFinalizer \<notin> set (om_Finalizers (scp_meta scp)) \<or> scp_ecr scp = None
         then (None, s)
         else case extractRemoteClient env scp s of
           (Inl e, s1) \<Rightarrow> (Some e, s1)
         | (Inr remoteClient, s1) \<Rightarrow>
             (case GenerateRemoteTenantControlPlaneNames scp of
                None \<Rightarrow> (Some (ErrPanic ''nil ExternalClusterReference''), s1)
              | Some (name, ns) \<Rightarrow>
                  (case deleteTCP env remoteClient (ns, name) s1 of
                     (Some tcpErr, s2) \<Rightarrow>
                       if isNotFound tcpErr then (None, s2) else (Some tcpErr, s2)
                   | (None, s2) \<Rightarrow>
                       (case retryOnConflict env (removeFinalizer env) s2 of
                          (Some err, s3) \<Rightarrow> if isNotFound err then (None, s3) else (Some err, s3)
                        | (None, s3) \<Rightarrow> (None, s3)))))"

section \<open>Lemmas\<close>

text \<open>\<open>s'\<close> extends the call log of \<open>s\<close> by calls that satisfy \<open>P\<close>.\<close>

definition extends :: "(call \<Rightarrow> bool) \<Rightarrow> 'w rst \<Rightarrow> 'w rst \<Rightarrow> bool" where
  "extends P s s' \<longleftrightarrow> (\<exists>new. calls s' = calls s @ new \<and> list_all P new)"

lemma extends_refl [simp]: "extends P s s"
  by (simp add: extends_def)

lemma extends_trans: "extends P s t \<Longrightarrow> extends P t u \<Longrightarrow> extends P s u"
  by (auto simp: extends_def)

lemma extends_weaken: "extends P s t \<Longrightarrow> (\<And>c. P c \<Longrightarrow> Q c) \<Longrightarrow> extends Q s t"
  unfolding extends_def by (blast intro: list.pred_mono_strong)

lemma extends_writes: "extends (\<lambda>c. \<not> isWrite c) s t \<Longrightarrow> writes (calls t) = writes (calls s)"
  by (auto simp: extends_def writes_def list_all_iff filter_empty_conv)

lemma retry_extends:
  assumes "retryContract retry" "\<And>t. extends P t (snd (f t))"
  shows "extends P s (snd (retry f s))"
  using retry_invariant [OF assms(1), where I = "extends P s" and fn = f] assms(2) extends_trans
  by (metis extends_refl)

lemma getSecret_frame:
  "getSecret env rd k s = (x, s1) \<Longrightarrow>
   v_scp s1 = v_scp s \<and> mstore s1 = mstore s \<and> v_err s1 = v_err s \<and> v_remote s1 = v_remote s"
  by (simp add: getSecret_def logged_frame)

lemma extractRemoteClient_frame:
  assumes "extractRemoteClient env scp s = (r, s')"
  shows "extends (\<lambda>c. \<exists>k x. c = GetSecret Management k x) s s' \<and> v_scp s' = v_scp s \<and> mstore s' = mstore s"
proof -
  have get: "extends (\<lambda>c. \<exists>k x. c = GetSecret Management k x) s s1 \<and> v_scp s1 = v_scp s \<and> mstore s1 = mstore s"
    if "getSecret env None k s = (x, s1)" for k x s1
    using getSecret_calls [OF that] getSecret_frame [OF that] by (auto simp: extends_def targetOf_def)
  have upd: "extends P s (s1\<lparr>world := w\<rparr>) = extends P s s1" for P s1 w
    by (simp add: extends_def)
  from assms show ?thesis
    by (auto simp: extractRemoteClient_def Let_def upd split: if_splits option.splits prod.splits sum.splits
        bool.splits dest!: get)
qed

lemma getSCP_calls: "getSCP env k s = (e, s1) \<Longrightarrow> calls s1 = calls s @ [GetSCP k e]"
  by (auto simp: getSCP_def logged_def split: prod.splits sum.splits)

lemma updateSCP_calls: "updateSCP env s = (e, s1) \<Longrightarrow> calls s1 = calls s @ [UpdateSCP (v_scp s) e]"
  by (auto simp: updateSCP_def logged_def split: prod.splits sum.splits)

text \<open>One run of the closures that write the finalizers: a read, and after a good read an update.\<close>

lemma insertFinalizer_run:
  assumes "insertFinalizer env s = (e, s')" "unsortedContract (unsortedList env)" "finite (v_finalizers s)"
  shows "(\<exists>x. e = Some x \<and> calls s' = calls s @ [GetSCP (scp_key (v_scp s)) e] \<and>
            v_finalizers s' = v_finalizers s) \<or>
         (\<exists>scp. calls s' = calls s @ [GetSCP (scp_key (v_scp s)) None, UpdateSCP scp e] \<and>
            set (om_Finalizers (scp_meta scp)) = insert ExternalClusterReferenceFinalizer (v_finalizers s) \<and>
            v_finalizers s' = insert ExternalClusterReferenceFinalizer (v_finalizers s))"
proof -
  obtain g s1 where get: "getSCP env (scp_key (v_scp s)) s = (g, s1)" by fastforce
  have fin: "v_finalizers s1 = v_finalizers s"
    using get by (auto simp: getSCP_def logged_def split: prod.splits sum.splits)
  show ?thesis
  proof (cases g)
    case (Some x)
    with assms(1) get getSCP_calls [OF get] fin show ?thesis by (auto simp: insertFinalizer_def)
  next
    case None
    let ?fs = "insert ExternalClusterReferenceFinalizer (v_finalizers s1)"
    let ?s2 = "s1\<lparr>v_finalizers := ?fs, v_scp := (v_scp s1)\<lparr>scp_meta :=
        (scp_meta (v_scp s1))\<lparr>om_Finalizers := unsortedList env ?fs\<rparr>\<rparr>\<rparr>"
    from assms(1) get None have upd: "updateSCP env ?s2 = (e, s')" by (simp add: insertFinalizer_def Let_def)
    moreover have "v_finalizers s' = v_finalizers ?s2"
      using upd by (auto simp: updateSCP_def logged_def split: prod.splits sum.splits)
    moreover have "set (unsortedList env ?fs) = ?fs"
      using assms(2,3) fin by (simp add: unsortedContract_def)
    ultimately show ?thesis using getSCP_calls [OF get] None fin updateSCP_calls [OF upd] by auto
  qed
qed

lemma removeFinalizer_run:
  assumes "removeFinalizer env s = (e, s')" "unsortedContract (unsortedList env)"
  shows "calls s' = calls s @ [GetSCP (scp_key (v_scp s)) e] \<or>
         (\<exists>scp. calls s' = calls s @ [GetSCP (scp_key (v_scp s)) None, UpdateSCP scp e] \<and>
            ExternalClusterReferenceFinalizer \<notin> set (om_Finalizers (scp_meta scp)))"
proof -
  obtain g s1 where get: "getSCP env (scp_key (v_scp s)) s = (g, s1)" by fastforce
  show ?thesis
  proof (cases g)
    case (Some x)
    with assms(1) get getSCP_calls [OF get] show ?thesis by (auto simp: removeFinalizer_def)
  next
    case None
    let ?fs = "set (om_Finalizers (scp_meta (v_scp s1))) - {ExternalClusterReferenceFinalizer}"
    let ?s2 = "s1\<lparr>v_finalizers := ?fs, v_scp := (v_scp s1)\<lparr>scp_meta :=
        (scp_meta (v_scp s1))\<lparr>om_Finalizers := unsortedList env ?fs\<rparr>\<rparr>\<rparr>"
    from assms(1) get None have upd: "updateSCP env ?s2 = (e, s')" by (simp add: removeFinalizer_def Let_def)
    have "set (unsortedList env ?fs) = ?fs"
      using assms(2) by (simp add: unsortedContract_def)
    then show ?thesis using getSCP_calls [OF get] None updateSCP_calls [OF upd] by simp
  qed
qed

definition finalizerCall :: "call \<Rightarrow> bool" where
  "finalizerCall c \<longleftrightarrow> (\<exists>k x. c = GetSCP k x) \<or>
     (\<exists>scp x. c = UpdateSCP scp x \<and> ExternalClusterReferenceFinalizer \<notin> set (om_Finalizers (scp_meta scp)))"

lemma retry_removeFinalizer:
  assumes "retryContract (retryOnConflict env)" "unsortedContract (unsortedList env)"
    and "retryOnConflict env (removeFinalizer env) s = (e, s')"
  shows "extends finalizerCall s s'"
proof -
  have "extends finalizerCall t (snd (removeFinalizer env t))" for t
    using removeFinalizer_run [OF prod.collapse [symmetric] assms(2), of t]
    by (auto simp: extends_def finalizerCall_def)
  then have "extends finalizerCall s (snd (retryOnConflict env (removeFinalizer env) s))"
    by (rule retry_extends [OF assms(1)])
  with assms(3) show ?thesis by simp
qed

section \<open>Properties\<close>

text \<open>
  (C18) A remote client is handed out only for a reference that is allowed and up to date: the feature is on,
  a foreign namespace needs the second gate, the Secret just read from the referenced namespace holds
  the key, and the manager is the one the store keeps for exactly this entry and this resource version of
  the Secret. Nothing is written on the way.
\<close>

theorem extractRemoteClient_sound:
  assumes run: "extractRemoteClient env scp s = (Inr mgr, s')"
  shows "\<exists>ecr secret w v i.
     r_FeatureGates env FeatureExternalClusterReference \<and> scp_ecr scp = Some ecr \<and>
     (ecr_KubeconfigSecretNamespace ecr \<in> {'''', om_Namespace (scp_meta scp)} \<or>
        r_FeatureGates env FeatureExternalClusterReferenceCrossNamespace) \<and>
     k_getSecret (r_client env) (referenceNamespace scp ecr, ecr_KubeconfigSecretName ecr) (world s) = (Inr secret, w) \<and>
     map_of (secret_data secret) (ecr_KubeconfigSecretKey ecr) = Some (Some v) \<and>
     ms_store (mstore s) (joinKey (referenceNamespace scp ecr) (ecr_KubeconfigSecretName ecr)
        (ecr_KubeconfigSecretKey ecr)) = Some i \<and>
     inst_Manager i = mgr \<and> inst_ResourceVersion i = om_ResourceVersion (sec_meta secret) \<and>
     writes (calls s') = writes (calls s)"
proof -
  from run obtain ecr where gate: "r_FeatureGates env FeatureExternalClusterReference"
    and ecr: "scp_ecr scp = Some ecr"
    by (auto simp: extractRemoteClient_def split: if_splits option.splits)
  let ?ns = "referenceNamespace scp ecr"
  obtain x s1 where get: "getSecret env None (?ns, ecr_KubeconfigSecretName ecr) s = (x, s1)" by fastforce
  with run gate ecr obtain secret v where
    ns: "ecr_KubeconfigSecretNamespace ecr \<in> {'''', om_Namespace (scp_meta scp)} \<or>
        r_FeatureGates env FeatureExternalClusterReferenceCrossNamespace"
    and x: "x = Inr secret"
    and v: "map_of (secret_data secret) (ecr_KubeconfigSecretKey ecr) = Some (Some v)"
    and st: "store_Get (mstore s1) (joinKey ?ns (ecr_KubeconfigSecretName ecr) (ecr_KubeconfigSecretKey ecr))
        (om_ResourceVersion (sec_meta secret)) = (Some mgr, True)"
    by (auto simp: extractRemoteClient_def Let_def referenceNamespace_def GenerateKeyNameFromSteward_def
        split: if_splits option.splits prod.splits sum.splits bool.splits)
  from get x obtain w where
    "k_getSecret (r_client env) (?ns, ecr_KubeconfigSecretName ecr) (world s) = (Inr secret, w)"
    by (auto simp: getSecret_def logged_def clientOf_def split: prod.splits)
  moreover from st getSecret_frame [OF get] obtain i where
    "ms_store (mstore s) (joinKey ?ns (ecr_KubeconfigSecretName ecr) (ecr_KubeconfigSecretKey ecr)) = Some i"
    "inst_Manager i = mgr" "inst_ResourceVersion i = om_ResourceVersion (sec_meta secret)"
    by (auto simp: store_Get_def split: option.splits if_splits)
  moreover have "writes (calls s') = writes (calls s)"
    using extractRemoteClient_frame [OF run] by (auto intro!: extends_writes elim: extends_weaken)
  ultimately show ?thesis using gate ecr ns v by blast
qed

lemma handleFinalizer_update:
  assumes "retryContract (retryOnConflict env)" "unsortedContract (unsortedList env)"
    and run: "handleFinalizer env s = (None, s')"
    and new: "ExternalClusterReferenceFinalizer \<notin> set (om_Finalizers (scp_meta (v_scp s)))"
  shows "\<exists>pre k scp. calls s' = calls s @ pre @ [GetSCP k None, UpdateSCP scp None] \<and>
           set (om_Finalizers (scp_meta scp)) =
             insert ExternalClusterReferenceFinalizer (set (om_Finalizers (scp_meta (v_scp s))))"
proof -
  let ?F = ExternalClusterReferenceFinalizer and ?fs = "set (om_Finalizers (scp_meta (v_scp s)))"
  let ?s0 = "s\<lparr>v_finalizers := ?fs\<rparr>"
  let ?I = "\<lambda>t. finite (v_finalizers t) \<and> insert ?F (v_finalizers t) = insert ?F ?fs \<and>
      (\<exists>pre. calls t = calls s @ pre)"
  have step: "?I (snd (insertFinalizer env t))" if "?I t" for t
    using insertFinalizer_run [OF prod.collapse [symmetric] assms(2), of t] that by auto
  have "\<exists>t. ?I t \<and> retryOnConflict env (insertFinalizer env) ?s0 = insertFinalizer env t"
    by (rule retry_last [OF assms(1), where I = ?I]) (use step in auto)
  then obtain t where t: "?I t" "retryOnConflict env (insertFinalizer env) ?s0 = insertFinalizer env t"
    by blast
  from t(2) run new have "insertFinalizer env t = (None, s')" by (simp add: handleFinalizer_def)
  from insertFinalizer_run [OF this assms(2)] t(1) new show ?thesis by auto
qed

text \<open>
  (C23) \<open>handleFinalizer\<close> adds its finalizer and never works without it: on success the object had the
  finalizer already, or the last call is a successful update. What that update writes is the set of finalizers
  the object had before it was read again, plus the provider's own; a finalizer another
  controller added in between is not among them.
\<close>

theorem handleFinalizer_writes:
  assumes "retryContract (retryOnConflict env)" "unsortedContract (unsortedList env)"
    and run: "handleFinalizer env s = (None, s')"
  shows "if ExternalClusterReferenceFinalizer \<in> set (om_Finalizers (scp_meta (v_scp s))) then s' = s
         else \<exists>pre k scp. calls s' = calls s @ pre @ [GetSCP k None, UpdateSCP scp None] \<and>
           set (om_Finalizers (scp_meta scp)) =
             insert ExternalClusterReferenceFinalizer (set (om_Finalizers (scp_meta (v_scp s))))"
  using handleFinalizer_update [OF assms] run by (auto simp: handleFinalizer_def)

lemma deleteTCP_calls: "deleteTCP env m k s = (e, s1) \<Longrightarrow> calls s1 = calls s @ [DeleteTCP (Remote m) k e]"
  by (simp add: deleteTCP_def logged_log)

text \<open>The calls of \<open>handleDeletion\<close>: reads, the deletion, and only after a good one the finalizer.\<close>

lemma handleDeletion_cases:
  assumes "retryContract (retryOnConflict env)" "unsortedContract (unsortedList env)"
    and run: "handleDeletion env s = (e, s')"
  shows "extends (\<lambda>c. \<exists>k x. c = GetSecret Management k x) s s' \<or>
    (\<exists>m n ns s1 s2 x. GenerateRemoteTenantControlPlaneNames (v_scp s) = Some (n, ns) \<and>
       extends (\<lambda>c. \<exists>k x. c = GetSecret Management k x) s s1 \<and>
       calls s2 = calls s1 @ [DeleteTCP (Remote m) (ns, n) x] \<and>
       (if x = None then extends finalizerCall s2 s' else s' = s2))"
proof -
  obtain r s1 where ex: "extractRemoteClient env (v_scp s) s = (r, s1)" by fastforce
  note fr = extractRemoteClient_frame [OF ex]
  show ?thesis
  proof (cases "s' = s \<or> s' = s1")
    case True
    with fr show ?thesis by auto
  next
    case False
    with run ex obtain m n ns where r: "r = Inr m"
      and nn: "GenerateRemoteTenantControlPlaneNames (v_scp s) = Some (n, ns)"
      by (auto simp: handleDeletion_def Let_def split: if_splits sum.splits option.splits)
    obtain x s2 where del: "deleteTCP env m (ns, n) s1 = (x, s2)" by fastforce
    have "if x = None then extends finalizerCall s2 s' else s' = s2"
    proof (cases x)
      case None
      obtain y s3 where "retryOnConflict env (removeFinalizer env) s2 = (y, s3)" by fastforce
      with retry_removeFinalizer [OF assms(1,2) this] run ex r nn del None False show ?thesis
        by (auto simp: handleDeletion_def Let_def split: if_splits option.splits)
    next
      case (Some err)
      with run ex r nn del False show ?thesis
        by (auto simp: handleDeletion_def Let_def split: if_splits)
    qed
    with nn fr deleteTCP_calls [OF del] show ?thesis by blast
  qed
qed

text \<open>
  (C17) The finalizer outlives the remote control plane: \<open>handleDeletion\<close> updates the object only after the
  remote \<open>TenantControlPlane\<close>, under the name generated for this control plane, was deleted without
  error; the update removes the finalizer, and before the deletion nothing is written.
\<close>

theorem handleDeletion_order:
  assumes "retryContract (retryOnConflict env)" "unsortedContract (unsortedList env)"
    and run: "handleDeletion env s = (e, s')" and new: "calls s' = calls s @ new"
    and upd: "UpdateSCP scp x \<in> set new"
  shows "\<exists>m n ns pre post. GenerateRemoteTenantControlPlaneNames (v_scp s) = Some (n, ns) \<and>
     new = pre @ DeleteTCP (Remote m) (ns, n) None # post \<and> writes pre = [] \<and>
     UpdateSCP scp x \<in> set post \<and> ExternalClusterReferenceFinalizer \<notin> set (om_Finalizers (scp_meta scp))"
proof -
  have reads: "UpdateSCP scp x \<notin> set cs \<and> writes cs = []"
    if "list_all (\<lambda>c. \<exists>k x. c = GetSecret Management k x) cs" for cs
    using that by (induction cs) auto
  have "\<not> extends (\<lambda>c. \<exists>k x. c = GetSecret Management k x) s s'"
    using new upd reads by (auto simp: extends_def)
  with handleDeletion_cases [OF assms(1-3)] obtain m n ns s1 s2 y where
    nn: "GenerateRemoteTenantControlPlaneNames (v_scp s) = Some (n, ns)" and
    s1: "extends (\<lambda>c. \<exists>k x. c = GetSecret Management k x) s s1" and
    s2: "calls s2 = calls s1 @ [DeleteTCP (Remote m) (ns, n) y]" and
    s': "if y = None then extends finalizerCall s2 s' else s' = s2"
    by blast
  from s1 obtain pre where pre: "calls s1 = calls s @ pre"
    "list_all (\<lambda>c. \<exists>k x. c = GetSecret Management k x) pre" by (auto simp: extends_def)
  show ?thesis
  proof (cases y)
    case None
    with s' obtain post where post: "calls s' = calls s2 @ post" "list_all finalizerCall post"
      by (auto simp: extends_def)
    with new s2 pre None have "new = pre @ DeleteTCP (Remote m) (ns, n) None # post" by simp
    with upd reads [OF pre(2)] post(2) nn show ?thesis
      by (auto simp: list_all_iff finalizerCall_def)
  next
    case (Some err)
    with s' new s2 pre upd reads [OF pre(2)] show ?thesis by auto
  qed
qed

text \<open>
  If the remote \<open>TenantControlPlane\<close> is already gone, \<open>handleDeletion\<close> returns without error and without
  touching the object, so its finalizer stays: after a deletion whose update of the object failed, nothing
  in the provider releases the object.
\<close>

theorem handleDeletion_already_gone:
  assumes "ExternalClusterReferenceFinalizer \<in> set (om_Finalizers (scp_meta (v_scp s)))"
    and ex: "extractRemoteClient env (v_scp s) s = (Inr m, s1)"
    and "GenerateRemoteTenantControlPlaneNames (v_scp s) = Some (n, ns)"
    and "k_deleteTCP (mgr_GetClient env m) (ns, n) (world s1) = (Some err, w)" "isNotFound err"
  shows "\<exists>s'. handleDeletion env s = (None, s') \<and> v_scp s' = v_scp s \<and>
           writes (calls s') = writes (calls s) @ [DeleteTCP (Remote m) (ns, n) (Some err)]"
proof -
  from assms(3) have "scp_ecr (v_scp s) \<noteq> None"
    by (auto simp: GenerateRemoteTenantControlPlaneNames_def split: option.splits)
  moreover have "writes (calls s1) = writes (calls s)"
    using extractRemoteClient_frame [OF ex] by (auto intro!: extends_writes elim: extends_weaken)
  ultimately show ?thesis
    using assms extractRemoteClient_frame [OF ex]
    by (simp add: handleDeletion_def deleteTCP_def logged_def Let_def)
qed

section \<open>Witnesses\<close>

text \<open>The management cluster with the control plane, its kubeconfig Secret and a running manager.\<close>

definition remoteMem :: "string list \<Rightarrow> mem" where
  "remoteMem fs = emptyMem\<lparr>
     m_scps := [(''team'', ''cp'') \<mapsto> remoteSCP\<lparr>scp_meta := (scp_meta remoteSCP)\<lparr>om_Finalizers := fs\<rparr>\<rparr>],
     m_secrets := [(''team'', ''remote'') \<mapsto> remoteSecret]\<rparr>"

definition remoteStore :: mapStore where
  "remoteStore = snd (store_Add NewStore ''team/remote/conf'' '''' 1 1)"

definition remoteState :: "string list \<Rightarrow> mem \<Rightarrow> mem rst" where
  "remoteState fs w = (startState w remoteStore)\<lparr>
     v_scp := remoteSCP\<lparr>scp_meta := (scp_meta remoteSCP)\<lparr>om_Finalizers := fs\<rparr>\<rparr>\<rparr>"

definition ecrEnv :: "mem env" where
  "ecrEnv = sampleEnv\<lparr>r_FeatureGates := (\<lambda>f. f = ''ExternalClusterReference'')\<rparr>"

lemma ecrEnv_simps [simp]:
  "r_client ecrEnv = sampleClient" "mgr_GetClient ecrEnv = (\<lambda>_. sampleClient)"
  "mgr_KindFor ecrEnv = (\<lambda>_ w. (None, w))" "retryOnConflict ecrEnv = boundedRetry 4"
  "unsortedContract (unsortedList ecrEnv)"
  "r_FeatureGates ecrEnv FeatureExternalClusterReference"
  "\<not> r_FeatureGates ecrEnv FeatureExternalClusterReferenceCrossNamespace"
  using sample_unsortedContract
  by (simp_all add: ecrEnv_def sampleEnv_def FeatureExternalClusterReference_def
      FeatureExternalClusterReferenceCrossNamespace_def)

lemma remoteState_simps [simp]:
  "v_scp (remoteState fs w) = remoteSCP\<lparr>scp_meta := (scp_meta remoteSCP)\<lparr>om_Finalizers := fs\<rparr>\<rparr>"
  "calls (remoteState fs w) = []" "world (remoteState fs w) = w" "mstore (remoteState fs w) = remoteStore"
  by (simp_all add: remoteState_def startState_def)

lemma remoteState_extract:
  assumes "m_secrets w (''team'', ''remote'') = Some remoteSecret"
  shows "extractRemoteClient ecrEnv (v_scp (remoteState fs w)) (remoteState fs w) =
    (Inr 1, (remoteState fs w)\<lparr>calls := [GetSecret Management (''team'', ''remote'') None]\<rparr>)"
proof -
  have "secret_data remoteSecret = [(''conf'', Some ''kubeconfig'')]" "sec_Data remoteSecret \<noteq> None"
    "om_ResourceVersion (sec_meta remoteSecret) = ''''"
    by (simp, simp_all add: remoteSecret_def zeroMeta_def)
  moreover have "store_Get remoteStore ''team/remote/conf'' '''' = (Some 1, True)"
    by (simp add: remoteStore_def NewStore_def store_Add_def store_Get_def)
  moreover have "scp_ecr (remoteSCP\<lparr>scp_meta := m\<rparr>) = scp_ecr remoteSCP" for m by simp
  ultimately show ?thesis
    using assms
    by (simp add: extractRemoteClient_def getSecret_def logged_def clientOf_def targetOf_def sampleClient_def
        found_def GenerateKeyNameFromSteward_def referenceNamespace_def joinKey_def Let_def)
qed

theorem extractRemoteClient_sound_witness:
  "\<exists>i. ms_store remoteStore ''team/remote/conf'' = Some i \<and> inst_Manager i = 1 \<and> inst_ResourceVersion i = ''''"
proof -
  have "m_secrets (remoteMem []) (''team'', ''remote'') = Some remoteSecret" by (simp add: remoteMem_def)
  from extractRemoteClient_sound [OF remoteState_extract [OF this, of "[]"]] show ?thesis
    by (auto simp: referenceNamespace_def joinKey_def sampleClient_def found_def remoteMem_def remoteSecret_def
        zeroMeta_def)
qed

lemma ecrEnv_retryContract [simp]: "retryContract (retryOnConflict ecrEnv)"
  by (simp add: boundedRetry_contract)

abbreviation withFinalizers :: "string list \<Rightarrow> StewardControlPlane" where
  "withFinalizers fs \<equiv> remoteSCP\<lparr>scp_meta := (scp_meta remoteSCP)\<lparr>om_Finalizers := fs\<rparr>\<rparr>"

lemma remoteSCP_key [simp]: "scp_key (withFinalizers fs) = (''team'', ''cp'')"
  by (simp add: remoteSCP_def nsname_def)

lemma remoteMem_get [simp]:
  "m_scps (remoteMem fs) (''team'', ''cp'') = Some (withFinalizers fs)"
  "m_secrets (remoteMem fs) (''team'', ''remote'') = Some remoteSecret"
  by (simp_all add: remoteMem_def)

theorem handleFinalizer_writes_witness:
  "\<exists>s' pre k scp. handleFinalizer ecrEnv (remoteState [] (remoteMem [''other''])) = (None, s') \<and>
     calls s' = pre @ [GetSCP k None, UpdateSCP scp None] \<and>
     set (om_Finalizers (scp_meta scp)) = {ExternalClusterReferenceFinalizer}"
proof -
  let ?s = "remoteState [] (remoteMem [''other''])"
  have "\<exists>s'. insertFinalizer ecrEnv (?s\<lparr>v_finalizers := {}\<rparr>) = (None, s')"
    by (simp add: insertFinalizer_def getSCP_def updateSCP_def logged_def sampleClient_def found_def
        storeSCP_def Let_def remoteSCP_key [simplified])
  then obtain s' where run: "handleFinalizer ecrEnv ?s = (None, s')"
    by (auto simp: handleFinalizer_def boundedRetry_None)
  from handleFinalizer_writes [OF ecrEnv_retryContract ecrEnv_simps(5) run] run show ?thesis by auto
qed

text \<open>The remote cluster of the sample environment is the same in-memory server.\<close>

definition deletionMem :: mem where
  "deletionMem = (remoteMem [ExternalClusterReferenceFinalizer])\<lparr>m_tcps := [(''tenants'', ''kcp-u-1'') \<mapsto> zeroTCP]\<rparr>"

lemma remote_names [simp]: "GenerateRemoteTenantControlPlaneNames (withFinalizers fs) = Some (''kcp-u-1'', ''tenants'')"
  by (simp add: GenerateRemoteTenantControlPlaneNames_def RemoteTCPPrefix_def)

theorem handleDeletion_already_gone_witness:
  "\<exists>s'. handleDeletion ecrEnv (remoteState [ExternalClusterReferenceFinalizer]
            (remoteMem [ExternalClusterReferenceFinalizer])) = (None, s') \<and>
        writes (calls s') = [DeleteTCP (Remote 1) (''tenants'', ''kcp-u-1'') (Some (ApiError NotFound))]"
proof -
  let ?F = ExternalClusterReferenceFinalizer
  let ?s = "remoteState [?F] (remoteMem [?F])"
  have "m_secrets (remoteMem [?F]) (''team'', ''remote'') = Some remoteSecret" by simp
  note ex = remoteState_extract [OF this, of "[?F]"]
  have "k_deleteTCP (mgr_GetClient ecrEnv 1) (''tenants'', ''kcp-u-1'') (remoteMem [?F]) =
      (Some (ApiError NotFound), remoteMem [?F])"
    by (simp add: sampleClient_def remoteMem_def emptyMem_def)
  with handleDeletion_already_gone [OF _ ex, of "''kcp-u-1''" "''tenants''" "ApiError NotFound"]
  show ?thesis by (auto simp: isNotFound_def)
qed

lemma sample_removeFinalizer:
  assumes "scp_key (v_scp s) = (''team'', ''cp'')"
    and "m_scps (world s) (''team'', ''cp'') = Some (withFinalizers [ExternalClusterReferenceFinalizer])"
  shows "\<exists>s'. removeFinalizer ecrEnv s = (None, s') \<and> (\<exists>scp x. UpdateSCP scp x \<in> set (calls s'))"
  using assms remoteSCP_key
  by (simp add: removeFinalizer_def getSCP_def updateSCP_def logged_def sampleClient_def found_def
      storeSCP_def Let_def) blast

theorem handleDeletion_order_witness:
  "\<exists>s' scp x m n ns pre post.
     handleDeletion ecrEnv (remoteState [ExternalClusterReferenceFinalizer] deletionMem) = (None, s') \<and>
     calls s' = pre @ DeleteTCP (Remote m) (ns, n) None # post \<and> UpdateSCP scp x \<in> set post \<and>
     ExternalClusterReferenceFinalizer \<notin> set (om_Finalizers (scp_meta scp))"
proof -
  let ?F = ExternalClusterReferenceFinalizer
  let ?s = "remoteState [?F] deletionMem"
  have sec: "m_secrets deletionMem (''team'', ''remote'') = Some remoteSecret" by (simp add: deletionMem_def)
  obtain s2 where del: "deleteTCP ecrEnv 1 (''tenants'', ''kcp-u-1'')
      (?s\<lparr>calls := [GetSecret Management (''team'', ''remote'') None]\<rparr>) = (None, s2)"
    and s2: "v_scp s2 = withFinalizers [?F]" "m_scps (world s2) (''team'', ''cp'') = Some (withFinalizers [?F])"
    by (simp add: deleteTCP_def logged_def sampleClient_def deletionMem_def)
  from s2(1) have "scp_key (v_scp s2) = (''team'', ''cp'')" using remoteSCP_key by metis
  from sample_removeFinalizer [OF this s2(2)] obtain s' scp x where
    rem: "removeFinalizer ecrEnv s2 = (None, s')" and upd: "UpdateSCP scp x \<in> set (calls s')" by blast
  have run: "handleDeletion ecrEnv ?s = (None, s')"
    using remoteState_extract [OF sec, of "[?F]"] del boundedRetry_None [of "removeFinalizer ecrEnv" s2 s' 4] rem
    by (simp add: handleDeletion_def Let_def)
  have "calls s' = calls ?s @ calls s'" by simp
  from handleDeletion_order [OF ecrEnv_retryContract ecrEnv_simps(5) run this upd] run show ?thesis by blast
qed

end
