(* ===== verification/Control_Plane_Reconciler.thy ===== *)
theory Control_Plane_Reconciler
  imports Conditions Tenant_Control_Plane Cluster_Patch External_Reference
begin

text \<open>
  \<open>controllers/stewardcontrolplane_controller.go\<close>: \<open>Reconcile\<close> of the \<open>StewardControlPlane\<close> controller
  as a list of steps in source order, each with the early returns of its lines. The variable \<open>err\<close>,
  shared by the closures, is \<open>v_err\<close>. The steps of \<open>body\<close> run under the deferred update of the
  conditions, which happens however they return, and also when they panic.
\<close>

record Result =
  RequeueAfter :: "nat option"

definition resultEmpty :: Result where
  "resultEmpty = \<lparr>RequeueAfter = None\<rparr>"

definition resultOneSecond :: Result where
  "resultOneSecond = \<lparr>RequeueAfter = Some 1\<rparr>"

datatype outcome = Returns Result "error option" | Panics error

type_synonym 'w rstep = "('w rst, outcome) step"

definition returns :: "Result \<Rightarrow> error option \<Rightarrow> outcome option" where
  "returns r e = Some (case e of
     Some err \<Rightarrow> if isPanic err then Panics err else Returns r e
   | None \<Rightarrow> Returns r None)"

section \<open>updateStewardControlPlaneStatus\<close>

text \<open>The closure \<open>modifierFn\<close> on the status just read; \<open>None\<close> is the panic of a nil dereference.\<close>

type_synonym 'w modifier = "'w rst \<Rightarrow> StewardControlPlaneStatus \<Rightarrow> StewardControlPlaneStatus option"

definition tryStatusUpdate :: "'w env \<Rightarrow> 'w modifier \<Rightarrow> 'w rst \<Rightarrow> error option \<times> 'w rst" where
  "tryStatusUpdate env modifierFn s =
     (case getSCP env (scp_key (v_scp s)) s of
        (Some e, s1) \<Rightarrow> (Some e, s1)
      | (None, s1) \<Rightarrow>
          (case modifierFn s1 (scp_Status (v_scp s1)) of
             None \<Rightarrow> (Some (ErrPanic ''nil pointer dereference''), s1)
           | Some st \<Rightarrow> statusUpdateSCP env (s1\<lparr>v_scp := (v_scp s1)\<lparr>scp_Status := st\<rparr>\<rparr>)))"

definition updateStewardControlPlaneStatus ::
  "'w env \<Rightarrow> 'w modifier \<Rightarrow> 'w rst \<Rightarrow> error option \<times> 'w rst" where
  "updateStewardControlPlaneStatus env modifierFn s =
     (case retryOnConflict env (tryStatusUpdate env modifierFn) s of
        (Some e, s1) \<Rightarrow> (Some (wrapErr ''cannot update StewardControlPlane resource'' e), s1)
      | (None, s1) \<Rightarrow> (None, s1))"

section \<open>Helpers for the closures of Reconcile\<close>

text \<open>\<open>err = f(); return err\<close>.\<close>

definition assignErr :: "('w rst \<Rightarrow> error option \<times> 'w rst) \<Rightarrow> 'w rst \<Rightarrow> error option \<times> 'w rst" where
  "assignErr f s =
     (case f s of
        (Some e, s1) \<Rightarrow> if isPanic e then (Some e, s1) else (Some e, s1\<lparr>v_err := Some e\<rparr>)
      | (None, s1) \<Rightarrow> (None, s1\<lparr>v_err := None\<rparr>))"

text \<open>\<open>TrackConditionType(&conditions, ct, scp.Generation, fn)\<close>, then the statements \<open>k\<close> after it.\<close>

definition track :: "'w env \<Rightarrow> StewardControlPlaneConditionType \<Rightarrow>
    ('w rst \<Rightarrow> error option \<times> 'w rst) \<Rightarrow> 'w rstep \<Rightarrow> 'w rstep" where
  "track env ct fn k s =
     (case TrackConditionType env ct (om_Generation (scp_meta (v_scp s))) fn s of
        (Some p, s1) \<Rightarrow> (Some (Panics p), s1)
      | (None, s1) \<Rightarrow> k s1)"

text \<open>\<open>if err != nil { return ctrl.Result{}, err }\<close>.\<close>

definition failOnErr :: "'w rstep" where
  "failOnErr s = (case v_err s of Some e \<Rightarrow> (returns resultEmpty (Some e), s) | None \<Rightarrow> (None, s))"

text \<open>The same with the sentinel: \<open>ErrEnqueueBack\<close> is a requeue and no error.\<close>

definition requeueOnErr :: "'w rstep" where
  "requeueOnErr s =
     (case v_err s of
        Some e \<Rightarrow> if errors_Is e ErrEnqueueBack then (returns resultOneSecond None, s)
                  else (returns resultEmpty (Some e), s)
      | None \<Rightarrow> (None, s))"

section \<open>The steps\<close>

definition getControlPlane :: "'w env \<Rightarrow> NamespacedName \<Rightarrow> 'w rstep" where
  "getControlPlane env req s =
     (case getSCP env req s of
        (Some e, s1) \<Rightarrow>
          if isNotFound e then (returns resultEmpty None, s1) else (returns resultEmpty (Some e), s1)
      | (None, s1) \<Rightarrow> (None, s1\<lparr>v_err := None\<rparr>))"

definition waitOwnerReference :: "'w rstep" where
  "waitOwnerReference s =
     (if om_OwnerReferences (scp_meta (v_scp s)) = [] then (returns resultEmpty None, s) else (None, s))"

definition fetchCluster :: "'w env \<Rightarrow> NamespacedName \<Rightarrow> 'w rstep" where
  "fetchCluster env k s =
     (case logged (k_getCluster (r_client env) k) (\<lambda>r. GetCluster k (errOf r)) s of
        (Inl e, s1) \<Rightarrow>
          if isNotFound e then (returns resultEmpty None, s1) else (returns resultEmpty (Some e), s1)
      | (Inr c, s1) \<Rightarrow> (None, s1\<lparr>v_cluster := c, v_err := None\<rparr>))"

definition getOwnerCluster :: "'w env \<Rightarrow> 'w rstep" where
  "getOwnerCluster env s =
     fetchCluster env (om_Namespace (scp_meta (v_scp s)),
                       or_Name (hd (om_OwnerReferences (scp_meta (v_scp s))))) s"

definition returnIfPaused :: "'w env \<Rightarrow> 'w rstep" where
  "returnIfPaused env s =
     (if isPaused env (v_cluster s) (v_scp s) then (returns resultEmpty None, s) else (None, s))"

definition returnIfDeleted :: "'w env \<Rightarrow> 'w rstep" where
  "returnIfDeleted env s =
     (if om_DeletionTimestamp (scp_meta (v_scp s)) \<noteq> None
      then (case handleDeletion env s of (e, s1) \<Rightarrow> (returns resultEmpty e, s1))
      else (None, s))"

definition takeConditions :: "'w rstep" where
  "takeConditions s = (None, s\<lparr>v_conds := Conditions (scp_Status (v_scp s)), v_shared := True\<rparr>)"

definition useRemoteClient :: "'w env \<Rightarrow> 'w rst \<Rightarrow> error option \<times> 'w rst" where
  "useRemoteClient env s =
     (case extractRemoteClient env (v_scp s) s of
        (Inl e, s1) \<Rightarrow> (Some e, s1\<lparr>v_remote := None\<rparr>)
      | (Inr m, s1) \<Rightarrow> (None, s1\<lparr>v_remote := Some m\<rparr>))"

definition addFinalizer :: "'w env \<Rightarrow> 'w rstep" where
  "addFinalizer env s =
     (case assignErr (handleFinalizer env) s of
        (Some e, s1) \<Rightarrow> (returns resultEmpty (Some e), s1)
      | (None, s1) \<Rightarrow> (None, s1))"

definition findExternalCluster :: "'w env \<Rightarrow> 'w rstep" where
  "findExternalCluster env s =
     (if scp_ecr (v_scp s) \<noteq> None
      then track env FoundExternalClusterReferenceConditionType (assignErr (useRemoteClient env))
             (run_steps [failOnErr, addFinalizer env]) s
      else (None, s))"

definition reconcileTCP :: "'w env \<Rightarrow> 'w rstep" where
  "reconcileTCP env =
     track env TenantControlPlaneCreatedConditionType
       (assignErr (\<lambda>s. createOrUpdateTenantControlPlane env (v_remote s) (v_cluster s) (v_scp s) s))
       failOnErr"

definition checkEndpoint :: "'w rst \<Rightarrow> error option \<times> 'w rst" where
  "checkEndpoint s =
     (let s1 = (if tst_ControlPlaneEndpoint (tcp_status (v_tcp s)) = ''''
                then s\<lparr>v_err := Some (ErrNew ''Control Plane Endpoint is not yet available since unprocessed by Steward'')\<rparr>
                else s)
      in (v_err s1, s1))"

definition waitAddress :: "'w env \<Rightarrow> 'w rstep" where
  "waitAddress env =
     track env TenantControlPlaneAddressReadyConditionType checkEndpoint
       (\<lambda>s. if v_err s \<noteq> None then (returns resultOneSecond None, s) else (None, s))"

definition publishEndpoint :: "'w env \<Rightarrow> 'w rstep" where
  "publishEndpoint env =
     track env ControlPlaneEndpointPatchedConditionType
       (assignErr (\<lambda>s. patchControlPlaneEndpoint env (tst_ControlPlaneEndpoint (tcp_status (v_tcp s))) s))
       failOnErr"

definition refreshCluster :: "'w env \<Rightarrow> 'w rstep" where
  "refreshCluster env s = fetchCluster env (nsname (cl_meta (v_cluster s))) s"

definition patchInfrastructure :: "'w env \<Rightarrow> 'w rstep" where
  "patchInfrastructure env s =
     (if \<not> r_FeatureGates env FeatureSkipInfraClusterPatch
      then track env InfrastructureClusterPatchedConditionType
             (assignErr (\<lambda>s. patchCluster env (v_cluster s)
                (tst_ControlPlaneEndpoint (tcp_status (v_tcp s))) s))
             failOnErr s
      else (None, s))"

definition validateCluster :: "'w rstep" where
  "validateCluster s =
     (if ep_Host (cl_ControlPlaneEndpoint (v_cluster s)) = '''' then (returns resultOneSecond None, s)
      else if \<not> cl_InfrastructureReady (v_cluster s) then (returns resultOneSecond None, s)
      else if tst_VersionStatus (tcp_status (v_tcp s)) = None then (returns resultOneSecond None, s)
      else (None, s))"

definition setInitialized :: "'w modifier" where
  "setInitialized s st = Some (st\<lparr>Initialized := True\<rparr>)"

definition initialize :: "'w env \<Rightarrow> 'w rstep" where
  "initialize env s =
     (if tst_VersionStatus (tcp_status (v_tcp s)) = Some VersionReady \<and>
         \<not> Initialized (scp_Status (v_scp s))
      then track env StewardControlPlaneInitializedConditionType
             (assignErr (updateStewardControlPlaneStatus env setInitialized)) failOnErr s
      else (None, s))"

definition waitInitialized :: "'w rstep" where
  "waitInitialized s =
     (if \<not> Initialized (scp_Status (v_scp s)) then (returns resultOneSecond None, s) else (None, s))"

definition setScaling :: "'w env \<Rightarrow> 'w modifier" where
  "setScaling env s st =
     (let ts = tcp_status (v_tcp s)
      in Some (st\<lparr>ReadyReplicas := tst_ReadyReplicas ts,
            Replicas := tst_Replicas ts,
            Selector := formatLabelSelector env (om_Labels (scp_meta (v_scp s))),
            UnavailableReplicas := tst_UnavailableReplicas ts,
            UpdatedReplicas := tst_UpdatedReplicas ts,
            status_Version := tst_Version ts\<rparr>))"

definition reportScaling :: "'w env \<Rightarrow> 'w rstep" where
  "reportScaling env =
     track env StewardControlPlaneInitializedConditionType
       (assignErr (updateStewardControlPlaneStatus env (setScaling env))) failOnErr"

definition reportInitialized :: "'w env \<Rightarrow> 'w rstep" where
  "reportInitialized env =
     track env StewardControlPlaneInitializedConditionType
       (assignErr (updateStewardControlPlaneStatus env setInitialized)) (\<lambda>s. (None, s))"

definition replicateResources :: "'w env \<Rightarrow> 'w rstep" where
  "replicateResources env =
     track env KubeadmResourcesCreatedReadyConditionType
       (assignErr (\<lambda>s. createRequiredResources env (v_remote s) (v_cluster s) (v_scp s) (v_tcp s) s))
       requeueOnErr"

definition versionServing :: "KubernetesVersionStatus \<Rightarrow> bool" where
  "versionServing v \<longleftrightarrow> v = VersionReady \<or> v = VersionUpgrading"

definition setReady :: "'w modifier" where
  "setReady s st =
     (case tst_VersionStatus (tcp_status (v_tcp s)) of
        None \<Rightarrow> None
      | Some v \<Rightarrow> Some (st\<lparr>Ready := versionServing v\<rparr>))"

text \<open>
  The closure of the readiness condition: the error for a \<open>TenantControlPlane\<close> that is not serving is
  returned to \<open>TrackConditionType\<close> but not assigned to \<open>err\<close>.
\<close>

definition updateReady :: "'w env \<Rightarrow> 'w rst \<Rightarrow> error option \<times> 'w rst" where
  "updateReady env s =
     (case assignErr (updateStewardControlPlaneStatus env setReady) s of
        (Some e, s1) \<Rightarrow> (Some e, s1)
      | (None, s1) \<Rightarrow>
          if \<not> Ready (scp_Status (v_scp s1))
          then (Some (case tst_VersionStatus (tcp_status (v_tcp s1)) of
                        None \<Rightarrow> ErrPanic ''nil pointer dereference''
                      | Some v \<Rightarrow> ErrFmtW (''TenantControlPlane in '' @ versionString env v @ '' status, '')
                                    (Sentinel ErrEnqueueBack)), s1)
          else (None, s1))"

definition reportReady :: "'w env \<Rightarrow> 'w rstep" where
  "reportReady env = track env StewardControlPlaneReadyConditionType (updateReady env) requeueOnErr"

definition complete :: "'w rstep" where
  "complete s = (returns resultEmpty None, s)"

definition prologue :: "'w env \<Rightarrow> NamespacedName \<Rightarrow> 'w rstep list" where
  "prologue env req =
     [getControlPlane env req, waitOwnerReference, getOwnerCluster env, returnIfPaused env,
      returnIfDeleted env, takeConditions]"

definition body :: "'w env \<Rightarrow> 'w rstep list" where
  "body env =
     [findExternalCluster env, reconcileTCP env, waitAddress env, publishEndpoint env,
      refreshCluster env, patchInfrastructure env, validateCluster, initialize env, waitInitialized,
      reportScaling env, reportInitialized env, replicateResources env, reportReady env, complete]"

definition deferredUpdate :: "'w env \<Rightarrow> 'w rst \<Rightarrow> 'w rst" where
  "deferredUpdate env s =
     snd (updateStewardControlPlaneStatus env (\<lambda>s st. Some (st\<lparr>Conditions := v_conds s\<rparr>)) s)"

definition Reconcile :: "'w env \<Rightarrow> NamespacedName \<Rightarrow> 'w rst \<Rightarrow> outcome option \<times> 'w rst" where
  "Reconcile env req s =
     (case run_steps (prologue env req) s of
        (Some r, s1) \<Rightarrow> (Some r, s1)
      | (None, s1) \<Rightarrow>
          (case run_steps (body env) s1 of
             (r, s2) \<Rightarrow> (r, deferredUpdate env s2)))"

section \<open>What the steps keep\<close>

text \<open>The part of the state that tracking a condition leaves alone.\<close>

definition core :: "'w rst \<Rightarrow> call list \<times> Cluster \<times> TenantControlPlane \<times> Manager option \<times> ObjectMeta \<times>
    StewardControlPlaneSpec \<times> bool \<times> bool \<times> mapStore" where
  "core s = (calls s, v_cluster s, v_tcp s, v_remote s, scp_meta (v_scp s), scp_Spec (v_scp s),
     Initialized (scp_Status (v_scp s)), Ready (scp_Status (v_scp s)), mstore s)"

lemma core_eqD:
  assumes "core s = core t"
  shows "calls s = calls t" "v_cluster s = v_cluster t" "v_tcp s = v_tcp t" "v_remote s = v_remote t"
    "scp_meta (v_scp s) = scp_meta (v_scp t)" "scp_Spec (v_scp s) = scp_Spec (v_scp t)"
    "Initialized (scp_Status (v_scp s)) = Initialized (scp_Status (v_scp t))"
    "Ready (scp_Status (v_scp s)) = Ready (scp_Status (v_scp t))" "mstore s = mstore t"
  using assms by (simp_all add: core_def)

lemma sameButConds_core: "sameButConds s t \<Longrightarrow> core t = core s \<and> v_err t = v_err s"
  by (simp add: sameButConds_def core_def)

lemma core_v_err [simp]: "core (s\<lparr>v_err := e\<rparr>) = core s"
  by (simp add: core_def)

lemma assignErr_run:
  assumes "assignErr f s = (e, s')"
  shows "\<exists>s1. f s = (e, s1) \<and> core s' = core s1 \<and> (\<forall>x. e = Some x \<longrightarrow> \<not> isPanic x \<longrightarrow> v_err s' = e) \<and>
           (e = None \<longrightarrow> v_err s' = None)"
  using assms by (auto simp: assignErr_def split: prod.splits option.splits if_splits)

lemma track_cases:
  assumes "track env ct fn k s = (r, s')"
  shows "\<exists>s0 result s1 s2. core s0 = core s \<and> v_err s0 = v_err s \<and> fn s0 = (result, s1) \<and>
     core s2 = core s1 \<and> v_err s2 = v_err s1 \<and>
     (case result of
        Some e \<Rightarrow> if isPanic e then (r, s') = (Some (Panics e), s2) else (r, s') = k s2
      | None \<Rightarrow> (r, s') = k s2)"
proof -
  let ?gen = "om_Generation (scp_meta (v_scp s))"
  obtain p s2 where tr: "TrackConditionType env ct ?gen fn s = (p, s2)" by fastforce
  from TrackConditionType_frame [OF this] obtain result s1 where
    fn: "fn (beginTrack env ct ?gen s) = (result, s1)" and sb: "sameButConds s1 s2" and
    p: "p = (case result of Some e \<Rightarrow> if isPanic e then Some e else None | None \<Rightarrow> None)" by blast
  from assms tr p have "case result of
      Some e \<Rightarrow> if isPanic e then (r, s') = (Some (Panics e), s2) else (r, s') = k s2
    | None \<Rightarrow> (r, s') = k s2"
    by (auto simp: track_def split: option.splits if_splits)
  with fn sameButConds_core [OF sb] sameButConds_core [OF sameButConds_beginTrack [of s env ct ?gen]]
  show ?thesis by blast
qed

text \<open>The shape of nearly every step: track, assign to \<open>err\<close>, return an error.\<close>

lemma track_fail:
  assumes "track env ct (assignErr f) failOnErr s = (r, s')"
  shows "\<exists>s0 e s1. core s0 = core s \<and> f s0 = (e, s1) \<and> core s' = core s1 \<and> (r = None \<longrightarrow> e = None)"
proof -
  from track_cases [OF assms] obtain s0 e s1 s2 where
    s0: "core s0 = core s" and a: "assignErr f s0 = (e, s1)" and s2: "core s2 = core s1" "v_err s2 = v_err s1" and
    r: "case e of Some x \<Rightarrow> if isPanic x then (r, s') = (Some (Panics x), s2) else (r, s') = failOnErr s2
      | None \<Rightarrow> (r, s') = failOnErr s2" by blast
  from assignErr_run [OF a] obtain s3 where f: "f s0 = (e, s3)" "core s1 = core s3" and
    v: "\<And>x. e = Some x \<Longrightarrow> \<not> isPanic x \<Longrightarrow> v_err s1 = e" "e = None \<Longrightarrow> v_err s1 = None" by blast
  have "core s' = core s3 \<and> (r = None \<longrightarrow> e = None)"
    using r v s2 f(2)
    by (cases e) (auto simp: failOnErr_def returns_def split: if_splits option.splits)
  with s0 f(1) show ?thesis by blast
qed

lemma triple_track_fail:
  assumes "\<And>s s0 e s1 t. P s \<Longrightarrow> core s0 = core s \<Longrightarrow> f s0 = (e, s1) \<Longrightarrow> core t = core s1 \<Longrightarrow>
     (e = None \<longrightarrow> Q t) \<and> R t"
  shows "triple P (track env ct (assignErr f) failOnErr) Q (\<lambda>_. R)"
  by (rule tripleI; drule track_fail) (use assms in blast)+

section \<open>The calls of each step\<close>

text \<open>\<open>s'\<close> extends the log by calls that satisfy \<open>P\<close> and has the same cluster and remote client.\<close>

definition quiet :: "(call \<Rightarrow> bool) \<Rightarrow> 'w rst \<Rightarrow> 'w rst \<Rightarrow> bool" where
  "quiet P s s' \<longleftrightarrow> extends P s s' \<and> v_cluster s' = v_cluster s \<and> v_remote s' = v_remote s"

lemma quiet_refl [simp]: "quiet P s s"
  by (simp add: quiet_def)

lemma quiet_trans: "quiet P s t \<Longrightarrow> quiet P t u \<Longrightarrow> quiet P s u"
  by (auto simp: quiet_def intro: extends_trans)

lemma quiet_weaken: "quiet P s t \<Longrightarrow> (\<And>c. P c \<Longrightarrow> Q c) \<Longrightarrow> quiet Q s t"
  by (auto simp: quiet_def intro: extends_weaken)

lemma quiet_one: "calls t = calls s @ [c] \<Longrightarrow> P c \<Longrightarrow> v_cluster t = v_cluster s \<Longrightarrow> v_remote t = v_remote s \<Longrightarrow> quiet P s t"
  by (simp add: quiet_def extends_def)

lemma quiet_core:
  assumes "core s = core s0" "core t = core t0"
  shows "quiet P s t = quiet P s0 t0"
  by (simp add: quiet_def extends_def core_eqD [OF assms(1)] core_eqD [OF assms(2)])

lemma quiet_upd [simp]:
  "quiet P s (t\<lparr>v_tcp := x\<rparr>) = quiet P s t" "quiet P s (t\<lparr>v_secret := y\<rparr>) = quiet P s t"
  "quiet P s (t\<lparr>v_scp := z\<rparr>) = quiet P s t" "quiet P s (t\<lparr>v_err := e\<rparr>) = quiet P s t"
  "quiet P (t\<lparr>v_tcp := x\<rparr>) s = quiet P t s" "quiet P (t\<lparr>v_secret := y\<rparr>) s = quiet P t s"
  "quiet P (t\<lparr>v_finalizers := fs\<rparr>) s = quiet P t s"
  by (simp_all add: quiet_def extends_def)

lemma retry_quiet:
  assumes "retryContract retry" "\<And>t. quiet P t (snd (f t))"
  shows "quiet P s (snd (retry f s))"
  using retry_invariant [OF assms(1), where I = "quiet P s" and fn = f] assms(2) quiet_trans
  by (metis quiet_refl)

lemma logged_quiet: "logged op mk s = (r, s') \<Longrightarrow> P (mk r) \<Longrightarrow> quiet P s s'"
  by (auto simp: logged_def quiet_def extends_def split: prod.splits)

text \<open>The \<open>TenantControlPlane\<close>: calls on the target cluster only; success is the success of the last one.\<close>

lemma applyTCP_calls:
  assumes "applyTCP env rc cluster scp s = (e, s')"
  shows "quiet (\<lambda>c. \<exists>k x. c = CreateOrUpdateTCP (targetOf rc) k x) s s' \<and>
    (e = None \<longrightarrow> (\<exists>k. calls s' = calls s @ [CreateOrUpdateTCP (targetOf rc) k None]))"
  using assms
  by (auto simp: applyTCP_def Let_def logged_def quiet_def extends_def nsname_def
      split: if_splits option.splits prod.splits)

lemma createOrUpdateTCP_calls:
  assumes "retryContract (retryOnConflict env)"
    and run: "createOrUpdateTenantControlPlane env rc cluster scp s = (e, s')"
  shows "quiet (\<lambda>c. \<exists>k x. c = CreateOrUpdateTCP (targetOf rc) k x) s s'"
    and "e = None \<Longrightarrow> \<exists>new k. calls s' = calls s @ new \<and> CreateOrUpdateTCP (targetOf rc) k None \<in> set new"
proof -
  let ?P = "\<lambda>c. \<exists>k x. c = CreateOrUpdateTCP (targetOf rc) k x"
  let ?f = "applyTCP env rc cluster scp"
  let ?s0 = "s\<lparr>v_tcp := tcpNamed (om_Name (scp_meta scp), om_Namespace (scp_meta scp)) zeroTCP\<rparr>"
  obtain x s1 where r: "retryOnConflict env ?f ?s0 = (x, s1)" by fastforce
  with run have s': "s' = s1" "e = None \<longleftrightarrow> x = None"
    by (auto simp: createOrUpdateTenantControlPlane_def Let_def split: option.splits)
  have step: "quiet ?P t (snd (?f t))" for t using applyTCP_calls [OF prod.collapse [symmetric]] by blast
  from retry_quiet [OF assms(1) step, of ?s0] r s' show "quiet ?P s s'" by simp
  show "\<exists>new k. calls s' = calls s @ new \<and> CreateOrUpdateTCP (targetOf rc) k None \<in> set new" if "e = None"
  proof -
    have "\<exists>t. quiet ?P ?s0 t \<and> retryOnConflict env ?f ?s0 = ?f t"
      by (rule retry_last [OF assms(1), where I = "quiet ?P ?s0"]) (rule quiet_refl, erule quiet_trans, rule step)
    then obtain t where t: "quiet ?P ?s0 t" "retryOnConflict env ?f ?s0 = ?f t" by blast
    from t(2) r s' that have "?f t = (None, s')" by simp
    from applyTCP_calls [OF this] obtain k where "calls s' = calls t @ [CreateOrUpdateTCP (targetOf rc) k None]"
      by blast
    moreover from t(1) obtain new where "calls t = calls s @ new" by (auto simp: quiet_def extends_def)
    ultimately show ?thesis by (intro exI [of _ "new @ [CreateOrUpdateTCP (targetOf rc) k None]"] exI [of _ k]) simp
  qed
qed

lemma patchControlPlaneEndpoint_calls:
  assumes "patchControlPlaneEndpoint env hp s = (e, s')"
  shows "quiet (\<lambda>c. \<exists>a b x. c = PatchSCP a b x) s s' \<and> v_tcp s' = v_tcp s \<and>
    (e = None \<longrightarrow> (\<exists>a b. calls s' = calls s @ [PatchSCP a b None]))"
  using assms
  by (auto simp: patchControlPlaneEndpoint_def patchSCP_def Let_def logged_def quiet_def extends_def
      split: sum.splits prod.splits option.splits)

definition infraCall :: "call \<Rightarrow> bool" where
  "infraCall c \<longleftrightarrow> (\<exists>r x. c = GetInfra r x) \<or> (\<exists>a b x. c = PatchInfra a b x)"

lemma getInfra_quiet: "getInfra env r s = (x, s1) \<Longrightarrow> quiet infraCall s s1 \<and> v_tcp s1 = v_tcp s"
  unfolding getInfra_def by (auto simp: infraCall_def logged_frame intro: logged_quiet)

lemma patchInfra_quiet: "patchInfra env b a s = (x, s1) \<Longrightarrow> quiet infraCall s s1 \<and> v_tcp s1 = v_tcp s"
  unfolding patchInfra_def by (auto simp: infraCall_def logged_frame intro: logged_quiet)

text \<open>Two calls in a row, for the three functions that read the infrastructure cluster first.\<close>

lemma infra_sequence:
  assumes "getInfra env ref s = (x, s1)" "s' = s1 \<or> (\<exists>b a y. patchInfra env b a s1 = (y, s'))"
  shows "quiet infraCall s s' \<and> v_tcp s' = v_tcp s"
  using getInfra_quiet [OF assms(1)] assms(2) patchInfra_quiet quiet_trans by metis

lemma patchGenericCluster_quiet:
  assumes "patchGenericCluster env ref h p st s = (e, s')"
  shows "quiet infraCall s s' \<and> v_tcp s' = v_tcp s"
proof -
  obtain x s1 where get: "getInfra env ref s = (x, s1)" by fastforce
  have "s' = s1 \<or> (\<exists>b a y. patchInfra env b a s1 = (y, s'))"
    using assms get
    by (auto simp: patchGenericCluster_def split: prod.splits sum.splits option.splits if_splits)
  from infra_sequence [OF get this] show ?thesis .
qed

lemma patchOpenStackCluster_quiet:
  assumes "patchOpenStackCluster env ref h p s = (e, s')"
  shows "quiet infraCall s s' \<and> v_tcp s' = v_tcp s"
proof -
  obtain x s1 where get: "getInfra env ref s = (x, s1)" by fastforce
  have "s' = s1 \<or> (\<exists>b a y. patchInfra env b a s1 = (y, s'))"
    using assms get
    by (auto simp: patchOpenStackCluster_def split: prod.splits sum.splits option.splits if_splits)
  from infra_sequence [OF get this] show ?thesis .
qed

lemma checkGenericCluster_quiet:
  assumes "checkGenericCluster env ref h p s = (e, s')"
  shows "quiet infraCall s s' \<and> v_tcp s' = v_tcp s"
proof -
  obtain x s1 where get: "getInfra env ref s = (x, s1)" by fastforce
  have "s' = s1" using assms get by (auto simp: checkGenericCluster_def split: sum.splits if_splits)
  with infra_sequence [OF get] show ?thesis by simp
qed

lemma checkOrPatch_quiet:
  assumes "checkOrPatchGenericCluster env ref h p s = (e, s')"
  shows "quiet infraCall s s' \<and> v_tcp s' = v_tcp s"
proof -
  obtain c s1 where chk: "checkGenericCluster env ref h p s = (c, s1)" by fastforce
  have "s' = s1 \<or> patchGenericCluster env ref h p False s1 = (e, s')"
    using assms chk by (auto simp: checkOrPatchGenericCluster_def split: option.splits if_splits)
  with checkGenericCluster_quiet [OF chk] patchGenericCluster_quiet [of env ref h p False s1 e s']
  show ?thesis by (auto intro: quiet_trans)
qed

lemma patchCluster_quiet:
  assumes "patchCluster env cluster hp s = (e, s')"
  shows "quiet infraCall s s' \<and> v_tcp s' = v_tcp s"
proof -
  have "s' = s \<or> (\<exists>ref h p. (\<exists>st. patchGenericCluster env ref h p st s = (e, s')) \<or>
      checkGenericCluster env ref h p s = (e, s') \<or> patchOpenStackCluster env ref h p s = (e, s') \<or>
      checkOrPatchGenericCluster env ref h p s = (e, s'))"
    using assms unfolding patchCluster_def Let_def
    by (simp split: option.splits sum.splits prod.splits if_splits) blast+
  then show ?thesis
    using patchGenericCluster_quiet checkGenericCluster_quiet patchOpenStackCluster_quiet checkOrPatch_quiet
    by (metis quiet_refl)
qed

definition statusCall :: "call \<Rightarrow> bool" where
  "statusCall c \<longleftrightarrow> (\<exists>k x. c = GetSCP k x) \<or> (\<exists>scp x. c = StatusUpdateSCP scp x)"

lemma tryStatusUpdate_calls:
  assumes "tryStatusUpdate env f s = (e, s')"
  shows "quiet statusCall s s' \<and> v_tcp s' = v_tcp s \<and> v_conds s' = v_conds s \<and>
    (e = None \<longrightarrow> (\<exists>k scp. calls s' = calls s @ [GetSCP k None, StatusUpdateSCP scp None]))"
  using assms
  by (auto simp: tryStatusUpdate_def getSCP_def statusUpdateSCP_def logged_def quiet_def extends_def statusCall_def nsname_def
      split: prod.splits sum.splits option.splits)

lemma updateStatus_calls:
  assumes "retryContract (retryOnConflict env)"
    and run: "updateStewardControlPlaneStatus env f s = (e, s')"
  shows "quiet statusCall s s' \<and> v_tcp s' = v_tcp s \<and> v_conds s' = v_conds s"
    and "e = None \<Longrightarrow> \<exists>new scp. calls s' = calls s @ new \<and> StatusUpdateSCP scp None \<in> set new"
proof -
  let ?f = "tryStatusUpdate env f"
  let ?I = "\<lambda>t. quiet statusCall s t \<and> v_tcp t = v_tcp s \<and> v_conds t = v_conds s"
  obtain x s1 where r: "retryOnConflict env ?f s = (x, s1)" by fastforce
  with run have s': "s' = s1" "e = None \<longleftrightarrow> x = None"
    by (auto simp: updateStewardControlPlaneStatus_def split: option.splits)
  have step: "?I (snd (?f t))" if "?I t" for t
  proof -
    obtain y t1 where "?f t = (y, t1)" by fastforce
    with tryStatusUpdate_calls [OF this] that show ?thesis by (auto elim: quiet_trans)
  qed
  have "?I (snd (retryOnConflict env ?f s))"
    by (rule retry_invariant [OF assms(1), where I = ?I]) (simp, erule step)
  with r s' show "?I s'" by simp
  show "\<exists>new scp. calls s' = calls s @ new \<and> StatusUpdateSCP scp None \<in> set new" if "e = None"
  proof -
    have "\<exists>t. ?I t \<and> retryOnConflict env ?f s = ?f t"
      by (rule retry_last [OF assms(1), where I = ?I]) (simp, erule step)
    then obtain t where t: "?I t" "retryOnConflict env ?f s = ?f t" by blast
    from t(2) r s' that have "?f t = (None, s')" by simp
    from tryStatusUpdate_calls [OF this] obtain k scp where
      "calls s' = calls t @ [GetSCP k None, StatusUpdateSCP scp None]" by blast
    moreover from t(1) obtain new where "calls t = calls s @ new" by (auto simp: quiet_def extends_def)
    ultimately show ?thesis
      by (intro exI [of _ "new @ [GetSCP k None, StatusUpdateSCP scp None]"] exI [of _ scp]) simp
  qed
qed

definition secretCall :: "call \<Rightarrow> bool" where
  "secretCall c \<longleftrightarrow> (\<exists>t k x. c = GetSecret t k x) \<or> (\<exists>k x. c = CreateOrUpdateSecret k x)"

lemma getSecret_quiet: "getSecret env rd k s = (x, s1) \<Longrightarrow> quiet secretCall s s1 \<and> v_tcp s1 = v_tcp s"
  unfolding getSecret_def by (auto simp: secretCall_def logged_frame intro: logged_quiet)

lemma retry_secret_quiet:
  assumes "retryContract (retryOnConflict env)"
    and "retryOnConflict env (createOrUpdateSecret env f) (s\<lparr>v_secret := x\<rparr>) = (e, s')"
  shows "quiet secretCall s s' \<and> v_tcp s' = v_tcp s"
proof -
  let ?I = "\<lambda>t. quiet secretCall s t \<and> v_tcp t = v_tcp s"
  have "quiet secretCall t (snd (createOrUpdateSecret env f t)) \<and> v_tcp (snd (createOrUpdateSecret env f t)) = v_tcp t"
    for t
    by (auto simp: createOrUpdateSecret_def logged_def quiet_def extends_def secretCall_def split: prod.splits)
  then have step: "?I (snd (createOrUpdateSecret env f t))" if "?I t" for t
    using that by (metis quiet_trans)
  have "?I (snd (retryOnConflict env (createOrUpdateSecret env f) (s\<lparr>v_secret := x\<rparr>)))"
    by (rule retry_invariant [OF assms(1), where I = ?I]) (simp, erule step)
  with assms(2) show ?thesis by simp
qed

lemma kubeconfig_quiet:
  assumes "retryContract (retryOnConflict env)" "createOrUpdateKubeconfig env rd cluster scp tcp s = (e, s')"
  shows "quiet secretCall s s' \<and> v_tcp s' = v_tcp s"
proof -
  let ?key = "(om_Namespace (tcp_meta tcp), tst_AdminSecretName (tcp_status tcp))"
  obtain x s1 where get: "getSecret env rd ?key s = (x, s1)" by fastforce
  have "s' = s1 \<or> (\<exists>f z y. retryOnConflict env (createOrUpdateSecret env f) (s1\<lparr>v_secret := z\<rparr>) = (y, s'))"
    using assms(2) get
    by (auto simp: createOrUpdateKubeconfig_def Let_def split: sum.splits prod.splits option.splits)
  with getSecret_quiet [OF get] retry_secret_quiet [OF assms(1), where s = s1] show ?thesis
    by (metis quiet_trans)
qed

lemma ca_quiet:
  assumes "retryContract (retryOnConflict env)" "createOrUpdateCertificateAuthority env rd cluster scp tcp s = (e, s')"
  shows "quiet secretCall s s' \<and> v_tcp s' = v_tcp s"
proof -
  let ?key = "(om_Namespace (tcp_meta tcp), tst_CASecretName (tcp_status tcp))"
  obtain x s1 where get: "getSecret env rd ?key s = (x, s1)" by fastforce
  have "s' = s1 \<or> (\<exists>f z y. retryOnConflict env (createOrUpdateSecret env f) (s1\<lparr>v_secret := z\<rparr>) = (y, s'))"
    using assms(2) get
    by (auto simp: createOrUpdateCertificateAuthority_def Let_def split: sum.splits prod.splits option.splits)
  with getSecret_quiet [OF get] retry_secret_quiet [OF assms(1), where s = s1] show ?thesis
    by (metis quiet_trans)
qed

lemma requiredResources_quiet:
  assumes "retryContract (retryOnConflict env)" "createRequiredResources env rc cluster scp tcp s = (e, s')"
  shows "quiet secretCall s s' \<and> v_tcp s' = v_tcp s"
  using assms(2) kubeconfig_quiet [OF assms(1)] ca_quiet [OF assms(1)]
  by (auto simp: createRequiredResources_def split: if_splits prod.splits option.splits intro: quiet_trans)
    (metis quiet_trans)+

definition finalizerStep :: "call \<Rightarrow> bool" where
  "finalizerStep c \<longleftrightarrow> (\<exists>k x. c = GetSCP k x) \<or> (\<exists>scp x. c = UpdateSCP scp x)"

lemma handleFinalizer_quiet:
  assumes "retryContract (retryOnConflict env)" "handleFinalizer env s = (e, s')"
  shows "quiet finalizerStep s s'"
proof -
  have "quiet finalizerStep t (snd (insertFinalizer env t))" for t
    by (auto simp: insertFinalizer_def getSCP_def updateSCP_def logged_def quiet_def extends_def finalizerStep_def
        nsname_def Let_def split: prod.splits sum.splits)
  from retry_quiet [OF assms(1) this, where s = "s\<lparr>v_finalizers := set (om_Finalizers (scp_meta (v_scp s)))\<rparr>"] assms(2)
  show ?thesis by (auto simp: handleFinalizer_def Let_def split: if_splits)
qed

end
