(* ===== verification/Sample_Run.thy ===== *)
theory Sample_Run
  imports Control_Plane_Reconciler "HOL-Library.Code_Target_Numeral"
begin

text \<open>
  One reconciliation on the in-memory server, evaluated: a control plane with an external cluster
  reference whose \<open>TenantControlPlane\<close> Steward has processed. The server answers the remote
  \<open>CreateOrUpdate\<close> with the processed object. The run gets as far as the Secrets of the
  contract; the witnesses of the theorems on \<open>Reconcile\<close> rest on the facts collected here.
\<close>

definition runSCP :: StewardControlPlane where
  "runSCP = remoteSCP\<lparr>
     scp_meta := (scp_meta remoteSCP)\<lparr>
       om_OwnerReferences := [\<lparr>or_Kind = ''Cluster'', or_Name = ''demo'', or_UID = ''u-2''\<rparr>]\<rparr>,
     scp_Status := (scp_Status remoteSCP)\<lparr>Initialized := True\<rparr>\<rparr>"

definition runCluster :: Cluster where
  "runCluster = zeroCluster\<lparr>cl_meta := zeroMeta\<lparr>om_Name := ''demo'', om_Namespace := ''team''\<rparr>,
     cl_ControlPlaneEndpoint := \<lparr>ep_Host = ''cp'', ep_Port = 6443\<rparr>,
     cl_InfrastructureRef := Some (infraRef ''AWSCluster''), cl_InfrastructureReady := True\<rparr>"

definition runTCP :: TenantControlPlane where
  "runTCP = zeroTCP\<lparr>tcp_meta := zeroMeta\<lparr>om_Name := ''kcp-u-1'', om_Namespace := ''tenants''\<rparr>,
     tcp_status := zeroTCPStatus\<lparr>tst_ControlPlaneEndpoint := ''cp:6443'', tst_VersionStatus := Some VersionReady,
       tst_AdminSecretName := ''adm'', tst_CASecretName := ''pki''\<rparr>\<rparr>"

definition runMem :: mem where
  "runMem = emptyMem\<lparr>
     m_scps := [(''team'', ''cp'') \<mapsto> runSCP],
     m_clusters := [(''team'', ''demo'') \<mapsto> runCluster],
     m_secrets := [(''team'', ''remote'') \<mapsto> remoteSecret, (''tenants'', ''adm'') \<mapsto> adminSecret,
       (''tenants'', ''pki'') \<mapsto> caSecret],
     m_infras := [infraRef ''AWSCluster'' \<mapsto> \<lparr>u_ref = infraRef ''AWSCluster'', u_Object = JObj []\<rparr>],
     m_tcps := [(''tenants'', ''kcp-u-1'') \<mapsto> runTCP]\<rparr>"

definition runEnv :: "mem env" where
  "runEnv = ecrEnv\<lparr>
     r_FeatureGates := (\<lambda>f. f = FeatureExternalClusterReference \<or> f = FeatureSkipInfraClusterPatch),
     mgr_GetClient := (\<lambda>_. sampleClient\<lparr>k_createOrUpdateTCP := (\<lambda>x f w. ((None, runTCP), w))\<rparr>)\<rparr>"

definition runReq :: NamespacedName where
  "runReq = (''team'', ''cp'')"

definition runState :: "mem rst" where
  "runState = startState runMem remoteStore"

lemma runEnv_contracts [simp]:
  "retryContract (retryOnConflict runEnv)" "unsortedContract (unsortedList runEnv)"
  using ecrEnv_retryContract ecrEnv_simps(5) by (simp_all add: runEnv_def)

lemma runState_simps [simp]: "calls runState = []" "v_remote runState = None" "world runState = runMem"
  by (simp_all add: runState_def startState_def)

section \<open>The run, evaluated\<close>

definition run1 :: "outcome option \<times> mem rst" where
  "run1 = run_steps (prologue runEnv runReq) runState"

lemma run1_result: "fst run1 = None \<and> v_remote (snd run1) = None"
  by code_simp

fun isRemoteTCP :: "call \<Rightarrow> bool" where
  "isRemoteTCP (CreateOrUpdateTCP (Remote m) k x) = True"
| "isRemoteTCP c = False"

definition run2 :: "outcome option \<times> mem rst" where
  "run2 = run_steps (take 11 (body runEnv)) (snd run1)"

lemma run2_result:
  "case run2 of (r, s) \<Rightarrow> r = None \<and> list_ex isRemoteTCP (calls s) \<and> v_remote s = Some 1 \<and>
     tst_AdminSecretName (tcp_status (v_tcp s)) = ''adm'' \<and> om_Namespace (tcp_meta (v_tcp s)) = ''tenants'' \<and>
     m_secrets (world s) (''tenants'', ''adm'') \<noteq> None"
  by code_simp

text \<open>The twelfth step writes the kubeconfig Secret, since the retried function logs its call.\<close>

lemma kubeconfig_logs:
  assumes rc: "retryContract (retryOnConflict env)"
    and get: "k_getSecret (clientOf env rd) (om_Namespace (tcp_meta tcp), tst_AdminSecretName (tcp_status tcp)) (world s) = (Inr x, w)"
    and run: "createOrUpdateKubeconfig env rd cluster scp tcp s = (e, s')"
  shows "\<exists>k y. CreateOrUpdateSecret k y \<in> set (calls s')"
proof -
  let ?f = "createOrUpdateSecret env (mutateKubeconfig env cluster scp tcp x)"
  obtain s1 where s1: "getSecret env rd (om_Namespace (tcp_meta tcp), tst_AdminSecretName (tcp_status tcp)) s = (Inr x, s1)"
    using get by (simp add: getSecret_def logged_def)
  let ?s0 = "s1\<lparr>v_secret := secretNamedAs (om_Name (cl_meta cluster) @ ''-kubeconfig'') (om_Namespace (cl_meta cluster))\<rparr>"
  from retry_last [OF rc, where I = "\<lambda>_. True" and fn = ?f and s = ?s0]
  obtain t where "retryOnConflict env ?f ?s0 = ?f t" by blast
  with run s1 have "s' = snd (?f t)"
    by (auto simp: createOrUpdateKubeconfig_def Let_def split: prod.splits option.splits)
  then show ?thesis by (auto simp: createOrUpdateSecret_def logged_def nsname_def split: prod.splits)
qed

lemma createRequiredResources_logs:
  assumes rc: "retryContract (retryOnConflict env)" and "tst_AdminSecretName (tcp_status tcp) \<noteq> ''''"
    and get: "k_getSecret (clientOf env rd) (om_Namespace (tcp_meta tcp), tst_AdminSecretName (tcp_status tcp)) (world s) = (Inr x, w)"
    and run: "createRequiredResources env rd cluster scp tcp s = (e, s')"
  shows "\<exists>k y. CreateOrUpdateSecret k y \<in> set (calls s')"
proof -
  obtain e1 s1 where k: "createOrUpdateKubeconfig env rd cluster scp tcp s = (e1, s1)" by fastforce
  from run k assms(2) have "s' = s1 \<or> (\<exists>y. createOrUpdateCertificateAuthority env rd cluster scp tcp s1 = (y, s'))"
    by (auto simp: createRequiredResources_def split: option.splits if_splits)
  then have "extends secretCall s1 s'"
    using ca_quiet [OF rc, of rd cluster scp tcp s1] by (auto simp: quiet_def)
  with kubeconfig_logs [OF rc get k] show ?thesis unfolding extends_def by (metis UnI1 set_append)
qed

lemma run3_secret:
  "\<exists>k y. CreateOrUpdateSecret k y \<in> set (calls (snd (replicateResources runEnv (snd run2))))"
proof -
  let ?s = "snd run2"
  from run2_result have s: "v_remote ?s = Some 1" "tst_AdminSecretName (tcp_status (v_tcp ?s)) = ''adm''"
    "om_Namespace (tcp_meta (v_tcp ?s)) = ''tenants''" "m_secrets (world ?s) (''tenants'', ''adm'') \<noteq> None"
    by (simp_all add: case_prod_unfold)
  let ?ct = KubeadmResourcesCreatedReadyConditionType
  let ?fn = "\<lambda>s. createRequiredResources runEnv (v_remote s) (v_cluster s) (v_scp s) (v_tcp s) s"
  let ?t = "beginTrack runEnv ?ct (om_Generation (scp_meta (v_scp ?s))) ?s"
  obtain p s2 where tr: "TrackConditionType runEnv ?ct (om_Generation (scp_meta (v_scp ?s))) (assignErr ?fn) ?s = (p, s2)"
    by fastforce
  from TrackConditionType_frame [OF this] obtain result s1 where
    a: "assignErr ?fn ?t = (result, s1)" and sb: "sameButConds s1 s2" by blast
  have t: "v_remote ?t = Some 1" "v_tcp ?t = v_tcp ?s" "world ?t = world ?s"
    using s(1) by (simp_all add: beginTrack_def split: option.split)
  from assignErr_run [OF a] obtain s0 where fn: "?fn ?t = (result, s0)" "core s1 = core s0" by blast
  from s(4) obtain x where "k_getSecret (clientOf runEnv (Some 1)) (''tenants'', ''adm'') (world ?s) = (Inr x, world ?s)"
    by (auto simp: runEnv_def clientOf_def sampleClient_def found_def)
  with createRequiredResources_logs [OF runEnv_contracts(1) _ _ fn(1)] s t
  have "\<exists>k y. CreateOrUpdateSecret k y \<in> set (calls s0)" by simp
  moreover have "calls s2 = calls s0" using sb core_eqD(1) [OF fn(2)] by (simp add: sameButConds_def)
  moreover have "calls (snd (replicateResources runEnv ?s)) = calls s2"
    using tr by (simp add: replicateResources_def track_def requeueOnErr_def split: option.splits)
  ultimately show ?thesis by simp
qed

end
