(* ===== verification/Reconcile_Order.thy ===== *)
theory Reconcile_Order
  imports Sample_Run
begin

text \<open>
  The order in which a reconciliation talks to the API servers. \<open>orderly\<close> is an executable check of a
  call log: the endpoint is published only after the \<open>TenantControlPlane\<close> was created or updated, the
  infrastructure cluster is written only after the endpoint was published, and the Secrets only
  after that and a status update. Every reconciliation has an orderly log; the Secrets are
  written only for a validated cluster.
\<close>

section \<open>Steps that keep the cluster and the TenantControlPlane\<close>

definition calm :: "(call \<Rightarrow> bool) \<Rightarrow> 'w rst \<Rightarrow> 'w rst \<Rightarrow> bool" where
  "calm P s s' \<longleftrightarrow> quiet P s s' \<and> v_tcp s' = v_tcp s"

lemma calm_refl [simp]: "calm P s s"
  by (simp add: calm_def)

lemma calm_trans: "calm P s t \<Longrightarrow> calm P t u \<Longrightarrow> calm P s u"
  by (auto simp: calm_def intro: quiet_trans)

lemma calm_extends: "calm P s t \<Longrightarrow> extends P s t"
  by (simp add: calm_def quiet_def)

lemma calm_core:
  assumes "core s = core s0" "core t = core t0"
  shows "calm P s t = calm P s0 t0"
  using core_eqD [OF assms(1)] core_eqD [OF assms(2)] by (simp add: calm_def quiet_core [OF assms])

lemma calm_assignErr:
  assumes "\<And>t. calm P t (snd (f t))"
  shows "calm P s (snd (assignErr f s))"
proof -
  obtain e s' where a: "assignErr f s = (e, s')" by fastforce
  from assignErr_run [OF this] obtain s1 where "f s = (e, s1)" "core s' = core s1" by blast
  with assms [of s] a calm_core [OF refl] show ?thesis by (metis snd_conv)
qed

lemma calm_track:
  assumes "\<And>t. calm P t (snd (fn t))" "\<And>t. calm P t (snd (k t))"
  shows "calm P s (snd (track env ct fn k s))"
proof -
  obtain r s' where tr: "track env ct fn k s = (r, s')" by fastforce
  from track_cases [OF this] obtain s0 result s1 s2 where
    c: "core s0 = core s" "fn s0 = (result, s1)" "core s2 = core s1" and
    r: "case result of
        Some e \<Rightarrow> if isPanic e then (r, s') = (Some (Panics e), s2) else (r, s') = k s2
      | None \<Rightarrow> (r, s') = k s2" by blast
  have "calm P s s2" using assms(1) [of s0] c(2) calm_core [OF c(1) [symmetric] c(3)] by simp
  moreover from r have "s' = s2 \<or> s' = snd (k s2)"
    by (auto split: option.splits if_splits) (metis snd_conv)+
  ultimately show ?thesis using assms(2) [of s2] tr by (auto intro: calm_trans)
qed

lemma calm_tests [simp]:
  "calm P s (snd (failOnErr s))" "calm P s (snd (requeueOnErr s))" "calm P s (snd (validateCluster s))"
  "calm P s (snd (waitInitialized s))" "calm P s (snd (complete s))"
  by (simp_all add: failOnErr_def requeueOnErr_def validateCluster_def waitInitialized_def complete_def
      split: option.splits)

lemma calm_endpoint: "calm (\<lambda>c. \<exists>a b x. c = PatchSCP a b x) s (snd (patchControlPlaneEndpoint env hp s))"
  using patchControlPlaneEndpoint_calls [of env hp s] by (simp add: calm_def prod_eq_iff)

lemma calm_status:
  assumes "retryContract (retryOnConflict env)"
  shows "calm statusCall s (snd (updateStewardControlPlaneStatus env f s))"
  using updateStatus_calls(1) [OF assms, of f s] by (simp add: calm_def prod_eq_iff)

lemma calm_waitAddress: "calm (\<lambda>_. False) s (snd (waitAddress env s))"
  unfolding waitAddress_def
  by (rule calm_track) (simp_all add: checkEndpoint_def calm_def quiet_def extends_def Let_def)

lemma calm_publishEndpoint: "calm (\<lambda>c. \<exists>a b x. c = PatchSCP a b x) s (snd (publishEndpoint env s))"
  unfolding publishEndpoint_def by (intro calm_track calm_assignErr calm_endpoint calm_tests)

lemma calm_patchInfrastructure: "calm infraCall s (snd (patchInfrastructure env s))"
proof -
  have "calm infraCall t (snd (patchCluster env c hp t))" for t c hp
    using patchCluster_quiet [of env c hp t] by (simp add: calm_def prod_eq_iff)
  then show ?thesis unfolding patchInfrastructure_def
    by (cases "r_FeatureGates env FeatureSkipInfraClusterPatch")
      (simp_all add: calm_track calm_assignErr)
qed

lemma calm_status_steps:
  assumes "retryContract (retryOnConflict env)"
  shows "calm statusCall s (snd (initialize env s))" "calm statusCall s (snd (reportScaling env s))"
    "calm statusCall s (snd (reportInitialized env s))"
  unfolding initialize_def reportScaling_def reportInitialized_def
  by (simp_all add: calm_track calm_assignErr calm_status [OF assms])

lemma calm_replicateResources:
  assumes "retryContract (retryOnConflict env)"
  shows "calm secretCall s (snd (replicateResources env s))"
proof -
  have "calm secretCall t (snd (createRequiredResources env (v_remote t) (v_cluster t) (v_scp t) (v_tcp t) t))" for t
    using requiredResources_quiet [OF assms, of "v_remote t" "v_cluster t" "v_scp t" "v_tcp t" t]
    by (simp add: calm_def prod_eq_iff)
  then show ?thesis unfolding replicateResources_def by (intro calm_track calm_assignErr calm_tests)
qed

lemma calm_reportReady:
  assumes "retryContract (retryOnConflict env)"
  shows "calm statusCall s (snd (reportReady env s))"
proof -
  have "snd (updateReady env t) = snd (assignErr (updateStewardControlPlaneStatus env setReady) t)" for t
    by (simp add: updateReady_def split: prod.split option.split)
  then show ?thesis unfolding reportReady_def
    by (intro calm_track calm_tests) (simp add: calm_assignErr calm_status [OF assms])
qed

section \<open>Orderly logs\<close>

fun okTCP :: "call \<Rightarrow> bool" where
  "okTCP (CreateOrUpdateTCP t k None) = True"
| "okTCP c = False"

fun okPatch :: "call \<Rightarrow> bool" where
  "okPatch (PatchSCP a b None) = True"
| "okPatch c = False"

fun okStatus :: "call \<Rightarrow> bool" where
  "okStatus (StatusUpdateSCP scp None) = True"
| "okStatus c = False"

text \<open>The call \<open>c\<close> may follow the calls \<open>pre\<close>.\<close>

fun justified :: "call list \<Rightarrow> call \<Rightarrow> bool" where
  "justified pre (PatchSCP a b x) = list_ex okTCP pre"
| "justified pre (PatchInfra a b x) = (list_ex okTCP pre \<and> list_ex okPatch pre)"
| "justified pre (CreateOrUpdateSecret k x) = (list_ex okTCP pre \<and> list_ex okPatch pre \<and> list_ex okStatus pre)"
| "justified pre c = True"

primrec orderly :: "call list \<Rightarrow> call list \<Rightarrow> bool" where
  "orderly pre [] = True"
| "orderly pre (c # cs) = (justified pre c \<and> orderly (pre @ [c]) cs)"

lemma justified_mono: "justified pre c \<Longrightarrow> justified (pre @ cs) c"
  by (induction pre c rule: justified.induct) auto

lemma orderly_append: "orderly pre (xs @ ys) \<longleftrightarrow> orderly pre xs \<and> orderly (pre @ xs) ys"
  by (induction xs arbitrary: pre) auto

lemma orderly_justified: "list_all (justified pre) cs \<Longrightarrow> orderly pre cs"
  by (induction cs arbitrary: pre) (auto simp: list_all_iff intro: justified_mono)

text \<open>The log of \<open>s\<close> is that of \<open>s0\<close> and then orderly calls among which \<open>F\<close> found what it needs.\<close>

definition upTo :: "'w rst \<Rightarrow> (call list \<Rightarrow> bool) \<Rightarrow> 'w rst \<Rightarrow> bool" where
  "upTo s0 F s \<longleftrightarrow> (\<exists>new. calls s = calls s0 @ new \<and> orderly [] new \<and> F new)"

definition found1 :: "call list \<Rightarrow> bool" where
  "found1 cs \<longleftrightarrow> list_ex okTCP cs"

definition found2 :: "call list \<Rightarrow> bool" where
  "found2 cs \<longleftrightarrow> list_ex okTCP cs \<and> list_ex okPatch cs"

definition found3 :: "call list \<Rightarrow> bool" where
  "found3 cs \<longleftrightarrow> list_ex okTCP cs \<and> list_ex okPatch cs \<and> list_ex okStatus cs"

lemmas found_defs = found1_def found2_def found3_def

definition monotone :: "(call list \<Rightarrow> bool) \<Rightarrow> bool" where
  "monotone F \<longleftrightarrow> (\<forall>xs ys. F xs \<longrightarrow> F (xs @ ys))"

lemma found_monotone [simp]: "monotone (\<lambda>_. True)" "monotone found1" "monotone found2" "monotone found3"
  by (auto simp: monotone_def found_defs)

lemma upTo_weaken: "upTo s0 F s \<Longrightarrow> upTo s0 (\<lambda>_. True) s"
  by (auto simp: upTo_def)

lemma upTo_extends:
  assumes "upTo s0 F s" "extends P s s'" "monotone F" "\<And>new c. F new \<Longrightarrow> P c \<Longrightarrow> justified new c"
  shows "upTo s0 F s'"
proof -
  from assms(1) obtain new where new: "calls s = calls s0 @ new" "orderly [] new" "F new"
    by (auto simp: upTo_def)
  from assms(2) obtain more where more: "calls s' = calls s @ more" "list_all P more"
    by (auto simp: extends_def)
  have "orderly new more"
    using more(2) assms(4) [OF new(3)] by (auto intro!: orderly_justified simp: list_all_iff)
  with new more(1) assms(3) show ?thesis
    by (auto simp: upTo_def orderly_append monotone_def)
qed

text \<open>A step whose calls are all justified by \<open>F\<close> keeps the order.\<close>

lemma triple_upTo:
  assumes "\<And>s. extends P s (snd (f s))" "monotone F" "\<And>new c. F new \<Longrightarrow> P c \<Longrightarrow> justified new c"
  shows "triple (upTo s0 F) f (upTo s0 F) (\<lambda>_. upTo s0 (\<lambda>_. True))"
proof (rule tripleI)
  fix s s' assume s: "upTo s0 F s" "f s = (None, s')"
  with upTo_extends [OF s(1) assms(1) assms(2,3)] show "upTo s0 F s'" by simp
next
  fix s s' r assume s: "upTo s0 F s" "f s = (Some r, s')"
  with upTo_extends [OF s(1) assms(1) assms(2,3)] show "upTo s0 (\<lambda>_. True) s'" by (auto intro: upTo_weaken)
qed

text \<open>A tracked step that ends the phase \<open>F\<close>: its success adds a call \<open>ok\<close> that \<open>G\<close> asks for.\<close>

lemma upTo_calls: "calls s = calls t \<Longrightarrow> upTo s0 F s = upTo s0 F t"
  by (simp add: upTo_def)

lemma triple_advance:
  fixes f :: "'w rst \<Rightarrow> error option \<times> 'w rst"
  assumes ext: "\<And>s e s1. f s = (e, s1) \<Longrightarrow> extends P s s1"
    and fin: "\<And>s s1. f s = (None, s1) \<Longrightarrow> \<exists>new. calls s1 = calls s @ new \<and> list_ex ok new"
    and F: "monotone F" "\<And>new c. F new \<Longrightarrow> P c \<Longrightarrow> justified new c"
    and G: "\<And>new more. F new \<Longrightarrow> list_ex ok more \<Longrightarrow> G (new @ more)"
  shows "triple (upTo s0 F) (track env ct (assignErr f) failOnErr) (upTo s0 G) (\<lambda>_. upTo s0 (\<lambda>_. True))"
proof (rule triple_track_fail)
  fix s s2 s1 t :: "'w rst" and e
  assume s: "upTo s0 F s" and c: "core s2 = core s" "core t = core s1" and f: "f s2 = (e, s1)"
  have s2: "upTo s0 F s2" using s upTo_calls [OF core_eqD(1) [OF c(1)]] by simp
  have s1: "upTo s0 F s1" by (rule upTo_extends [OF s2 ext [OF f] F])
  have "upTo s0 G s1" if "e = None"
  proof -
    from fin f that obtain more where more: "calls s1 = calls s2 @ more" "list_ex ok more" by blast
    from s2 obtain new where new: "calls s2 = calls s0 @ new" "F new" by (auto simp: upTo_def)
    from s1 new more have "orderly [] (new @ more)" by (auto simp: upTo_def)
    with new more G show ?thesis by (auto simp: upTo_def)
  qed
  with s1 upTo_calls [OF core_eqD(1) [OF c(2)]] show "(e = None \<longrightarrow> upTo s0 G t) \<and> upTo s0 (\<lambda>_. True) t"
    by (auto intro: upTo_weaken)
qed

lemma triple_reconcileTCP:
  assumes "retryContract (retryOnConflict env)"
  shows "triple (upTo s0 (\<lambda>_. True)) (reconcileTCP env) (upTo s0 found1) (\<lambda>_. upTo s0 (\<lambda>_. True))"
  unfolding reconcileTCP_def
proof (rule triple_advance [where P = "\<lambda>c. \<exists>t k x. c = CreateOrUpdateTCP t k x" and ok = okTCP])
  fix s e s1
  assume "createOrUpdateTenantControlPlane env (v_remote s) (v_cluster s) (v_scp s) s = (e, s1)"
  from createOrUpdateTCP_calls(1) [OF assms this]
  show "extends (\<lambda>c. \<exists>t k x. c = CreateOrUpdateTCP t k x) s s1"
    by (auto simp: quiet_def elim: extends_weaken)
next
  fix s s1
  assume "createOrUpdateTenantControlPlane env (v_remote s) (v_cluster s) (v_scp s) s = (None, s1)"
  from createOrUpdateTCP_calls(2) [OF assms this] show "\<exists>new. calls s1 = calls s @ new \<and> list_ex okTCP new"
    by (force simp: list_ex_iff)
qed (auto simp: found1_def)

lemma triple_publishEndpoint:
  "triple (upTo s0 found1) (publishEndpoint env) (upTo s0 found2) (\<lambda>_. upTo s0 (\<lambda>_. True))"
  unfolding publishEndpoint_def
proof (rule triple_advance [where P = "\<lambda>c. \<exists>a b x. c = PatchSCP a b x" and ok = okPatch])
  fix s s1 :: "'a rst" and e
  assume "patchControlPlaneEndpoint env (tst_ControlPlaneEndpoint (tcp_status (v_tcp s))) s = (e, s1)"
  from patchControlPlaneEndpoint_calls [OF this] show "extends (\<lambda>c. \<exists>a b x. c = PatchSCP a b x) s s1"
    by (simp add: quiet_def)
next
  fix s s1 :: "'a rst"
  assume "patchControlPlaneEndpoint env (tst_ControlPlaneEndpoint (tcp_status (v_tcp s))) s = (None, s1)"
  from patchControlPlaneEndpoint_calls [OF this] show "\<exists>new. calls s1 = calls s @ new \<and> list_ex okPatch new"
    by auto
qed (auto simp: found1_def found2_def)

lemma statusCall_justified: "statusCall c \<Longrightarrow> justified new c"
  by (auto simp: statusCall_def)

lemma triple_reportScaling:
  assumes "retryContract (retryOnConflict env)"
  shows "triple (upTo s0 found2) (reportScaling env) (upTo s0 found3) (\<lambda>_. upTo s0 (\<lambda>_. True))"
  unfolding reportScaling_def
proof (rule triple_advance [where P = statusCall and ok = okStatus])
  fix s e s1
  assume "updateStewardControlPlaneStatus env (setScaling env) s = (e, s1)"
  from updateStatus_calls(1) [OF assms this] show "extends statusCall s s1" by (simp add: quiet_def)
next
  fix s s1
  assume "updateStewardControlPlaneStatus env (setScaling env) s = (None, s1)"
  from updateStatus_calls(2) [OF assms this] show "\<exists>new. calls s1 = calls s @ new \<and> list_ex okStatus new"
    by (force simp: list_ex_iff)
qed (auto simp: found2_def found3_def statusCall_justified)

lemma fetchCluster_extends: "extends (\<lambda>c. \<exists>k x. c = GetCluster k x) s (snd (fetchCluster env k s))"
  by (auto simp: fetchCluster_def logged_def extends_def split: prod.splits sum.splits)

lemma calm_triple:
  assumes "\<And>s. calm P s (snd (f s))" "monotone F" "\<And>new c. F new \<Longrightarrow> P c \<Longrightarrow> justified new c"
  shows "triple (upTo s0 F) f (upTo s0 F) (\<lambda>_. upTo s0 (\<lambda>_. True))"
  by (rule triple_upTo [OF calm_extends [OF assms(1)] assms(2,3)])

definition externalCall :: "call \<Rightarrow> bool" where
  "externalCall c \<longleftrightarrow> (\<exists>t k x. c = GetSecret t k x) \<or> (\<exists>k x. c = GetSCP k x) \<or> (\<exists>scp x. c = UpdateSCP scp x)"

lemma addFinalizer_extends:
  assumes "retryContract (retryOnConflict env)"
  shows "extends externalCall s (snd (addFinalizer env s))"
proof -
  obtain e s1 where a: "assignErr (handleFinalizer env) s = (e, s1)" by fastforce
  from assignErr_run [OF this] obtain s2 where "handleFinalizer env s = (e, s2)" "core s1 = core s2" by blast
  with handleFinalizer_quiet [OF assms this(1)] core_eqD(1) [OF this(2)] have "extends externalCall s s1"
    by (auto simp: quiet_def extends_def finalizerStep_def externalCall_def elim!: list.pred_mono_strong)
  then show ?thesis using a by (simp add: addFinalizer_def split: option.splits)
qed

lemma useRemoteClient_extends: "extends externalCall s (snd (assignErr (useRemoteClient env) s))"
proof -
  obtain r s1 where ex: "extractRemoteClient env (v_scp s) s = (r, s1)" by fastforce
  have "extends externalCall s s1"
    using extractRemoteClient_frame [OF ex] by (auto simp: externalCall_def elim!: extends_weaken)
  with ex show ?thesis
    by (auto simp: assignErr_def useRemoteClient_def extends_def split: sum.splits if_splits)
qed

lemma track_extends:
  assumes "\<And>t. extends P t (snd (fn t))" "\<And>t. extends P t (snd (k t))"
  shows "extends P s (snd (track env ct fn k s))"
proof -
  obtain r s' where tr: "track env ct fn k s = (r, s')" by fastforce
  from track_cases [OF this] obtain s0 result s1 s2 where
    c: "core s0 = core s" "fn s0 = (result, s1)" "core s2 = core s1" and
    r: "case result of
        Some e \<Rightarrow> if isPanic e then (r, s') = (Some (Panics e), s2) else (r, s') = k s2
      | None \<Rightarrow> (r, s') = k s2" by blast
  have "extends P s s2"
    using assms(1) [of s0] c(2) core_eqD(1) [OF c(1)] core_eqD(1) [OF c(3)] by (simp add: extends_def)
  moreover from r have "s' = s2 \<or> s' = snd (k s2)"
    by (auto split: option.splits if_splits) (metis snd_conv)+
  ultimately show ?thesis using assms(2) [of s2] tr by (auto intro: extends_trans)
qed

lemma run_steps_extends:
  "(\<And>f s. f \<in> set fs \<Longrightarrow> extends P s (snd (f s))) \<Longrightarrow> extends P s (snd (run_steps fs s))"
proof (induction fs arbitrary: s)
  case (Cons f fs)
  obtain r s1 where f: "f s = (r, s1)" by fastforce
  have "extends P s s1" using Cons.prems [of f s] f by simp
  with f Cons.IH [of s1] Cons.prems show ?case by (auto split: option.splits intro: extends_trans)
qed simp

lemma findExternalCluster_extends:
  assumes "retryContract (retryOnConflict env)"
  shows "extends externalCall s (snd (findExternalCluster env s))"
proof -
  have "extends externalCall t (snd (run_steps [failOnErr, addFinalizer env] t))" for t :: "'a rst"
    by (rule run_steps_extends) (auto simp: addFinalizer_extends [OF assms] calm_extends)
  then show ?thesis
    using track_extends [OF useRemoteClient_extends, of "run_steps [failOnErr, addFinalizer env]"]
    by (simp add: findExternalCluster_def)
qed

definition deletionCall :: "call \<Rightarrow> bool" where
  "deletionCall c \<longleftrightarrow> externalCall c \<or> (\<exists>t k x. c = DeleteTCP t k x)"

lemma removeFinalizer_extends: "extends externalCall s (snd (removeFinalizer env s))"
  by (auto simp: removeFinalizer_def getSCP_def updateSCP_def logged_def extends_def externalCall_def
      Let_def nsname_def split: prod.splits sum.splits)

lemma handleDeletion_extends:
  assumes "retryContract (retryOnConflict env)"
  shows "extends deletionCall s (snd (handleDeletion env s))"
proof -
  obtain r s1 where ex: "extractRemoteClient env (v_scp s) s = (r, s1)" by fastforce
  have e1: "extends deletionCall s s1"
    using extractRemoteClient_frame [OF ex] by (auto simp: deletionCall_def externalCall_def elim!: extends_weaken)
  have e2: "extends deletionCall t t'" if "deleteTCP env m k t = (x, t')" for m k t x t'
    using deleteTCP_calls [OF that] by (auto simp: extends_def deletionCall_def)
  have e3: "extends deletionCall t t'" if "retryOnConflict env (removeFinalizer env) t = (x, t')" for t x t'
  proof -
    have "extends externalCall t (snd (retryOnConflict env (removeFinalizer env) t))"
      by (rule retry_extends [OF assms]) (rule removeFinalizer_extends)
    with that show ?thesis by (auto simp: deletionCall_def elim!: extends_weaken)
  qed
  show ?thesis
  proof (cases r)
    case (Inl e)
    with e1 ex show ?thesis by (simp add: handleDeletion_def Let_def)
  next
    case (Inr m)
    with e1 ex show ?thesis
      by (simp add: handleDeletion_def Let_def split: option.splits prod.splits)
        (blast intro: extends_trans e2 e3)+
  qed
qed

definition prologueCall :: "call \<Rightarrow> bool" where
  "prologueCall c \<longleftrightarrow> deletionCall c \<or> (\<exists>k x. c = GetCluster k x)"

lemma prologue_extends:
  assumes "retryContract (retryOnConflict env)"
  shows "extends prologueCall s (snd (run_steps (prologue env req) s))"
proof (rule run_steps_extends)
  fix f and t :: "'a rst"
  assume "f \<in> set (prologue env req)"
  moreover have "extends prologueCall t (snd (getControlPlane env req t))"
    by (auto simp: getControlPlane_def getSCP_def logged_def extends_def prologueCall_def deletionCall_def
        externalCall_def split: prod.splits sum.splits option.splits)
  moreover have "extends prologueCall t (snd (getOwnerCluster env t))"
    unfolding getOwnerCluster_def using fetchCluster_extends by (rule extends_weaken) (auto simp: prologueCall_def)
  moreover have "extends prologueCall t (snd (returnIfDeleted env t))"
    using handleDeletion_extends [OF assms, of t]
    by (auto simp: returnIfDeleted_def prologueCall_def split: prod.splits elim!: extends_weaken)
  ultimately show "extends prologueCall t (snd (f t))"
    by (auto simp: prologue_def waitOwnerReference_def returnIfPaused_def takeConditions_def extends_def)
qed

lemma prologueCall_justified: "prologueCall c \<Longrightarrow> justified new c"
  by (auto simp: prologueCall_def deletionCall_def externalCall_def)

lemma body_orderly:
  fixes env :: "'w env"
  assumes rc: "retryContract (retryOnConflict env)"
  shows "triple (upTo s0 (\<lambda>_. True)) (run_steps (body env)) (upTo s0 (\<lambda>_. True)) (\<lambda>_. upTo s0 (\<lambda>_. True))"
proof -
  let ?T = "\<lambda>_. True" and ?N = "\<lambda>_. False"
  let ?step = "\<lambda>F f G. triple (upTo s0 F) f (upTo s0 G) (\<lambda>_. upTo s0 ?T)"
  have find_external: "?step ?T (findExternalCluster env) ?T"
    by (rule triple_upTo [OF findExternalCluster_extends [OF rc]]) (auto simp: externalCall_def)
  have wait_address: "?step found1 (waitAddress env) found1"
    by (rule calm_triple [OF calm_waitAddress]) auto
  have refresh: "?step found2 (refreshCluster env) found2"
    by (rule triple_upTo [where P = "\<lambda>c. \<exists>k x. c = GetCluster k x"], unfold refreshCluster_def,
        rule fetchCluster_extends) auto
  have infra: "?step found2 (patchInfrastructure env) found2"
    by (rule calm_triple [OF calm_patchInfrastructure]) (auto simp: infraCall_def found2_def)
  have validate: "?step found2 validateCluster found2"
    by (rule calm_triple [where P = ?N]) auto
  have init: "?step found2 (initialize env) found2"
    by (rule calm_triple [OF calm_status_steps(1) [OF rc]]) (auto simp: statusCall_justified)
  have waiti: "?step found2 waitInitialized found2"
    by (rule calm_triple [where P = ?N]) auto
  have reporti: "?step found3 (reportInitialized env) found3"
    by (rule calm_triple [OF calm_status_steps(3) [OF rc]]) (auto simp: statusCall_justified)
  have secrets: "?step found3 (replicateResources env) found3"
    by (rule calm_triple [OF calm_replicateResources [OF rc]]) (auto simp: secretCall_def found3_def)
  have ready: "?step found3 (reportReady env) found3"
    by (rule calm_triple [OF calm_reportReady [OF rc]]) (auto simp: statusCall_justified)
  have final: "?step found3 complete found3"
    by (rule calm_triple [where P = ?N]) auto
  have nil: "?step found3 (run_steps []) ?T"
    by (rule triple_Nil) (rule upTo_weaken)
  show ?thesis
    unfolding body_def
    by (intro triple_Cons [OF find_external] triple_Cons [OF triple_reconcileTCP [OF rc]]
        triple_Cons [OF wait_address] triple_Cons [OF triple_publishEndpoint] triple_Cons [OF refresh]
        triple_Cons [OF infra] triple_Cons [OF validate] triple_Cons [OF init] triple_Cons [OF waiti]
        triple_Cons [OF triple_reportScaling [OF rc]] triple_Cons [OF reporti] triple_Cons [OF secrets]
        triple_Cons [OF ready] triple_Cons [OF final] nil)
qed

section \<open>Properties\<close>

text \<open>
  (C1) Every reconciliation talks to the API servers in an orderly way: the endpoint is published only after
  the \<open>TenantControlPlane\<close> was created or updated with success, the infrastructure cluster is written
  only after the endpoint was published with success, and the Secrets of the Cluster API contract only
  after both and a successful status update.
\<close>

theorem Reconcile_orderly:
  assumes rc: "retryContract (retryOnConflict env)"
    and run: "Reconcile env req s = (r, s')" and new: "calls s' = calls s @ new"
  shows "orderly [] new"
proof -
  obtain r1 s1 where pro: "run_steps (prologue env req) s = (r1, s1)" by fastforce
  have s1: "upTo s (\<lambda>_. True) s1"
    using upTo_extends [of s "\<lambda>_. True" s prologueCall s1] prologue_extends [OF rc, of s req] pro
    by (auto simp: upTo_def [of s _ s] prologueCall_justified)
  have "upTo s (\<lambda>_. True) s'"
  proof (cases r1)
    case (Some x)
    with run pro s1 show ?thesis by (simp add: Reconcile_def)
  next
    case None
    obtain r2 s2 where body: "run_steps (body env) s1 = (r2, s2)" by fastforce
    have "upTo s (\<lambda>_. True) s2"
      using tripleD_None [OF body_orderly [OF rc] s1] tripleD_Some [OF body_orderly [OF rc] s1] body
      by (cases r2) auto
    moreover have "extends statusCall s2 (deferredUpdate env s2)"
      unfolding deferredUpdate_def by (rule calm_extends [OF calm_status [OF rc]])
    ultimately have "upTo s (\<lambda>_. True) (deferredUpdate env s2)"
      by (rule upTo_extends) (auto simp: statusCall_justified)
    with run pro body None show ?thesis by (simp add: Reconcile_def)
  qed
  with new show ?thesis by (auto simp: upTo_def)
qed

text \<open>The cluster and the \<open>TenantControlPlane\<close> have what the code asks for before it goes on.\<close>

definition validated :: "'w rst \<Rightarrow> bool" where
  "validated s \<longleftrightarrow> ep_Host (cl_ControlPlaneEndpoint (v_cluster s)) \<noteq> '''' \<and>
     cl_InfrastructureReady (v_cluster s) \<and> tst_VersionStatus (tcp_status (v_tcp s)) \<noteq> None"

fun isSecretWrite :: "call \<Rightarrow> bool" where
  "isSecretWrite (CreateOrUpdateSecret k x) = True"
| "isSecretWrite c = False"

text \<open>No Secret written since \<open>s0\<close>, unless the cluster is validated.\<close>

definition gated :: "'w rst \<Rightarrow> 'w rst \<Rightarrow> bool" where
  "gated s0 s \<longleftrightarrow> extends (\<lambda>c. \<not> isSecretWrite c) s0 s"

definition guarded :: "'w rst \<Rightarrow> 'w rst \<Rightarrow> bool" where
  "guarded s0 s \<longleftrightarrow> gated s0 s \<or> validated s"

lemma gated_step:
  assumes "\<And>s. extends P s (snd (f s))" "\<And>c. P c \<Longrightarrow> \<not> isSecretWrite c"
  shows "triple (gated s0) f (gated s0) (\<lambda>_. guarded s0)"
proof (rule triple_keeps)
  fix s assume "gated s0 s"
  moreover have "extends (\<lambda>c. \<not> isSecretWrite c) s (snd (f s))"
    using assms by (blast intro: extends_weaken)
  ultimately show "gated s0 (snd (f s))" unfolding gated_def by (rule extends_trans)
qed (simp add: guarded_def)

lemma validated_calm: "calm P s s' \<Longrightarrow> validated s' = validated s"
  by (simp add: validated_def calm_def quiet_def)

lemma validated_step:
  assumes "\<And>s. calm P s (snd (f s))"
  shows "triple validated f validated (\<lambda>_. guarded s0)"
  by (rule triple_keeps) (simp_all add: guarded_def validated_calm [OF assms])

lemma gated_validateCluster: "triple (gated s0) validateCluster validated (\<lambda>_. guarded s0)"
  by (rule tripleI)
    (auto simp: validateCluster_def validated_def guarded_def returns_def split: if_splits)

lemma reconcileTCP_extends:
  assumes "retryContract (retryOnConflict env)"
  shows "extends (\<lambda>c. \<exists>t k x. c = CreateOrUpdateTCP t k x) s (snd (reconcileTCP env s))"
  unfolding reconcileTCP_def
proof (rule track_extends)
  fix t :: "'a rst"
  show "extends (\<lambda>c. \<exists>t k x. c = CreateOrUpdateTCP t k x) t
      (snd (assignErr (\<lambda>s. createOrUpdateTenantControlPlane env (v_remote s) (v_cluster s) (v_scp s) s) t))"
  proof -
    let ?f = "\<lambda>s. createOrUpdateTenantControlPlane env (v_remote s) (v_cluster s) (v_scp s) s"
    obtain e t1 where a: "assignErr ?f t = (e, t1)" by fastforce
    from assignErr_run [OF this] obtain t2 where "?f t = (e, t2)" "core t1 = core t2" by blast
    with createOrUpdateTCP_calls(1) [OF assms this(1)] core_eqD(1) [OF this(2)] a show ?thesis
      by (auto simp: quiet_def extends_def elim!: list.pred_mono_strong)
  qed
qed (simp add: calm_extends)

lemma body_guarded:
  fixes env :: "'w env"
  assumes rc: "retryContract (retryOnConflict env)"
  shows "triple (gated s0) (run_steps (body env)) (guarded s0) (\<lambda>_. guarded s0)"
proof -
  let ?N = "\<lambda>_. False"
  let ?step = "\<lambda>f. triple (gated s0) f (gated s0) (\<lambda>_. guarded s0)"
  let ?after = "\<lambda>f. triple validated f validated (\<lambda>_. guarded s0)"
  have find_external: "?step (findExternalCluster env)"
    by (rule gated_step [OF findExternalCluster_extends [OF rc]]) (auto simp: externalCall_def)
  have tcp: "?step (reconcileTCP env)"
    by (rule gated_step [OF reconcileTCP_extends [OF rc]]) auto
  have wait_address: "?step (waitAddress env)"
    by (rule gated_step [OF calm_extends [OF calm_waitAddress]]) auto
  have publish: "?step (publishEndpoint env)"
    by (rule gated_step [OF calm_extends [OF calm_publishEndpoint]]) auto
  have refresh: "?step (refreshCluster env)"
    by (rule gated_step [where P = "\<lambda>c. \<exists>k x. c = GetCluster k x"], unfold refreshCluster_def,
        rule fetchCluster_extends) auto
  have infra: "?step (patchInfrastructure env)"
    by (rule gated_step [OF calm_extends [OF calm_patchInfrastructure]]) (auto simp: infraCall_def)
  note after = validated_step [OF calm_status_steps(1) [OF rc]] validated_step [OF calm_tests(4)]
    validated_step [OF calm_status_steps(2) [OF rc]] validated_step [OF calm_status_steps(3) [OF rc]]
    validated_step [OF calm_replicateResources [OF rc]] validated_step [OF calm_reportReady [OF rc]]
    validated_step [OF calm_tests(5)]
  have nil: "triple validated (run_steps []) (guarded s0) (\<lambda>_. guarded s0)"
    by (rule triple_Nil) (simp add: guarded_def)
  show ?thesis
    unfolding body_def
    by (intro triple_Cons [OF find_external] triple_Cons [OF tcp] triple_Cons [OF wait_address]
        triple_Cons [OF publish] triple_Cons [OF refresh] triple_Cons [OF infra]
        triple_Cons [OF gated_validateCluster] triple_Cons [OF after(1)] triple_Cons [OF after(2)]
        triple_Cons [OF after(3)] triple_Cons [OF after(4)] triple_Cons [OF after(5)]
        triple_Cons [OF after(6)] triple_Cons [OF after(7)] nil)
qed

text \<open>
  (C9) The Secrets of a workload cluster are written only when it is worth it: in a reconciliation that writes
  one, the Cluster read last has a control plane endpoint and a ready infrastructure, and the
  \<open>TenantControlPlane\<close> reports a version status.
\<close>

theorem Reconcile_gates_secrets:
  assumes rc: "retryContract (retryOnConflict env)"
    and run: "Reconcile env req s = (r, s')" and new: "calls s' = calls s @ new"
    and "CreateOrUpdateSecret k x \<in> set new"
  shows "ep_Host (cl_ControlPlaneEndpoint (v_cluster s')) \<noteq> '''' \<and> cl_InfrastructureReady (v_cluster s') \<and>
         tst_VersionStatus (tcp_status (v_tcp s')) \<noteq> None"
proof -
  obtain r1 s1 where pro: "run_steps (prologue env req) s = (r1, s1)" by fastforce
  have "extends (\<lambda>c. \<not> isSecretWrite c) s (snd (run_steps (prologue env req) s))"
    by (rule extends_weaken [OF prologue_extends [OF rc]])
      (auto simp: prologueCall_def deletionCall_def externalCall_def)
  with pro have s1: "gated s s1" by (simp add: gated_def)
  have "guarded s s'"
  proof (cases r1)
    case (Some y)
    with run pro s1 show ?thesis by (simp add: Reconcile_def guarded_def)
  next
    case None
    obtain r2 s2 where body: "run_steps (body env) s1 = (r2, s2)" by fastforce
    have s2: "guarded s s2"
      using tripleD_None [OF body_guarded [OF rc] s1] tripleD_Some [OF body_guarded [OF rc] s1] body
      by (cases r2) auto
    have st: "calm statusCall s2 (deferredUpdate env s2)"
      unfolding deferredUpdate_def by (rule calm_status [OF rc])
    have "extends (\<lambda>c. \<not> isSecretWrite c) s2 (deferredUpdate env s2)"
      by (rule extends_weaken [OF calm_extends [OF st]]) (auto simp: statusCall_def)
    with s2 validated_calm [OF st] have "guarded s (deferredUpdate env s2)"
      by (auto simp: guarded_def gated_def intro: extends_trans)
    with run pro body None show ?thesis by (simp add: Reconcile_def)
  qed
  moreover have "\<not> gated s s'"
    using new assms(4) by (force simp: gated_def extends_def list_all_iff)
  ultimately show ?thesis by (simp add: guarded_def validated_def)
qed

section \<open>Witnesses\<close>

lemma step_extends:
  fixes env :: "'w env"
  assumes rc: "retryContract (retryOnConflict env)" and f: "f \<in> set (body env)"
  shows "extends (\<lambda>_. True) s (snd (f s))"
proof -
  have any: "extends P s s' \<Longrightarrow> extends (\<lambda>_. True) s s'" for P and s' :: "'w rst"
    by (erule extends_weaken) simp
  note calm = calm_extends [THEN any]
  note steps = any [OF findExternalCluster_extends [OF rc]] any [OF reconcileTCP_extends [OF rc]]
    calm [OF calm_waitAddress] calm [OF calm_publishEndpoint] any [OF fetchCluster_extends]
    calm [OF calm_patchInfrastructure] calm [OF calm_status_steps(1) [OF rc]]
    calm [OF calm_status_steps(2) [OF rc]] calm [OF calm_status_steps(3) [OF rc]]
    calm [OF calm_replicateResources [OF rc]] calm [OF calm_reportReady [OF rc]]
    calm [OF calm_tests(3)] calm [OF calm_tests(4)] calm [OF calm_tests(5)]
  from f show ?thesis by (auto simp: body_def refreshCluster_def steps)
qed

text \<open>What a prefix of the steps has logged is in the log of the reconciliation.\<close>

lemma Reconcile_log:
  assumes rc: "retryContract (retryOnConflict env)"
    and pro: "run_steps (prologue env req) s = (None, s1)"
    and pre: "run_steps (take n (body env)) s1 = (None, s2)"
    and more: "drop n (body env) = f # fs"
  shows "\<exists>new. calls (snd (Reconcile env req s)) = calls (snd (f s2)) @ new"
proof -
  have fs: "set (f # fs) \<subseteq> set (body env)" using set_drop_subset [of n "body env"] more by simp
  have all: "run_steps (body env) s1 = run_steps (f # fs) s2"
    using run_steps_append [of "take n (body env)" "drop n (body env)" s1] pre more
    by (metis append_take_drop_id case_prod_conv option.case(1))
  obtain r t where f: "f s2 = (r, t)" by fastforce
  have "extends (\<lambda>_. True) t (snd (run_steps fs t))"
    by (rule run_steps_extends) (use fs in \<open>auto intro: step_extends [OF rc]\<close>)
  with all f have "extends (\<lambda>_. True) t (snd (run_steps (body env) s1))"
    by (cases r) (auto simp: extends_def)
  moreover have "extends (\<lambda>_. True) u (deferredUpdate env u)" for u
    unfolding deferredUpdate_def by (rule extends_weaken [OF calm_extends [OF calm_status [OF rc]]]) simp
  moreover have "snd (Reconcile env req s) = deferredUpdate env (snd (run_steps (body env) s1))"
    using pro by (simp add: Reconcile_def split: prod.splits)
  ultimately have "extends (\<lambda>_. True) t (snd (Reconcile env req s))" by (metis extends_trans)
  with f show ?thesis by (auto simp: extends_def)
qed

lemma run_facts:
  "run_steps (prologue runEnv runReq) runState = (None, snd run1)" "v_remote (snd run1) = None"
  "run_steps (take 11 (body runEnv)) (snd run1) = (None, snd run2)" "list_ex isRemoteTCP (calls (snd run2))"
  using run1_result run2_result unfolding run1_def run2_def by (simp_all add: case_prod_unfold prod_eq_iff)

lemma run_log: "\<exists>new. calls (snd (Reconcile runEnv runReq runState)) =
    calls (snd (replicateResources runEnv (snd run2))) @ new"
  by (rule Reconcile_log [OF runEnv_contracts(1) run_facts(1,3)]) (simp add: body_def)

theorem Reconcile_orderly_witness: "orderly [] (calls (snd (Reconcile runEnv runReq runState)))"
  by (rule Reconcile_orderly [OF runEnv_contracts(1) prod.collapse [symmetric], where s = runState]) simp

theorem Reconcile_gates_secrets_witness:
  "ep_Host (cl_ControlPlaneEndpoint (v_cluster (snd (Reconcile runEnv runReq runState)))) \<noteq> '''' \<and>
   cl_InfrastructureReady (v_cluster (snd (Reconcile runEnv runReq runState))) \<and>
   tst_VersionStatus (tcp_status (v_tcp (snd (Reconcile runEnv runReq runState)))) \<noteq> None"
proof -
  from run3_secret run_log obtain k y where
    "CreateOrUpdateSecret k y \<in> set (calls (snd (Reconcile runEnv runReq runState)))" by force
  then show ?thesis
    by (intro Reconcile_gates_secrets [OF runEnv_contracts(1) prod.collapse [symmetric], where s = runState]) simp_all
qed

end
