(* ===== verification/Reconcile_Outcome.thy ===== *)
theory Reconcile_Outcome
  imports Reconcile_Order
begin

text \<open>
  What a reconciliation returns and leaves behind: the possible results, the runs that change nothing, the
  runs of an object that is being deleted, the conditions it stores at the end, and what
  it reports about readiness.
\<close>

section \<open>Results\<close>

definition properOutcome :: "outcome \<Rightarrow> bool" where
  "properOutcome out \<longleftrightarrow>
     (case out of
        Returns res e \<Rightarrow> res = resultEmpty \<or> (res = resultOneSecond \<and> e = None)
      | Panics e \<Rightarrow> isPanic e)"

lemma properOutcome_returns [simp]:
  "returns resultEmpty e = Some out \<Longrightarrow> properOutcome out"
  "returns resultOneSecond None = Some out \<Longrightarrow> properOutcome out"
  by (auto simp: returns_def properOutcome_def split: option.splits if_splits)

definition proper :: "'w rstep \<Rightarrow> bool" where
  "proper f \<longleftrightarrow> (\<forall>s. pred_option properOutcome (fst (f s)))"

lemma properD: "proper f \<Longrightarrow> f s = (Some out, s') \<Longrightarrow> properOutcome out"
  unfolding proper_def by (metis fst_conv option.pred_inject(2))

lemma properI: "(\<And>s out s'. f s = (Some out, s') \<Longrightarrow> properOutcome out) \<Longrightarrow> proper f"
  unfolding proper_def by (metis option.exhaust option.pred_inject prod.collapse)

lemma proper_track:
  assumes "proper k"
  shows "proper (track env ct fn k)"
proof (rule properI)
  fix s out s'
  assume "track env ct fn k s = (Some out, s')"
  from track_cases [OF this] obtain s0 result s1 s2 where
    r: "case result of
        Some e \<Rightarrow> if isPanic e then (Some out, s') = (Some (Panics e), s2) else (Some out, s') = k s2
      | None \<Rightarrow> (Some out, s') = k s2" by blast
  show "properOutcome out"
  proof (cases "k s2 = (Some out, s')")
    case True
    with assms show ?thesis by (rule properD)
  next
    case False
    with r show ?thesis by (auto simp: properOutcome_def split: option.splits if_splits)
  qed
qed

lemma proper_run_steps: "(\<And>f. f \<in> set fs \<Longrightarrow> proper f) \<Longrightarrow> proper (run_steps fs)"
proof (induction fs)
  case Nil
  show ?case by (simp add: proper_def)
next
  case (Cons f fs)
  then have f: "proper f" and fs: "proper (run_steps fs)" by simp_all
  show ?case
  proof (rule properI)
    fix s out s'
    assume "run_steps (f # fs) s = (Some out, s')"
    then consider "f s = (Some out, s')" | s1 where "run_steps fs s1 = (Some out, s')"
      by (auto split: prod.splits option.splits)
    then show "properOutcome out" using properD [OF f] properD [OF fs] by cases blast+
  qed
qed

lemma proper_tests:
  "proper failOnErr" "proper requeueOnErr" "proper validateCluster" "proper waitInitialized" "proper complete"
  "proper waitOwnerReference" "proper (returnIfPaused env)" "proper takeConditions" "proper (addFinalizer env)"
  "proper (returnIfDeleted env)" "proper (fetchCluster env k)" "proper (getControlPlane env req)"
  "proper (\<lambda>s. (None, s))" "proper (\<lambda>s. if v_err s \<noteq> None then (returns resultOneSecond None, s) else (None, s))"
  by (auto intro!: properI simp: failOnErr_def requeueOnErr_def validateCluster_def waitInitialized_def complete_def
      waitOwnerReference_def returnIfPaused_def takeConditions_def addFinalizer_def returnIfDeleted_def
      fetchCluster_def getControlPlane_def split: if_splits option.splits prod.splits sum.splits)

lemma proper_where: "(\<And>k. proper (f k)) \<Longrightarrow> proper (\<lambda>s. f (g s) s)"
  by (simp add: proper_def)

lemma proper_if: "proper f \<Longrightarrow> proper g \<Longrightarrow> proper (\<lambda>s. if b s then f s else g s)"
  by (auto simp: proper_def)

lemma proper_prologue: "f \<in> set (prologue env req) \<Longrightarrow> proper f"
proof -
  have "proper (getOwnerCluster env)"
    unfolding getOwnerCluster_def [abs_def] by (rule proper_where) (rule proper_tests(11))
  then show "f \<in> set (prologue env req) \<Longrightarrow> proper f"
    using proper_tests(6-8) proper_tests(10) proper_tests(12) [of env req] by (auto simp: prologue_def)
qed

lemma proper_find: "proper (findExternalCluster env)"
proof -
  have "proper (run_steps [failOnErr, addFinalizer env])"
    by (rule proper_run_steps) (use proper_tests(1,9) in auto)
  then show ?thesis unfolding findExternalCluster_def [abs_def]
    by (intro proper_if proper_track proper_tests)
qed

lemma proper_body: "f \<in> set (body env) \<Longrightarrow> proper f"
proof -
  have "proper (refreshCluster env)" "proper (patchInfrastructure env)" "proper (initialize env)"
    unfolding refreshCluster_def [abs_def] patchInfrastructure_def [abs_def] initialize_def [abs_def]
    by (rule proper_where [OF proper_tests(11)], (intro proper_if proper_track proper_tests)+)
  moreover have "proper (reconcileTCP env)" "proper (waitAddress env)" "proper (publishEndpoint env)"
    "proper (reportScaling env)" "proper (reportInitialized env)" "proper (replicateResources env)"
    "proper (reportReady env)"
    unfolding reconcileTCP_def waitAddress_def publishEndpoint_def reportScaling_def reportInitialized_def
      replicateResources_def reportReady_def
    by (intro proper_track proper_tests)+
  ultimately show "f \<in> set (body env) \<Longrightarrow> proper f"
    using proper_find proper_tests(3-5) by (auto simp: body_def)
qed

lemma body_returns: "fst (run_steps (body env) s) \<noteq> None"
proof -
  have "body env = butlast (body env) @ [complete]" by (simp add: body_def)
  then have "run_steps (body env) s = (case run_steps (butlast (body env)) s of
      (Some r, s') \<Rightarrow> (Some r, s') | (None, s') \<Rightarrow> run_steps [complete] s')"
    by (metis run_steps_append)
  then show ?thesis by (simp add: complete_def returns_def split: prod.splits option.splits)
qed

section \<open>Properties\<close>

text \<open>
  The shapes of a result: done, try again in one second (never together with an error), an error for the work queue's
  back-off (never together with a fixed delay), or a panic of the run time.
\<close>

theorem Reconcile_outcome:
  "\<exists>out. fst (Reconcile env req s) = Some out \<and>
     (case out of
        Returns res e \<Rightarrow> res = \<lparr>RequeueAfter = None\<rparr> \<or> (res = \<lparr>RequeueAfter = Some 1\<rparr> \<and> e = None)
      | Panics e \<Rightarrow> isPanic e)"
proof -
  obtain r1 s1 where pro: "run_steps (prologue env req) s = (r1, s1)" by fastforce
  obtain r2 s2 where bod: "run_steps (body env) s1 = (r2, s2)" by fastforce
  have "\<exists>out. fst (Reconcile env req s) = Some out \<and> properOutcome out"
  proof (cases r1)
    case (Some out)
    have "proper (run_steps (prologue env req))" by (rule proper_run_steps) (rule proper_prologue)
    from properD [OF this] pro Some show ?thesis by (simp add: Reconcile_def)
  next
    case None
    from body_returns [of env s1] bod obtain out where "r2 = Some out" by auto
    moreover have "proper (run_steps (body env))" by (rule proper_run_steps) (rule proper_body)
    ultimately show ?thesis using properD None pro bod by (simp add: Reconcile_def)
  qed
  then show ?thesis unfolding properOutcome_def resultEmpty_def resultOneSecond_def .
qed

text \<open>Nothing to do: the object is gone or not yet owned, its Cluster is gone, or one of them is paused.\<close>

definition idle :: "'w env \<Rightarrow> NamespacedName \<Rightarrow> 'w \<Rightarrow> bool" where
  "idle env req w \<longleftrightarrow>
     (case k_getSCP (r_client env) req w of
        (Inl e, _) \<Rightarrow> isNotFound e
      | (Inr scp, w1) \<Rightarrow>
          (case om_OwnerReferences (scp_meta scp) of
             [] \<Rightarrow> True
           | owner # _ \<Rightarrow>
               (case k_getCluster (r_client env) (om_Namespace (scp_meta scp), or_Name owner) w1 of
                  (Inl e, _) \<Rightarrow> isNotFound e
                | (Inr cluster, _) \<Rightarrow> isPaused env cluster scp)))"

text \<open>
  A control plane that is gone, has no owner yet, or whose Cluster is gone or paused is left
  alone: the reconciliation ends without error, is not scheduled again, and writes nothing.
\<close>

theorem Reconcile_idle:
  assumes "idle env req (world s)"
  shows "\<exists>s'. Reconcile env req s = (Some (Returns \<lparr>RequeueAfter = None\<rparr> None), s') \<and>
           writes (calls s') = writes (calls s)"
proof -
  have "\<exists>s'. run_steps (prologue env req) s = (Some (Returns resultEmpty None), s') \<and>
      writes (calls s') = writes (calls s)"
  proof (cases "k_getSCP (r_client env) req (world s)")
    case (Pair x w1)
    show ?thesis
    proof (cases x)
      case (Inl e)
      with assms Pair show ?thesis
        by (simp add: idle_def prologue_def getControlPlane_def getSCP_def logged_def returns_def)
    next
      case (Inr scp)
      show ?thesis
      proof (cases "om_OwnerReferences (scp_meta scp)")
        case Nil
        with Inr Pair show ?thesis
          by (simp add: prologue_def getControlPlane_def getSCP_def logged_def returns_def waitOwnerReference_def)
      next
        case (Cons owner owners)
        obtain y w2 where c: "k_getCluster (r_client env) (om_Namespace (scp_meta scp), or_Name owner) w1 = (y, w2)"
          by fastforce
        with assms Pair Inr Cons show ?thesis
          by (cases y) (simp_all add: idle_def prologue_def getControlPlane_def getSCP_def logged_def returns_def
              waitOwnerReference_def getOwnerCluster_def fetchCluster_def returnIfPaused_def)
      qed
    qed
  qed
  then show ?thesis by (auto simp: Reconcile_def resultEmpty_def)
qed

fun isDeletionWrite :: "call \<Rightarrow> bool" where
  "isDeletionWrite (DeleteTCP t k x) = True"
| "isDeletionWrite (UpdateSCP scp x) = True"
| "isDeletionWrite c = False"

text \<open>
  (C31) An object that is being deleted is never built up again: the reconciliation of a control plane with a
  deletion timestamp writes nothing but the deletion of the remote \<open>TenantControlPlane\<close> and the object
  itself, in either cluster.
\<close>

theorem Reconcile_deletion:
  assumes "retryContract (retryOnConflict env)"
    and "k_getSCP (r_client env) req (world s) = (Inr scp, w)"
    and "om_DeletionTimestamp (scp_meta scp) \<noteq> None"
    and run: "Reconcile env req s = (r, s')" and new: "calls s' = calls s @ new"
  shows "list_all isDeletionWrite (writes new)"
proof -
  obtain r1 s1 where pro: "run_steps (prologue env req) s = (r1, s1)" by fastforce
  have "r1 \<noteq> None"
    using pro assms(2,3)
    by (auto simp: prologue_def getControlPlane_def getSCP_def logged_def waitOwnerReference_def returns_def
        getOwnerCluster_def fetchCluster_def returnIfPaused_def returnIfDeleted_def
        split: if_splits prod.splits sum.splits option.splits)
  with run pro have "s' = s1" by (auto simp: Reconcile_def)
  with prologue_extends [OF assms(1), of s req] pro new have "list_all prologueCall new"
    by (auto simp: extends_def)
  then show ?thesis
    by (auto simp: writes_def list_all_iff prologueCall_def deletionCall_def externalCall_def)
qed

text \<open>
  The last call of a status update: the read, if it failed or if the closure panicked after it, or the update, with the status that the closure
  made of the one just read.
\<close>

lemma updateStatus_final:
  assumes rc: "retryContract (retryOnConflict env)" and run: "updateStewardControlPlaneStatus env f s = (e, s')"
  shows "(\<exists>k y. last (calls s') = GetSCP k y \<and> e \<noteq> None \<and> (y = None \<longrightarrow> (\<exists>s1 st. f s1 st = None))) \<or>
    (\<exists>x y s1 st. last (calls s') = StatusUpdateSCP x y \<and> (e = None \<longleftrightarrow> y = None) \<and> f s1 st = Some (scp_Status x) \<and>
       v_tcp s1 = v_tcp s \<and> v_conds s1 = v_conds s)"
proof -
  let ?I = "\<lambda>t. v_tcp t = v_tcp s \<and> v_conds t = v_conds s"
  have "?I (snd (tryStatusUpdate env f t))" if "?I t" for t
    using tryStatusUpdate_calls [of env f t] that by (simp add: prod_eq_iff)
  with retry_last [OF rc, where I = ?I and fn = "tryStatusUpdate env f" and s = s] obtain t where
    t: "?I t" "retryOnConflict env (tryStatusUpdate env f) s = tryStatusUpdate env f t" by blast
  obtain x where x: "tryStatusUpdate env f t = (x, s')" "e = None \<longleftrightarrow> x = None"
    using run t(2) by (auto simp: updateStewardControlPlaneStatus_def split: prod.splits option.splits)
  obtain y t1 where get: "getSCP env (scp_key (v_scp t)) t = (y, t1)" by fastforce
  have t1: "v_tcp t1 = v_tcp s" "v_conds t1 = v_conds s" "last (calls t1) = GetSCP (scp_key (v_scp t)) y"
    using get t(1) by (auto simp: getSCP_def logged_def nsname_def split: prod.splits sum.splits)
  show ?thesis
  proof (cases y)
    case (Some d)
    with x get t1 show ?thesis by (auto simp: tryStatusUpdate_def)
  next
    case None
    show ?thesis
    proof (cases "f t1 (scp_Status (v_scp t1))")
      case None
      with \<open>y = None\<close> x get t1 show ?thesis by (auto simp: tryStatusUpdate_def)
    next
      case (Some st)
      let ?x = "(v_scp t1)\<lparr>scp_Status := st\<rparr>"
      from \<open>y = None\<close> Some x(1) get have "statusUpdateSCP env (t1\<lparr>v_scp := ?x\<rparr>) = (x, s')" by (simp add: tryStatusUpdate_def)
      then have "last (calls s') = StatusUpdateSCP ?x x"
        by (auto simp: statusUpdateSCP_def logged_def split: prod.splits sum.splits)
      with Some x(2) t1(1,2) show ?thesis
        by (intro disjI2 exI [of _ ?x] exI [of _ x] exI [of _ t1] exI [of _ "scp_Status (v_scp t1)"]) simp
    qed
  qed
qed

text \<open>
  (C30) However the steps of a reconciliation end, with a result, an error or a panic, the result is theirs and the conditions they have tracked are sent
  to the API server at the end: the last call is a status update whose conditions are those of the state in which the steps have ended,
  or the read before it, if that failed.
\<close>

theorem Reconcile_stores_conditions:
  fixes env :: "'w env"
  assumes rc: "retryContract (retryOnConflict env)"
    and pro: "run_steps (prologue env req) s = (None, s1)" and bod: "run_steps (body env) s1 = (r2, s2)"
    and run: "Reconcile env req s = (r, s')"
  shows "r = r2 \<and>
    ((\<exists>k e. last (calls s') = GetSCP k (Some e)) \<or>
     (\<exists>scp x. last (calls s') = StatusUpdateSCP scp x \<and> Conditions (scp_Status scp) = v_conds s2))"
proof -
  let ?f = "\<lambda>s st. Some (st\<lparr>Conditions := v_conds s\<rparr>)"
  obtain e t where u: "updateStewardControlPlaneStatus env ?f s2 = (e, t)" by fastforce
  with pro bod run have s': "r = r2" "s' = t" by (simp_all add: Reconcile_def deferredUpdate_def)
  have sent: "Conditions (scp_Status x) = v_conds t1" if "st\<lparr>Conditions := v_conds t1\<rparr> = scp_Status x" for t1 :: "'w rst" and st :: StewardControlPlaneStatus and x
    using arg_cong [OF that, of Conditions] by simp
  from updateStatus_final [OF rc u] show ?thesis
  proof (elim disjE exE conjE)
    fix k y
    assume "last (calls t) = GetSCP k y" "y = None \<longrightarrow> (\<exists>s1 st. ?f s1 st = None)"
    with s' show ?thesis by (cases y) simp_all
  next
    fix x y st and t1 :: "'w rst"
    assume "last (calls t) = StatusUpdateSCP x y" and st: "?f t1 st = Some (scp_Status x)" and "v_conds t1 = v_conds s2"
    with s' sent [OF option.inject [THEN iffD1, OF st]] show ?thesis by simp
  qed
qed

section \<open>Readiness\<close>

definition truthful :: "bool \<Rightarrow> call \<Rightarrow> bool" where
  "truthful b c \<longleftrightarrow> (\<forall>scp x. c = StatusUpdateSCP scp x \<longrightarrow> Ready (scp_Status scp) = b)"

text \<open>The statuses in which the control plane serves, and what the phase sends of them.\<close>

definition serving :: "KubernetesVersionStatus option \<Rightarrow> bool" where
  "serving v \<longleftrightarrow> v = Some VersionReady \<or> v = Some VersionUpgrading"

lemma setReady_serving: "setReady s st = Some st' \<Longrightarrow> Ready st' = serving (tst_VersionStatus (tcp_status (v_tcp s)))"
  by (auto simp: setReady_def versionServing_def serving_def split: option.splits)

lemma updateStatus_truthful:
  assumes "retryContract (retryOnConflict env)" "updateStewardControlPlaneStatus env setReady s = (e, s')"
  shows "extends (truthful (serving (tst_VersionStatus (tcp_status (v_tcp s))))) s s'"
proof -
  let ?b = "serving (tst_VersionStatus (tcp_status (v_tcp s)))"
  let ?I = "\<lambda>t. v_tcp t = v_tcp s \<and> extends (truthful ?b) s t"
  have step: "?I (snd (tryStatusUpdate env setReady t))" if "?I t" for t
  proof -
    have "v_tcp (snd (tryStatusUpdate env setReady t)) = v_tcp t"
      using tryStatusUpdate_calls [of env setReady t] by (simp add: prod_eq_iff)
    moreover have "extends (truthful (serving (tst_VersionStatus (tcp_status (v_tcp t))))) t
        (snd (tryStatusUpdate env setReady t))"
      by (auto simp: tryStatusUpdate_def getSCP_def statusUpdateSCP_def logged_def extends_def truthful_def
          dest: setReady_serving split: prod.splits sum.splits option.splits)
    ultimately show ?thesis using that by (auto intro: extends_trans)
  qed
  have "?I (snd (retryOnConflict env (tryStatusUpdate env setReady) s))"
    by (rule retry_invariant [OF assms(1), where I = ?I]) (simp, erule step)
  with assms(2) show ?thesis
    by (auto simp: updateStewardControlPlaneStatus_def split: prod.splits option.splits)
qed

text \<open>The last phase, taken apart: the status update, and what the tests after it make of its result.\<close>

lemma reportReady_cases:
  assumes rc: "retryContract (retryOnConflict env)" and run: "reportReady env s = (r, s')"
  obtains s0 e s1 where "core s0 = core s" "updateStewardControlPlaneStatus env setReady s0 = (e, s1)" "calls s' = calls s1"
    "r = None \<longrightarrow> e = None" "e = None \<longrightarrow> tst_VersionStatus (tcp_status (v_tcp s)) \<noteq> None \<longrightarrow> r = None"
    "r = Some (Returns resultOneSecond None) \<longrightarrow> (\<exists>x. e = Some x \<and> errors_Is x ErrEnqueueBack)"
proof -
  from track_cases [OF run [unfolded reportReady_def]] obtain s0 result s1 s2 where
    c: "core s0 = core s" "updateReady env s0 = (result, s1)" "core s2 = core s1" "v_err s2 = v_err s1" and
    r: "case result of
        Some e \<Rightarrow> if isPanic e then (r, s') = (Some (Panics e), s2) else (r, s') = requeueOnErr s2
      | None \<Rightarrow> (r, s') = requeueOnErr s2" by blast
  obtain e s3 where u: "updateStewardControlPlaneStatus env setReady s0 = (e, s3)" by fastforce
  have tcp: "v_tcp s3 = v_tcp s" using updateStatus_calls(1) [OF rc u] core_eqD(3) [OF c(1)] by simp
  have up: "calls s1 = calls s3" "e = None \<Longrightarrow> v_err s1 = None" "\<And>x. e = Some x \<Longrightarrow> result = Some x"
    "\<And>x. e = Some x \<Longrightarrow> \<not> isPanic x \<Longrightarrow> v_err s1 = Some x"
    "e = None \<Longrightarrow> tst_VersionStatus (tcp_status (v_tcp s)) \<noteq> None \<Longrightarrow> result = Some x \<Longrightarrow> \<not> isPanic x" for x
    using c(2) u tcp by (auto simp: updateReady_def assignErr_def split: option.splits if_splits)
  show thesis
  proof (rule that [OF c(1) u])
    show "calls s' = calls s3"
      using r up(1) core_eqD(1) [OF c(3)] by (auto simp: requeueOnErr_def split: option.splits if_splits)
    show "r = None \<longrightarrow> e = None"
      using r up(3,4) c(4) by (cases e) (auto simp: requeueOnErr_def returns_def split: option.splits if_splits)
    show "e = None \<longrightarrow> tst_VersionStatus (tcp_status (v_tcp s)) \<noteq> None \<longrightarrow> r = None"
      using r up(2,5) c(4) by (cases result) (auto simp add: requeueOnErr_def simp del: not_None_eq split: if_splits)
    show "r = Some (Returns resultOneSecond None) \<longrightarrow> (\<exists>x. e = Some x \<and> errors_Is x ErrEnqueueBack)"
      using r up(2,3,4) c(4)
      by (cases e) (auto simp: requeueOnErr_def returns_def resultOneSecond_def resultEmpty_def split: option.splits if_splits)
  qed
qed

section \<open>Properties of the readiness\<close>

text \<open>
  (C32) Readiness is reported as it is: every status update of the last phase carries \<open>Ready\<close> exactly if the
  \<open>TenantControlPlane\<close> is in the version status \<open>Ready\<close> or \<open>Upgrading\<close>; and the reconciliation goes on only after such an
  update has succeeded.
\<close>

theorem reportReady_truthful:
  assumes rc: "retryContract (retryOnConflict env)" and run: "reportReady env s = (r, s')" and new: "calls s' = calls s @ new"
  shows "(\<forall>scp x. StatusUpdateSCP scp x \<in> set new \<longrightarrow>
      (Ready (scp_Status scp) \<longleftrightarrow> tst_VersionStatus (tcp_status (v_tcp s)) = Some VersionReady \<or>
         tst_VersionStatus (tcp_status (v_tcp s)) = Some VersionUpgrading)) \<and>
    (r = None \<longrightarrow> (\<exists>scp. StatusUpdateSCP scp None \<in> set new))"
proof -
  obtain s0 e s1 where c: "core s0 = core s" "updateStewardControlPlaneStatus env setReady s0 = (e, s1)" "calls s' = calls s1"
      "r = None \<longrightarrow> e = None"
    by (rule reportReady_cases [OF rc run])
  have tcp: "v_tcp s0 = v_tcp s" "calls s0 = calls s" using core_eqD(1,3) [OF c(1)] by simp_all
  from updateStatus_truthful [OF rc c(2)] have "list_all (truthful (serving (tst_VersionStatus (tcp_status (v_tcp s))))) new"
    using new c(3) tcp by (auto simp: extends_def)
  moreover have "r = None \<longrightarrow> (\<exists>scp. StatusUpdateSCP scp None \<in> set new)"
    using updateStatus_calls(2) [OF rc c(2)] c(3,4) new tcp by (metis append_eq_append_conv)
  ultimately show ?thesis by (auto simp: list_all_iff truthful_def serving_def)
qed

text \<open>
  (C39) A control plane that does not serve is not looked at again: if the version status of its \<open>TenantControlPlane\<close> is anything but \<open>Ready\<close> and \<open>Upgrading\<close>,
  and the status update of the last phase, which is the last call, succeeds, the reconciliation is done, without an error and without a
  further try, with the control plane reported as not ready. The phase does prepare \<open>ErrEnqueueBack\<close> for this case, but the error reaches the condition only,
  since it is not assigned to \<open>err\<close>.
\<close>

theorem not_serving_is_not_requeued:
  fixes env :: "'w env"
  assumes rc: "retryContract (retryOnConflict env)"
    and v: "tst_VersionStatus (tcp_status (v_tcp s)) = Some v" "v \<noteq> VersionReady" "v \<noteq> VersionUpgrading"
    and run: "run_steps [reportReady env, complete] s = (out, s')" and ok: "last (calls s') = StatusUpdateSCP x None"
  shows "out = Some (Returns \<lparr>RequeueAfter = None\<rparr> None) \<and> \<not> Ready (scp_Status x)"
proof -
  obtain r s2 where rep: "reportReady env s = (r, s2)" by fastforce
  obtain s0 e s1 where c: "core s0 = core s" "updateStewardControlPlaneStatus env setReady s0 = (e, s1)" "calls s2 = calls s1"
      "e = None \<longrightarrow> tst_VersionStatus (tcp_status (v_tcp s)) \<noteq> None \<longrightarrow> r = None"
    by (rule reportReady_cases [OF rc rep])
  have s': "calls s' = calls s2" using run rep by (auto simp: complete_def split: option.splits)
  have tcp: "v_tcp s0 = v_tcp s" using core_eqD(3) [OF c(1)] .
  from updateStatus_final [OF rc c(2)] ok s' c(3) obtain st and t :: "'w rst" where
    t: "e = None" "setReady t st = Some (scp_Status x)" "v_tcp t = v_tcp s0"
    by auto
  with c(4) v(1) rep run have "out = Some (Returns \<lparr>RequeueAfter = None\<rparr> None)"
    by (auto simp: complete_def returns_def resultEmpty_def)
  moreover have "\<not> Ready (scp_Status x)" using setReady_serving [OF t(2)] t(3) tcp v by (simp add: serving_def)
  ultimately show ?thesis by simp
qed

section \<open>Remote control planes\<close>

text \<open>Since \<open>s1\<close>: the finalizer is on the object read then, or was written since.\<close>

definition protected :: "'w rst \<Rightarrow> 'w rst \<Rightarrow> bool" where
  "protected s1 s \<longleftrightarrow>
     ExternalClusterReferenceFinalizer \<in> set (om_Finalizers (scp_meta (v_scp s1))) \<or>
     (\<exists>new scp. calls s = calls s1 @ new \<and> UpdateSCP scp None \<in> set new \<and>
        ExternalClusterReferenceFinalizer \<in> set (om_Finalizers (scp_meta scp)))"

abbreviation noRemote :: "call \<Rightarrow> bool" where
  "noRemote c \<equiv> \<not> isRemoteTCP c"

definition safeRemote :: "'w rst \<Rightarrow> 'w rst \<Rightarrow> bool" where
  "safeRemote s1 s \<longleftrightarrow> extends noRemote s1 s \<or> protected s1 s"

lemma protected_extends: "protected s1 s \<Longrightarrow> extends P s s' \<Longrightarrow> protected s1 s'"
  by (auto simp: protected_def extends_def)

lemma safeRemote_extends: "safeRemote s1 s \<Longrightarrow> extends noRemote s s' \<Longrightarrow> safeRemote s1 s'"
  unfolding safeRemote_def by (metis extends_trans protected_extends)

lemma handleFinalizer_protects:
  assumes "retryContract (retryOnConflict env)" "unsortedContract (unsortedList env)"
    and "handleFinalizer env s = (None, s')" "scp_meta (v_scp s) = scp_meta (v_scp s1)"
    and "extends P s1 s"
  shows "protected s1 s'"
proof (cases "ExternalClusterReferenceFinalizer \<in> set (om_Finalizers (scp_meta (v_scp s1)))")
  case False
  with handleFinalizer_update [OF assms(1-3)] assms(4,5) show ?thesis
    by (fastforce simp: protected_def extends_def)
qed (simp add: protected_def)

lemma addFinalizer_protects:
  assumes "retryContract (retryOnConflict env)" "unsortedContract (unsortedList env)"
    and "addFinalizer env s = (None, s')" "scp_meta (v_scp s) = scp_meta (v_scp s1)" "extends P s1 s"
  shows "protected s1 s'"
proof -
  obtain e t where a: "assignErr (handleFinalizer env) s = (e, t)" by fastforce
  with assms(3) have e: "e = None" "s' = t" by (auto simp: addFinalizer_def returns_def split: option.splits)
  from assignErr_run [OF a] e obtain t1 where t1: "handleFinalizer env s = (None, t1)" "core s' = core t1" by blast
  from handleFinalizer_protects [OF assms(1,2) t1(1) assms(4,5)] core_eqD(1) [OF t1(2)]
  show ?thesis by (simp add: protected_def)
qed

lemma findExternalCluster_safe:
  assumes "retryContract (retryOnConflict env)" "unsortedContract (unsortedList env)"
    and "findExternalCluster env s1 = (None, s2)" "v_remote s1 = None"
  shows "v_remote s2 = None \<or> protected s1 s2"
proof (cases "scp_ecr (v_scp s1) = None")
  case True
  with assms(3,4) show ?thesis by (simp add: findExternalCluster_def)
next
  case False
  with assms(3) have tr: "track env FoundExternalClusterReferenceConditionType (assignErr (useRemoteClient env))
      (run_steps [failOnErr, addFinalizer env]) s1 = (None, s2)" by (simp add: findExternalCluster_def)
  from track_cases [OF tr] obtain s0 result t1 t2 where
    c: "core s0 = core s1" "assignErr (useRemoteClient env) s0 = (result, t1)" "core t2 = core t1" and
    r: "run_steps [failOnErr, addFinalizer env] t2 = (None, s2)"
    by (auto split: option.splits if_splits)
  obtain x u where ex: "extractRemoteClient env (v_scp s0) s0 = (x, u)" by fastforce
  have "extends externalCall s0 t1"
    using useRemoteClient_extends [of s0 env] c(2) by simp
  moreover have "scp_meta (v_scp t1) = scp_meta (v_scp s0)"
    using c(2) ex extractRemoteClient_frame [OF ex]
    by (auto simp: assignErr_def useRemoteClient_def split: sum.splits if_splits)
  ultimately have t2: "extends externalCall s1 t2" "scp_meta (v_scp t2) = scp_meta (v_scp s1)"
    using core_eqD [OF c(1)] core_eqD [OF c(3)] by (simp_all add: extends_def)
  from r have "addFinalizer env t2 = (None, s2)"
    by (auto simp: failOnErr_def returns_def split: option.splits prod.splits)
  from addFinalizer_protects [OF assms(1,2) this t2(2,1)] show ?thesis by simp
qed

lemma reconcileTCP_safe:
  assumes "retryContract (retryOnConflict env)" "extends noRemote s1 s" "v_remote s = None \<or> protected s1 s"
  shows "safeRemote s1 (snd (reconcileTCP env s))"
proof -
  let ?f = "\<lambda>s. createOrUpdateTenantControlPlane env (v_remote s) (v_cluster s) (v_scp s) s"
  obtain r s' where run: "reconcileTCP env s = (r, s')" by fastforce
  from track_fail [OF run [unfolded reconcileTCP_def]] obtain s0 e t where
    c: "core s0 = core s" "?f s0 = (e, t)" "core s' = core t" by blast
  have ext: "extends (\<lambda>c. \<exists>k x. c = CreateOrUpdateTCP (targetOf (v_remote s)) k x) s s'"
    using createOrUpdateTCP_calls(1) [OF assms(1) c(2)] core_eqD [OF c(1)] core_eqD [OF c(3)]
    by (simp add: quiet_def extends_def)
  show ?thesis
  proof (cases "v_remote s")
    case None
    with ext have "extends noRemote s s'" by (auto simp: targetOf_def elim!: extends_weaken)
    with assms(2) run show ?thesis by (auto simp: safeRemote_def intro: extends_trans)
  next
    case (Some m)
    with assms(3) protected_extends [OF _ ext] run show ?thesis by (auto simp: safeRemote_def)
  qed
qed

lemma later_steps_no_remote:
  fixes env :: "'w env"
  assumes rc: "retryContract (retryOnConflict env)" and f: "f \<in> set (drop 2 (body env))"
  shows "extends noRemote s (snd (f s))"
proof -
  have "extends noRemote s (snd (refreshCluster env s))"
    unfolding refreshCluster_def by (rule extends_weaken [OF fetchCluster_extends]) auto
  moreover have "extends noRemote s (snd (waitAddress env s))"
    by (rule extends_weaken [OF calm_extends [OF calm_waitAddress]]) simp
  moreover have "extends noRemote s (snd (publishEndpoint env s))"
    by (rule extends_weaken [OF calm_extends [OF calm_publishEndpoint]]) auto
  moreover have "extends noRemote s (snd (patchInfrastructure env s))"
    by (rule extends_weaken [OF calm_extends [OF calm_patchInfrastructure]]) (auto simp: infraCall_def)
  moreover have "extends noRemote s (snd (replicateResources env s))"
    by (rule extends_weaken [OF calm_extends [OF calm_replicateResources [OF rc]]]) (auto simp: secretCall_def)
  moreover have "extends noRemote s s'" if "calm statusCall s s'" for s'
    by (rule extends_weaken [OF calm_extends [OF that]]) (auto simp: statusCall_def)
  moreover note calm_status_steps [OF rc, of s] calm_reportReady [OF rc, of s]
    calm_tests(3) [THEN calm_extends] calm_tests(4) [THEN calm_extends] calm_tests(5) [THEN calm_extends]
  ultimately show ?thesis using f by (auto simp: body_def)
qed

text \<open>
  (C10) No remote control plane without protection: when a reconciliation creates or updates a
  \<open>TenantControlPlane\<close> in a remote cluster, the object it works on carried the provider's finalizer when
  it was read, or this reconciliation has put it there with success.
\<close>

theorem Reconcile_protects_remote:
  assumes rc: "retryContract (retryOnConflict env)" and us: "unsortedContract (unsortedList env)"
    and pro: "run_steps (prologue env req) s = (None, s1)" and "v_remote s1 = None"
    and run: "Reconcile env req s = (r, s')" and new: "calls s' = calls s1 @ new"
    and "CreateOrUpdateTCP (Remote m) k x \<in> set new"
  shows "ExternalClusterReferenceFinalizer \<in> set (om_Finalizers (scp_meta (v_scp s1))) \<or>
    (\<exists>scp. UpdateSCP scp None \<in> set new \<and>
       ExternalClusterReferenceFinalizer \<in> set (om_Finalizers (scp_meta scp)))"
proof -
  obtain r1 t1 where f1: "findExternalCluster env s1 = (r1, t1)" by fastforce
  obtain r2 t2 where f2: "reconcileTCP env t1 = (r2, t2)" by fastforce
  obtain r3 t3 where f3: "run_steps (drop 2 (body env)) t2 = (r3, t3)" by fastforce
  have "extends noRemote s1 (snd (findExternalCluster env s1))"
    by (rule extends_weaken [OF findExternalCluster_extends [OF rc]]) (auto simp: externalCall_def)
  with f1 have t1: "extends noRemote s1 t1" by simp
  have t2: "safeRemote s1 t2" if "r1 = None"
    using reconcileTCP_safe [OF rc t1] findExternalCluster_safe [OF rc us _ assms(4)] f1 f2 that by simp
  have t3: "safeRemote s1 t3" if "r1 = None"
  proof -
    have "extends noRemote t2 (snd (run_steps (drop 2 (body env)) t2))"
      by (rule run_steps_extends) (rule later_steps_no_remote [OF rc])
    with f3 t2 [OF that] show ?thesis by (auto intro: safeRemote_extends)
  qed
  have "body env = findExternalCluster env # reconcileTCP env # drop 2 (body env)" by (simp add: body_def)
  with f1 f2 f3 have "snd (run_steps (body env) s1) = (if r1 \<noteq> None then t1 else if r2 \<noteq> None then t2 else t3)"
    by (metis (no_types, lifting) option.case_eq_if run_steps.simps(2) case_prod_conv option.collapse snd_conv)
  then obtain s2 where s2: "snd (run_steps (body env) s1) = s2" "safeRemote s1 s2"
    using t1 t2 t3 by (cases "r1 = None"; cases "r2 = None") (auto simp: safeRemote_def)
  have "s' = deferredUpdate env s2" using run pro s2(1) by (auto simp: Reconcile_def split: prod.splits)
  moreover have "extends noRemote s2 (deferredUpdate env s2)"
    unfolding deferredUpdate_def
    by (rule extends_weaken [OF calm_extends [OF calm_status [OF rc]]]) (auto simp: statusCall_def)
  ultimately have "safeRemote s1 s'" using safeRemote_extends s2(2) by blast
  moreover have "\<not> extends noRemote s1 s'"
    using new assms(7) by (force simp: extends_def list_all_iff)
  ultimately show ?thesis using new by (auto simp: safeRemote_def protected_def)
qed

section \<open>Witnesses\<close>

theorem Reconcile_idle_witness:
  "\<exists>s'. Reconcile runEnv runReq (startState emptyMem NewStore) = (Some (Returns \<lparr>RequeueAfter = None\<rparr> None), s') \<and>
     writes (calls s') = []"
proof -
  have "idle runEnv runReq emptyMem"
    by (simp add: idle_def runEnv_def sampleClient_def found_def emptyMem_def isNotFound_def)
  then show ?thesis
    using Reconcile_idle [of runEnv runReq "startState emptyMem NewStore"] by (simp add: startState_def)
qed

definition deletedSCP :: StewardControlPlane where
  "deletedSCP = runSCP\<lparr>scp_meta := (scp_meta runSCP)\<lparr>om_DeletionTimestamp := Some 0,
     om_Finalizers := [ExternalClusterReferenceFinalizer]\<rparr>\<rparr>"

definition deletedState :: "mem rst" where
  "deletedState = startState (runMem\<lparr>m_scps := [runReq \<mapsto> deletedSCP]\<rparr>) remoteStore"

theorem Reconcile_deletion_witness:
  "list_all isDeletionWrite (writes (calls (snd (Reconcile runEnv runReq deletedState))))"
proof (rule Reconcile_deletion [OF runEnv_contracts(1) _ _ prod.collapse [symmetric], where s = deletedState])
  show "k_getSCP (r_client runEnv) runReq (world deletedState) = (Inr deletedSCP, world deletedState)"
    by (simp add: runEnv_def sampleClient_def found_def deletedState_def startState_def)
qed (simp_all add: deletedSCP_def deletedState_def startState_def)

theorem Reconcile_stores_conditions_witness:
  "let s2 = snd (run_steps (body runEnv) (snd run1)); s' = snd (Reconcile runEnv runReq runState)
   in fst (Reconcile runEnv runReq runState) = fst (run_steps (body runEnv) (snd run1)) \<and>
      ((\<exists>k e. last (calls s') = GetSCP k (Some e)) \<or>
       (\<exists>scp x. last (calls s') = StatusUpdateSCP scp x \<and> Conditions (scp_Status scp) = v_conds s2))"
  unfolding Let_def
  by (rule Reconcile_stores_conditions [OF runEnv_contracts(1) run_facts(1) prod.collapse [symmetric] prod.collapse [symmetric]])

text \<open>A state before the last phase, for a \<open>TenantControlPlane\<close> in the given version status.\<close>

definition readyState :: "KubernetesVersionStatus \<Rightarrow> mem rst" where
  "readyState v = runState\<lparr>v_scp := runSCP, v_tcp := runTCP\<lparr>tcp_status := (tcp_status runTCP)\<lparr>tst_VersionStatus := Some v\<rparr>\<rparr>\<rparr>"

lemma readyState_simps [simp]: "calls (readyState v) = []" "tst_VersionStatus (tcp_status (v_tcp (readyState v))) = Some v"
  by (simp_all add: readyState_def)

fun isStatusUpdate :: "call \<Rightarrow> bool" where
  "isStatusUpdate (StatusUpdateSCP scp None) = True"
| "isStatusUpdate c = False"

lemma isStatusUpdateD: "isStatusUpdate c \<Longrightarrow> \<exists>scp. c = StatusUpdateSCP scp None"
  by (elim isStatusUpdate.elims) auto

theorem reportReady_truthful_witness:
  "\<exists>scp1 scp2. StatusUpdateSCP scp1 None \<in> set (calls (snd (reportReady runEnv (readyState VersionUpgrading)))) \<and> Ready (scp_Status scp1) \<and>
     StatusUpdateSCP scp2 None \<in> set (calls (snd (reportReady runEnv (readyState (VersionOther ''NotReady''))))) \<and> \<not> Ready (scp_Status scp2)"
proof -
  have u: "fst (reportReady runEnv (readyState VersionUpgrading)) = None"
    "fst (reportReady runEnv (readyState (VersionOther ''NotReady''))) = None" by code_simp+
  note t = reportReady_truthful [OF runEnv_contracts(1) prod.collapse [symmetric], of "readyState v" "calls (snd (reportReady runEnv (readyState v)))" for v]
  from t [of VersionUpgrading] t [of "VersionOther ''NotReady''"] u show ?thesis by simp blast
qed

theorem not_serving_is_not_requeued_witness:
  "fst (run_steps [reportReady runEnv, complete] (readyState (VersionOther ''NotReady''))) = Some (Returns \<lparr>RequeueAfter = None\<rparr> None)"
proof -
  let ?run = "run_steps [reportReady runEnv, complete] (readyState (VersionOther ''NotReady''))"
  have "isStatusUpdate (last (calls (snd ?run)))" by code_simp
  then obtain x where "last (calls (snd ?run)) = StatusUpdateSCP x None" using isStatusUpdateD by blast
  from not_serving_is_not_requeued [OF runEnv_contracts(1) _ _ _ prod.collapse [symmetric] this, of "VersionOther ''NotReady''"]
  show ?thesis by simp
qed

theorem Reconcile_protects_remote_witness:
  "\<exists>new. calls (snd (Reconcile runEnv runReq runState)) = calls (snd run1) @ new \<and>
     (ExternalClusterReferenceFinalizer \<in> set (om_Finalizers (scp_meta (v_scp (snd run1)))) \<or>
      (\<exists>scp. UpdateSCP scp None \<in> set new \<and>
         ExternalClusterReferenceFinalizer \<in> set (om_Finalizers (scp_meta scp))))"
proof -
  have later: "extends (\<lambda>_. True) s (snd (run_steps (take 11 (body runEnv)) s))" for s
    by (rule run_steps_extends) (auto intro: step_extends [OF runEnv_contracts(1)] dest: in_set_takeD)
  have "extends (\<lambda>_. True) (snd run1) (snd run2)" using later [of "snd run1"] run_facts(3) by simp
  moreover have "extends (\<lambda>_. True) (snd run2) (snd (replicateResources runEnv (snd run2)))"
    by (rule step_extends [OF runEnv_contracts(1)]) (simp add: body_def)
  ultimately obtain mid new where new:
    "calls (snd (Reconcile runEnv runReq runState)) = calls (snd run1) @ new" and mid: "new = mid @ drop (length mid) new"
    "calls (snd run2) = calls (snd run1) @ mid"
    using run_log by (auto simp: extends_def)
  have "\<not> list_ex isRemoteTCP (calls (snd run1))" by code_simp
  with run_facts(4) mid have "list_ex isRemoteTCP new" by (metis list_ex_append)
  then obtain m k x where "CreateOrUpdateTCP (Remote m) k x \<in> set new"
    by (auto simp: list_ex_iff elim!: isRemoteTCP.elims)
  from Reconcile_protects_remote [OF runEnv_contracts run_facts(1,2) prod.collapse [symmetric] new this] new
  show ?thesis by blast
qed

end
