(* ===== verification/Reconcile_Liveness.thy ===== *)
theory Reconcile_Liveness
  imports Reconcile_Outcome
begin

text \<open>
  The other half of the story: a reconciliation does get there. In an environment that is in good health, a
  reconciliation runs through all of its steps and ends without an error and without a further try, with the
  \<open>TenantControlPlane\<close> applied, the endpoint published, the Secrets written and the control plane
  reported as initialized and ready.

  Health is stated about the API server, over a set \<open>W\<close> of worlds that its operations stay in: the control plane can be
  read, and what was read can be written back with a new status, endpoint or finalizers; the \<open>Cluster\<close> has its endpoint and infrastructure; the
  \<open>TenantControlPlane\<close> exists under the name it must have, in the management cluster or in an external one, Steward has
  processed it, and no other controller owns it. \<open>CreateOrUpdate\<close> succeeds as its documentation says: if the function
  succeeds on the object that exists and does not rename it.
\<close>

section \<open>Health\<close>

text \<open>The same object, whatever its status, endpoint and resource version.\<close>

definition sameSCP :: "StewardControlPlane \<Rightarrow> StewardControlPlane \<Rightarrow> bool" where
  "sameSCP a b \<longleftrightarrow> scp_key b = scp_key a \<and> om_UID (scp_meta b) = om_UID (scp_meta a) \<and>
     om_OwnerReferences (scp_meta b) = om_OwnerReferences (scp_meta a) \<and>
     om_DeletionTimestamp (scp_meta b) = om_DeletionTimestamp (scp_meta a) \<and>
     om_Annotations (scp_meta b) = om_Annotations (scp_meta a) \<and>
     spec_Fields (scp_Spec b) = spec_Fields (scp_Spec a)"

text \<open>
  \<open>r.client\<close> on the control plane. What has just been read can be written: its status, answered with the status sent, or the
  object with other finalizers. A merge patch of the endpoint carries no resource version.
\<close>

abbreviation withStatus :: "StewardControlPlane \<Rightarrow> StewardControlPlaneStatus \<Rightarrow> StewardControlPlane" where
  "withStatus x st \<equiv> x\<lparr>scp_Status := st\<rparr>"

abbreviation withEndpoint :: "StewardControlPlane \<Rightarrow> APIEndpoint \<Rightarrow> StewardControlPlane" where
  "withEndpoint x ep \<equiv> x\<lparr>scp_Spec := (scp_Spec x)\<lparr>spec_ControlPlaneEndpoint := ep\<rparr>\<rparr>"

abbreviation withFinalizers :: "StewardControlPlane \<Rightarrow> string list \<Rightarrow> StewardControlPlane" where
  "withFinalizers x fs \<equiv> x\<lparr>scp_meta := (scp_meta x)\<lparr>om_Finalizers := fs\<rparr>\<rparr>"

definition writable :: "'w client \<Rightarrow> ('w \<Rightarrow> bool) \<Rightarrow> StewardControlPlane \<Rightarrow> StewardControlPlane \<Rightarrow> 'w \<Rightarrow> bool" where
  "writable c W scp x w \<longleftrightarrow>
     (\<forall>st. \<exists>y w'. k_statusUpdateSCP c (withStatus x st) w = (Inr y, w') \<and> sameSCP scp y \<and> scp_Status y = st \<and> W w') \<and>
     (\<forall>fs. \<exists>y w'. k_updateSCP c (withFinalizers x fs) w = (Inr y, w') \<and> sameSCP scp y \<and> W w')"

definition servesSCP :: "'w client \<Rightarrow> ('w \<Rightarrow> bool) \<Rightarrow> StewardControlPlane \<Rightarrow> bool" where
  "servesSCP c W scp \<longleftrightarrow>
     (\<forall>w. W w \<longrightarrow> (\<exists>x w'. k_getSCP c (scp_key scp) w = (Inr x, w') \<and> sameSCP scp x \<and> W w' \<and> writable c W scp x w')) \<and>
     (\<forall>w a ep. W w \<longrightarrow> sameSCP scp a \<longrightarrow> (\<exists>y w'. k_patchSCP c a (withEndpoint a ep) w = (Inr y, w') \<and> sameSCP scp y \<and> W w'))"

definition ownerKey :: "StewardControlPlane \<Rightarrow> NamespacedName" where
  "ownerKey scp = (om_Namespace (scp_meta scp), or_Name (hd (om_OwnerReferences (scp_meta scp))))"

text \<open>
  The infrastructure cluster: it is left to its provider, or it is of a kind that is patched without a check, and
  can be read and patched.
\<close>

definition patchedKinds :: "'w env \<Rightarrow> string set" where
  "patchedKinds env =
     {''AWSCluster'', ''AzureCluster'', ''HetznerCluster'', ''IonosCloudCluster'', ''KubevirtCluster'', ''NutanixCluster'', ''PacketCluster''} \<union>
     (r_DynamicInfrastructureClusters env -
       {''Metal3Cluster'', ''OpenStackCluster'', ''ProxmoxCluster'', ''TinkerbellCluster'', ''VSphereCluster''})"

text \<open>The object with the endpoint, and the one that is marked as ready too, can be made and patched.\<close>

definition patchable :: "'w env \<Rightarrow> ('w \<Rightarrow> bool) \<Rightarrow> Unstructured \<Rightarrow> 'w \<Rightarrow> bool" where
  "patchable env W i w \<longleftrightarrow> newPatchHelper env i = None \<and>
     (\<forall>host port. \<exists>obj obj'.
        setNested env (u_Object i) (endpointMap host port) [''spec'', ''controlPlaneEndpoint''] = Inr obj \<and>
        setNested env obj (JBool True) [''status'', ''ready''] = Inr obj' \<and>
        (\<exists>w'. k_patchInfra (r_client env) i (i\<lparr>u_Object := obj\<rparr>) w = (None, w') \<and> W w') \<and>
        (\<exists>w'. k_patchInfra (r_client env) i (i\<lparr>u_Object := obj'\<rparr>) w = (None, w') \<and> W w'))"

definition servesInfra :: "'w env \<Rightarrow> ('w \<Rightarrow> bool) \<Rightarrow> Cluster \<Rightarrow> bool" where
  "servesInfra env W c \<longleftrightarrow>
     r_FeatureGates env FeatureSkipInfraClusterPatch \<or>
     (\<exists>ref. cl_InfrastructureRef c = Some ref \<and> ref_Kind ref \<in> patchedKinds env \<and>
        (\<forall>w. W w \<longrightarrow> (\<exists>i w'. k_getInfra (r_client env) ref w = (Inr i, w') \<and> W w' \<and> patchable env W i w')))"

definition goodCluster :: "'w env \<Rightarrow> ('w \<Rightarrow> bool) \<Rightarrow> StewardControlPlane \<Rightarrow> Cluster \<Rightarrow> bool" where
  "goodCluster env W scp c \<longleftrightarrow> nsname (cl_meta c) = ownerKey scp \<and> ep_Host (cl_ControlPlaneEndpoint c) \<noteq> '''' \<and>
     cl_InfrastructureReady c \<and> servesInfra env W c \<and> (\<forall>x. sameSCP scp x \<longrightarrow> \<not> isPaused env c x)"

definition servesCluster :: "'w env \<Rightarrow> ('w \<Rightarrow> bool) \<Rightarrow> StewardControlPlane \<Rightarrow> bool" where
  "servesCluster env W scp \<longleftrightarrow>
     (\<forall>w. W w \<longrightarrow> (\<exists>c w'. k_getCluster (r_client env) (ownerKey scp) w = (Inr c, w') \<and> goodCluster env W scp c \<and> W w'))"

text \<open>
  What Steward makes of a \<open>TenantControlPlane\<close> in time: an endpoint, a version that is ready, and the Secrets with the kubeconfig and
  the certificate authority.
\<close>

definition servesSecret :: "'w client \<Rightarrow> ('w \<Rightarrow> bool) \<Rightarrow> NamespacedName \<Rightarrow> string set \<Rightarrow> bool" where
  "servesSecret c W k entries \<longleftrightarrow>
     (\<forall>w. W w \<longrightarrow> (\<exists>x w'. k_getSecret c k w = (Inr x, w') \<and> entries \<subseteq> dom (map_of (secret_data x)) \<and> W w'))"

definition processed :: "'w env \<Rightarrow> ('w \<Rightarrow> bool) \<Rightarrow> Manager option \<Rightarrow> StewardControlPlane \<Rightarrow> TenantControlPlane \<Rightarrow> bool" where
  "processed env W rd scp t \<longleftrightarrow>
     (let st = tcp_status t; ns = om_Namespace (tcp_meta t)
      in tst_ControlPlaneEndpoint st \<noteq> '''' \<and> (\<exists>ep. controlPlaneEndpoint scp (tst_ControlPlaneEndpoint st) = Inr ep) \<and>
         tst_VersionStatus st = Some VersionReady \<and> tst_AdminSecretName st \<noteq> '''' \<and> tst_CASecretName st \<noteq> '''' \<and>
         servesSecret (clientOf env rd) W (ns, tst_AdminSecretName st) {kubeconfigSecretKey env scp} \<and>
         servesSecret (clientOf env rd) W (ns, tst_CASecretName st) {''ca.crt'', ''ca.key''})"

text \<open>
  The name of the \<open>TenantControlPlane\<close>: that of the control plane, or, in an external cluster, its identifier in the namespace that the reference
  gives.
\<close>

definition tcpKey :: "Manager option \<Rightarrow> StewardControlPlane \<Rightarrow> NamespacedName" where
  "tcpKey rd scp =
     (case (rd, scp_ecr scp) of
        (Some m, Some ecr) \<Rightarrow> (ecr_DeploymentNamespace ecr, ''kcp-'' @ om_UID (scp_meta scp))
      | _ \<Rightarrow> (om_Namespace (scp_meta scp), om_Name (scp_meta scp)))"

text \<open>
  \<open>SetControllerReference\<close> succeeds if no other controller owns the object and its namespace permits the owner: this depends on the owner
  references and the namespace only.
\<close>

definition ownableTCP :: "'w env \<Rightarrow> StewardControlPlane \<Rightarrow> TenantControlPlane \<Rightarrow> bool" where
  "ownableTCP env scp t0 \<longleftrightarrow>
     (\<forall>x t. sameSCP scp x \<longrightarrow> om_OwnerReferences (tcp_meta t) = om_OwnerReferences (tcp_meta t0) \<longrightarrow>
        om_Namespace (tcp_meta t) = om_Namespace (tcp_meta t0) \<longrightarrow> (\<exists>t'. setControllerReferenceTCP env x t = Inr t'))"

definition ownableSecret :: "'w env \<Rightarrow> StewardControlPlane \<Rightarrow> Secret \<Rightarrow> bool" where
  "ownableSecret env scp y0 \<longleftrightarrow>
     (\<forall>x y. sameSCP scp x \<longrightarrow> om_OwnerReferences (sec_meta y) = om_OwnerReferences (sec_meta y0) \<longrightarrow>
        om_Namespace (sec_meta y) = om_Namespace (sec_meta y0) \<longrightarrow> (\<exists>y'. setControllerReferenceSecret env x y = Inr y'))"

text \<open>
  \<open>CreateOrUpdate\<close> of the \<open>TenantControlPlane\<close>: the object exists, and if the function succeeds on it, does not rename it and does not hand it to another
  controller, the call succeeds and answers with the object as it is stored, whose status is a matter of Steward.
\<close>

definition updatesTCP :: "'w env \<Rightarrow> ('w \<Rightarrow> bool) \<Rightarrow> Manager option \<Rightarrow> StewardControlPlane \<Rightarrow> TenantControlPlane \<Rightarrow> 'w \<Rightarrow> bool" where
  "updatesTCP env W rd scp t0 w \<longleftrightarrow>
     (\<forall>x f t1. nsname (tcp_meta x) = nsname (tcp_meta t0) \<longrightarrow> f t0 = (None, t1) \<longrightarrow> nsname (tcp_meta t1) = nsname (tcp_meta t0) \<longrightarrow>
        (rd = None \<longrightarrow> ownableTCP env scp t1) \<longrightarrow>
        (\<exists>t w'. k_createOrUpdateTCP (clientOf env rd) x f w = ((None, t), w') \<and> nsname (tcp_meta t) = nsname (tcp_meta t0) \<and>
           tcp_status t = tcp_status t0 \<and> W w'))"

definition servesTCP :: "'w env \<Rightarrow> ('w \<Rightarrow> bool) \<Rightarrow> Manager option \<Rightarrow> StewardControlPlane \<Rightarrow> bool" where
  "servesTCP env W rd scp \<longleftrightarrow>
     (\<forall>w. W w \<longrightarrow> (\<exists>t0. nsname (tcp_meta t0) = tcpKey rd scp \<and> processed env W rd scp t0 \<and>
        (rd = None \<longrightarrow> ownableTCP env scp t0) \<and> updatesTCP env W rd scp t0 w))"

lemma updatesTCPD:
  assumes "updatesTCP env W rd scp t0 w" "nsname (tcp_meta x) = nsname (tcp_meta t0)" "f t0 = (None, t1)"
    and "nsname (tcp_meta t1) = nsname (tcp_meta t0)" "rd = None \<longrightarrow> ownableTCP env scp t1"
  shows "\<exists>t w'. k_createOrUpdateTCP (clientOf env rd) x f w = ((None, t), w') \<and> nsname (tcp_meta t) = nsname (tcp_meta t0) \<and>
    tcp_status t = tcp_status t0 \<and> W w'"
  using assms(1) [unfolded updatesTCP_def, THEN spec [of _ x], THEN spec [of _ f], THEN spec [of _ t1]] assms(2-5) by simp

definition contractNames :: "StewardControlPlane \<Rightarrow> NamespacedName set" where
  "contractNames scp = (\<lambda>suffix. (fst (ownerKey scp), snd (ownerKey scp) @ suffix)) ` {''-kubeconfig'', ''-ca''}"

text \<open>\<open>CreateOrUpdate\<close> of a Secret of the contract: the function acts on the Secret that exists, or on the one given.\<close>

definition updatesSecret :: "'w env \<Rightarrow> ('w \<Rightarrow> bool) \<Rightarrow> StewardControlPlane \<Rightarrow> NamespacedName \<Rightarrow> Secret option \<Rightarrow> 'w \<Rightarrow> bool" where
  "updatesSecret env W scp k old w \<longleftrightarrow>
     (\<forall>x f y1. nsname (sec_meta x) = k \<longrightarrow> f (case old of None \<Rightarrow> x | Some y0 \<Rightarrow> y0) = (None, y1) \<longrightarrow> nsname (sec_meta y1) = k \<longrightarrow>
        ownableSecret env scp y1 \<longrightarrow> (\<exists>y w'. k_createOrUpdateSecret (r_client env) x f w = ((None, y), w') \<and> W w'))"

definition takesSecrets :: "'w env \<Rightarrow> ('w \<Rightarrow> bool) \<Rightarrow> StewardControlPlane \<Rightarrow> bool" where
  "takesSecrets env W scp \<longleftrightarrow>
     (\<forall>w k. W w \<longrightarrow> k \<in> contractNames scp \<longrightarrow>
        (\<exists>old. (\<forall>y0. old = Some y0 \<longrightarrow> nsname (sec_meta y0) = k \<and> ownableSecret env scp y0) \<and> updatesSecret env W scp k old w))"

lemma updatesSecretD:
  assumes "updatesSecret env W scp k old w" "nsname (sec_meta x) = k" "f (case old of None \<Rightarrow> x | Some y0 \<Rightarrow> y0) = (None, y1)"
    and "nsname (sec_meta y1) = k" "ownableSecret env scp y1"
  shows "\<exists>y w'. k_createOrUpdateSecret (r_client env) x f w = ((None, y), w') \<and> W w'"
  using assms(1) [unfolded updatesSecret_def, THEN spec [of _ x], THEN spec [of _ f], THEN spec [of _ y1]] assms(2-5) by simp

text \<open>
  The clock and the conditions stay in \<open>W\<close>. The owner references are set as documented: nothing else of the object changes, a Secret without an owner can be
  owned, and what the control plane owns it can own again.
\<close>

definition servesLibrary :: "'w env \<Rightarrow> ('w \<Rightarrow> bool) \<Rightarrow> StewardControlPlane \<Rightarrow> bool" where
  "servesLibrary env W scp \<longleftrightarrow>
     (\<forall>w. W w \<longrightarrow> W (snd (timeNow env w))) \<and> (\<forall>w cs c. W w \<longrightarrow> W (snd (setStatusCondition env cs c w))) \<and>
     ownerContract (setControllerReferenceTCP env) \<and> secretOwnerContract env \<and>
     (\<forall>y. om_OwnerReferences (sec_meta y) = [] \<longrightarrow> om_Namespace (sec_meta y) = om_Namespace (scp_meta scp) \<longrightarrow> ownableSecret env scp y) \<and>
     (\<forall>x t t'. sameSCP scp x \<longrightarrow> setControllerReferenceTCP env x t = Inr t' \<longrightarrow> ownableTCP env scp t') \<and>
     (\<forall>x y y'. sameSCP scp x \<longrightarrow> setControllerReferenceSecret env x y = Inr y' \<longrightarrow> ownableSecret env scp y')"

lemma servesLibraryD:
  assumes "servesLibrary env W scp"
  shows "ownerContract (setControllerReferenceTCP env)" "secretOwnerContract env"
    "\<And>y. om_OwnerReferences (sec_meta y) = [] \<Longrightarrow> om_Namespace (sec_meta y) = om_Namespace (scp_meta scp) \<Longrightarrow> ownableSecret env scp y"
    "\<And>x t t'. sameSCP scp x \<Longrightarrow> setControllerReferenceTCP env x t = Inr t' \<Longrightarrow> ownableTCP env scp t'"
    "\<And>x y y'. sameSCP scp x \<Longrightarrow> setControllerReferenceSecret env x y = Inr y' \<Longrightarrow> ownableSecret env scp y'"
  using assms unfolding servesLibrary_def by blast+

definition wellFormed :: "StewardControlPlane \<Rightarrow> bool" where
  "wellFormed scp \<longleftrightarrow> om_OwnerReferences (scp_meta scp) \<noteq> [] \<and> om_DeletionTimestamp (scp_meta scp) = None \<and>
     checkCertSANs (net_CertSANs (scp_Network scp)) = None"

definition healthy :: "'w env \<Rightarrow> ('w \<Rightarrow> bool) \<Rightarrow> Manager option \<Rightarrow> StewardControlPlane \<Rightarrow> bool" where
  "healthy env W rd scp \<longleftrightarrow> retryContract (retryOnConflict env) \<and> wellFormed scp \<and> servesSCP (r_client env) W scp \<and>
     servesCluster env W scp \<and> servesTCP env W rd scp \<and> takesSecrets env W scp \<and>
     servesLibrary env W scp"

text \<open>
  Where the \<open>TenantControlPlane\<close> is: in the management cluster without a reference, or in the cluster of the manager \<open>m\<close>. Then
  the reference is permitted, its Secret can be read and has the entry, and the store has the manager for the Secret's version.
\<close>

definition reachesRemote :: "'w env \<Rightarrow> ('w \<Rightarrow> bool) \<Rightarrow> mapStore \<Rightarrow> Manager \<Rightarrow> StewardControlPlane \<Rightarrow> bool" where
  "reachesRemote env W ms m scp \<longleftrightarrow>
     (\<exists>ecr key rv. scp_ecr scp = Some ecr \<and> GenerateKeyNameFromSteward scp = Some key \<and>
        r_FeatureGates env FeatureExternalClusterReference \<and>
        (r_FeatureGates env FeatureExternalClusterReferenceCrossNamespace \<or> referenceNamespace scp ecr = om_Namespace (scp_meta scp)) \<and>
        store_Get ms key rv = (Some m, True) \<and>
        (\<forall>w. W w \<longrightarrow> (\<exists>secret kubeconfig w'.
           k_getSecret (r_client env) (referenceNamespace scp ecr, ecr_KubeconfigSecretName ecr) w = (Inr secret, w') \<and>
           map_of (secret_data secret) (ecr_KubeconfigSecretKey ecr) = Some (Some kubeconfig) \<and>
           om_ResourceVersion (sec_meta secret) = rv \<and> W w')) \<and>
        (\<forall>w. W w \<longrightarrow> (\<exists>w'. mgr_KindFor env m w = (None, w') \<and> W w')))"

definition located :: "'w env \<Rightarrow> ('w \<Rightarrow> bool) \<Rightarrow> mapStore \<Rightarrow> Manager option \<Rightarrow> StewardControlPlane \<Rightarrow> bool" where
  "located env W ms rd scp \<longleftrightarrow> (case rd of None \<Rightarrow> scp_ecr scp = None | Some m \<Rightarrow> reachesRemote env W ms m scp)"

section \<open>States on the way\<close>

text \<open>The log since \<open>s0\<close> has a call of each of the given kinds.\<close>

definition seen :: "'w rst \<Rightarrow> (call \<Rightarrow> bool) list \<Rightarrow> 'w rst \<Rightarrow> bool" where
  "seen s0 ps s \<longleftrightarrow> (\<exists>new. calls s = calls s0 @ new \<and> list_all (\<lambda>p. list_ex p new) ps)"

definition going :: "('w \<Rightarrow> bool) \<Rightarrow> Manager option \<Rightarrow> StewardControlPlane \<Rightarrow> 'w rst \<Rightarrow> (call \<Rightarrow> bool) list \<Rightarrow> 'w rst \<Rightarrow> bool" where
  "going W rd scp s0 ps s \<longleftrightarrow> W (world s) \<and> sameSCP scp (v_scp s) \<and> v_remote s = rd \<and> v_err s = None \<and> seen s0 ps s"

definition linked :: "'w env \<Rightarrow> ('w \<Rightarrow> bool) \<Rightarrow> Manager option \<Rightarrow> StewardControlPlane \<Rightarrow> 'w rst \<Rightarrow> (call \<Rightarrow> bool) list \<Rightarrow> 'w rst \<Rightarrow> bool" where
  "linked env W rd scp s0 ps s \<longleftrightarrow> going W rd scp s0 ps s \<and> goodCluster env W scp (v_cluster s)"

definition applied :: "'w env \<Rightarrow> ('w \<Rightarrow> bool) \<Rightarrow> Manager option \<Rightarrow> StewardControlPlane \<Rightarrow> 'w rst \<Rightarrow> (call \<Rightarrow> bool) list \<Rightarrow> 'w rst \<Rightarrow> bool" where
  "applied env W rd scp s0 ps s \<longleftrightarrow> linked env W rd scp s0 ps s \<and> processed env W rd scp (v_tcp s)"

lemmas on_the_way = going_def linked_def applied_def

lemma sameSCP_refl [simp]: "sameSCP a a"
  by (simp add: sameSCP_def)

lemma sameSCP_upd [simp]:
  "sameSCP a (b\<lparr>scp_Status := st\<rparr>) = sameSCP a b"
  "sameSCP a (b\<lparr>scp_Spec := (scp_Spec b)\<lparr>spec_ControlPlaneEndpoint := ep\<rparr>\<rparr>) = sameSCP a b"
  "sameSCP a (b\<lparr>scp_meta := (scp_meta b)\<lparr>om_Finalizers := fs\<rparr>\<rparr>) = sameSCP a b"
  by (simp_all add: sameSCP_def nsname_def)

lemma sameSCP_fields:
  assumes "sameSCP a b"
  shows "scp_key b = scp_key a" "om_Namespace (scp_meta b) = om_Namespace (scp_meta a)"
    "om_OwnerReferences (scp_meta b) = om_OwnerReferences (scp_meta a)"
    "om_DeletionTimestamp (scp_meta b) = om_DeletionTimestamp (scp_meta a)"
    "spec_Fields (scp_Spec b) = spec_Fields (scp_Spec a)" "kubeconfigSecretKey env b = kubeconfigSecretKey env a"
    "controlPlaneEndpoint b hp = controlPlaneEndpoint a hp" "tcpKey rd b = tcpKey rd a"
  using assms by (simp_all add: sameSCP_def nsname_def kubeconfigSecretKey_def controlPlaneEndpoint_def tcpKey_def cong: sum.case_cong option.case_cong)

lemma seen_refl [simp]: "seen s0 [] s0"
  by (simp add: seen_def)

lemma seen_step: "seen s0 ps s \<Longrightarrow> calls s' = calls s @ new \<Longrightarrow> seen s0 ps s'"
  by (auto simp: seen_def list_all_iff)

lemma seen_new: "seen s0 ps s \<Longrightarrow> calls s' = calls s @ new \<Longrightarrow> list_ex p new \<Longrightarrow> seen s0 (p # ps) s'"
  by (auto simp: seen_def list_all_iff)

lemma seen_same: "calls s' = calls s \<Longrightarrow> seen s0 ps s' = seen s0 ps s"
  by (simp add: seen_def)

text \<open>A function that succeeds at the first try is run once.\<close>

lemma retry_first:
  assumes "retryContract retry" "fn s = (None, s')"
  shows "retry fn s = (None, s')"
proof -
  from assms(1) have "retryRuns fn s (retry fn s)" by (simp add: retryContract_def)
  with assms(2) show ?thesis by (auto elim: retryRuns.cases)
qed


section \<open>Tracked steps\<close>

text \<open>
  A predicate that does not look at the conditions survives \<open>TrackConditionType\<close>, which reads the clock and sets the
  condition.
\<close>

definition stable :: "('w \<Rightarrow> bool) \<Rightarrow> ('w rst \<Rightarrow> bool) \<Rightarrow> bool" where
  "stable W P \<longleftrightarrow> (\<forall>s t. P s \<longrightarrow> sameButConds s t \<longrightarrow> W (world t) \<longrightarrow> P t) \<and> (\<forall>s. P s \<longrightarrow> W (world s))"

lemma sameButConds_seen: "sameButConds s t \<Longrightarrow> seen s0 ps t = seen s0 ps s"
  by (simp add: sameButConds_def seen_def)

lemma sameButConds_sameSCP: "sameButConds s t \<Longrightarrow> sameSCP scp (v_scp t) = sameSCP scp (v_scp s)"
  by (simp add: sameButConds_def sameSCP_def)

lemma stable_on_the_way [simp]:
  "stable W (going W rd scp s0 ps)" "stable W (linked env W rd scp s0 ps)" "stable W (applied env W rd scp s0 ps)"
  by (auto simp: stable_def on_the_way sameButConds_seen sameButConds_sameSCP) (auto simp: sameButConds_def)

lemma finishCondition_world:
  assumes "servesLibrary env W scp" "finishCondition env result c s = (c', s')" "W (world s)"
  shows "W (world s')"
proof -
  have "W (world (snd (touch env st c s)))" for st
  proof -
    obtain t w where tw: "timeNow env (world s) = (t, w)" by fastforce
    with assms(1,3) have "W w" unfolding servesLibrary_def by (metis snd_conv)
    with tw assms(3) show ?thesis by (simp add: touch_def)
  qed
  then show ?thesis using assms(2,3)
    by (auto simp: finishCondition_def split: option.splits if_splits prod.splits) (metis snd_conv)+
qed

lemma applySetStatusCondition_world:
  assumes "servesLibrary env W scp" "W (world s)"
  shows "W (world (applySetStatusCondition env c s))"
proof -
  obtain cs w where cw: "setStatusCondition env (v_conds s) c (world s) = (cs, w)" by fastforce
  with assms have "W w" unfolding servesLibrary_def by (metis snd_conv)
  with cw show ?thesis by (simp add: applySetStatusCondition_def)
qed

lemma beginTrack_world [simp]: "world (beginTrack env ct gen s) = world s"
  by (simp add: beginTrack_def split: option.splits)

lemma TrackConditionType_world:
  assumes lib: "servesLibrary env W scp" and run: "TrackConditionType env ct gen fn s = (p, s')"
    and fn: "fn (beginTrack env ct gen s) = (result, s1)" "W (world s1)"
  shows "W (world s')"
proof (cases "findStatusCondition env (v_conds s) (conditionTypeString ct)")
  case None
  obtain c s2 where fin: "finishCondition env result
      (zeroCondition\<lparr>c_Type := conditionTypeString ct, c_ObservedGeneration := gen\<rparr>) s1 = (c, s2)" by fastforce
  from finishCondition_world [OF lib fin fn(2)] applySetStatusCondition_world [OF lib, of "s2\<lparr>v_shared := False\<rparr>"]
  show ?thesis using run fn(1) None fin by (auto simp: TrackConditionType_def Let_def)
next
  case (Some i)
  obtain c s2 where fin: "finishCondition env result (v_conds s1 ! i) s1 = (c, s2)" by fastforce
  from finishCondition_world [OF lib fin fn(2)] applySetStatusCondition_world [OF lib, of "setConds ((v_conds s2)[i := c]) s2"]
  show ?thesis using run fn(1) Some fin by (auto simp: TrackConditionType_def Let_def)
qed

lemma triple_track:
  assumes lib: "servesLibrary env W scp" and P: "stable W P" and Q: "stable W Q"
    and fn: "\<And>s. P s \<Longrightarrow> \<exists>s'. fn s = (None, s') \<and> Q s'" and k: "triple Q k Q' R"
  shows "triple P (track env ct fn k) Q' R"
proof -
  have "\<exists>s2. track env ct fn k s = k s2 \<and> Q s2" if "P s" for s
  proof -
    let ?gen = "om_Generation (scp_meta (v_scp s))"
    obtain p s2 where tr: "TrackConditionType env ct ?gen fn s = (p, s2)" by fastforce
    from TrackConditionType_frame [OF tr] obtain result s1 where
      r: "fn (beginTrack env ct ?gen s) = (result, s1)" "sameButConds s1 s2"
        "p = (case result of Some e \<Rightarrow> if isPanic e then Some e else None | None \<Rightarrow> None)" by blast
    have "P (beginTrack env ct ?gen s)"
      using P that sameButConds_beginTrack [of s env ct ?gen] unfolding stable_def by (metis beginTrack_world)
    with fn r(1) have s1: "result = None" "Q s1" by fastforce+
    with Q have "W (world s1)" by (simp add: stable_def)
    from TrackConditionType_world [OF lib tr r(1) this] Q s1(2) r(2) have "Q s2" unfolding stable_def by metis
    with tr r(3) s1(1) show ?thesis by (auto simp: track_def)
  qed
  with k show ?thesis unfolding triple_def by metis
qed

lemma assignErr_None: "f s = (None, s') \<Longrightarrow> assignErr f s = (None, s'\<lparr>v_err := None\<rparr>)"
  by (simp add: assignErr_def)

lemma triple_failOnErr: "(\<And>s. Q s \<Longrightarrow> v_err s = None) \<Longrightarrow> triple Q failOnErr Q R"
  by (simp add: triple_def failOnErr_def)

lemma triple_requeueOnErr: "(\<And>s. Q s \<Longrightarrow> v_err s = None) \<Longrightarrow> triple Q requeueOnErr Q R"
  by (simp add: triple_def requeueOnErr_def)


section \<open>The steps\<close>

lemma healthyD:
  assumes "healthy env W rd scp"
  shows "retryContract (retryOnConflict env)" "wellFormed scp" "servesSCP (r_client env) W scp" "servesCluster env W scp"
    "servesTCP env W rd scp" "takesSecrets env W scp" "servesLibrary env W scp"
  using assms by (simp_all add: healthy_def)

text \<open>Reading the control plane; the status update after it.\<close>

lemma getSCP_serves:
  assumes "servesSCP (r_client env) W scp" "W (world s)"
  obtains x w where "getSCP env (scp_key scp) s =
      (None, s\<lparr>world := w, calls := calls s @ [GetSCP (scp_key scp) None], v_scp := x, v_shared := False\<rparr>)"
    "sameSCP scp x" "W w" "writable (r_client env) W scp x w"
proof -
  from assms obtain x w where "k_getSCP (r_client env) (scp_key scp) (world s) = (Inr x, w)" "sameSCP scp x" "W w"
      "writable (r_client env) W scp x w"
    unfolding servesSCP_def by blast
  with that show thesis by (simp add: getSCP_def logged_def)
qed

lemma updateStatus_serves:
  assumes h: "healthy env W rd scp" and s: "W (world s)" "sameSCP scp (v_scp s)"
    and modify: "\<And>s1 st. v_tcp s1 = v_tcp s \<Longrightarrow> v_conds s1 = v_conds s \<Longrightarrow> \<exists>st'. modify s1 st = Some st' \<and> Q st'"
  obtains x y w where "updateStewardControlPlaneStatus env modify s =
      (None, s\<lparr>world := w, calls := calls s @ [GetSCP (scp_key scp) None, StatusUpdateSCP x None], v_scp := y, v_shared := False\<rparr>)"
    "sameSCP scp y" "scp_Status y = scp_Status x" "W w" "Q (scp_Status x)"
proof -
  from getSCP_serves [OF healthyD(3) [OF h] s(1)] obtain x0 w0 where get: "getSCP env (scp_key scp) s =
      (None, s\<lparr>world := w0, calls := calls s @ [GetSCP (scp_key scp) None], v_scp := x0, v_shared := False\<rparr>)"
    "sameSCP scp x0" "W w0" "writable (r_client env) W scp x0 w0" by metis
  let ?s1 = "s\<lparr>world := w0, calls := calls s @ [GetSCP (scp_key scp) None], v_scp := x0, v_shared := False\<rparr>"
  from modify [of ?s1 "scp_Status x0"] obtain st where st: "modify ?s1 (scp_Status x0) = Some st" "Q st" by auto
  from get(4) obtain y w where upd: "k_statusUpdateSCP (r_client env) (withStatus x0 st) w0 = (Inr y, w)" "sameSCP scp y"
      "scp_Status y = st" "W w"
    unfolding writable_def by blast
  have "tryStatusUpdate env modify s = (None, s\<lparr>world := w, calls := calls s @ [GetSCP (scp_key scp) None, StatusUpdateSCP (withStatus x0 st) None],
      v_scp := y, v_shared := False\<rparr>)"
    using get(1) st(1) upd(1) sameSCP_fields(1) [OF s(2)] by (simp add: tryStatusUpdate_def statusUpdateSCP_def logged_def)
  from retry_first [where fn = "tryStatusUpdate env modify", OF healthyD(1) [OF h] this] have "updateStewardControlPlaneStatus env modify s =
      (None, s\<lparr>world := w, calls := calls s @ [GetSCP (scp_key scp) None, StatusUpdateSCP (withStatus x0 st) None], v_scp := y, v_shared := False\<rparr>)"
    by (simp add: updateStewardControlPlaneStatus_def)
  from that [OF this] upd(2-4) st(2) show thesis by simp
qed

lemma fetchCluster_serves:
  assumes "servesCluster env W scp" "W (world s)"
  obtains c w where "fetchCluster env (ownerKey scp) s =
      (None, s\<lparr>world := w, calls := calls s @ [GetCluster (ownerKey scp) None], v_cluster := c, v_err := None\<rparr>)"
    "goodCluster env W scp c" "W w"
proof -
  from assms obtain c w where "k_getCluster (r_client env) (ownerKey scp) (world s) = (Inr c, w)" "goodCluster env W scp c" "W w"
    unfolding servesCluster_def by blast
  with that show thesis by (simp add: fetchCluster_def logged_def)
qed


lemma triple_through:
  assumes "\<And>s. P s \<Longrightarrow> \<exists>s'. f s = (None, s') \<and> Q s'"
  shows "triple P f Q R"
  using assms by (fastforce simp: triple_def)

lemma stay_going:
  assumes "going W rd scp s0 ps s" "W w" "sameSCP scp x" "calls s' = calls s @ new" "world s' = w" "v_scp s' = x"
    "v_remote s' = v_remote s" "v_err s' = None" "list_all (\<lambda>p. list_ex p new) qs"
  shows "going W rd scp s0 (qs @ ps) s'"
  using assms by (auto simp: going_def seen_def list_all_iff)

text \<open>The head of the function: the control plane and its cluster are read.\<close>

lemma prologue_through:
  assumes h: "healthy env W rd scp" and s: "W (world s)" "v_remote s = None"
  shows "\<exists>s'. run_steps (prologue env (scp_key scp)) s = (None, s') \<and> linked env W None scp s [] s' \<and> mstore s' = mstore s"
proof -
  from getSCP_serves [OF healthyD(3) [OF h] s(1)] obtain x w where get: "getSCP env (scp_key scp) s =
      (None, s\<lparr>world := w, calls := calls s @ [GetSCP (scp_key scp) None], v_scp := x, v_shared := False\<rparr>)"
    "sameSCP scp x" "W w" by metis
  let ?s1 = "s\<lparr>world := w, calls := calls s @ [GetSCP (scp_key scp) None], v_scp := x, v_shared := False, v_err := None\<rparr>"
  from fetchCluster_serves [OF healthyD(4) [OF h], of ?s1] get(3) obtain c w' where
    fetch: "fetchCluster env (ownerKey scp) ?s1 = (None, ?s1\<lparr>world := w', calls := calls ?s1 @ [GetCluster (ownerKey scp) None],
      v_cluster := c, v_err := None\<rparr>)" "goodCluster env W scp c" "W w'" by auto
  note same = sameSCP_fields [OF get(2)]
  have wf: "om_OwnerReferences (scp_meta scp) \<noteq> []" "om_DeletionTimestamp (scp_meta scp) = None"
    using healthyD(2) [OF h] by (simp_all add: wellFormed_def)
  have "\<not> isPaused env c x" using fetch(2) get(2) by (simp add: goodCluster_def)
  then have "run_steps (prologue env (scp_key scp)) s = (None, ?s1\<lparr>world := w', calls := calls ?s1 @ [GetCluster (ownerKey scp) None],
      v_cluster := c, v_err := None, v_conds := Conditions (scp_Status x), v_shared := True\<rparr>)"
    using get(1) fetch(1) same wf
    by (simp add: prologue_def getControlPlane_def waitOwnerReference_def getOwnerCluster_def returnIfPaused_def
        returnIfDeleted_def takeConditions_def ownerKey_def)
  moreover have "linked env W None scp s [] (?s1\<lparr>world := w', calls := calls ?s1 @ [GetCluster (ownerKey scp) None],
      v_cluster := c, v_err := None, v_conds := Conditions (scp_Status x), v_shared := True\<rparr>)"
    using get(2) fetch(2,3) s(2) by (simp add: linked_def going_def seen_def)
  ultimately show ?thesis by simp
qed

text \<open>The remote client: found, and the finalizer on the object before anything is created remotely.\<close>

lemma extractRemoteClient_serves:
  assumes r: "reachesRemote env W (mstore s) m scp" and s: "W (world s)" "sameSCP scp (v_scp s)"
  obtains k w where "extractRemoteClient env (v_scp s) s =
      (Inr m, s\<lparr>world := w, calls := calls s @ [GetSecret Management k None]\<rparr>)" "W w"
proof -
  from r obtain ecr key rv where ecr: "scp_ecr scp = Some ecr" "GenerateKeyNameFromSteward scp = Some key"
      "r_FeatureGates env FeatureExternalClusterReference"
      "r_FeatureGates env FeatureExternalClusterReferenceCrossNamespace \<or> referenceNamespace scp ecr = om_Namespace (scp_meta scp)"
      "store_Get (mstore s) key rv = (Some m, True)"
    and sec: "\<And>w. W w \<Longrightarrow> \<exists>secret kubeconfig w'.
        k_getSecret (r_client env) (referenceNamespace scp ecr, ecr_KubeconfigSecretName ecr) w = (Inr secret, w') \<and>
        map_of (secret_data secret) (ecr_KubeconfigSecretKey ecr) = Some (Some kubeconfig) \<and>
        om_ResourceVersion (sec_meta secret) = rv \<and> W w'"
    and kind: "\<And>w. W w \<Longrightarrow> \<exists>w'. mgr_KindFor env m w = (None, w') \<and> W w'"
    unfolding reachesRemote_def by blast
  let ?k = "(referenceNamespace scp ecr, ecr_KubeconfigSecretName ecr)"
  from sec [OF s(1)] obtain secret kubeconfig w1 where
    x: "k_getSecret (r_client env) ?k (world s) = (Inr secret, w1)"
      "map_of (secret_data secret) (ecr_KubeconfigSecretKey ecr) = Some (Some kubeconfig)"
      "om_ResourceVersion (sec_meta secret) = rv" "W w1" by blast
  from kind [OF x(4)] obtain w where w: "mgr_KindFor env m w1 = (None, w)" "W w" by blast
  have data: "sec_Data secret \<noteq> None" using x(2) by (auto simp: secret_data_def split: option.splits)
  note same = sameSCP_fields [OF s(2)]
  have ns: "referenceNamespace (v_scp s) ecr = referenceNamespace scp ecr" using same by (simp add: referenceNamespace_def)
  have ecr': "scp_ecr (v_scp s) = Some ecr" "GenerateKeyNameFromSteward (v_scp s) = Some key"
    using ecr(1,2) same(5) ns by (simp_all add: GenerateKeyNameFromSteward_def)
  have "extractRemoteClient env (v_scp s) s =
      (Inr m, s\<lparr>world := w, calls := calls s @ [GetSecret Management ?k None]\<rparr>)"
    using ecr ecr' ns x w data same(2)
    by (auto simp: extractRemoteClient_def referenceNamespace_def getSecret_def logged_def clientOf_def targetOf_def Let_def
        split: if_splits)
  with that w(2) show thesis by blast
qed

lemma addFinalizer_through:
  assumes h: "healthy env W rd scp"
  shows "triple (linked env W rd' scp s0 ps) (addFinalizer env) (linked env W rd' scp s0 ps) R"
proof (rule triple_through)
  fix s
  assume s: "linked env W rd' scp s0 ps s"
  have st: "W (world s)" "sameSCP scp (v_scp s)" using s by (simp_all add: on_the_way)
  show "\<exists>s'. addFinalizer env s = (None, s') \<and> linked env W rd' scp s0 ps s'"
  proof (cases "ExternalClusterReferenceFinalizer \<in> set (om_Finalizers (scp_meta (v_scp s)))")
    case True
    with s show ?thesis by (auto simp: addFinalizer_def assignErr_def handleFinalizer_def Let_def on_the_way seen_def)
  next
    case False
    let ?t = "s\<lparr>v_finalizers := set (om_Finalizers (scp_meta (v_scp s)))\<rparr>"
    let ?fs = "insert ExternalClusterReferenceFinalizer (v_finalizers ?t)"
    from getSCP_serves [OF healthyD(3) [OF h], of ?t] st(1) obtain x w1 where get: "getSCP env (scp_key scp) ?t =
        (None, ?t\<lparr>world := w1, calls := calls s @ [GetSCP (scp_key scp) None], v_scp := x, v_shared := False\<rparr>)"
      "sameSCP scp x" "W w1" "writable (r_client env) W scp x w1" by auto
    let ?x = "x\<lparr>scp_meta := (scp_meta x)\<lparr>om_Finalizers := unsortedList env ?fs\<rparr>\<rparr>"
    from get(4) obtain y w where upd: "k_updateSCP (r_client env) ?x w1 = (Inr y, w)" "sameSCP scp y" "W w"
      unfolding writable_def by blast
    let ?s' = "?t\<lparr>world := w, calls := calls s @ [GetSCP (scp_key scp) None, UpdateSCP ?x None], v_finalizers := ?fs, v_scp := y,
        v_shared := False\<rparr>"
    have "insertFinalizer env ?t = (None, ?s')"
      using get(1) upd(1) sameSCP_fields(1) [OF st(2)] by (simp add: insertFinalizer_def updateSCP_def logged_def Let_def)
    from retry_first [where fn = "insertFinalizer env", OF healthyD(1) [OF h] this] False
    have "handleFinalizer env s = (None, ?s')" by (simp add: handleFinalizer_def Let_def)
    with s upd(2,3) show ?thesis by (auto simp: addFinalizer_def assignErr_def on_the_way intro: seen_step)
  qed
qed

lemma stable_fresh: "stable W (\<lambda>s. linked env W rd scp s0 ps s \<and> mstore s = ms)"
proof -
  have "stable W (linked env W rd scp s0 ps)" by simp
  then show ?thesis unfolding stable_def by (metis sameButConds_def)
qed

lemma findExternalCluster_through:
  assumes h: "healthy env W rd scp" and l: "located env W ms rd scp"
  shows "triple (\<lambda>s. linked env W None scp s0 ps s \<and> mstore s = ms) (findExternalCluster env) (linked env W rd scp s0 ps) R"
proof (cases rd)
  case None
  have "findExternalCluster env s = (None, s)" if "linked env W None scp s0 ps s" for s
  proof -
    have "sameSCP scp (v_scp s)" using that by (simp add: on_the_way)
    from sameSCP_fields(5) [OF this] l None show ?thesis by (simp add: findExternalCluster_def located_def)
  qed
  with None show ?thesis by (auto intro!: triple_through)
next
  case (Some m)
  with l have r: "reachesRemote env W ms m scp" by (simp add: located_def)
  have "triple (\<lambda>s. linked env W None scp s0 ps s \<and> mstore s = ms)
      (track env FoundExternalClusterReferenceConditionType (assignErr (useRemoteClient env)) (run_steps [failOnErr, addFinalizer env]))
      (linked env W rd scp s0 ps) R"
  proof (rule triple_track [OF healthyD(7) [OF h] stable_fresh stable_on_the_way(2)])
    fix s
    assume s: "linked env W None scp s0 ps s \<and> mstore s = ms"
    then have st: "reachesRemote env W (mstore s) m scp" "W (world s)" "sameSCP scp (v_scp s)" using r by (simp_all add: on_the_way)
    obtain k w where "extractRemoteClient env (v_scp s) s =
        (Inr m, s\<lparr>world := w, calls := calls s @ [GetSecret Management k None]\<rparr>)" "W w"
      by (rule extractRemoteClient_serves [OF st])
    with s Some show "\<exists>s'. assignErr (useRemoteClient env) s = (None, s') \<and> linked env W rd scp s0 ps s'"
      by (auto simp: assignErr_def useRemoteClient_def on_the_way intro: seen_step)
  next
    show "triple (linked env W rd scp s0 ps) (run_steps [failOnErr, addFinalizer env]) (linked env W rd scp s0 ps) R"
      by (rule triple_Cons [OF triple_failOnErr triple_Cons [OF addFinalizer_through [OF h] triple_Nil]]) (simp_all add: on_the_way)
  qed
  moreover have "scp_ecr (v_scp s) \<noteq> None" if "linked env W None scp s0 ps s" for s
  proof -
    have "sameSCP scp (v_scp s)" using that by (simp add: on_the_way)
    from sameSCP_fields(5) [OF this] r show ?thesis by (auto simp: reachesRemote_def)
  qed
  ultimately show ?thesis by (auto simp: triple_def findExternalCluster_def)
qed

definition isApplied :: "Manager option \<Rightarrow> StewardControlPlane \<Rightarrow> call \<Rightarrow> bool" where
  "isApplied rd scp c \<longleftrightarrow> c = CreateOrUpdateTCP (targetOf rd) (tcpKey rd scp) None"

text \<open>The closure of the \<open>TenantControlPlane\<close>, for either place, acts on an object of the right name.\<close>

abbreviation localTCP :: "StewardControlPlane \<Rightarrow> TenantControlPlane" where
  "localTCP scp \<equiv> tcpNamed (om_Name (scp_meta scp), om_Namespace (scp_meta scp)) zeroTCP"

lemma applyTCP_at:
  assumes "rd \<noteq> None \<longrightarrow> scp_ecr scp \<noteq> None"
  obtains x where "nsname (tcp_meta x) = tcpKey rd scp"
    "applyTCP env rd cluster scp (s\<lparr>v_tcp := localTCP scp\<rparr>) =
      (case logged (k_createOrUpdateTCP (clientOf env rd) x (mutateTCP env cluster scp (rd \<noteq> None)))
         (\<lambda>r. CreateOrUpdateTCP (targetOf rd) (tcpKey rd scp) (fst r)) (s\<lparr>v_tcp := localTCP scp\<rparr>) of ((e, t), s1) \<Rightarrow> (e, s1\<lparr>v_tcp := t\<rparr>))"
proof (cases rd)
  case None
  show thesis
    by (rule that [of "localTCP scp"]) (simp_all add: None tcpKey_def nsname_def tcpNamed_def applyTCP_def)
next
  case (Some m)
  with assms obtain ecr where ecr: "scp_ecr scp = Some ecr" by blast
  show thesis
    by (rule that [of "tcpNamed (''kcp-'' @ om_UID (scp_meta scp), ecr_DeploymentNamespace ecr) (localTCP scp)"])
      (simp_all add: Some ecr tcpKey_def nsname_def tcpNamed_def applyTCP_def GenerateRemoteTenantControlPlaneNames_def RemoteTCPPrefix_def)
qed

lemma mutated_frame:
  "nsname (tcp_meta (mutated env cluster scp t)) = nsname (tcp_meta t)" "om_Namespace (tcp_meta (mutated env cluster scp t)) = om_Namespace (tcp_meta t)"
  "om_OwnerReferences (tcp_meta (mutated env cluster scp t)) = om_OwnerReferences (tcp_meta t)"
  by (simp_all add: mutated_eq nsname_def) (simp add: mutateMetadata_def Let_def)

lemma mutateTCP_serves:
  assumes lib: "servesLibrary env W scp" and wf: "wellFormed scp" and x: "sameSCP scp x" and t0: "rd = None \<longrightarrow> ownableTCP env scp t0"
  obtains t1 where "mutateTCP env cluster x (rd \<noteq> None) t0 = (None, t1)" "nsname (tcp_meta t1) = nsname (tcp_meta t0)"
    "rd = None \<longrightarrow> ownableTCP env scp t1"
proof -
  have san: "checkCertSANs (net_CertSANs (scp_Network x)) = None"
    using wf sameSCP_fields(5) [OF x] by (simp add: wellFormed_def)
  have "\<exists>t1. mutateTCP env cluster x (rd \<noteq> None) t0 = (None, t1) \<and> (rd = None \<longrightarrow> ownableTCP env scp t1)"
  proof (cases rd)
    case None
    with t0 x obtain t1 where "setControllerReferenceTCP env x (mutated env cluster x t0) = Inr t1"
      unfolding ownableTCP_def using mutated_frame(2,3) by blast
    with None san servesLibraryD(4) [OF lib x this] show ?thesis by (simp add: mutateTCP_eq)
  qed (simp add: mutateTCP_eq san)
  then obtain t1 where t1: "mutateTCP env cluster x (rd \<noteq> None) t0 = (None, t1)" "rd = None \<longrightarrow> ownableTCP env scp t1" by blast
  from mutateTCP_NoneD [OF servesLibraryD(1) [OF lib] t1(1)] have "nsname (tcp_meta t1) = nsname (tcp_meta t0)"
    using mutated_frame(1) [of env cluster x t0] by (auto simp: withOwners_def nsname_def)
  with that t1 show thesis by blast
qed

lemma processed_status:
  assumes "processed env W rd scp t0" "nsname (tcp_meta t) = nsname (tcp_meta t0)" "tcp_status t = tcp_status t0"
  shows "processed env W rd scp t"
  using assms by (simp add: processed_def nsname_def Let_def)

lemma createOrUpdateTCP_serves:
  assumes h: "healthy env W rd scp" and x: "sameSCP scp x" and ecr: "rd \<noteq> None \<longrightarrow> scp_ecr x \<noteq> None" and w: "W (world s)"
  obtains t w where "createOrUpdateTenantControlPlane env rd cluster x s =
      (None, s\<lparr>world := w, calls := calls s @ [CreateOrUpdateTCP (targetOf rd) (tcpKey rd scp) None], v_tcp := t\<rparr>)"
    "processed env W rd scp t" "W w"
proof -
  obtain y where y: "nsname (tcp_meta y) = tcpKey rd x" "applyTCP env rd cluster x (s\<lparr>v_tcp := localTCP x\<rparr>) =
      (case logged (k_createOrUpdateTCP (clientOf env rd) y (mutateTCP env cluster x (rd \<noteq> None)))
         (\<lambda>r. CreateOrUpdateTCP (targetOf rd) (tcpKey rd x) (fst r)) (s\<lparr>v_tcp := localTCP x\<rparr>) of ((e, t), s1) \<Rightarrow> (e, s1\<lparr>v_tcp := t\<rparr>))"
    by (rule applyTCP_at [OF ecr])
  note key = sameSCP_fields(8) [OF x, of rd]
  from healthyD(5) [OF h] w obtain t0 where
    t0: "nsname (tcp_meta t0) = tcpKey rd scp" "processed env W rd scp t0" "rd = None \<longrightarrow> ownableTCP env scp t0"
      "updatesTCP env W rd scp t0 (world s)"
    unfolding servesTCP_def by blast
  obtain t1 where t1: "mutateTCP env cluster x (rd \<noteq> None) t0 = (None, t1)" "nsname (tcp_meta t1) = nsname (tcp_meta t0)"
      "rd = None \<longrightarrow> ownableTCP env scp t1"
    by (rule mutateTCP_serves [OF healthyD(7,2) [OF h] x t0(3)])
  have "nsname (tcp_meta y) = nsname (tcp_meta t0)" using y(1) key t0(1) by simp
  from updatesTCPD [where f = "mutateTCP env cluster x (rd \<noteq> None)", OF t0(4) this t1] obtain t w' where
    k: "k_createOrUpdateTCP (clientOf env rd) y (mutateTCP env cluster x (rd \<noteq> None)) (world s) = ((None, t), w')"
      "nsname (tcp_meta t) = nsname (tcp_meta t0)" "tcp_status t = tcp_status t0" "W w'" by blast
  let ?s' = "s\<lparr>world := w', calls := calls s @ [CreateOrUpdateTCP (targetOf rd) (tcpKey rd scp) None], v_tcp := t\<rparr>"
  have "applyTCP env rd cluster x (s\<lparr>v_tcp := localTCP x\<rparr>) = (None, ?s')"
    using y(2) k(1) key by (simp add: logged_def)
  from retry_first [where fn = "applyTCP env rd cluster x", OF healthyD(1) [OF h] this]
  have "createOrUpdateTenantControlPlane env rd cluster x s = (None, ?s')" by (simp add: createOrUpdateTenantControlPlane_def)
  from that [OF this processed_status [OF t0(2) k(2,3)] k(4)] show thesis .
qed

lemma reconcileTCP_through:
  assumes h: "healthy env W rd scp" and l: "located env W ms rd scp"
  shows "triple (linked env W rd scp s0 ps) (reconcileTCP env) (applied env W rd scp s0 (isApplied rd scp # ps)) R"
  unfolding reconcileTCP_def
proof (rule triple_track [OF healthyD(7) [OF h] stable_on_the_way(2,3) _ triple_failOnErr])
  fix s
  assume s: "linked env W rd scp s0 ps s"
  have same: "sameSCP scp (v_scp s)" "W (world s)" "v_remote s = rd" using s by (simp_all add: on_the_way)
  have ecr: "rd \<noteq> None \<longrightarrow> scp_ecr (v_scp s) \<noteq> None"
    using l sameSCP_fields(5) [OF same(1)] by (auto simp: located_def reachesRemote_def)
  obtain t w where run: "createOrUpdateTenantControlPlane env rd (v_cluster s) (v_scp s) s =
      (None, s\<lparr>world := w, calls := calls s @ [CreateOrUpdateTCP (targetOf rd) (tcpKey rd scp) None], v_tcp := t\<rparr>)"
    "processed env W rd scp t" "W w"
    by (rule createOrUpdateTCP_serves [OF h same(1) ecr same(2)])
  have "applied env W rd scp s0 (isApplied rd scp # ps)
      (s\<lparr>world := w, calls := calls s @ [CreateOrUpdateTCP (targetOf rd) (tcpKey rd scp) None], v_tcp := t, v_err := None\<rparr>)"
    using s run(2,3) by (fastforce simp: on_the_way isApplied_def seen_def list_all_iff)
  with run(1) same(3) show "\<exists>s'. assignErr (\<lambda>s. createOrUpdateTenantControlPlane env (v_remote s) (v_cluster s) (v_scp s) s) s = (None, s') \<and>
      applied env W rd scp s0 (isApplied rd scp # ps) s'"
    by (simp add: assignErr_None)
qed (simp add: on_the_way)

lemma waitAddress_through:
  assumes h: "healthy env W rd scp"
  shows "triple (applied env W rd scp s0 ps) (waitAddress env) (applied env W rd scp s0 ps) R"
  unfolding waitAddress_def
  by (rule triple_track [OF healthyD(7) [OF h] stable_on_the_way(3,3)])
    (auto simp: checkEndpoint_def on_the_way processed_def Let_def triple_def)

definition isPublished :: "call \<Rightarrow> bool" where
  "isPublished c \<longleftrightarrow> (\<exists>a b. c = PatchSCP a b None)"

lemma publishEndpoint_through:
  assumes h: "healthy env W rd scp"
  shows "triple (applied env W rd scp s0 ps) (publishEndpoint env) (applied env W rd scp s0 (isPublished # ps)) R"
  unfolding publishEndpoint_def
proof (rule triple_track [OF healthyD(7) [OF h] stable_on_the_way(3,3) _ triple_failOnErr])
  fix s
  assume s: "applied env W rd scp s0 ps s"
  let ?hp = "tst_ControlPlaneEndpoint (tcp_status (v_tcp s))"
  have same: "sameSCP scp (v_scp s)" "W (world s)" using s by (simp_all add: on_the_way)
  obtain host port where ep: "controlPlaneEndpoint (v_scp s) ?hp = Inr (host, port)"
    using s sameSCP_fields(7) [OF same(1)] by (auto simp: on_the_way processed_def Let_def)
  let ?x = "(v_scp s)\<lparr>scp_Spec := (scp_Spec (v_scp s))\<lparr>spec_ControlPlaneEndpoint := \<lparr>ep_Host = host, ep_Port = toInt32 port\<rparr>\<rparr>\<rparr>"
  from healthyD(3) [OF h] same obtain y w where
    k: "k_patchSCP (r_client env) (v_scp s) ?x (world s) = (Inr y, w)" "sameSCP scp y" "W w"
    unfolding servesSCP_def by blast
  then obtain cs where run: "patchControlPlaneEndpoint env ?hp s =
      (None, s\<lparr>world := w, calls := calls s @ [PatchSCP (v_scp s) ?x None], v_scp := y, v_conds := cs\<rparr>)"
    using ep by (simp add: patchControlPlaneEndpoint_def patchSCP_def logged_def Let_def)
  moreover have "applied env W rd scp s0 (isPublished # ps)
      (s\<lparr>world := w, calls := calls s @ [PatchSCP (v_scp s) ?x None], v_scp := y, v_conds := cs, v_err := None\<rparr>)"
    using s k(2,3) by (fastforce simp: on_the_way isPublished_def seen_def list_all_iff)
  ultimately show "\<exists>s'. assignErr (\<lambda>s. patchControlPlaneEndpoint env (tst_ControlPlaneEndpoint (tcp_status (v_tcp s))) s) s = (None, s') \<and>
      applied env W rd scp s0 (isPublished # ps) s'"
    by (simp add: assignErr_None)
qed (simp add: on_the_way)

lemma refreshCluster_through:
  assumes h: "healthy env W rd scp"
  shows "triple (applied env W rd scp s0 ps) (refreshCluster env) (applied env W rd scp s0 ps) R"
proof (rule triple_through)
  fix s
  assume s: "applied env W rd scp s0 ps s"
  then have key: "nsname (cl_meta (v_cluster s)) = ownerKey scp" "W (world s)" by (simp_all add: on_the_way goodCluster_def)
  from fetchCluster_serves [OF healthyD(4) [OF h] key(2)] obtain c w where
    f: "fetchCluster env (ownerKey scp) s =
      (None, s\<lparr>world := w, calls := calls s @ [GetCluster (ownerKey scp) None], v_cluster := c, v_err := None\<rparr>)"
      "goodCluster env W scp c" "W w" by metis
  with s show "\<exists>s'. refreshCluster env s = (None, s') \<and> applied env W rd scp s0 ps s'"
    by (auto simp: refreshCluster_def key on_the_way intro: seen_step)
qed

lemma patchGenericCluster_serves:
  assumes "\<And>w. W w \<Longrightarrow> \<exists>i w'. k_getInfra (r_client env) ref w = (Inr i, w') \<and> W w' \<and> patchable env W i w'" and "W (world s)"
  obtains w new where "patchGenericCluster env ref host port st s = (None, s\<lparr>world := w, calls := calls s @ new\<rparr>)" "W w"
proof -
  from assms obtain i w1 where i: "k_getInfra (r_client env) ref (world s) = (Inr i, w1)" "patchable env W i w1" by blast
  from i(2) obtain obj obj' where obj: "newPatchHelper env i = None"
    "setNested env (u_Object i) (endpointMap host port) [''spec'', ''controlPlaneEndpoint''] = Inr obj"
    "setNested env obj (JBool True) [''status'', ''ready''] = Inr obj'"
    and p: "\<exists>w'. k_patchInfra (r_client env) i (i\<lparr>u_Object := obj\<rparr>) w1 = (None, w') \<and> W w'"
      "\<exists>w'. k_patchInfra (r_client env) i (i\<lparr>u_Object := obj'\<rparr>) w1 = (None, w') \<and> W w'"
    unfolding patchable_def by metis
  let ?i = "i\<lparr>u_Object := if st then obj' else obj\<rparr>"
  from p obtain w2 where w2: "k_patchInfra (r_client env) i ?i w1 = (None, w2)" "W w2" by (cases st) auto
  have "patchGenericCluster env ref host port st s =
      (None, s\<lparr>world := w2, calls := calls s @ [GetInfra ref None, PatchInfra i ?i None]\<rparr>)"
    using i(1) obj w2(1) by (cases st) (simp_all add: patchGenericCluster_def getInfra_def patchInfra_def logged_def)
  with w2(2) that show thesis by blast
qed

lemma patchInfrastructure_through:
  assumes h: "healthy env W rd scp"
  shows "triple (applied env W rd scp s0 ps) (patchInfrastructure env) (applied env W rd scp s0 ps) R"
proof (cases "r_FeatureGates env FeatureSkipInfraClusterPatch")
  case True
  then show ?thesis by (simp add: triple_def patchInfrastructure_def)
next
  case False
  have "triple (applied env W rd scp s0 ps) (track env InfrastructureClusterPatchedConditionType
      (assignErr (\<lambda>s. patchCluster env (v_cluster s) (tst_ControlPlaneEndpoint (tcp_status (v_tcp s))) s)) failOnErr)
      (applied env W rd scp s0 ps) R"
  proof (rule triple_track [OF healthyD(7) [OF h] stable_on_the_way(3,3) _ triple_failOnErr])
    fix s
    assume s: "applied env W rd scp s0 ps s"
    let ?hp = "tst_ControlPlaneEndpoint (tcp_status (v_tcp s))"
    have same: "sameSCP scp (v_scp s)" "W (world s)" "goodCluster env W scp (v_cluster s)" using s by (simp_all add: on_the_way)
    obtain host port where ep: "controlPlaneEndpoint (v_scp s) ?hp = Inr (host, port)"
      using s sameSCP_fields(7) [OF same(1)] by (auto simp: on_the_way processed_def Let_def)
    from False same(3) obtain ref where
      ref: "cl_InfrastructureRef (v_cluster s) = Some ref" "ref_Kind ref \<in> patchedKinds env"
      and infra: "\<And>w. W w \<Longrightarrow> \<exists>i w'. k_getInfra (r_client env) ref w = (Inr i, w') \<and> W w' \<and> patchable env W i w'"
      unfolding goodCluster_def servesInfra_def by blast
    let ?st = "ref_Kind ref \<in> {''KubevirtCluster'', ''NutanixCluster'', ''PacketCluster''}"
    have "patchCluster env (v_cluster s) ?hp s = patchGenericCluster env ref host port ?st s"
      using ref ep by (auto simp: patchCluster_def Let_def patchedKinds_def)
    moreover obtain w new where
      "patchGenericCluster env ref host port ?st s = (None, s\<lparr>world := w, calls := calls s @ new\<rparr>)" "W w"
      by (rule patchGenericCluster_serves [OF infra same(2)])
    ultimately have "assignErr (\<lambda>s. patchCluster env (v_cluster s) (tst_ControlPlaneEndpoint (tcp_status (v_tcp s))) s) s =
        (None, s\<lparr>world := w, calls := calls s @ new, v_err := None\<rparr>)" by (simp add: assignErr_None)
    with s \<open>W w\<close> show "\<exists>s'. assignErr (\<lambda>s. patchCluster env (v_cluster s) (tst_ControlPlaneEndpoint (tcp_status (v_tcp s))) s) s = (None, s') \<and>
        applied env W rd scp s0 ps s'"
      by (auto simp: on_the_way intro: seen_step)
  qed (simp add: on_the_way)
  with False show ?thesis by (simp add: triple_def patchInfrastructure_def)
qed

lemma validateCluster_through: "triple (applied env W rd scp s0 ps) validateCluster (applied env W rd scp s0 ps) R"
  by (rule triple_through) (simp add: validateCluster_def on_the_way goodCluster_def processed_def Let_def)


definition inited :: "'w env \<Rightarrow> ('w \<Rightarrow> bool) \<Rightarrow> Manager option \<Rightarrow> StewardControlPlane \<Rightarrow> 'w rst \<Rightarrow> (call \<Rightarrow> bool) list \<Rightarrow> 'w rst \<Rightarrow> bool" where
  "inited env W rd scp s0 ps s \<longleftrightarrow> applied env W rd scp s0 ps s \<and> Initialized (scp_Status (v_scp s))"

lemma stable_inited: "stable W (inited env W rd scp s0 ps)"
proof -
  have "stable W (applied env W rd scp s0 ps)" by simp
  then show ?thesis unfolding stable_def inited_def by (metis sameButConds_def)
qed

text \<open>A status update on the way: what it sends is seen in the log, and is the status of the object afterwards.\<close>

lemma updateStatus_applied:
  assumes h: "healthy env W rd scp" and s: "applied env W rd scp s0 ps s"
    and modify: "\<And>s1 st. v_tcp s1 = v_tcp s \<Longrightarrow> \<exists>st'. modify s1 st = Some st' \<and> Q st'"
  shows "\<exists>s'. updateStewardControlPlaneStatus env modify s = (None, s') \<and> Q (scp_Status (v_scp s')) \<and>
    applied env W rd scp s0 ((\<lambda>c. \<exists>x. c = StatusUpdateSCP x None \<and> Q (scp_Status x)) # ps) s'"
proof -
  have st: "W (world s)" "sameSCP scp (v_scp s)" using s by (simp_all add: on_the_way)
  obtain x y w where
    u: "updateStewardControlPlaneStatus env modify s =
      (None, s\<lparr>world := w, calls := calls s @ [GetSCP (scp_key scp) None, StatusUpdateSCP x None], v_scp := y, v_shared := False\<rparr>)"
      "sameSCP scp y" "scp_Status y = scp_Status x" "W w" "Q (scp_Status x)"
    by (rule updateStatus_serves [OF h st modify])
  with s show ?thesis by (auto simp: on_the_way seen_def list_all_iff)
qed

lemma applied_err: "applied env W rd scp s0 ps s \<Longrightarrow> applied env W rd scp s0 ps (s\<lparr>v_err := None\<rparr>)"
  by (simp add: on_the_way seen_def)

lemma applied_drop: "applied env W rd scp s0 (p # ps) s \<Longrightarrow> applied env W rd scp s0 ps s"
  by (auto simp: on_the_way seen_def)

lemma initialize_through:
  assumes h: "healthy env W rd scp"
  shows "triple (applied env W rd scp s0 ps) (initialize env) (inited env W rd scp s0 ps) R"
proof -
  have "triple (applied env W rd scp s0 ps) (track env StewardControlPlaneInitializedConditionType
      (assignErr (updateStewardControlPlaneStatus env setInitialized)) failOnErr) (inited env W rd scp s0 ps) R"
  proof (rule triple_track [OF healthyD(7) [OF h] stable_on_the_way(3) stable_inited _ triple_failOnErr])
    fix s
    assume s: "applied env W rd scp s0 ps s"
    from updateStatus_applied [OF h s, of setInitialized Initialized] obtain s' where
      "updateStewardControlPlaneStatus env setInitialized s = (None, s')" "Initialized (scp_Status (v_scp s'))"
      "applied env W rd scp s0 ps s'"
      by (auto simp: setInitialized_def dest: applied_drop)
    then show "\<exists>s'. assignErr (updateStewardControlPlaneStatus env setInitialized) s = (None, s') \<and> inited env W rd scp s0 ps s'"
      by (simp add: assignErr_None inited_def applied_err)
  qed (simp add: inited_def on_the_way)
  then show ?thesis
    by (auto simp: triple_def initialize_def inited_def on_the_way processed_def Let_def)
qed

lemma waitInitialized_through: "triple (inited env W rd scp s0 ps) waitInitialized (applied env W rd scp s0 ps) R"
  by (rule triple_through) (simp add: waitInitialized_def inited_def)

lemma reportScaling_through:
  assumes h: "healthy env W rd scp"
  shows "triple (applied env W rd scp s0 ps) (reportScaling env) (applied env W rd scp s0 ps) R"
  unfolding reportScaling_def
proof (rule triple_track [OF healthyD(7) [OF h] stable_on_the_way(3,3) _ triple_failOnErr])
  fix s
  assume s: "applied env W rd scp s0 ps s"
  from updateStatus_applied [OF h s, of "setScaling env" "\<lambda>_. True"] obtain s' where
    "updateStewardControlPlaneStatus env (setScaling env) s = (None, s')" "applied env W rd scp s0 ps s'"
    by (auto simp: setScaling_def Let_def dest: applied_drop)
  then show "\<exists>s'. assignErr (updateStewardControlPlaneStatus env (setScaling env)) s = (None, s') \<and> applied env W rd scp s0 ps s'"
    by (simp add: assignErr_None applied_err)
qed (simp add: on_the_way)

definition reportsInitialized :: "call \<Rightarrow> bool" where
  "reportsInitialized c \<longleftrightarrow> (\<exists>x. c = StatusUpdateSCP x None \<and> Initialized (scp_Status x))"

definition reportsReady :: "call \<Rightarrow> bool" where
  "reportsReady c \<longleftrightarrow> (\<exists>x. c = StatusUpdateSCP x None \<and> Ready (scp_Status x))"

lemma reportInitialized_through:
  assumes h: "healthy env W rd scp"
  shows "triple (applied env W rd scp s0 ps) (reportInitialized env) (applied env W rd scp s0 (reportsInitialized # ps)) R"
  unfolding reportInitialized_def
proof (rule triple_track [OF healthyD(7) [OF h] stable_on_the_way(3,3)])
  fix s
  assume s: "applied env W rd scp s0 ps s"
  from updateStatus_applied [OF h s, of setInitialized Initialized] obtain s' where
    "updateStewardControlPlaneStatus env setInitialized s = (None, s')" "applied env W rd scp s0 (reportsInitialized # ps) s'"
    by (auto simp: setInitialized_def reportsInitialized_def [abs_def])
  then show "\<exists>s'. assignErr (updateStewardControlPlaneStatus env setInitialized) s = (None, s') \<and>
      applied env W rd scp s0 (reportsInitialized # ps) s'"
    by (simp add: assignErr_None applied_err)
qed (simp add: triple_def)

lemma reportReady_through:
  assumes h: "healthy env W rd scp"
  shows "triple (applied env W rd scp s0 ps) (reportReady env) (applied env W rd scp s0 (reportsReady # ps)) R"
  unfolding reportReady_def
proof (rule triple_track [OF healthyD(7) [OF h] stable_on_the_way(3,3) _ triple_requeueOnErr])
  fix s
  assume s: "applied env W rd scp s0 ps s"
  then have "tst_VersionStatus (tcp_status (v_tcp s)) = Some VersionReady"
    by (simp add: on_the_way processed_def Let_def)
  then obtain s' where s': "updateStewardControlPlaneStatus env setReady s = (None, s')" "Ready (scp_Status (v_scp s'))"
    "applied env W rd scp s0 (reportsReady # ps) s'"
    using updateStatus_applied [OF h s, of setReady Ready] by (auto simp: setReady_def versionServing_def reportsReady_def [abs_def])
  then show "\<exists>s'. updateReady env s = (None, s') \<and> applied env W rd scp s0 (reportsReady # ps) s'"
    by (simp add: updateReady_def assignErr_None applied_err)
qed (simp add: on_the_way)


text \<open>The Secrets: read from Steward, written for the Cluster.\<close>

definition contractSecret :: "StewardControlPlane \<Rightarrow> string \<Rightarrow> call \<Rightarrow> bool" where
  "contractSecret scp suffix c \<longleftrightarrow> c = CreateOrUpdateSecret (fst (ownerKey scp), snd (ownerKey scp) @ suffix) None"

text \<open>The mutate functions succeed on a Secret that can be owned, and keep its name.\<close>

lemma fillSecret_serves:
  assumes "servesLibrary env W scp" "sameSCP scp x" "ownableSecret env scp y"
  shows "\<exists>y'. fillSecret env x labels data y = (None, y') \<and> ownableSecret env scp y'"
proof -
  have "om_OwnerReferences (sec_meta (prepareSecret env labels data y)) = om_OwnerReferences (sec_meta y)"
    "om_Namespace (sec_meta (prepareSecret env labels data y)) = om_Namespace (sec_meta y)"
    by (simp_all add: prepareSecret_def Let_def)
  with assms(2,3) obtain y' where y': "setControllerReferenceSecret env x (prepareSecret env labels data y) = Inr y'"
    unfolding ownableSecret_def by blast
  with servesLibraryD(5) [OF assms(1,2) y'] show ?thesis by (simp add: fillSecret_def)
qed

lemma retrySecret_serves:
  assumes h: "healthy env W rd scp" and "W (world s)" and k: "nsname (sec_meta (v_secret s)) \<in> contractNames scp"
    and new: "om_OwnerReferences (sec_meta (v_secret s)) = []"
    and f: "\<And>y. ownableSecret env scp y \<Longrightarrow> \<exists>y'. f y = (None, y') \<and> ownableSecret env scp y'" and names: "keepsName f"
  obtains y w where "retryOnConflict env (createOrUpdateSecret env f) s =
      (None, s\<lparr>world := w, calls := calls s @ [CreateOrUpdateSecret (nsname (sec_meta (v_secret s))) None], v_secret := y\<rparr>)" "W w"
proof -
  let ?k = "nsname (sec_meta (v_secret s))"
  from healthyD(6) [OF h] assms(2) k obtain old where
    old: "\<And>y0. old = Some y0 \<Longrightarrow> nsname (sec_meta y0) = ?k \<and> ownableSecret env scp y0" "updatesSecret env W scp ?k old (world s)"
    unfolding takesSecrets_def by blast
  let ?base = "case old of None \<Rightarrow> v_secret s | Some y0 \<Rightarrow> y0"
  have "om_Namespace (sec_meta (v_secret s)) = om_Namespace (scp_meta scp)"
    using k by (auto simp: contractNames_def ownerKey_def nsname_def)
  with new have "ownableSecret env scp (v_secret s)" by (rule servesLibraryD(3) [OF healthyD(7) [OF h]])
  with old(1) have base: "nsname (sec_meta ?base) = ?k" "ownableSecret env scp ?base" by (auto split: option.split)
  from f [OF base(2)] obtain y1 where y1: "f ?base = (None, y1)" "ownableSecret env scp y1" by blast
  with names base(1) have "nsname (sec_meta y1) = ?k" unfolding keepsName_def by (metis snd_conv)
  from updatesSecretD [where f = f, OF old(2) refl y1(1) this y1(2)] obtain y w where "k_createOrUpdateSecret (r_client env) (v_secret s) f (world s) = ((None, y), w)" "W w" by blast
  then have "createOrUpdateSecret env f s =
      (None, s\<lparr>world := w, calls := calls s @ [CreateOrUpdateSecret ?k None], v_secret := y\<rparr>)"
    by (simp add: createOrUpdateSecret_def logged_def)
  from retry_first [where fn = "createOrUpdateSecret env f", OF healthyD(1) [OF h] this] that \<open>W w\<close> show thesis by blast
qed

lemma secretOwner_serves: "healthy env W rd scp \<Longrightarrow> secretOwnerContract env"
  by (rule servesLibraryD(2) [OF healthyD(7)])

lemma kubeconfig_serves:
  assumes h: "healthy env W rd scp" and s: "W (world s)" "sameSCP scp x" "goodCluster env W scp cluster" "processed env W rd scp t"
  obtains y w k where "createOrUpdateKubeconfig env rd cluster x t s = (None, s\<lparr>world := w, calls := calls s @ [GetSecret (targetOf rd) k None,
      CreateOrUpdateSecret (fst (ownerKey scp), snd (ownerKey scp) @ ''-kubeconfig'') None], v_secret := y\<rparr>)" "W w"
proof -
  let ?k = "(om_Namespace (tcp_meta t), tst_AdminSecretName (tcp_status t))"
  from s(4) have "servesSecret (clientOf env rd) W ?k {kubeconfigSecretKey env scp}" by (simp add: processed_def Let_def)
  with s(1) obtain src w1 where src: "k_getSecret (clientOf env rd) ?k (world s) = (Inr src, w1)"
    "map_of (secret_data src) (kubeconfigSecretKey env scp) \<noteq> None" "W w1"
    unfolding servesSecret_def by blast
  let ?f = "mutateKubeconfig env cluster x t src"
  let ?s1 = "s\<lparr>world := w1, calls := calls s @ [GetSecret (targetOf rd) ?k None],
    v_secret := secretNamedAs (om_Name (cl_meta cluster) @ ''-kubeconfig'') (om_Namespace (cl_meta cluster))\<rparr>"
  have f: "\<exists>y'. ?f y = (None, y') \<and> ownableSecret env scp y'" if "ownableSecret env scp y" for y
    using src(2) sameSCP_fields(6) [OF s(2), of env] fillSecret_serves [OF healthyD(7) [OF h] s(2) that] that
    by (auto simp: mutateKubeconfig_def)
  have k: "W (world ?s1)" "nsname (sec_meta (v_secret ?s1)) \<in> contractNames scp" "om_OwnerReferences (sec_meta (v_secret ?s1)) = []"
    using s(3) src(3) by (auto simp: contractNames_def secretNamedAs_def goodCluster_def nsname_def ownerKey_def zeroMeta_def)
  obtain y w where
    r: "retryOnConflict env (createOrUpdateSecret env ?f) ?s1 =
      (None, ?s1\<lparr>world := w, calls := calls ?s1 @ [CreateOrUpdateSecret (nsname (sec_meta (v_secret ?s1))) None], v_secret := y\<rparr>)" "W w"
    by (rule retrySecret_serves [OF h k f mutate_keepsName(2) [OF secretOwner_serves [OF h]]])
  have "createOrUpdateKubeconfig env rd cluster x t s = (None, s\<lparr>world := w, calls := calls s @ [GetSecret (targetOf rd) ?k None,
      CreateOrUpdateSecret (fst (ownerKey scp), snd (ownerKey scp) @ ''-kubeconfig'') None], v_secret := y\<rparr>)"
    using src(1) r(1) s(3)
    by (auto simp: createOrUpdateKubeconfig_def getSecret_def logged_def secretNamedAs_def
        goodCluster_def nsname_def ownerKey_def)
  with that r(2) show thesis by blast
qed

lemma ca_serves:
  assumes h: "healthy env W rd scp" and s: "W (world s)" "sameSCP scp x" "goodCluster env W scp cluster" "processed env W rd scp t"
  obtains y w k where "createOrUpdateCertificateAuthority env rd cluster x t s = (None, s\<lparr>world := w, calls := calls s @ [GetSecret (targetOf rd) k None,
      CreateOrUpdateSecret (fst (ownerKey scp), snd (ownerKey scp) @ ''-ca'') None], v_secret := y\<rparr>)" "W w"
proof -
  let ?k = "(om_Namespace (tcp_meta t), tst_CASecretName (tcp_status t))"
  from s(4) have "servesSecret (clientOf env rd) W ?k {''ca.crt'', ''ca.key''}" by (simp add: processed_def Let_def)
  with s(1) obtain src w1 where src: "k_getSecret (clientOf env rd) ?k (world s) = (Inr src, w1)"
    "{''ca.crt'', ''ca.key''} \<subseteq> dom (map_of (secret_data src))" "W w1"
    unfolding servesSecret_def by blast
  let ?f = "mutateCA env cluster x t src"
  let ?s1 = "s\<lparr>world := w1, calls := calls s @ [GetSecret (targetOf rd) ?k None],
    v_secret := secretNamedAs (om_Name (cl_meta cluster) @ ''-ca'') (om_Namespace (cl_meta cluster))\<rparr>"
  have f: "\<exists>y'. ?f y = (None, y') \<and> ownableSecret env scp y'" if "ownableSecret env scp y" for y
    using src(2) fillSecret_serves [OF healthyD(7) [OF h] s(2) that] that
    by (auto simp: mutateCA_def split: list.split)
  have k: "W (world ?s1)" "nsname (sec_meta (v_secret ?s1)) \<in> contractNames scp" "om_OwnerReferences (sec_meta (v_secret ?s1)) = []"
    using s(3) src(3) by (auto simp: contractNames_def secretNamedAs_def goodCluster_def nsname_def ownerKey_def zeroMeta_def)
  obtain y w where
    r: "retryOnConflict env (createOrUpdateSecret env ?f) ?s1 =
      (None, ?s1\<lparr>world := w, calls := calls ?s1 @ [CreateOrUpdateSecret (nsname (sec_meta (v_secret ?s1))) None], v_secret := y\<rparr>)" "W w"
    by (rule retrySecret_serves [OF h k f mutate_keepsName(1) [OF secretOwner_serves [OF h]]])
  have "createOrUpdateCertificateAuthority env rd cluster x t s = (None, s\<lparr>world := w, calls := calls s @ [GetSecret (targetOf rd) ?k None,
      CreateOrUpdateSecret (fst (ownerKey scp), snd (ownerKey scp) @ ''-ca'') None], v_secret := y\<rparr>)"
    using src(1) r(1) s(3)
    by (auto simp: createOrUpdateCertificateAuthority_def getSecret_def logged_def secretNamedAs_def
        goodCluster_def nsname_def ownerKey_def)
  with that r(2) show thesis by blast
qed

lemma replicateResources_through:
  assumes h: "healthy env W rd scp"
  shows "triple (applied env W rd scp s0 ps) (replicateResources env)
    (applied env W rd scp s0 (contractSecret scp ''-kubeconfig'' # contractSecret scp ''-ca'' # ps)) R"
  unfolding replicateResources_def
proof (rule triple_track [OF healthyD(7) [OF h] stable_on_the_way(3,3) _ triple_requeueOnErr])
  let ?qs = "contractSecret scp ''-kubeconfig'' # contractSecret scp ''-ca'' # ps"
  fix s
  assume s: "applied env W rd scp s0 ps s"
  have st: "W (world s)" "sameSCP scp (v_scp s)" "goodCluster env W scp (v_cluster s)" "processed env W rd scp (v_tcp s)" "v_remote s = rd"
    using s by (simp_all add: on_the_way)
  obtain y w k where kc: "createOrUpdateKubeconfig env rd (v_cluster s) (v_scp s) (v_tcp s) s =
      (None, s\<lparr>world := w, calls := calls s @ [GetSecret (targetOf rd) k None,
        CreateOrUpdateSecret (fst (ownerKey scp), snd (ownerKey scp) @ ''-kubeconfig'') None], v_secret := y\<rparr>)" "W w"
    by (rule kubeconfig_serves [OF h st(1-4)])
  let ?s1 = "s\<lparr>world := w, calls := calls s @ [GetSecret (targetOf rd) k None,
        CreateOrUpdateSecret (fst (ownerKey scp), snd (ownerKey scp) @ ''-kubeconfig'') None], v_secret := y\<rparr>"
  from kc(2) have "W (world ?s1)" by simp
  from ca_serves [OF h this st(2-4)] obtain y' w' k' where
    ca: "createOrUpdateCertificateAuthority env rd (v_cluster s) (v_scp s) (v_tcp s) ?s1 =
      (None, ?s1\<lparr>world := w', calls := calls ?s1 @ [GetSecret (targetOf rd) k' None,
        CreateOrUpdateSecret (fst (ownerKey scp), snd (ownerKey scp) @ ''-ca'') None], v_secret := y'\<rparr>)" "W w'"
    by metis
  have "createRequiredResources env (v_remote s) (v_cluster s) (v_scp s) (v_tcp s) s =
      (None, ?s1\<lparr>world := w', calls := calls ?s1 @ [GetSecret (targetOf rd) k' None,
        CreateOrUpdateSecret (fst (ownerKey scp), snd (ownerKey scp) @ ''-ca'') None], v_secret := y'\<rparr>)"
    using st(4,5) kc(1) ca(1) by (simp add: createRequiredResources_def processed_def Let_def)
  moreover have "applied env W rd scp s0 ?qs (?s1\<lparr>world := w', calls := calls ?s1 @ [GetSecret (targetOf rd) k' None,
        CreateOrUpdateSecret (fst (ownerKey scp), snd (ownerKey scp) @ ''-ca'') None], v_secret := y', v_err := None\<rparr>)"
    using s ca(2) by (auto simp: on_the_way contractSecret_def seen_def list_all_iff)
  ultimately show "\<exists>s'. assignErr (\<lambda>s. createRequiredResources env (v_remote s) (v_cluster s) (v_scp s) (v_tcp s) s) s = (None, s') \<and>
      applied env W rd scp s0 ?qs s'"
    by (simp add: assignErr_None)
qed (simp add: on_the_way)

section \<open>The whole run\<close>

lemmas steps_through = waitAddress_through publishEndpoint_through
  refreshCluster_through patchInfrastructure_through initialize_through reportScaling_through reportInitialized_through
  replicateResources_through reportReady_through

lemma complete_through:
  "(\<And>s. P s \<Longrightarrow> R (Returns resultEmpty None) s) \<Longrightarrow> triple P (run_steps [complete]) Q R"
  by (simp add: triple_def complete_def returns_def)

lemma body_through:
  assumes h: "healthy env W rd scp" and l: "located env W ms rd scp"
  shows "triple (\<lambda>s. linked env W None scp s0 [] s \<and> mstore s = ms) (run_steps (body env)) (\<lambda>_. False)
    (\<lambda>r s. r = Returns resultEmpty None \<and>
       applied env W rd scp s0 [reportsReady, contractSecret scp ''-kubeconfig'', contractSecret scp ''-ca'', reportsInitialized,
         isPublished, isApplied rd scp] s)"
  unfolding body_def
  by (rule triple_Cons, rule findExternalCluster_through [OF h l], rule triple_Cons, rule reconcileTCP_through [OF h l],
      (rule triple_Cons, rule steps_through [OF h] validateCluster_through waitInitialized_through)+, rule complete_through) simp

lemma Reconcile_through:
  assumes h: "healthy env W rd scp" and l: "located env W (mstore s) rd scp" and s: "W (world s)" "v_remote s = None"
  shows "\<exists>s'. Reconcile env (scp_key scp) s = (Some (Returns \<lparr>RequeueAfter = None\<rparr> None), s') \<and> W (world s') \<and>
    seen s [reportsReady, contractSecret scp ''-kubeconfig'', contractSecret scp ''-ca'', reportsInitialized, isPublished, isApplied rd scp] s'"
proof -
  from prologue_through [OF h s] obtain s1 where
    pro: "run_steps (prologue env (scp_key scp)) s = (None, s1)" "linked env W None scp s [] s1 \<and> mstore s1 = mstore s" by blast
  obtain r s2 where bod: "run_steps (body env) s1 = (r, s2)" by fastforce
  let ?ps = "[reportsReady, contractSecret scp ''-kubeconfig'', contractSecret scp ''-ca'', reportsInitialized, isPublished, isApplied rd scp]"
  note body = body_through [OF h l, of s]
  have r: "r = Some (Returns resultEmpty None)" "applied env W rd scp s ?ps s2"
    using bod tripleD_None [OF body pro(2)] tripleD_Some [OF body pro(2)] by (cases r; blast)+
  let ?m = "\<lambda>s st. Some (st\<lparr>Conditions := v_conds s\<rparr>)"
  from updateStatus_applied [OF h r(2), of ?m "\<lambda>_. True"] obtain s3 where
    def: "updateStewardControlPlaneStatus env ?m s2 = (None, s3)" and "applied env W rd scp s ?ps s3"
    by (auto dest: applied_drop)
  moreover have "Reconcile env (scp_key scp) s = (Some (Returns \<lparr>RequeueAfter = None\<rparr> None), s3)"
    using pro(1) bod r(1) def by (simp add: Reconcile_def deferredUpdate_def resultEmpty_def)
  ultimately show ?thesis by (auto simp: on_the_way)
qed

section \<open>Properties\<close>


section \<open>Healthy environments\<close>

text \<open>
  The in-memory server with the documented behaviour of the library: \<open>SetControllerReference\<close> refuses an owner in another namespace and an object that
  another controller owns, \<open>CreateOrUpdate\<close> refuses a new name and leaves the status alone, and the
  infrastructure provider takes every patch. Steward has processed the \<open>TenantControlPlane\<close>. \<open>liveSCP\<close> lives in the management cluster, \<open>runSCP\<close> of \<open>Sample_Run\<close> in the
  remote one.
\<close>

definition liveSCP :: StewardControlPlane where
  "liveSCP = zeroSCP\<lparr>scp_meta := zeroMeta\<lparr>om_Name := ''cp'', om_Namespace := ''team'', om_UID := ''u-3'',
     om_OwnerReferences := [\<lparr>or_Kind = ''Cluster'', or_Name = ''demo'', or_UID = ''u-2''\<rparr>]\<rparr>\<rparr>"

definition liveOwner :: "StewardControlPlane \<Rightarrow> ObjectMeta \<Rightarrow> error + ObjectMeta" where
  "liveOwner scp m =
     (if om_Namespace m \<noteq> om_Namespace (scp_meta scp) then Inl (ErrNew ''cross-namespace owner references are disallowed'')
      else if list_ex (\<lambda>r. or_UID r \<noteq> om_UID (scp_meta scp)) (om_OwnerReferences m)
      then Inl (ErrNew ''Object is already owned by another controller'')
      else Inr (ownedBy scp m))"

definition liveUpdateTCP :: "TenantControlPlane \<Rightarrow> (TenantControlPlane \<Rightarrow> error option \<times> TenantControlPlane) \<Rightarrow> mem \<Rightarrow>
    (error option \<times> TenantControlPlane) \<times> mem" where
  "liveUpdateTCP x f w =
     (let k = nsname (tcp_meta x); old = (case m_tcps w k of None \<Rightarrow> x | Some t0 \<Rightarrow> t0)
      in case f old of
           (Some e, t) \<Rightarrow> ((Some e, t), w)
         | (None, t1) \<Rightarrow>
             if nsname (tcp_meta t1) \<noteq> nsname (tcp_meta old)
             then ((Some (ErrNew ''MutateFn cannot mutate object name and/or object namespace''), t1), w)
             else ((None, t1\<lparr>tcp_status := tcp_status old\<rparr>),
                   w\<lparr>m_tcps := (m_tcps w)(k \<mapsto> t1\<lparr>tcp_status := tcp_status old\<rparr>)\<rparr>))"

definition liveClient :: "mem client" where
  "liveClient = sampleClient\<lparr>
     k_createOrUpdateTCP := liveUpdateTCP,
     k_getInfra := (\<lambda>r w. (Inr \<lparr>u_ref = r, u_Object = JObj []\<rparr>, w)),
     k_patchInfra := (\<lambda>a b w. (None, w))\<rparr>"

definition liveEnv :: "mem env" where
  "liveEnv = ecrEnv\<lparr>r_client := liveClient, mgr_GetClient := (\<lambda>_. liveClient),
     setControllerReferenceTCP := (\<lambda>scp t. map_sum id (\<lambda>m. t\<lparr>tcp_meta := m\<rparr>) (liveOwner scp (tcp_meta t))),
     setControllerReferenceSecret := (\<lambda>scp y. map_sum id (\<lambda>m. y\<lparr>sec_meta := m\<rparr>) (liveOwner scp (sec_meta y)))\<rparr>"

definition liveKey :: "StewardControlPlane \<Rightarrow> NamespacedName" where
  "liveKey scp = tcpKey (map_option (\<lambda>_. 0) (scp_ecr scp)) scp"

definition liveStatus :: TCPStatus where
  "liveStatus = zeroTCPStatus\<lparr>tst_ControlPlaneEndpoint := sampleHostPort, tst_VersionStatus := Some VersionReady,
     tst_AdminSecretName := ''adm'', tst_CASecretName := ''pki''\<rparr>"

definition liveTCP :: "StewardControlPlane \<Rightarrow> TenantControlPlane" where
  "liveTCP scp = zeroTCP\<lparr>tcp_meta := zeroMeta\<lparr>om_Name := snd (liveKey scp), om_Namespace := fst (liveKey scp)\<rparr>, tcp_status := liveStatus\<rparr>"

definition liveWorld :: "StewardControlPlane \<Rightarrow> mem \<Rightarrow> bool" where
  "liveWorld scp w \<longleftrightarrow> (\<exists>x. m_scps w (''team'', ''cp'') = Some x \<and> sameSCP scp x) \<and>
     m_clusters w (''team'', ''demo'') = Some runCluster \<and> m_secrets w (''team'', ''remote'') = Some remoteSecret \<and>
     m_secrets w (fst (liveKey scp), ''adm'') = Some adminSecret \<and> m_secrets w (fst (liveKey scp), ''pki'') = Some caSecret \<and>
     (\<exists>t. m_tcps w (liveKey scp) = Some t \<and> nsname (tcp_meta t) = liveKey scp \<and> tcp_status t = liveStatus \<and>
        (scp_ecr scp = None \<longrightarrow> ownableTCP liveEnv scp t)) \<and>
     (\<forall>k y. k \<in> contractNames scp \<longrightarrow> m_secrets w k = Some y \<longrightarrow> nsname (sec_meta y) = k \<and> ownableSecret liveEnv scp y)"

definition liveMem :: "StewardControlPlane \<Rightarrow> mem" where
  "liveMem scp = emptyMem\<lparr>m_scps := [(''team'', ''cp'') \<mapsto> scp], m_clusters := [(''team'', ''demo'') \<mapsto> runCluster],
     m_secrets := [(''team'', ''remote'') \<mapsto> remoteSecret, (fst (liveKey scp), ''adm'') \<mapsto> adminSecret, (fst (liveKey scp), ''pki'') \<mapsto> caSecret],
     m_tcps := [liveKey scp \<mapsto> liveTCP scp]\<rparr>"

text \<open>What the two objects have in common.\<close>

definition live :: "StewardControlPlane \<Rightarrow> bool" where
  "live scp \<longleftrightarrow> scp_key scp = (''team'', ''cp'') \<and> ownerKey scp = (''team'', ''demo'') \<and> wellFormed scp \<and>
     directNetwork scp \<and> kubeconfigSecretKey liveEnv scp = ''admin.conf''"

lemma live_samples: "live liveSCP" "live runSCP"
  by (simp_all add: live_def liveSCP_def runSCP_def remoteSCP_def wellFormed_def directNetwork_def ownerKey_def nsname_def
      kubeconfigSecretKey_def zeroSCP_def zeroFields_def zeroNetwork_def zeroDeployment_def zeroMeta_def)

lemma liveKey_samples: "liveKey liveSCP = (''team'', ''cp'')" "liveKey runSCP = (''tenants'', ''kcp-u-1'')"
  by (simp_all add: liveKey_def tcpKey_def liveSCP_def runSCP_def remoteSCP_def zeroSCP_def zeroFields_def zeroDeployment_def)

lemma liveKey_eq: "rd = None \<longleftrightarrow> scp_ecr scp = None \<Longrightarrow> tcpKey rd scp = liveKey scp"
  by (auto simp: liveKey_def tcpKey_def split: option.split)

lemma liveEnv_simps [simp]: "r_client liveEnv = liveClient" "clientOf liveEnv rd = liveClient"
  "setControllerReferenceTCP liveEnv x t = map_sum id (\<lambda>m. t\<lparr>tcp_meta := m\<rparr>) (liveOwner x (tcp_meta t))"
  "setControllerReferenceSecret liveEnv x y = map_sum id (\<lambda>m. y\<lparr>sec_meta := m\<rparr>) (liveOwner x (sec_meta y))"
  "retryOnConflict liveEnv = boundedRetry 4"
  by (simp_all add: liveEnv_def clientOf_def split: option.split)

text \<open>Ownership: decided by the namespace and the identifiers of the owners.\<close>

definition mayOwn :: "StewardControlPlane \<Rightarrow> ObjectMeta \<Rightarrow> bool" where
  "mayOwn scp m \<longleftrightarrow> om_Namespace m = om_Namespace (scp_meta scp) \<and> (\<forall>r \<in> set (om_OwnerReferences m). or_UID r = om_UID (scp_meta scp))"

lemma liveOwner_mayOwn:
  assumes "sameSCP scp x"
  shows "liveOwner x m = (if mayOwn scp m then Inr (ownedBy x m) else Inl (case liveOwner x m of Inl e \<Rightarrow> e))" "mayOwn scp m \<Longrightarrow> mayOwn scp (ownedBy x m)"
  using assms sameSCP_fields(2) [OF assms] by (auto simp: liveOwner_def mayOwn_def sameSCP_def ownedBy_def list_ex_iff)

lemma live_ownable:
  "mayOwn scp (tcp_meta t) \<Longrightarrow> ownableTCP liveEnv scp t" "mayOwn scp (sec_meta y) \<Longrightarrow> ownableSecret liveEnv scp y"
  by (auto simp: ownableTCP_def ownableSecret_def mayOwn_def liveOwner_def sameSCP_def nsname_def list_ex_iff)

lemma live_servesLibrary: "servesLibrary liveEnv (liveWorld scp) scp"
proof -
  have "ownerContract (setControllerReferenceTCP liveEnv)"
    by (auto simp: ownerContract_def withOwners_def liveOwner_def ownedBy_def list_ex_iff split: if_splits)
  moreover have "secretOwnerContract liveEnv"
    by (auto simp: secretOwnerContract_def liveOwner_def ownedBy_def split: if_splits)
  moreover have "mayOwn scp (tcp_meta t')" if "sameSCP scp x" "setControllerReferenceTCP liveEnv x t = Inr t'" for x t t'
    using that by (auto simp: mayOwn_def liveOwner_def ownedBy_def sameSCP_def nsname_def split: if_splits)
  moreover have "mayOwn scp (sec_meta y')" if "sameSCP scp x" "setControllerReferenceSecret liveEnv x y = Inr y'" for x y y'
    using that by (auto simp: mayOwn_def liveOwner_def ownedBy_def sameSCP_def nsname_def split: if_splits)
  moreover have "liveWorld scp w \<Longrightarrow> liveWorld scp (snd (timeNow liveEnv w)) \<and> liveWorld scp (snd (setStatusCondition liveEnv cs c w))" for w cs c
    by (simp add: liveEnv_def ecrEnv_def sampleEnv_def sampleSet_def liveWorld_def split: option.split)
  moreover have "om_OwnerReferences (sec_meta y) = [] \<Longrightarrow> om_Namespace (sec_meta y) = om_Namespace (scp_meta scp) \<Longrightarrow> mayOwn scp (sec_meta y)" for y
    by (simp add: mayOwn_def)
  ultimately show ?thesis unfolding servesLibrary_def using live_ownable by blast
qed

lemma live_servesSCP:
  assumes "live scp"
  shows "servesSCP liveClient (liveWorld scp) scp"
proof -
  have store: "\<exists>y w'. storeSCP x w = (Inr y, w') \<and> sameSCP scp y \<and> scp_Status y = scp_Status x \<and> liveWorld scp w'"
    if "liveWorld scp w" "sameSCP scp x" for w x
    using that sameSCP_fields(1) [OF that(2)] assms by (auto simp: storeSCP_def liveWorld_def live_def)
  have "writable liveClient (liveWorld scp) scp x w" if "liveWorld scp w" "sameSCP scp x" for w x
    unfolding writable_def
  proof (intro conjI allI)
    show "\<exists>y w'. k_statusUpdateSCP liveClient (withStatus x st) w = (Inr y, w') \<and> sameSCP scp y \<and> scp_Status y = st \<and> liveWorld scp w'" for st
      using store [OF that(1), of "withStatus x st"] that(2) by (simp add: liveClient_def sampleClient_def)
    show "\<exists>y w'. k_updateSCP liveClient (withFinalizers x fs) w = (Inr y, w') \<and> sameSCP scp y \<and> liveWorld scp w'" for fs
      using store [OF that(1), of "withFinalizers x fs"] that(2) by (auto simp: liveClient_def sampleClient_def)
  qed
  moreover have "\<exists>x. k_getSCP liveClient (scp_key scp) w = (Inr x, w) \<and> sameSCP scp x" if "liveWorld scp w" for w
    using that assms by (auto simp: liveWorld_def live_def liveClient_def sampleClient_def found_def)
  moreover have "\<exists>y w'. k_patchSCP liveClient a (withEndpoint a ep) w = (Inr y, w') \<and> sameSCP scp y \<and> liveWorld scp w'"
    if "liveWorld scp w" "sameSCP scp a" for w a ep
    using store [OF that(1), of "withEndpoint a ep"] that(2) by (auto simp: liveClient_def sampleClient_def)
  ultimately show ?thesis unfolding servesSCP_def by metis
qed

lemma live_cluster:
  assumes "live scp"
  shows "goodCluster liveEnv (liveWorld scp) scp runCluster"
proof -
  have "patchable liveEnv (liveWorld scp) \<lparr>u_ref = r, u_Object = JObj []\<rparr> w" if "liveWorld scp w" for r w
    using that by (simp add: patchable_def liveEnv_def ecrEnv_def sampleEnv_def liveClient_def)
  then have "servesInfra liveEnv (liveWorld scp) runCluster"
    by (simp add: servesInfra_def patchedKinds_def runCluster_def infraRef_def liveClient_def)
  with assms show ?thesis
    by (simp add: goodCluster_def live_def runCluster_def nsname_def liveEnv_def ecrEnv_def sampleEnv_def zeroCluster_def)
qed

lemma live_processed:
  assumes "live scp" "nsname (tcp_meta t) = liveKey scp" "tcp_status t = liveStatus"
  shows "processed liveEnv (liveWorld scp) rd scp t"
proof -
  have "\<exists>ep. controlPlaneEndpoint scp sampleHostPort = Inr ep"
    using assms(1) controlPlaneEndpoint_plain [of scp "''cp''" 6443] by (simp add: sampleHostPort_def plain_host_def live_def)
  moreover have "servesSecret liveClient (liveWorld scp) (fst (liveKey scp), ''adm'') {''admin.conf''}"
    "servesSecret liveClient (liveWorld scp) (fst (liveKey scp), ''pki'') {''ca.crt'', ''ca.key''}"
    by (auto simp: servesSecret_def liveClient_def sampleClient_def found_def liveWorld_def adminSecret_def caSecret_def secret_data_def)
  moreover have "om_Namespace (tcp_meta t) = fst (liveKey scp)" using arg_cong [OF assms(2), of fst] by (simp add: nsname_def)
  ultimately show ?thesis using assms(1,3) by (simp add: processed_def liveStatus_def Let_def sampleHostPort_def live_def)
qed

lemma live_servesTCP:
  assumes "live scp" and rd: "rd = None \<longleftrightarrow> scp_ecr scp = None"
  shows "servesTCP liveEnv (liveWorld scp) rd scp"
  unfolding servesTCP_def
proof (intro allI impI)
  fix w
  assume w: "liveWorld scp w"
  then obtain t0 where t0: "m_tcps w (liveKey scp) = Some t0" "nsname (tcp_meta t0) = liveKey scp" "tcp_status t0 = liveStatus"
      "scp_ecr scp = None \<longrightarrow> ownableTCP liveEnv scp t0"
    by (auto simp: liveWorld_def)
  have "updatesTCP liveEnv (liveWorld scp) rd scp t0 w"
    unfolding updatesTCP_def
  proof (intro allI impI)
    fix x t1 :: TenantControlPlane and f :: "TenantControlPlane \<Rightarrow> error option \<times> TenantControlPlane"
    assume x: "nsname (tcp_meta x) = nsname (tcp_meta t0)" and f: "f t0 = (None, t1)" "nsname (tcp_meta t1) = nsname (tcp_meta t0)"
      "rd = None \<longrightarrow> ownableTCP liveEnv scp t1"
    let ?t = "t1\<lparr>tcp_status := tcp_status t0\<rparr>"
    have "k_createOrUpdateTCP (clientOf liveEnv rd) x f w = ((None, ?t), w\<lparr>m_tcps := (m_tcps w)(liveKey scp \<mapsto> ?t)\<rparr>)"
      using x f(1,2) t0(1,2) by (simp add: liveClient_def liveUpdateTCP_def)
    moreover have "ownableTCP liveEnv scp ?t" if "rd = None" using f(3) that by (simp add: ownableTCP_def)
    ultimately show "\<exists>t w'. k_createOrUpdateTCP (clientOf liveEnv rd) x f w = ((None, t), w') \<and>
        nsname (tcp_meta t) = nsname (tcp_meta t0) \<and> tcp_status t = tcp_status t0 \<and> liveWorld scp w'"
      using w f(2) t0 rd by (auto simp: liveWorld_def)
  qed
  with t0 rd liveKey_eq [OF rd] live_processed [OF assms(1) t0(2,3)] show "\<exists>t0. nsname (tcp_meta t0) = tcpKey rd scp \<and>
      processed liveEnv (liveWorld scp) rd scp t0 \<and> (rd = None \<longrightarrow> ownableTCP liveEnv scp t0) \<and> updatesTCP liveEnv (liveWorld scp) rd scp t0 w"
    by auto
qed

lemma live_takesSecrets:
  assumes "live scp"
  shows "takesSecrets liveEnv (liveWorld scp) scp"
  unfolding takesSecrets_def
proof (intro allI impI)
  fix w k
  assume w: "liveWorld scp w" and k: "k \<in> contractNames scp"
  have names: "(ns, ''adm'') \<noteq> k" "(ns, ''pki'') \<noteq> k" "(ns, ''remote'') \<noteq> k" for ns
    using k assms by (auto simp: contractNames_def live_def)
  have old: "nsname (sec_meta y0) = k \<and> ownableSecret liveEnv scp y0" if "m_secrets w k = Some y0" for y0
    using w k that unfolding liveWorld_def by blast
  have "updatesSecret liveEnv (liveWorld scp) scp k (m_secrets w k) w"
    unfolding updatesSecret_def
  proof (intro allI impI)
    fix x y1 :: Secret and f :: "Secret \<Rightarrow> error option \<times> Secret"
    assume x: "nsname (sec_meta x) = k" and f: "f (case m_secrets w k of None \<Rightarrow> x | Some y0 \<Rightarrow> y0) = (None, y1)"
      and y1: "nsname (sec_meta y1) = k" "ownableSecret liveEnv scp y1"
    have "k_createOrUpdateSecret liveClient x f w = ((None, y1), w\<lparr>m_secrets := (m_secrets w)(k \<mapsto> y1)\<rparr>)"
      using x f old by (cases "m_secrets w k") (simp_all add: liveClient_def sampleClient_def sampleCreateOrUpdate_def)
    moreover have "liveWorld scp (w\<lparr>m_secrets := (m_secrets w)(k \<mapsto> y1)\<rparr>)"
      using w y1 by (simp add: liveWorld_def names)
    ultimately show "\<exists>y w'. k_createOrUpdateSecret (r_client liveEnv) x f w = ((None, y), w') \<and> liveWorld scp w'" by simp
  qed
  with old show "\<exists>old. (\<forall>y0. old = Some y0 \<longrightarrow> nsname (sec_meta y0) = k \<and> ownableSecret liveEnv scp y0) \<and>
      updatesSecret liveEnv (liveWorld scp) scp k old w" by blast
qed

lemma live_healthy:
  assumes "live scp" "rd = None \<longleftrightarrow> scp_ecr scp = None"
  shows "healthy liveEnv (liveWorld scp) rd scp"
proof -
  have "servesCluster liveEnv (liveWorld scp) scp"
    using live_cluster [OF assms(1)] assms(1)
    by (auto simp: servesCluster_def liveWorld_def liveClient_def sampleClient_def found_def live_def)
  with assms show ?thesis
    by (simp add: healthy_def live_servesSCP live_takesSecrets live_servesTCP live_servesLibrary boundedRetry_contract live_def)
qed

lemma live_start: "liveWorld liveSCP (liveMem liveSCP)" "liveWorld runSCP (liveMem runSCP)"
proof -
  have "ownableTCP liveEnv liveSCP (liveTCP liveSCP)"
    by (rule live_ownable, unfold mayOwn_def liveTCP_def liveKey_samples) (simp add: liveSCP_def zeroMeta_def)
  moreover have "(''team'', ''remote'') \<notin> contractNames scp" "(ns, ''adm'') \<notin> contractNames scp" "(ns, ''pki'') \<notin> contractNames scp"
    if "live scp" for ns scp using that by (auto simp: contractNames_def live_def)
  moreover have "scp_ecr runSCP \<noteq> None" by (simp add: runSCP_def remoteSCP_def)
  ultimately show "liveWorld liveSCP (liveMem liveSCP)" "liveWorld runSCP (liveMem runSCP)"
    using live_samples by (auto simp: liveWorld_def liveMem_def emptyMem_def liveKey_samples liveTCP_def nsname_def split: if_splits)
qed

lemma live_located: "located liveEnv (liveWorld liveSCP) NewStore None liveSCP"
  by (simp add: located_def liveSCP_def zeroSCP_def zeroFields_def zeroDeployment_def)

lemma runSCP_reference:
  obtains ecr where "scp_ecr runSCP = Some ecr" "ecr_KubeconfigSecretName ecr = ''remote''" "ecr_KubeconfigSecretKey ecr = ''conf''"
    "referenceNamespace runSCP ecr = ''team''" "om_Namespace (scp_meta runSCP) = ''team''" "ecr_DeploymentNamespace ecr = ''tenants''"
    "om_UID (scp_meta runSCP) = ''u-1''"
  by (simp add: runSCP_def remoteSCP_def zeroSCP_def zeroFields_def zeroDeployment_def referenceNamespace_def)

lemma remote_located: "located liveEnv (liveWorld runSCP) remoteStore (Some 1) runSCP"
proof -
  obtain ecr where ecr: "scp_ecr runSCP = Some ecr" "ecr_KubeconfigSecretName ecr = ''remote''" "ecr_KubeconfigSecretKey ecr = ''conf''"
    "referenceNamespace runSCP ecr = ''team''" "om_Namespace (scp_meta runSCP) = ''team''"
    by (rule runSCP_reference)
  have key: "GenerateKeyNameFromSteward runSCP = Some ''team/remote/conf''"
    using ecr by (simp add: GenerateKeyNameFromSteward_def joinKey_def)
  have store: "store_Get remoteStore ''team/remote/conf'' '''' = (Some 1, True)"
    by (simp add: remoteStore_def store_Add_def store_Get_def NewStore_def)
  have secret: "k_getSecret liveClient (''team'', ''remote'') w = (Inr remoteSecret, w)" if "liveWorld runSCP w" for w
    using that by (simp add: liveWorld_def liveClient_def sampleClient_def found_def)
  have entry: "map_of (secret_data remoteSecret) ''conf'' = Some (Some ''kubeconfig'')" "om_ResourceVersion (sec_meta remoteSecret) = ''''"
    by (simp_all add: remoteSecret_def secret_data_def zeroMeta_def)
  have "r_FeatureGates liveEnv FeatureExternalClusterReference" "mgr_KindFor liveEnv m w = (None, w)" for m w
    by (simp_all add: liveEnv_def)
  with ecr key store secret entry show ?thesis
    unfolding located_def option.case reachesRemote_def
    by (intro exI [of _ ecr] exI [of _ "''team/remote/conf''"] exI [of _ "''''"]) simp
qed


end
