(* ===== verification/Reconcile_Completion.thy ===== *)
theory Reconcile_Completion
  imports Reconcile_Liveness "HOL-Library.Sublist"
begin

text \<open>
  What the result of a reconciliation says about the work. A reconciliation that reports success has done everything, in this order and with success:
  the \<open>TenantControlPlane\<close>, the endpoint, the status, the two Secrets and the readiness. One that asks
  for another try after a second was waiting for something that another controller has to provide.
\<close>

section \<open>Results that only a few steps give\<close>

definition notDone :: "'w rstep \<Rightarrow> bool" where
  "notDone f \<longleftrightarrow> (\<forall>s s'. f s \<noteq> (Some (Returns resultEmpty None), s'))"

definition notWaiting :: "'w rstep \<Rightarrow> bool" where
  "notWaiting f \<longleftrightarrow> (\<forall>s s'. f s \<noteq> (Some (Returns resultOneSecond None), s'))"

lemma results_distinct [simp]: "resultEmpty \<noteq> resultOneSecond" "resultOneSecond \<noteq> resultEmpty"
  by (simp_all add: resultEmpty_def resultOneSecond_def)

lemma returns_simps [simp]:
  "returns r (Some e) \<noteq> Some (Returns r' None)" "returns r None = Some (Returns r None)" "returns r x \<noteq> None"
  "\<exists>y. returns r x = Some y"
  by (auto simp: returns_def split: option.split)

lemma track_result:
  assumes "track env ct fn k s = (Some (Returns res e), s')"
  shows "\<exists>s2. k s2 = (Some (Returns res e), s')"
proof -
  from track_cases [OF assms] obtain result s2 where
    "case result of
        Some x \<Rightarrow> if isPanic x then (Some (Returns res e), s') = (Some (Panics x), s2) else (Some (Returns res e), s') = k s2
      | None \<Rightarrow> (Some (Returns res e), s') = k s2" by blast
  then show ?thesis by (cases result) (auto split: if_splits)
qed

lemma results_track:
  "notDone k \<Longrightarrow> notDone (track env ct fn k)" "notWaiting k \<Longrightarrow> notWaiting (track env ct fn k)"
  unfolding notDone_def notWaiting_def by (metis track_result)+

lemma results_if:
  "notDone f \<Longrightarrow> notDone g \<Longrightarrow> notDone (\<lambda>s. if b s then f s else g s)"
  "notWaiting f \<Longrightarrow> notWaiting g \<Longrightarrow> notWaiting (\<lambda>s. if b s then f s else g s)"
  by (auto simp: notDone_def notWaiting_def)

lemma results_tests:
  "notDone failOnErr" "notWaiting failOnErr" "notDone requeueOnErr" "notDone validateCluster" "notDone waitInitialized"
  "notDone (addFinalizer env)" "notWaiting (addFinalizer env)" "notDone (\<lambda>s. (None, s))" "notWaiting (\<lambda>s. (None, s))"
  "notDone (\<lambda>s. if v_err s \<noteq> None then (returns resultOneSecond None, s) else (None, s))"
  by (auto simp: notDone_def notWaiting_def failOnErr_def requeueOnErr_def validateCluster_def waitInitialized_def
      addFinalizer_def split: option.splits prod.splits)

lemma results_external:
  "notDone (run_steps [failOnErr, addFinalizer env])" "notWaiting (run_steps [failOnErr, addFinalizer env])"
  using results_tests(1,2) results_tests(6,7) [of env]
  unfolding notDone_def notWaiting_def run_steps.simps by (auto split: prod.splits option.splits)

lemmas results_intros = results_track results_if results_tests results_external

lemma results_steps:
  "notDone (findExternalCluster env)" "notWaiting (findExternalCluster env)" "notDone (reconcileTCP env)" "notWaiting (reconcileTCP env)"
  "notDone (waitAddress env)" "notDone (publishEndpoint env)" "notWaiting (publishEndpoint env)"
  "notDone (patchInfrastructure env)" "notWaiting (patchInfrastructure env)" "notDone (initialize env)" "notWaiting (initialize env)"
  "notDone (reportScaling env)" "notWaiting (reportScaling env)" "notDone (reportInitialized env)" "notWaiting (reportInitialized env)"
  "notDone (replicateResources env)" "notDone (reportReady env)"
  unfolding findExternalCluster_def [abs_def] reconcileTCP_def waitAddress_def publishEndpoint_def patchInfrastructure_def [abs_def]
    initialize_def [abs_def] reportScaling_def reportInitialized_def replicateResources_def reportReady_def
  by (intro results_intros)+

section \<open>Errors and the sentinel\<close>

text \<open>
  \<open>ErrEnqueueBack\<close> is a sentinel of this package: the API clients and \<open>SetControllerReference\<close> do not return it, and \<open>CreateOrUpdate\<close>
  returns it only from the function it is given.
\<close>

definition noSentinel :: "'w env \<Rightarrow> bool" where
  "noSentinel env \<longleftrightarrow>
     (\<forall>k w e w'. k_getSCP (r_client env) k w = (Inl e, w') \<longrightarrow> \<not> errors_Is e ErrEnqueueBack) \<and>
     (\<forall>scp w e w'. k_statusUpdateSCP (r_client env) scp w = (Inl e, w') \<longrightarrow> \<not> errors_Is e ErrEnqueueBack) \<and>
     (\<forall>rd k w e w'. k_getSecret (clientOf env rd) k w = (Inl e, w') \<longrightarrow> \<not> errors_Is e ErrEnqueueBack) \<and>
     (\<forall>scp x e. setControllerReferenceSecret env scp x = Inl e \<longrightarrow> \<not> errors_Is e ErrEnqueueBack) \<and>
     (\<forall>x f w e y w'. k_createOrUpdateSecret (r_client env) x f w = ((Some e, y), w') \<longrightarrow>
        (\<forall>z d z'. f z = (Some d, z') \<longrightarrow> \<not> errors_Is d ErrEnqueueBack) \<longrightarrow> \<not> errors_Is e ErrEnqueueBack)"

lemma noSentinelD:
  assumes "noSentinel env"
  shows "k_getSCP (r_client env) k w = (Inl e, w') \<Longrightarrow> \<not> errors_Is e ErrEnqueueBack"
    "k_statusUpdateSCP (r_client env) scp w = (Inl e, w') \<Longrightarrow> \<not> errors_Is e ErrEnqueueBack"
    "k_getSecret (clientOf env rd) k w = (Inl e, w') \<Longrightarrow> \<not> errors_Is e ErrEnqueueBack"
    "setControllerReferenceSecret env scp x = Inl e \<Longrightarrow> \<not> errors_Is e ErrEnqueueBack"
    "k_createOrUpdateSecret (r_client env) x f w = ((Some e, y), w') \<Longrightarrow>
      (\<And>z d z'. f z = (Some d, z') \<Longrightarrow> \<not> errors_Is d ErrEnqueueBack) \<Longrightarrow> \<not> errors_Is e ErrEnqueueBack"
proof -
  note n1 = assms [unfolded noSentinel_def]
  note n2 = n1 [THEN conjunct2]
  note n3 = n2 [THEN conjunct2]
  note n4 = n3 [THEN conjunct2]
  show "k_getSCP (r_client env) k w = (Inl e, w') \<Longrightarrow> \<not> errors_Is e ErrEnqueueBack" by (rule n1 [THEN conjunct1, rule_format])
  show "k_statusUpdateSCP (r_client env) scp w = (Inl e, w') \<Longrightarrow> \<not> errors_Is e ErrEnqueueBack" by (rule n2 [THEN conjunct1, rule_format])
  show "k_getSecret (clientOf env rd) k w = (Inl e, w') \<Longrightarrow> \<not> errors_Is e ErrEnqueueBack" by (rule n3 [THEN conjunct1, rule_format])
  show "setControllerReferenceSecret env scp x = Inl e \<Longrightarrow> \<not> errors_Is e ErrEnqueueBack" by (rule n4 [THEN conjunct1, rule_format])
  show "k_createOrUpdateSecret (r_client env) x f w = ((Some e, y), w') \<Longrightarrow>
      (\<And>z d z'. f z = (Some d, z') \<Longrightarrow> \<not> errors_Is d ErrEnqueueBack) \<Longrightarrow> \<not> errors_Is e ErrEnqueueBack"
    by (rule n4 [THEN conjunct2, rule_format])
qed

lemma updateStatus_sentinel:
  assumes "retryContract (retryOnConflict env)" "noSentinel env" "updateStewardControlPlaneStatus env f s = (Some e, s')"
  shows "\<not> errors_Is e ErrEnqueueBack"
proof -
  from retry_last [OF assms(1), where I = "\<lambda>_. True" and fn = "tryStatusUpdate env f" and s = s]
  obtain t where t: "retryOnConflict env (tryStatusUpdate env f) s = tryStatusUpdate env f t" by blast
  from assms(3) t obtain x where x: "tryStatusUpdate env f t = (Some x, s')" "e = wrapErr ''cannot update StewardControlPlane resource'' x"
    by (auto simp: updateStewardControlPlaneStatus_def split: prod.splits option.splits)
  from x(1) have "\<not> errors_Is x ErrEnqueueBack"
    by (auto simp: tryStatusUpdate_def getSCP_def statusUpdateSCP_def logged_def split: prod.splits sum.splits option.splits
        dest: noSentinelD(1,2) [OF assms(2)])
  with x(2) show ?thesis by simp
qed

lemma mutate_sentinel:
  assumes "noSentinel env"
  shows "mutateKubeconfig env cluster scp tcp src z = (Some d, z') \<Longrightarrow> \<not> errors_Is d ErrEnqueueBack"
    "mutateCA env cluster scp tcp src z = (Some d, z') \<Longrightarrow> \<not> errors_Is d ErrEnqueueBack"
proof -
  have fill: "\<not> errors_Is d ErrEnqueueBack" if "fillSecret env scp labels data x = (Some d, y)" for labels data x y
    using that by (auto simp: fillSecret_def split: sum.splits dest: noSentinelD(4) [OF assms])
  show "mutateKubeconfig env cluster scp tcp src z = (Some d, z') \<Longrightarrow> \<not> errors_Is d ErrEnqueueBack"
    "mutateCA env cluster scp tcp src z = (Some d, z') \<Longrightarrow> \<not> errors_Is d ErrEnqueueBack"
    by (auto simp: mutateKubeconfig_def mutateCA_def split: option.splits if_splits dest: fill)
qed

lemma retrySecret_sentinel:
  assumes "retryContract (retryOnConflict env)" "noSentinel env" "\<And>z d z'. f z = (Some d, z') \<Longrightarrow> \<not> errors_Is d ErrEnqueueBack"
    and "retryOnConflict env (createOrUpdateSecret env f) s = (Some e, s')"
  shows "\<not> errors_Is e ErrEnqueueBack"
proof -
  from retry_last [OF assms(1), where I = "\<lambda>_. True" and fn = "createOrUpdateSecret env f" and s = s]
  obtain t where "createOrUpdateSecret env f t = (Some e, s')" using assms(4) by metis
  then obtain y w where "k_createOrUpdateSecret (r_client env) (v_secret t) f (world t) = ((Some e, y), w)"
    by (auto simp: createOrUpdateSecret_def logged_def split: prod.splits)
  from noSentinelD(5) [OF assms(2) this assms(3)] show ?thesis .
qed

lemma getSecret_sentinel:
  "noSentinel env \<Longrightarrow> getSecret env rd k s = (Inl e, s') \<Longrightarrow> \<not> errors_Is e ErrEnqueueBack"
  by (auto simp: getSecret_def logged_def split: prod.splits dest: noSentinelD(3))

lemma secrets_sentinel:
  assumes "retryContract (retryOnConflict env)" "noSentinel env"
  shows "createOrUpdateKubeconfig env rd cluster scp tcp s = (Some e, s') \<Longrightarrow> \<not> errors_Is e ErrEnqueueBack"
    "createOrUpdateCertificateAuthority env rd cluster scp tcp s = (Some e, s') \<Longrightarrow> \<not> errors_Is e ErrEnqueueBack"
  using getSecret_sentinel [OF assms(2)] retrySecret_sentinel [OF assms mutate_sentinel(1) [OF assms(2)]]
    retrySecret_sentinel [OF assms mutate_sentinel(2) [OF assms(2)]]
  by (auto simp: createOrUpdateKubeconfig_def createOrUpdateCertificateAuthority_def Let_def split: sum.splits prod.splits option.splits)

lemma requiredResources_sentinel:
  assumes "retryContract (retryOnConflict env)" "noSentinel env" "errors_Is e ErrEnqueueBack"
    and "createRequiredResources env rd cluster scp tcp s = (Some e, s')"
  shows "tst_AdminSecretName (tcp_status tcp) = '''' \<or> tst_CASecretName (tcp_status tcp) = ''''"
  using assms(3,4) secrets_sentinel [OF assms(1,2)]
  by (auto simp: createRequiredResources_def split: if_splits prod.splits option.splits)

section \<open>The work, in order\<close>

definition did :: "call list \<Rightarrow> 'w rst \<Rightarrow> 'w rst \<Rightarrow> bool" where
  "did ps s0 s \<longleftrightarrow> (\<exists>new. calls s = calls s0 @ new \<and> subseq ps new)"

lemma did_more: "did ps s0 s \<Longrightarrow> calls s' = calls s @ cs \<Longrightarrow> subseq qs cs \<Longrightarrow> did (ps @ qs) s0 s'"
  unfolding did_def using list_emb_append_mono by fastforce

lemma did_keep: "did ps s0 s \<Longrightarrow> extends P s s' \<Longrightarrow> did ps s0 s'"
  using did_more [of ps s0 s s' _ "[]"] by (auto simp: extends_def)

type_synonym 'w pattern = "'w rst \<Rightarrow> call list \<Rightarrow> bool"

definition stage :: "'w pattern \<Rightarrow> 'w rst \<Rightarrow> 'w rst \<Rightarrow> bool" where
  "stage pat s0 s \<longleftrightarrow> (\<exists>ps. pat s ps \<and> did ps s0 s)"

definition workTCP :: "'w pattern" where
  "workTCP s ps \<longleftrightarrow> (\<exists>k. ps = [CreateOrUpdateTCP (targetOf (v_remote s)) k None])"

definition workEndpoint :: "'w pattern" where
  "workEndpoint s ps \<longleftrightarrow> (\<exists>p a b. workTCP s p \<and> ps = p @ [PatchSCP a b None])"

definition workStatus :: "'w pattern" where
  "workStatus s ps \<longleftrightarrow> (\<exists>p x. workEndpoint s p \<and> ps = p @ [StatusUpdateSCP x None])"

definition clusterSecret :: "'w rst \<Rightarrow> string \<Rightarrow> call" where
  "clusterSecret s ending = CreateOrUpdateSecret (om_Namespace (cl_meta (v_cluster s)), om_Name (cl_meta (v_cluster s)) @ ending) None"

definition workSecrets :: "'w pattern" where
  "workSecrets s ps \<longleftrightarrow> (\<exists>p. workStatus s p \<and> ps = p @ [clusterSecret s ''-kubeconfig'', clusterSecret s ''-ca''])"

definition workReady :: "'w pattern" where
  "workReady s ps \<longleftrightarrow> (\<exists>p x. workSecrets s p \<and> ps = p @ [StatusUpdateSCP x None] \<and>
     Ready (scp_Status x) = serving (tst_VersionStatus (tcp_status (v_tcp s))))"

lemmas work_defs = workTCP_def workEndpoint_def workStatus_def workSecrets_def clusterSecret_def

lemma stage_keep:
  assumes "stage pat s0 s" "extends P s s'" "\<And>ps. pat s ps \<Longrightarrow> pat s' ps"
  shows "stage pat s0 s'"
  using assms did_keep unfolding stage_def by blast

lemma stage_more:
  assumes "stage pat s0 s" "calls s' = calls s @ cs" "subseq qs cs" "\<And>ps. pat s ps \<Longrightarrow> pat' s' (ps @ qs)"
  shows "stage pat' s0 s'"
  using assms did_more unfolding stage_def by blast

lemma work_remote:
  assumes "v_remote s' = v_remote s"
  shows "workTCP s' = workTCP s" "workEndpoint s' = workEndpoint s" "workStatus s' = workStatus s"
  using assms by (simp_all add: work_defs [abs_def])

section \<open>Waiting\<close>

text \<open>What a reconciliation waits for: Steward, the Cluster and its infrastructure.\<close>

definition waits :: "'w rst \<Rightarrow> bool" where
  "waits s \<longleftrightarrow> (let st = tcp_status (v_tcp s)
     in tst_ControlPlaneEndpoint st = '''' \<or> tst_VersionStatus st = None \<or> tst_AdminSecretName st = '''' \<or> tst_CASecretName st = '''' \<or>
        ep_Host (cl_ControlPlaneEndpoint (v_cluster s)) = '''' \<or> \<not> cl_InfrastructureReady (v_cluster s) \<or>
        \<not> Initialized (scp_Status (v_scp s)))"

definition gone :: "'w rst \<Rightarrow> 'w rst \<Rightarrow> bool" where
  "gone s0 s \<longleftrightarrow> (\<exists>cs k e. calls s = calls s0 @ cs @ [GetCluster k (Some e)] \<and> isNotFound e)"

text \<open>What the result of the steps says.\<close>

definition ends :: "'w rst \<Rightarrow> outcome \<Rightarrow> 'w rst \<Rightarrow> bool" where
  "ends s0 out s \<longleftrightarrow> (out = Returns resultEmpty None \<longrightarrow> gone s0 s \<or> stage workReady s0 s) \<and>
     (out = Returns resultOneSecond None \<longrightarrow> waits s)"

lemma triple_ends:
  assumes "notDone f" "\<And>s s'. P s \<Longrightarrow> f s = (Some (Returns resultOneSecond None), s') \<Longrightarrow> waits s'"
    and "\<And>s s'. P s \<Longrightarrow> f s = (None, s') \<Longrightarrow> Q s'"
  shows "triple P f Q (ends s0)"
  by (rule tripleI) (use assms in \<open>auto simp: ends_def notDone_def\<close>)

lemma triple_plain:
  assumes "notDone f" "notWaiting f" "\<And>s s'. P s \<Longrightarrow> f s = (None, s') \<Longrightarrow> Q s'"
  shows "triple P f Q (ends s0)"
  by (rule triple_ends) (use assms in \<open>auto simp: notWaiting_def\<close>)

lemma calm_stage:
  assumes "calm P s s'" "pat = workTCP \<or> pat = workEndpoint \<or> pat = workStatus \<or> pat = workSecrets" "stage pat s0 s"
  shows "stage pat s0 s'"
proof (rule stage_keep [OF assms(3) calm_extends [OF assms(1)]])
  show "pat s ps \<Longrightarrow> pat s' ps" for ps
    using assms(1,2) by (auto simp: calm_def quiet_def work_defs)
qed

text \<open>A step that passes with its error test has left no error.\<close>

lemma failOnErr_passes: "failOnErr s = (None, s') \<Longrightarrow> v_err s' = None"
  by (auto simp: failOnErr_def split: option.splits)

lemma track_fail_err:
  assumes "track env ct fn failOnErr s = (None, s')"
  shows "v_err s' = None"
  using assms by (auto simp: track_def split: prod.splits option.splits dest: failOnErr_passes)

lemma passes_reconcileTCP:
  assumes rc: "retryContract (retryOnConflict env)" and s0: "extends P s0 s" and run: "reconcileTCP env s = (None, s')"
  shows "stage workTCP s0 s'" "v_err s' = None"
proof -
  show "v_err s' = None" using track_fail_err run unfolding reconcileTCP_def by blast
  let ?f = "\<lambda>s. createOrUpdateTenantControlPlane env (v_remote s) (v_cluster s) (v_scp s) s"
  from track_fail [OF run [unfolded reconcileTCP_def]] obtain t t1 where
    c: "core t = core s" "?f t = (None, t1)" "core s' = core t1" by auto
  note q = createOrUpdateTCP_calls [OF rc c(2)]
  from q(2) obtain new k where new: "calls t1 = calls t @ new" "CreateOrUpdateTCP (targetOf (v_remote t)) k None \<in> set new" by blast
  have rem: "v_remote s' = v_remote t" using q(1) core_eqD(4) [OF c(3)] by (simp add: quiet_def)
  have "did [] s0 s" using s0 by (auto simp: did_def extends_def)
  moreover have "calls s' = calls s @ new" using new(1) core_eqD(1) [OF c(1)] core_eqD(1) [OF c(3)] by simp
  moreover have "subseq [CreateOrUpdateTCP (targetOf (v_remote t)) k None] new" using new(2) by (simp add: subseq_singleton_left)
  ultimately have "did [CreateOrUpdateTCP (targetOf (v_remote t)) k None] s0 s'" using did_more by fastforce
  then show "stage workTCP s0 s'" using rem unfolding stage_def workTCP_def by metis
qed

lemma passes_publishEndpoint:
  assumes st: "stage workTCP s0 s" and run: "publishEndpoint env s = (None, s')"
  shows "stage workEndpoint s0 s'"
proof -
  from track_fail [OF run [unfolded publishEndpoint_def]] obtain t t1 where
    c: "core t = core s" "patchControlPlaneEndpoint env (tst_ControlPlaneEndpoint (tcp_status (v_tcp t))) t = (None, t1)" "core s' = core t1"
    by auto
  from patchControlPlaneEndpoint_calls [OF c(2)] obtain a b where
    ab: "calls t1 = calls t @ [PatchSCP a b None]" "v_remote t1 = v_remote t" by (auto simp: quiet_def)
  show ?thesis
  proof (rule stage_more [OF st])
    show "calls s' = calls s @ [PatchSCP a b None]" using ab(1) core_eqD(1) [OF c(1)] core_eqD(1) [OF c(3)] by simp
    show "workEndpoint s' (ps @ [PatchSCP a b None])" if "workTCP s ps" for ps
      using that ab(2) core_eqD(4) [OF c(1)] core_eqD(4) [OF c(3)] by (auto simp: workEndpoint_def workTCP_def)
  qed simp
qed

lemma passes_reportScaling:
  assumes rc: "retryContract (retryOnConflict env)" and st: "stage workEndpoint s0 s" and run: "reportScaling env s = (None, s')"
  shows "stage workStatus s0 s'"
proof -
  from track_fail [OF run [unfolded reportScaling_def]] obtain t t1 where
    c: "core t = core s" "updateStewardControlPlaneStatus env (setScaling env) t = (None, t1)" "core s' = core t1" by auto
  from updateStatus_calls(2) [OF rc c(2)] obtain new x where
    new: "calls t1 = calls t @ new" "StatusUpdateSCP x None \<in> set new" by blast
  have rem: "v_remote s' = v_remote s"
    using updateStatus_calls(1) [OF rc c(2)] core_eqD(4) [OF c(1)] core_eqD(4) [OF c(3)] by (simp add: quiet_def)
  show ?thesis
  proof (rule stage_more [OF st])
    show "calls s' = calls s @ new" using new(1) core_eqD(1) [OF c(1)] core_eqD(1) [OF c(3)] by simp
    show "subseq [StatusUpdateSCP x None] new" using new(2) by (simp add: subseq_singleton_left)
    show "workStatus s' (ps @ [StatusUpdateSCP x None])" if "workEndpoint s ps" for ps
      using that work_remote(2) [OF rem] unfolding workStatus_def by auto
  qed
qed

text \<open>The steps that tell the sentinel from an error.\<close>

lemma track_requeue:
  assumes "track env ct (assignErr f) requeueOnErr s = (r, s')"
  shows "\<exists>s0 e s1. core s0 = core s \<and> f s0 = (e, s1) \<and> core s' = core s1 \<and> (r = None \<longrightarrow> e = None) \<and>
    (r = Some (Returns resultOneSecond None) \<longrightarrow> (\<exists>x. e = Some x \<and> errors_Is x ErrEnqueueBack))"
proof -
  from track_cases [OF assms] obtain s0 e s1 s2 where
    s0: "core s0 = core s" and a: "assignErr f s0 = (e, s1)" and s2: "core s2 = core s1" "v_err s2 = v_err s1" and
    r: "case e of Some x \<Rightarrow> if isPanic x then (r, s') = (Some (Panics x), s2) else (r, s') = requeueOnErr s2
      | None \<Rightarrow> (r, s') = requeueOnErr s2" by blast
  from assignErr_run [OF a] obtain s3 where f: "f s0 = (e, s3)" "core s1 = core s3" and
    v: "\<And>x. e = Some x \<Longrightarrow> \<not> isPanic x \<Longrightarrow> v_err s1 = e" "e = None \<Longrightarrow> v_err s1 = None" by blast
  have "core s' = core s3 \<and> (r = None \<longrightarrow> e = None) \<and>
      (r = Some (Returns resultOneSecond None) \<longrightarrow> (\<exists>x. e = Some x \<and> errors_Is x ErrEnqueueBack))"
    using r v s2 f(2) by (cases e) (auto simp: requeueOnErr_def split: if_splits)
  with s0 f(1) show ?thesis by blast
qed

lemma passes_replicateResources:
  assumes con: "retryContract (retryOnConflict env)" "secretOwnerContract env" "secretNameContract env"
    and st: "stage workStatus s0 s" and run: "replicateResources env s = (None, s')"
  shows "stage workSecrets s0 s'"
proof -
  from track_requeue [OF run [unfolded replicateResources_def]] obtain t t1 where
    c: "core t = core s" "createRequiredResources env (v_remote t) (v_cluster t) (v_scp t) (v_tcp t) t = (None, t1)" "core s' = core t1"
    by auto
  let ?k = "\<lambda>ending. (om_Namespace (cl_meta (v_cluster t)), om_Name (cl_meta (v_cluster t)) @ ending)"
  from c(2) obtain t2 where "createOrUpdateKubeconfig env (v_remote t) (v_cluster t) (v_scp t) (v_tcp t) t = (None, t2)"
    "createOrUpdateCertificateAuthority env (v_remote t) (v_cluster t) (v_scp t) (v_tcp t) t2 = (None, t1)"
    by (auto simp: createRequiredResources_def split: if_splits prod.splits option.splits)
  from createOrUpdateKubeconfig_success [OF con this(1)] createOrUpdateCA_success [OF con this(2)] obtain g kc g' ca where
    new: "calls t1 = calls t @ g # kc @ g' # ca" and w: "secretWrites (?k ''-kubeconfig'') kc" "secretWrites (?k ''-ca'') ca" by auto
  have once: "subseq [CreateOrUpdateSecret k None] cs" if "secretWrites k cs" for k cs
    using that by (auto simp: secretWrites_def subseq_singleton_left)
  have "subseq ([CreateOrUpdateSecret (?k ''-kubeconfig'') None] @ [CreateOrUpdateSecret (?k ''-ca'') None]) ((g # kc) @ (g' # ca))"
    by (rule list_emb_append_mono) (use once [OF w(1)] once [OF w(2)] in \<open>auto intro: list_emb.list_emb_Cons\<close>)
  moreover have cl: "v_cluster s' = v_cluster t" "v_remote s' = v_remote s"
    using requiredResources_quiet [OF con(1) c(2)] core_eqD [OF c(1)] core_eqD [OF c(3)] by (simp_all add: quiet_def)
  ultimately have sub: "subseq [clusterSecret s' ''-kubeconfig'', clusterSecret s' ''-ca''] (g # kc @ g' # ca)"
    by (simp add: clusterSecret_def)
  show ?thesis
  proof (rule stage_more [OF st _ sub])
    show "calls s' = calls s @ g # kc @ g' # ca" using new core_eqD(1) [OF c(1)] core_eqD(1) [OF c(3)] by simp
    show "workSecrets s' (ps @ [clusterSecret s' ''-kubeconfig'', clusterSecret s' ''-ca''])" if "workStatus s ps" for ps
      using that work_remote(3) [OF cl(2)] by (auto simp: workSecrets_def)
  qed
qed

lemma passes_reportReady:
  assumes rc: "retryContract (retryOnConflict env)" and st: "stage workSecrets s0 s" and run: "reportReady env s = (None, s')"
  shows "stage workReady s0 s'"
proof -
  obtain t e t1 where c: "core t = core s" "updateStewardControlPlaneStatus env setReady t = (e, t1)" "calls s' = calls t1"
      "(None :: outcome option) = None \<longrightarrow> e = None"
    by (rule reportReady_cases [OF rc run])
  from updateStatus_calls(2) [OF rc c(2)] c(4) obtain new x where
    new: "calls t1 = calls t @ new" "StatusUpdateSCP x None \<in> set new" by blast
  have x: "Ready (scp_Status x) = serving (tst_VersionStatus (tcp_status (v_tcp s)))"
    using updateStatus_truthful [OF rc c(2)] new core_eqD(3) [OF c(1)] by (auto simp: extends_def list_all_iff truthful_def)
  have calm: "calm statusCall s s'" using calm_reportReady [OF rc, of s] run by simp
  show ?thesis
  proof (rule stage_more [OF st])
    show "calls s' = calls s @ new" using new(1) c(3) core_eqD(1) [OF c(1)] by simp
    show "subseq [StatusUpdateSCP x None] new" using new(2) by (simp add: subseq_singleton_left)
    show "workReady s' (ps @ [StatusUpdateSCP x None])" if "workSecrets s ps" for ps
    proof -
      have "workSecrets s' ps" using that calm by (auto simp: calm_def quiet_def work_defs)
      with x calm show ?thesis by (auto simp: workReady_def calm_def)
    qed
  qed
qed

text \<open>What the steps that ask for another try wait for.\<close>

lemma waits_address:
  fixes env :: "'w env"
  assumes "v_err s = None" "waitAddress env s = (Some (Returns resultOneSecond None), s')"
  shows "waits s'"
proof -
  from track_cases [OF assms(2) [unfolded waitAddress_def]] obtain s0 s1 s2 :: "'w rst" and result where
    c: "core s0 = core s" "v_err s0 = v_err s" "checkEndpoint s0 = (result, s1)" "core s2 = core s1" "v_err s2 = v_err s1" and
    r: "case result of
        Some e \<Rightarrow> if isPanic e then (Some (Returns resultOneSecond None), s') = (Some (Panics e), s2)
          else (Some (Returns resultOneSecond None), s') = (if v_err s2 \<noteq> None then (returns resultOneSecond None, s2) else (None, s2))
      | None \<Rightarrow> (Some (Returns resultOneSecond None), s') = (if v_err s2 \<noteq> None then (returns resultOneSecond None, s2) else (None, s2))"
    by blast
  have s2: "v_err s1 \<noteq> None" "s' = s2" using r c(5) by (cases result; auto split: if_splits)+
  from s2(1) have "tst_ControlPlaneEndpoint (tcp_status (v_tcp s1)) = ''''"
    using c(2,3) assms(1) by (auto simp: checkEndpoint_def Let_def split: if_splits)
  moreover have "v_tcp s' = v_tcp s1" using s2(2) core_eqD(3) [OF c(4)] by simp
  ultimately show ?thesis by (simp add: waits_def Let_def)
qed

lemma waits_tests:
  "validateCluster s = (Some (Returns resultOneSecond None), s') \<Longrightarrow> waits s'"
  "waitInitialized s = (Some (Returns resultOneSecond None), s') \<Longrightarrow> waits s'"
  by (auto simp: validateCluster_def waitInitialized_def waits_def Let_def split: if_splits)

lemma waits_secrets:
  assumes "retryContract (retryOnConflict env)" "noSentinel env" "replicateResources env s = (Some (Returns resultOneSecond None), s')"
  shows "waits s'"
proof -
  from track_requeue [OF assms(3) [unfolded replicateResources_def]] obtain t x t1 where
    c: "core t = core s" "createRequiredResources env (v_remote t) (v_cluster t) (v_scp t) (v_tcp t) t = (Some x, t1)" "core s' = core t1"
      "errors_Is x ErrEnqueueBack" by auto
  have "v_tcp s' = v_tcp t" using requiredResources_quiet [OF assms(1) c(2)] core_eqD(3) [OF c(3)] by simp
  with requiredResources_sentinel [OF assms(1,2) c(4,2)] show ?thesis by (auto simp: waits_def Let_def)
qed

lemma waits_ready:
  assumes "retryContract (retryOnConflict env)" "noSentinel env"
  shows "notWaiting (reportReady env)"
  unfolding notWaiting_def
proof (intro allI notI)
  fix s s'
  assume run: "reportReady env s = (Some (Returns resultOneSecond None), s')"
  obtain t e t1 where "updateStewardControlPlaneStatus env setReady t = (e, t1)"
      "Some (Returns resultOneSecond None) = Some (Returns resultOneSecond None) \<longrightarrow> (\<exists>x. e = Some x \<and> errors_Is x ErrEnqueueBack)"
    by (rule reportReady_cases [OF assms(1) run])
  with updateStatus_sentinel [OF assms] show False by auto
qed

section \<open>The whole run\<close>

lemma refreshCluster_ends:
  "triple (stage workEndpoint s0) (refreshCluster env) (stage workEndpoint s0) (ends s0)"
proof (rule tripleI)
  fix s s'
  assume st: "stage workEndpoint s0 s" and run: "refreshCluster env s = (None, s')"
  have rem: "v_remote s' = v_remote s"
    using run by (auto simp: refreshCluster_def fetchCluster_def logged_def split: prod.splits sum.splits if_splits)
  have "extends (\<lambda>c. \<exists>k x. c = GetCluster k x) s s'"
    using fetchCluster_extends [of s env "nsname (cl_meta (v_cluster s))"] run by (simp add: refreshCluster_def)
  from stage_keep [OF st this] work_remote(2) [OF rem] show "stage workEndpoint s0 s'" by simp
next
  fix s s' r
  assume st: "stage workEndpoint s0 s" and "refreshCluster env s = (Some r, s')"
  then have "r \<noteq> Returns resultOneSecond None"
      "r = Returns resultEmpty None \<Longrightarrow> \<exists>k e. calls s' = calls s @ [GetCluster k (Some e)] \<and> isNotFound e"
    by (auto simp: refreshCluster_def fetchCluster_def logged_def nsname_def split: prod.splits sum.splits if_splits)
  moreover from st obtain cs where "calls s = calls s0 @ cs" by (auto simp: stage_def did_def)
  ultimately show "ends s0 r s'" by (auto simp: ends_def gone_def)
qed

lemma body_ends:
  fixes env :: "'w env"
  assumes con: "retryContract (retryOnConflict env)" "secretOwnerContract env" "secretNameContract env" and ns: "noSentinel env"
  shows "triple (extends (\<lambda>_. True) s0) (run_steps (body env)) (\<lambda>_. False) (ends s0)"
proof -
  note rc = con(1)
  let ?any = "extends (\<lambda>_. True) s0"
  let ?step = "\<lambda>P f Q. triple P f Q (ends s0)"
  have keep: "?step (stage pat s0) f (stage pat s0)"
    if "notDone f" "\<And>s s'. f s = (Some (Returns resultOneSecond None), s') \<Longrightarrow> waits s'" "\<And>s. calm P s (snd (f s))"
      "pat = workTCP \<or> pat = workEndpoint \<or> pat = workStatus \<or> pat = workSecrets" for pat f P
    by (rule triple_ends [OF that(1,2)]) (use calm_stage [OF that(3,4)] in fastforce)+
  have find_external: "?step ?any (findExternalCluster env) ?any"
    by (rule triple_plain [OF results_steps(1,2)])
      (use findExternalCluster_extends [OF rc] in \<open>metis (no_types, lifting) extends_trans extends_weaken snd_conv\<close>)
  have tcp: "?step ?any (reconcileTCP env) (\<lambda>s. stage workTCP s0 s \<and> v_err s = None)"
    by (rule triple_plain [OF results_steps(3,4)]) (use passes_reconcileTCP [OF rc] in blast)
  have wait_address: "?step (\<lambda>s. stage workTCP s0 s \<and> v_err s = None) (waitAddress env) (stage workTCP s0)"
  proof (rule triple_ends [OF results_steps(5)])
    fix s s'
    assume s: "stage workTCP s0 s \<and> v_err s = None"
    then show "waitAddress env s = (Some (Returns resultOneSecond None), s') \<Longrightarrow> waits s'" using waits_address by blast
    show "stage workTCP s0 s'" if "waitAddress env s = (None, s')"
      using calm_stage [OF calm_waitAddress [of s env], of workTCP s0] s that by simp
  qed
  have publish: "?step (stage workTCP s0) (publishEndpoint env) (stage workEndpoint s0)"
    by (rule triple_plain [OF results_steps(6,7)]) (rule passes_publishEndpoint)
  have infra: "?step (stage workEndpoint s0) (patchInfrastructure env) (stage workEndpoint s0)"
    by (rule keep [OF results_steps(8) _ calm_patchInfrastructure]) (use results_steps(9) [of env] in \<open>auto simp: notWaiting_def\<close>)
  have validate: "?step (stage workEndpoint s0) validateCluster (stage workEndpoint s0)"
    by (rule keep [OF results_tests(4) waits_tests(1) calm_tests(3)]) auto
  have init: "?step (stage workEndpoint s0) (initialize env) (stage workEndpoint s0)"
    by (rule keep [OF results_steps(10) _ calm_status_steps(1) [OF rc]]) (use results_steps(11) [of env] in \<open>auto simp: notWaiting_def\<close>)
  have waiti: "?step (stage workEndpoint s0) waitInitialized (stage workEndpoint s0)"
    by (rule keep [OF results_tests(5) waits_tests(2) calm_tests(4)]) auto
  have scaling: "?step (stage workEndpoint s0) (reportScaling env) (stage workStatus s0)"
    by (rule triple_plain [OF results_steps(12,13)]) (rule passes_reportScaling [OF rc])
  have reporti: "?step (stage workStatus s0) (reportInitialized env) (stage workStatus s0)"
    by (rule keep [OF results_steps(14) _ calm_status_steps(3) [OF rc]]) (use results_steps(15) [of env] in \<open>auto simp: notWaiting_def\<close>)
  have secrets: "?step (stage workStatus s0) (replicateResources env) (stage workSecrets s0)"
    by (rule triple_ends [OF results_steps(16)]) (rule waits_secrets [OF rc ns], assumption, rule passes_replicateResources [OF con])
  have ready: "?step (stage workSecrets s0) (reportReady env) (stage workReady s0)"
    by (rule triple_plain [OF results_steps(17) waits_ready [OF rc ns]]) (rule passes_reportReady [OF rc])
  have final: "?step (stage workReady s0) (run_steps [complete]) (\<lambda>_. False)"
    by (simp add: triple_def complete_def ends_def)
  show ?thesis
    unfolding body_def
    by (intro triple_Cons [OF find_external] triple_Cons [OF tcp] triple_Cons [OF wait_address] triple_Cons [OF publish]
        triple_Cons [OF refreshCluster_ends] triple_Cons [OF infra] triple_Cons [OF validate] triple_Cons [OF init]
        triple_Cons [OF waiti] triple_Cons [OF scaling] triple_Cons [OF reporti] triple_Cons [OF secrets] triple_Cons [OF ready] final)
qed

section \<open>Properties\<close>

text \<open>
  (C4) A reconciliation that has got to work does not claim more than it has done. If it ends with success, then the Cluster was found to be gone when it was read
  again, or these calls have succeeded in this order: the \<open>TenantControlPlane\<close> was created or updated, in the cluster of the remote client if there is one, the endpoint was
  published, the status reported, the kubeconfig and the CA written under the name of the Cluster, and the readiness reported, as ready exactly if the
  version status is \<open>Ready\<close> or \<open>Upgrading\<close>. If it asks for another try in one second, then something is missing that
  another controller provides: the endpoint, the version status or the name of a Secret in the status of the \<open>TenantControlPlane\<close>, the endpoint or the infrastructure of
  the Cluster, or the control plane is not initialized. An error never comes with a delay.
\<close>

theorem Reconcile_reports_its_work:
  assumes con: "retryContract (retryOnConflict env)" "secretOwnerContract env" "secretNameContract env" and ns: "noSentinel env"
    and pro: "run_steps (prologue env req) s = (None, s1)" and bod: "run_steps (body env) s1 = (r2, s2)"
    and run: "Reconcile env req s = (Some out, s')" and new: "calls s2 = calls s1 @ new"
  shows "(out = Returns \<lparr>RequeueAfter = None\<rparr> None \<longrightarrow>
      (\<exists>k e. last new = GetCluster k (Some e) \<and> isNotFound e) \<or>
      (\<exists>k a b x y. subseq
         [CreateOrUpdateTCP (case v_remote s2 of None \<Rightarrow> Management | Some m \<Rightarrow> Remote m) k None,
          PatchSCP a b None,
          StatusUpdateSCP x None,
          CreateOrUpdateSecret (om_Namespace (cl_meta (v_cluster s2)), om_Name (cl_meta (v_cluster s2)) @ ''-kubeconfig'') None,
          CreateOrUpdateSecret (om_Namespace (cl_meta (v_cluster s2)), om_Name (cl_meta (v_cluster s2)) @ ''-ca'') None,
          StatusUpdateSCP y None] new \<and>
         (Ready (scp_Status y) \<longleftrightarrow> tst_VersionStatus (tcp_status (v_tcp s2)) = Some VersionReady \<or>
            tst_VersionStatus (tcp_status (v_tcp s2)) = Some VersionUpgrading))) \<and>
    (out = Returns \<lparr>RequeueAfter = Some 1\<rparr> None \<longrightarrow>
      tst_ControlPlaneEndpoint (tcp_status (v_tcp s2)) = '''' \<or> tst_VersionStatus (tcp_status (v_tcp s2)) = None \<or>
      tst_AdminSecretName (tcp_status (v_tcp s2)) = '''' \<or> tst_CASecretName (tcp_status (v_tcp s2)) = '''' \<or>
      ep_Host (cl_ControlPlaneEndpoint (v_cluster s2)) = '''' \<or> \<not> cl_InfrastructureReady (v_cluster s2) \<or>
      \<not> Initialized (scp_Status (v_scp s2))) \<and>
    (\<forall>res e. out = Returns res (Some e) \<longrightarrow> res = \<lparr>RequeueAfter = None\<rparr>)"
proof -
  have r2: "r2 = Some out" using run pro bod by (simp add: Reconcile_def)
  have "extends (\<lambda>_. True) s1 s1" by simp
  with tripleD_Some [OF body_ends [OF con ns] _ bod [unfolded r2]] have e: "ends s1 out s2" .
  have "gone s1 s2 \<Longrightarrow> \<exists>k e. last new = GetCluster k (Some e) \<and> isNotFound e"
    using new by (auto simp: gone_def)
  moreover have "\<exists>k a b x y. subseq [CreateOrUpdateTCP (targetOf (v_remote s2)) k None, PatchSCP a b None, StatusUpdateSCP x None,
      clusterSecret s2 ''-kubeconfig'', clusterSecret s2 ''-ca'', StatusUpdateSCP y None] new \<and>
      Ready (scp_Status y) = serving (tst_VersionStatus (tcp_status (v_tcp s2)))" if "stage workReady s1 s2"
    using that new unfolding stage_def did_def workReady_def workSecrets_def workStatus_def workEndpoint_def workTCP_def by fastforce
  moreover have "\<forall>res e. out = Returns res (Some e) \<longrightarrow> res = \<lparr>RequeueAfter = None\<rparr>"
    using Reconcile_outcome [of env req s] run by auto
  ultimately show ?thesis
    using e unfolding ends_def waits_def Let_def serving_def clusterSecret_def targetOf_def resultEmpty_def resultOneSecond_def
    by blast
qed

section \<open>Witnesses\<close>

lemma liveEnv_contracts:
  "retryContract (retryOnConflict liveEnv)" "secretOwnerContract liveEnv" "secretNameContract liveEnv" "noSentinel liveEnv"
proof -
  have client: "k_createOrUpdateSecret liveClient = k_createOrUpdateSecret sampleClient" by (simp add: liveClient_def)
  show "retryContract (retryOnConflict liveEnv)" by (simp add: boundedRetry_contract)
  show "secretOwnerContract liveEnv" by (rule servesLibraryD(2) [OF live_servesLibrary])
  show "secretNameContract liveEnv"
    using sample_secretNameContract by (simp add: secretNameContract_def client sampleEnv_def)
  have "\<not> errors_Is e ErrEnqueueBack"
    if "sampleCreateOrUpdate key m x f = ((Some e, y), m')" "\<forall>z d z'. f z = (Some d, z') \<longrightarrow> \<not> errors_Is d ErrEnqueueBack"
    for key m and x y :: Secret and f e m'
    using that by (auto simp: sampleCreateOrUpdate_def split: prod.splits option.splits)
  then have cou: "\<not> errors_Is e ErrEnqueueBack"
    if "k_createOrUpdateSecret liveClient x f w = ((Some e, y), w')" "\<forall>z d z'. f z = (Some d, z') \<longrightarrow> \<not> errors_Is d ErrEnqueueBack" for x f w e y w'
    using that by (auto simp: client sampleClient_def split: prod.splits)
  show "noSentinel liveEnv"
    unfolding noSentinel_def
  proof (intro conjI allI impI)
    show "\<not> errors_Is e ErrEnqueueBack" if "k_createOrUpdateSecret (r_client liveEnv) x f w = ((Some e, y), w')"
      "\<forall>z d z'. f z = (Some d, z') \<longrightarrow> \<not> errors_Is d ErrEnqueueBack" for x f w e y w'
      using cou that by simp
  qed (auto simp: liveClient_def sampleClient_def found_def storeSCP_def liveOwner_def split: option.splits if_splits)
qed

theorem Reconcile_reports_its_work_witness:
  "\<exists>s1 s2 new. run_steps (prologue liveEnv (''team'', ''cp'')) (startState (liveMem runSCP) remoteStore) = (None, s1) \<and>
     run_steps (body liveEnv) s1 = (Some (Returns \<lparr>RequeueAfter = None\<rparr> None), s2) \<and> calls s2 = calls s1 @ new \<and>
     ((\<exists>k e. last new = GetCluster k (Some e) \<and> isNotFound e) \<or>
      (\<exists>k a b x y. subseq
         [CreateOrUpdateTCP (case v_remote s2 of None \<Rightarrow> Management | Some m \<Rightarrow> Remote m) k None, PatchSCP a b None, StatusUpdateSCP x None,
          CreateOrUpdateSecret (om_Namespace (cl_meta (v_cluster s2)), om_Name (cl_meta (v_cluster s2)) @ ''-kubeconfig'') None,
          CreateOrUpdateSecret (om_Namespace (cl_meta (v_cluster s2)), om_Name (cl_meta (v_cluster s2)) @ ''-ca'') None,
          StatusUpdateSCP y None] new))"
proof -
  let ?s = "startState (liveMem runSCP) remoteStore"
  have h: "healthy liveEnv (liveWorld runSCP) (Some 1) runSCP"
    by (rule live_healthy [OF live_samples(2)]) (simp add: runSCP_def remoteSCP_def)
  have key: "scp_key runSCP = (''team'', ''cp'')" using live_samples(2) by (simp add: live_def)
  have s: "liveWorld runSCP (world ?s)" "v_remote ?s = None" "mstore ?s = remoteStore"
    using live_start(2) by (simp_all add: startState_def)
  from prologue_through [OF h s(1,2)] key s(3) obtain s1 where
    pro: "run_steps (prologue liveEnv (''team'', ''cp'')) ?s = (None, s1)" and
    l: "linked liveEnv (liveWorld runSCP) None runSCP ?s [] s1 \<and> mstore s1 = remoteStore" by auto
  obtain r s2 where bod: "run_steps (body liveEnv) s1 = (r, s2)" by fastforce
  have r: "r = Some (Returns \<lparr>RequeueAfter = None\<rparr> None)"
    using bod tripleD_None [OF body_through [OF h remote_located] l] tripleD_Some [OF body_through [OF h remote_located] l]
    by (cases r) (auto simp: resultEmpty_def)
  have "extends (\<lambda>_. True) s1 (snd (run_steps (body liveEnv) s1))"
    by (rule run_steps_extends) (rule step_extends [OF liveEnv_contracts(1)])
  with bod obtain new where new: "calls s2 = calls s1 @ new" by (auto simp: extends_def)
  have "Reconcile liveEnv (''team'', ''cp'') ?s = (Some (Returns \<lparr>RequeueAfter = None\<rparr> None), deferredUpdate liveEnv s2)"
    using pro bod r by (simp add: Reconcile_def)
  from Reconcile_reports_its_work [OF liveEnv_contracts pro bod this new, THEN conjunct1] pro bod r new show ?thesis by blast
qed

end
