(* ===== verification/External_Cluster_Reconciler.thy ===== *)
theory External_Cluster_Reconciler
  imports Indexers External_Store
begin

text \<open>
  \<open>controllers/externalclusterreference_controller.go\<close>: the reconciler of the Secrets that hold
  kubeconfigs. It keeps one manager per data entry that some \<open>StewardControlPlane\<close> refers to, in the store
  that the \<open>StewardControlPlane\<close> reconciler reads; a controller on each manager pushes changes of
  remote \<open>TenantControlPlane\<close>s back.

  \<open>ecrOps\<close> holds what the code calls of other modules: the client of the management cluster with the
  field indexes, \<open>clientcmd.RESTConfigFromKubeConfig\<close>, \<open>ctrl.NewManager\<close>, the builder of the push
  controller and \<open>context.WithCancel\<close>. In the state, \<open>e_listed\<close> records what each \<open>List\<close> by
  field returned and \<open>e_started\<close> the goroutines started with \<open>go r.startManager(mgrCtx, mgr, key)\<close>.
\<close>

type_synonym restConfig = string

record 'w ecrOps =
  x_getSecret :: "NamespacedName \<Rightarrow> 'w \<Rightarrow> (error + Secret) \<times> 'w"
  x_listSCPs :: "string \<Rightarrow> string \<Rightarrow> 'w \<Rightarrow> (error + StewardControlPlane list) \<times> 'w"
  x_listSecrets :: "string \<Rightarrow> string \<Rightarrow> 'w \<Rightarrow> (error + Secret list) \<times> 'w"
  x_RESTConfigFromKubeConfig :: "bytes option \<Rightarrow> error + restConfig"
  x_NewManager :: "restConfig \<Rightarrow> 'w \<Rightarrow> (error + Manager) \<times> 'w"
  x_setupPush :: "Manager \<Rightarrow> 'w \<Rightarrow> error option \<times> 'w"
  x_WithCancel :: "'w \<Rightarrow> CancelFunc \<times> 'w"

record started =
  g_Manager :: Manager
  g_Name :: string
  g_Cancel :: CancelFunc

record 'w ecrState =
  e_world :: 'w
  e_store :: mapStore
  e_listed :: "(string \<times> StewardControlPlane list) list"
  e_started :: "started list"

section \<open>Reconcile\<close>

text \<open>The first loop: the entries that are referenced; the manager of any other one is stopped.\<close>

fun collectKeys :: "'w ecrOps \<Rightarrow> string list \<Rightarrow> 'w ecrState \<Rightarrow> (error + string list) \<times> 'w ecrState" where
  "collectKeys r [] s = (Inr [], s)"
| "collectKeys r (key # rest) s =
     (case x_listSCPs r ExternalClusterReferenceStewardControlPlaneField key (e_world s) of
        (Inl e, w) \<Rightarrow> (Inl e, s\<lparr>e_world := w\<rparr>)
      | (Inr items, w) \<Rightarrow>
          let s1 = s\<lparr>e_world := w, e_listed := e_listed s @ [(key, items)]\<rparr>
          in if items = []
             then collectKeys r rest (s1\<lparr>e_store := snd (store_Stop (e_store s1) key)\<rparr>)
             else (case collectKeys r rest s1 of
                     (Inl e, s2) \<Rightarrow> (Inl e, s2)
                   | (Inr keys, s2) \<Rightarrow> (Inr (key # keys), s2)))"

text \<open>
  \<open>secret.Data[strings.Split(key, "/")[2]]\<close>: an index out of range is a panic, an absent entry of the
  map is nil.
\<close>

definition entryOf :: "Secret \<Rightarrow> string \<Rightarrow> error + bytes option" where
  "entryOf secret key =
     (let parts = splitOn CHR ''/'' key
      in if length parts \<le> 2 then Inl (ErrPanic ''index out of range'')
         else Inr (case map_of (secret_data secret) (parts ! 2) of None \<Rightarrow> None | Some v \<Rightarrow> v))"

text \<open>The body of the second loop. The order of the source: stop, configure, build, start, add.\<close>

definition loadManager :: "'w ecrOps \<Rightarrow> Secret \<Rightarrow> string \<Rightarrow> 'w ecrState \<Rightarrow> error option \<times> 'w ecrState" where
  "loadManager r secret key s =
     (let rv = om_ResourceVersion (sec_meta secret)
      in if snd (store_Get (e_store s) key rv) then (None, s)
         else
           let s1 = s\<lparr>e_store := snd (store_Stop (e_store s) key)\<rparr>
           in case entryOf secret key of
                Inl p \<Rightarrow> (Some p, s1)
              | Inr kubeconfig \<Rightarrow>
                  (case x_RESTConfigFromKubeConfig r kubeconfig of
                     Inl e \<Rightarrow> (Some e, s1)
                   | Inr cfg \<Rightarrow>
                       (case x_NewManager r cfg (e_world s1) of
                          (Inl e, w) \<Rightarrow> (Some e, s1\<lparr>e_world := w\<rparr>)
                        | (Inr mgr, w) \<Rightarrow>
                            (case x_setupPush r mgr w of
                               (Some e, w1) \<Rightarrow> (Some e, s1\<lparr>e_world := w1\<rparr>)
                             | (None, w1) \<Rightarrow>
                                 (case x_WithCancel r w1 of
                                    (cancelFn, w2) \<Rightarrow>
                                      (None, s1\<lparr>e_world := w2,
                                         e_started := e_started s1 @
                                           [\<lparr>g_Manager = mgr, g_Name = key, g_Cancel = cancelFn\<rparr>],
                                         e_store := snd (store_Add (e_store s1) key rv mgr cancelFn)\<rparr>))))))"

fun loadManagers :: "'w ecrOps \<Rightarrow> Secret \<Rightarrow> string list \<Rightarrow> 'w ecrState \<Rightarrow> error option \<times> 'w ecrState" where
  "loadManagers r secret [] s = (None, s)"
| "loadManagers r secret (key # keys) s =
     (case loadManager r secret key s of
        (Some e, s1) \<Rightarrow> (Some e, s1)
      | (None, s1) \<Rightarrow> loadManagers r secret keys s1)"

text \<open>
  \<open>Reconcile\<close>. The result is always the empty \<open>ctrl.Result\<close>, so only the error is returned.
\<close>

definition ECR_Reconcile :: "'w ecrOps \<Rightarrow> NamespacedName \<Rightarrow> 'w ecrState \<Rightarrow> error option \<times> 'w ecrState" where
  "ECR_Reconcile r req s =
     (case x_getSecret r req (e_world s) of
        (Inl e, w) \<Rightarrow> (if isNotFound e then None else Some e, s\<lparr>e_world := w\<rparr>)
      | (Inr secret, w) \<Rightarrow>
          (case collectKeys r (GenerateKeyNameFromSecret secret) (s\<lparr>e_world := w\<rparr>) of
             (Inl e, s1) \<Rightarrow> (Some e, s1)
           | (Inr keys, s1) \<Rightarrow> loadManagers r secret keys s1))"

text \<open>\<open>startManager\<close>, given how \<open>mgr.Start\<close> ended.\<close>

definition startManager :: "error option \<Rightarrow> string \<Rightarrow> mapStore \<Rightarrow> mapStore" where
  "startManager mgrErr name m = (if mgrErr \<noteq> None then snd (store_Stop m name) else m)"

section \<open>The watch on control planes\<close>

definition getSecretFromStewardControlPlaneReferences ::
  "'w ecrOps \<Rightarrow> StewardControlPlane \<Rightarrow> 'w \<Rightarrow> Secret list option \<times> 'w" where
  "getSecretFromStewardControlPlaneReferences r scp w =
     (case GenerateKeyNameFromSteward scp of
        None \<Rightarrow> (None, w)
      | Some val \<Rightarrow>
          (case x_listSecrets r ExternalClusterReferenceSecretField val w of
             (Inl e, w1) \<Rightarrow> (Some [], w1)
           | (Inr items, w1) \<Rightarrow> (Some items, w1)))"

text \<open>
  The map function of \<open>SetupWithManager\<close>: the requests that a change of a control plane causes.
  (\<open>None\<close>, the nil dereference in the function above, cannot come up after the test.)
\<close>

definition secretRequests :: "'w ecrOps \<Rightarrow> StewardControlPlane \<Rightarrow> 'w \<Rightarrow> NamespacedName list \<times> 'w" where
  "secretRequests r scp w =
     (if scp_ecr scp = None then ([], w)
      else (case getSecretFromStewardControlPlaneReferences r scp w of
              (secrets, w1) \<Rightarrow>
                (map (\<lambda>x. (om_Namespace (sec_meta x), om_Name (sec_meta x)))
                   (case secrets of None \<Rightarrow> [] | Some xs \<Rightarrow> xs), w1)))"

section \<open>PushStewardChange\<close>

text \<open>
  \<open>p_getTCP\<close> is the client of the remote manager, \<open>p_listSCPs\<close> the parent client. A send on the trigger channel
  is appended to the events sent.
\<close>

record 'w pushOps =
  p_getTCP :: "NamespacedName \<Rightarrow> 'w \<Rightarrow> (error + TenantControlPlane) \<times> 'w"
  p_listSCPs :: "string \<Rightarrow> string \<Rightarrow> 'w \<Rightarrow> (error + StewardControlPlane list) \<times> 'w"

definition PushStewardChange_Reconcile ::
  "'w pushOps \<Rightarrow> NamespacedName \<Rightarrow> 'w \<times> NamespacedName list \<Rightarrow> error option \<times> ('w \<times> NamespacedName list)" where
  "PushStewardChange_Reconcile p request s =
     (case s of (w, sent) \<Rightarrow>
        (case p_getTCP p request w of
           (Inl e, w1) \<Rightarrow> (if isNotFound e then None else Some e, (w1, sent))
         | (Inr tcp, w1) \<Rightarrow>
             let value = ParseStewardControlPlaneUIDFromTenantControlPlane tcp
             in if value = '''' then (None, (w1, sent))
                else (case p_listSCPs p StewardControlPlaneUIDField value w1 of
                        (Inl e, w2) \<Rightarrow> (Some e, (w2, sent))
                      | (Inr items, w2) \<Rightarrow>
                          (None, (w2, sent @ map (\<lambda>scp. (om_Namespace (scp_meta scp), om_Name (scp_meta scp))) items)))))"

section \<open>Lemmas on the loops\<close>

text \<open>What the store holds, up to the identity of the managers.\<close>

definition versions :: "mapStore \<Rightarrow> string \<rightharpoonup> string" where
  "versions m k = map_option inst_ResourceVersion (ms_store m k)"

lemma store_Get_versions: "snd (store_Get m k rv) \<longleftrightarrow> versions m k = Some rv"
  by (auto simp: mapstore.get_spec versions_def split: option.splits)

definition referenced :: "(string \<times> StewardControlPlane list) list \<Rightarrow> string list" where
  "referenced new = map fst (filter (\<lambda>(k, items). items \<noteq> []) new)"

lemma collectKeys_cases:
  "collectKeys r ks s = (res, s') \<Longrightarrow>
   \<exists>new. e_listed s' = e_listed s @ new \<and> e_started s' = e_started s \<and>
     ms_store (e_store s') = ms_store (e_store s) |` {k. (k, []) \<notin> set new} \<and>
     (case res of Inl e \<Rightarrow> True | Inr keys \<Rightarrow> map fst new = ks \<and> keys = referenced new)"
proof (induction ks arbitrary: s s' res)
  case Nil
  then show ?case by (auto simp: referenced_def)
next
  case (Cons k ks)
  obtain x w where l: "x_listSCPs r ExternalClusterReferenceStewardControlPlaneField k (e_world s) = (x, w)"
    by fastforce
  show ?case
  proof (cases x)
    case (Inl e)
    with Cons.prems l show ?thesis by auto
  next
    case (Inr items)
    let ?s1 = "s\<lparr>e_world := w, e_listed := e_listed s @ [(k, items)]\<rparr>"
    let ?s2 = "if items = [] then ?s1\<lparr>e_store := snd (store_Stop (e_store s) k)\<rparr> else ?s1"
    obtain res1 s3 where rest: "collectKeys r ks ?s2 = (res1, s3)" by fastforce
    have s': "s' = s3" "res = (if items = [] then res1 else map_sum id ((#) k) res1)"
      using Cons.prems l Inr rest by (auto split: if_splits sum.splits)
    from Cons.IH [OF rest] obtain new where new: "e_listed s3 = e_listed ?s2 @ new" "e_started s3 = e_started ?s2"
      "ms_store (e_store s3) = ms_store (e_store ?s2) |` {k. (k, []) \<notin> set new}"
      "case res1 of Inl e \<Rightarrow> True | Inr keys \<Rightarrow> map fst new = ks \<and> keys = referenced new" by blast
    show ?thesis
      by (intro exI [of _ "(k, items) # new"])
        (use new in \<open>auto simp: s' referenced_def mapstore.stop_entries restrict_map_def fun_eq_iff split: sum.splits if_splits\<close>)
  qed
qed

lemma collectKeys_from:
  assumes "collectKeys r ks (s\<lparr>e_world := w\<rparr>) = (res, s')"
  obtains new where "e_listed s' = e_listed s @ new" "e_started s' = e_started s"
    "ms_store (e_store s') = ms_store (e_store s) |` {k. (k, []) \<notin> set new}"
    "\<And>keys. res = Inr keys \<Longrightarrow> keys = referenced new"
  using collectKeys_cases [OF assms] by (cases res) auto

text \<open>One turn of the second loop: current already, failed after the stop, or replaced.\<close>

lemma loadManager_cases:
  assumes "loadManager r secret k s = (x, s')"
  shows "e_listed s' = e_listed s \<and>
    (if versions (e_store s) k = Some (om_ResourceVersion (sec_meta secret)) then x = None \<and> s' = s
     else if x \<noteq> None then ms_store (e_store s') = (ms_store (e_store s))(k := None) \<and> e_started s' = e_started s
     else \<exists>m c. e_started s' = e_started s @ [\<lparr>g_Manager = m, g_Name = k, g_Cancel = c\<rparr>] \<and>
       ms_store (e_store s') = (ms_store (e_store s))(k \<mapsto>
         \<lparr>inst_ResourceVersion = om_ResourceVersion (sec_meta secret), inst_Manager = m, inst_StopFunc = c\<rparr>))"
  using assms
  by (auto simp: loadManager_def Let_def store_Get_versions mapstore.replace_entries mapstore.stop_entries
      split: if_splits sum.splits prod.splits option.splits)

text \<open>A current manager is not touched.\<close>

lemma loadManager_keeps:
  assumes "loadManager r secret k s = (x, s')" "ms_store (e_store s) n = Some i"
    and "inst_ResourceVersion i = om_ResourceVersion (sec_meta secret)"
  shows "ms_store (e_store s') n = Some i"
proof (cases "n = k")
  case True
  with assms(2,3) have "versions (e_store s) k = Some (om_ResourceVersion (sec_meta secret))"
    by (simp add: versions_def)
  with loadManager_cases [OF assms(1)] assms(2) show ?thesis by simp
next
  case False
  with loadManager_cases [OF assms(1)] assms(2) show ?thesis by (auto split: if_splits)
qed

lemma loadManagers_keeps:
  "loadManagers r secret ks s = (x, s') \<Longrightarrow> ms_store (e_store s) n = Some i \<Longrightarrow>
   inst_ResourceVersion i = om_ResourceVersion (sec_meta secret) \<Longrightarrow> ms_store (e_store s') n = Some i"
proof (induction ks arbitrary: s)
  case (Cons k ks)
  obtain y s1 where l: "loadManager r secret k s = (y, s1)" by fastforce
  from loadManager_keeps [OF l Cons.prems(2,3)] Cons.IH [OF _ _ Cons.prems(3)] Cons.prems(1) l show ?case
    by (cases y) auto
qed simp

lemma loadManagers_frame:
  "loadManagers r secret ks s = (x, s') \<Longrightarrow>
   e_listed s' = e_listed s \<and> (\<forall>n. n \<notin> set ks \<longrightarrow> ms_store (e_store s') n = ms_store (e_store s) n)"
proof (induction ks arbitrary: s)
  case (Cons k ks)
  obtain y s1 where l: "loadManager r secret k s = (y, s1)" by fastforce
  have one: "e_listed s1 = e_listed s \<and> (\<forall>n. n \<noteq> k \<longrightarrow> ms_store (e_store s1) n = ms_store (e_store s) n)"
    using loadManager_cases [OF l] by (auto split: if_splits)
  with Cons.IH [of s1] Cons.prems l show ?case by (cases y) auto
qed simp

lemma loadManagers_current:
  "loadManagers r secret ks s = (None, s') \<Longrightarrow> k \<in> set ks \<Longrightarrow>
   versions (e_store s') k = Some (om_ResourceVersion (sec_meta secret))"
proof (induction ks arbitrary: s)
  case (Cons n ks)
  obtain s1 where l: "loadManager r secret n s = (None, s1)" and rest: "loadManagers r secret ks s1 = (None, s')"
    using Cons.prems(1) by (auto split: prod.splits option.splits)
  have "versions (e_store s1) n = Some (om_ResourceVersion (sec_meta secret))"
    using loadManager_cases [OF l] by (auto simp: versions_def split: if_splits)
  then obtain i where "ms_store (e_store s1) n = Some i" "inst_ResourceVersion i = om_ResourceVersion (sec_meta secret)"
    by (auto simp: versions_def)
  from loadManagers_keeps [OF rest this] this(2) Cons.IH [OF rest] Cons.prems(2) show ?case
    by (auto simp: versions_def)
qed simp

text \<open>Every manager started is the one in the store under its name; other entries were there before.\<close>

definition storedAs :: "string \<Rightarrow> started \<Rightarrow> inst" where
  "storedAs rv g = \<lparr>inst_ResourceVersion = rv, inst_Manager = g_Manager g, inst_StopFunc = g_Cancel g\<rparr>"

lemma loadManagers_started:
  "loadManagers r secret ks s = (x, s') \<Longrightarrow>
   \<exists>new. e_started s' = e_started s @ new \<and> g_Name ` set new \<subseteq> set ks \<and>
     (\<forall>g \<in> set new. ms_store (e_store s') (g_Name g) = Some (storedAs (om_ResourceVersion (sec_meta secret)) g)) \<and>
     (\<forall>n i. ms_store (e_store s') n = Some i \<longrightarrow> ms_store (e_store s) n = Some i \<or> n \<in> g_Name ` set new)"
proof (induction ks arbitrary: s)
  case (Cons k ks)
  let ?rv = "om_ResourceVersion (sec_meta secret)"
  obtain y s1 where l: "loadManager r secret k s = (y, s1)" by fastforce
  note one = loadManager_cases [OF l]
  show ?case
  proof (cases y)
    case (Some e)
    with Cons.prems l one show ?thesis by (auto split: if_splits)
  next
    case None
    with Cons.prems l have rest: "loadManagers r secret ks s1 = (x, s')" by simp
    from Cons.IH [OF this] obtain new where new: "e_started s' = e_started s1 @ new" "g_Name ` set new \<subseteq> set ks"
      "\<forall>g \<in> set new. ms_store (e_store s') (g_Name g) = Some (storedAs ?rv g)"
      "\<forall>n i. ms_store (e_store s') n = Some i \<longrightarrow> ms_store (e_store s1) n = Some i \<or> n \<in> g_Name ` set new" by blast
    show ?thesis
    proof (cases "versions (e_store s) k = Some ?rv")
      case True
      with one have "s1 = s" by simp
      with new show ?thesis by auto
    next
      case False
      with one None obtain m c where
        g: "e_started s1 = e_started s @ [\<lparr>g_Manager = m, g_Name = k, g_Cancel = c\<rparr>]"
        "ms_store (e_store s1) = (ms_store (e_store s))(k \<mapsto>
          \<lparr>inst_ResourceVersion = ?rv, inst_Manager = m, inst_StopFunc = c\<rparr>)" by auto
      have k: "ms_store (e_store s') k = Some \<lparr>inst_ResourceVersion = ?rv, inst_Manager = m, inst_StopFunc = c\<rparr>"
        by (rule loadManagers_keeps [OF rest]) (simp_all add: g)
      show ?thesis
        by (intro exI [of _ "\<lparr>g_Manager = m, g_Name = k, g_Cancel = c\<rparr> # new"])
          (use new g k in \<open>auto simp: storedAs_def split: if_splits\<close>)
    qed
  qed
qed simp

section \<open>Properties\<close>

text \<open>
  The abstract store maps an entry to the version of the Secret its manager was built from. What a reconciliation
  is to do: an entry of the Secret has a manager of the Secret's version if it is referenced and none
  otherwise; nothing else changes.
\<close>

definition syncVersions ::
  "string list \<Rightarrow> string list \<Rightarrow> string \<Rightarrow> (string \<rightharpoonup> string) \<Rightarrow> string \<rightharpoonup> string" where
  "syncVersions keys refs rv v =
     (\<lambda>k. if k \<in> set keys then (if k \<in> set refs then Some rv else None) else v k)"

lemma not_referenced_iff:
  assumes "distinct (map fst new)" "k \<in> fst ` set new"
  shows "k \<notin> set (referenced new) \<longleftrightarrow> (k, []) \<in> set new"
proof -
  from assms(2) obtain items where i: "(k, items) \<in> set new" by force
  with assms(1) have "(k, it) \<in> set new \<longleftrightarrow> it = items" for it by (meson eq_key_imp_eq_value)
  with i show ?thesis by (auto simp: referenced_def image_iff)
qed

lemma ECR_sync:
  assumes get: "x_getSecret r req (e_world s) = (Inr secret, w)" and named: "secretNamed secret"
    and run: "ECR_Reconcile r req s = (None, s')" and new: "e_listed s' = e_listed s @ new"
  shows "map fst new = GenerateKeyNameFromSecret secret \<and>
    versions (e_store s') = syncVersions (GenerateKeyNameFromSecret secret) (referenced new)
      (om_ResourceVersion (sec_meta secret)) (versions (e_store s))"
proof -
  let ?keys = "GenerateKeyNameFromSecret secret" and ?rv = "om_ResourceVersion (sec_meta secret)"
  from run get obtain keys s1 where c: "collectKeys r ?keys (s\<lparr>e_world := w\<rparr>) = (Inr keys, s1)"
    and l: "loadManagers r secret keys s1 = (None, s')"
    by (auto simp: ECR_Reconcile_def split: prod.splits sum.splits)
  from collectKeys_cases [OF c] loadManagers_frame [OF l] new have
    keys: "map fst new = ?keys" "keys = referenced new" and
    st: "ms_store (e_store s1) = ms_store (e_store s) |` {k. (k, []) \<notin> set new}"
    by auto
  have d: "distinct (map fst new)" using distinct_secret_keys [OF named] keys(1) by simp
  have "versions (e_store s') k = syncVersions ?keys (referenced new) ?rv (versions (e_store s)) k" for k
  proof (cases "k \<in> set (referenced new)")
    case True
    with loadManagers_current [OF l] keys have "versions (e_store s') k = Some ?rv" by simp
    moreover from True keys(1) have "k \<in> set ?keys"
      by (metis (no_types, lifting) filter_is_subset image_mono image_set referenced_def subsetD)
    ultimately show ?thesis using True by (simp add: syncVersions_def)
  next
    case False
    with loadManagers_frame [OF l] keys have "versions (e_store s') k = versions (e_store s1) k"
      by (simp add: versions_def)
    moreover have "(k, []) \<in> set new \<longleftrightarrow> k \<in> set ?keys"
      using not_referenced_iff [OF d, of k] False keys(1) by (metis image_eqI image_set fst_conv)
    ultimately show ?thesis using False st by (simp add: syncVersions_def versions_def restrict_map_def)
  qed
  with keys(1) show ?thesis by blast
qed

text \<open>
  (C3) The reconciliation of a Secret implements this abstract step: after success each entry of the Secret
  was looked up in the index once, and the store holds, for every entry, the manager of the Secret's
  version exactly if some control plane was found to refer to it.
\<close>

theorem ECR_Reconcile_refines:
  assumes get: "x_getSecret r req (e_world s) = (Inr secret, w)" and named: "secretNamed secret"
    and run: "ECR_Reconcile r req s = (None, s')" and new: "e_listed s' = e_listed s @ new"
  shows "map fst new = GenerateKeyNameFromSecret secret \<and>
    versions (e_store s') = syncVersions (GenerateKeyNameFromSecret secret) (referenced new)
      (om_ResourceVersion (sec_meta secret)) (versions (e_store s))"
  using ECR_sync [OF assms] .

text \<open>
  (C29) No manager is started and then lost, whether the reconciliation succeeds or fails: every manager
  started is in the store under its entry, with the Secret's version and the cancel function of its
  context, and every other entry of the store was there before.
\<close>

theorem ECR_Reconcile_no_leak:
  assumes get: "x_getSecret r req (e_world s) = (Inr secret, w)"
    and run: "ECR_Reconcile r req s = (x, s')" and new: "e_started s' = e_started s @ new"
  shows "(\<forall>g \<in> set new. ms_store (e_store s') (g_Name g) =
      Some \<lparr>inst_ResourceVersion = om_ResourceVersion (sec_meta secret), inst_Manager = g_Manager g,
            inst_StopFunc = g_Cancel g\<rparr>) \<and>
    (\<forall>n i. ms_store (e_store s') n = Some i \<longrightarrow> n \<in> g_Name ` set new \<or> ms_store (e_store s) n = Some i)"
proof -
  obtain res s1 where c: "collectKeys r (GenerateKeyNameFromSecret secret) (s\<lparr>e_world := w\<rparr>) = (res, s1)" by fastforce
  obtain listed :: "(string \<times> StewardControlPlane list) list" where s1: "e_started s1 = e_started s"
    "ms_store (e_store s1) = ms_store (e_store s) |` {k. (k, []) \<notin> set listed}"
    by (rule collectKeys_from [OF c]) blast
  then have sub: "ms_store (e_store s1) n = Some i \<Longrightarrow> ms_store (e_store s) n = Some i" for n i
    by (simp add: restrict_map_def split: if_splits)
  show ?thesis
  proof (cases res)
    case (Inl e)
    with run get c s1 new sub show ?thesis by (auto simp: ECR_Reconcile_def)
  next
    case (Inr keys)
    with run get c have l: "loadManagers r secret keys s1 = (x, s')" by (simp add: ECR_Reconcile_def)
    from loadManagers_started [OF l] new s1(1) sub show ?thesis unfolding storedAs_def by fastforce
  qed
qed

text \<open>
  A store that is in order is left alone: if every entry the index was asked about had the manager it should
  have, the reconciliation starts and stops nothing. In particular a second reconciliation of an unchanged
  Secret with unchanged references does nothing.
\<close>

theorem ECR_Reconcile_idle:
  assumes get: "x_getSecret r req (e_world s) = (Inr secret, w)"
    and run: "ECR_Reconcile r req s = (x, s')" and new: "e_listed s' = e_listed s @ new"
    and sync: "\<forall>(k, items) \<in> set new. versions (e_store s) k =
      (if items = [] then None else Some (om_ResourceVersion (sec_meta secret)))"
  shows "ms_store (e_store s') = ms_store (e_store s) \<and> e_started s' = e_started s"
proof -
  let ?rv = "om_ResourceVersion (sec_meta secret)"
  obtain res s1 where c: "collectKeys r (GenerateKeyNameFromSecret secret) (s\<lparr>e_world := w\<rparr>) = (res, s1)" by fastforce
  obtain listed where s1: "e_listed s1 = e_listed s @ listed" "e_started s1 = e_started s"
    "ms_store (e_store s1) = ms_store (e_store s) |` {k. (k, []) \<notin> set listed}"
    "\<And>keys. res = Inr keys \<Longrightarrow> keys = referenced listed"
    by (rule collectKeys_from [OF c]) blast
  have rest: "case res of Inl e \<Rightarrow> s' = s1 | Inr keys \<Rightarrow> loadManagers r secret keys s1 = (x, s')"
    using run get c by (auto simp: ECR_Reconcile_def split: sum.splits)
  then have "e_listed s' = e_listed s1" by (cases res) (auto dest: loadManagers_frame)
  with new s1(1) have listed: "listed = new" by simp
  have same: "ms_store (e_store s1) = ms_store (e_store s)"
  proof
    fix k
    show "ms_store (e_store s1) k = ms_store (e_store s) k"
    proof (cases "(k, []) \<in> set new")
      case True
      with sync have "versions (e_store s) k = None" by auto
      with True s1(3) listed show ?thesis by (simp add: versions_def restrict_map_def)
    qed (simp add: s1(3) listed)
  qed
  have current: "versions (e_store s1) k = Some ?rv" if k: "k \<in> set (referenced new)" for k
  proof -
    from k obtain items where "(k, items) \<in> set new" "items \<noteq> []" by (auto simp: referenced_def)
    with sync same show ?thesis by (fastforce simp: versions_def)
  qed
  have skip: "loadManagers r secret ks s1 = (None, s1)" if "set ks \<subseteq> set (referenced new)" for ks
    using that by (induction ks) (simp_all add: loadManager_def store_Get_versions current)
  have "s' = s1" using rest skip s1(4) listed by (auto split: sum.splits)
  with same s1(2) show ?thesis by simp
qed

text \<open>
  A Secret that is gone, or an entry removed from a Secret, leaves the managers built from it running: the
  reconciliation ends before it looks at the store.
\<close>

lemma ECR_Reconcile_secret_gone:
  "x_getSecret r req (e_world s) = (Inl e, w) \<Longrightarrow> isNotFound e \<Longrightarrow>
   ECR_Reconcile r req s = (None, s\<lparr>e_world := w\<rparr>)"
  by (simp add: ECR_Reconcile_def)

lemma ECR_Reconcile_removed_entry:
  assumes "x_getSecret r req (e_world s) = (Inr secret, w)" "secretNamed secret"
    and "ECR_Reconcile r req s = (None, s')" "k \<notin> set (GenerateKeyNameFromSecret secret)"
  shows "versions (e_store s') k = versions (e_store s) k"
proof -
  obtain res s1 where c: "collectKeys r (GenerateKeyNameFromSecret secret) (s\<lparr>e_world := w\<rparr>) = (res, s1)" by fastforce
  from assms(1,3) c obtain keys where l: "loadManagers r secret keys s1 = (None, s')" "res = Inr keys"
    by (auto simp: ECR_Reconcile_def split: sum.splits)
  from collectKeys_cases [OF c] loadManagers_frame [OF l(1)] obtain new where "e_listed s' = e_listed s @ new" by auto
  with ECR_sync [OF assms(1-3)] assms(4) show ?thesis by (simp add: syncVersions_def)
qed

section \<open>Properties of the watch and of the push controller\<close>

text \<open>
  A cached \<open>List\<close> by field returns the objects whose index values contain the given one, as long as
  the cache is \<open>cached\<close>.
\<close>

definition answersSecrets :: "'w ecrOps \<Rightarrow> 'w \<Rightarrow> Secret list \<Rightarrow> bool" where
  "answersSecrets r w cached \<longleftrightarrow>
     (\<forall>v. fst (x_listSecrets r ExternalClusterReferenceSecretField v w) =
        Inr (filter (\<lambda>x. v \<in> set (ecrSecret_ExtractValue x)) cached))"

definition answersUID :: "'w pushOps \<Rightarrow> 'w \<Rightarrow> StewardControlPlane list \<Rightarrow> bool" where
  "answersUID p w cached \<longleftrightarrow>
     (\<forall>v. fst (p_listSCPs p StewardControlPlaneUIDField v w) =
        Inr (filter (\<lambda>x. v \<in> set (scpUID_ExtractValue x)) cached))"

text \<open>
  A change of a control plane wakes up the reconciler of the right Secret: the requests are for the
  Secret that the control plane names, by default in its own namespace, if the cache has it with the
  named entry, and for no other; a control plane without external reference causes none.
\<close>

theorem secretRequests_exact:
  assumes "answersSecrets r w cached" "list_all secretNamed cached"
    and "\<forall>ecr. scp_ecr scp = Some ecr \<longrightarrow>
      slashFree (referenceNamespace scp ecr) \<and> slashFree (ecr_KubeconfigSecretName ecr)"
  shows "req \<in> set (fst (secretRequests r scp w)) \<longleftrightarrow>
    (\<exists>ecr x. scp_ecr scp = Some ecr \<and> x \<in> set cached \<and> req = nsname (sec_meta x) \<and>
       req = (referenceNamespace scp ecr, ecr_KubeconfigSecretName ecr) \<and>
       ecr_KubeconfigSecretKey ecr \<in> fst ` set (secret_data x))"
proof (cases "scp_ecr scp")
  case None
  then show ?thesis by (simp add: secretRequests_def)
next
  case (Some ecr)
  let ?key = "joinKey (referenceNamespace scp ecr) (ecr_KubeconfigSecretName ecr) (ecr_KubeconfigSecretKey ecr)"
  have key: "GenerateKeyNameFromSteward scp = Some ?key" using Some by (simp add: GenerateKeyNameFromSteward_def)
  obtain w1 where l: "x_listSecrets r ExternalClusterReferenceSecretField ?key w =
      (Inr (filter (\<lambda>x. ?key \<in> set (ecrSecret_ExtractValue x)) cached), w1)"
    using assms(1) unfolding answersSecrets_def by (metis prod.collapse)
  have "fst (secretRequests r scp w) =
      map (\<lambda>x. nsname (sec_meta x)) (filter (\<lambda>x. ?key \<in> set (ecrSecret_ExtractValue x)) cached)"
    using Some key l by (simp add: secretRequests_def getSecretFromStewardControlPlaneReferences_def nsname_def)
  moreover have "?key \<in> set (ecrSecret_ExtractValue x) \<longleftrightarrow>
      nsname (sec_meta x) = (referenceNamespace scp ecr, ecr_KubeconfigSecretName ecr) \<and>
      ecr_KubeconfigSecretKey ecr \<in> fst ` set (secret_data x)" if "x \<in> set cached" for x
    using secret_keys_iff [of x "referenceNamespace scp ecr" "ecr_KubeconfigSecretName ecr"] that assms(2,3) Some
    by (simp add: ecrSecret_ExtractValue_def list_all_iff nsname_def)
  ultimately show ?thesis using Some by auto
qed

text \<open>
  (C33) A change of a remote \<open>TenantControlPlane\<close> reaches its control plane and no other: if the object has the
  name generated for a cached control plane, whose UID is its own, one event is sent, for that control
  plane.
\<close>

theorem PushStewardChange_targets:
  assumes "p_getTCP p request w = (Inr tcp, w1)" "answersUID p w1 cached"
    and "GenerateRemoteTenantControlPlaneNames kcp = Some (om_Name (tcp_meta tcp), ns)"
    and "om_UID (scp_meta kcp) \<noteq> ''''"
    and own: "filter (\<lambda>x. om_UID (scp_meta x) = om_UID (scp_meta kcp)) cached = [kcp]"
  shows "\<exists>w2. PushStewardChange_Reconcile p request (w, sent) = (None, (w2, sent @ [nsname (scp_meta kcp)]))"
proof -
  have "om_Name (tcp_meta tcp) = RemoteTCPPrefix @ om_UID (scp_meta kcp)"
    using assms(3) by (simp add: GenerateRemoteTenantControlPlaneNames_def split: option.splits)
  then have uid: "ParseStewardControlPlaneUIDFromTenantControlPlane tcp = om_UID (scp_meta kcp)"
    by (simp add: ParseStewardControlPlaneUIDFromTenantControlPlane_def)
  have "filter (\<lambda>x. om_UID (scp_meta kcp) \<in> set (scpUID_ExtractValue x)) cached = [kcp]"
    using own by (simp add: scpUID_ExtractValue_def eq_commute)
  then obtain w2 where "p_listSCPs p StewardControlPlaneUIDField (om_UID (scp_meta kcp)) w1 = (Inr [kcp], w2)"
    using assms(2) unfolding answersUID_def by (metis prod.collapse)
  with assms(1,4) uid show ?thesis by (simp add: PushStewardChange_Reconcile_def nsname_def)
qed

section \<open>Witnesses\<close>

text \<open>A management cluster with one control plane and the Secret it names; worlds count the handles given out.\<close>

definition sampleOps :: "nat ecrOps" where
  "sampleOps = \<lparr>
     x_getSecret = (\<lambda>k w. (if k = (''team'', ''remote'') then Inr remoteSecret else Inl (ApiError NotFound), w)),
     x_listSCPs = (\<lambda>f v w. (Inr (filter (\<lambda>x. v \<in> set (ecrScp_ExtractValue x)) [remoteSCP]), w)),
     x_listSecrets = (\<lambda>f v w. (Inr (filter (\<lambda>x. v \<in> set (ecrSecret_ExtractValue x)) [remoteSecret]), w)),
     x_RESTConfigFromKubeConfig = (\<lambda>b. case b of None \<Rightarrow> Inl (ErrNew ''invalid configuration'') | Some c \<Rightarrow> Inr c),
     x_NewManager = (\<lambda>c w. (Inr w, Suc w)),
     x_setupPush = (\<lambda>m w. (None, w)),
     x_WithCancel = (\<lambda>w. (w, Suc w))\<rparr>"

definition sampleEcr :: "nat ecrState" where
  "sampleEcr = \<lparr>e_world = 0, e_store = NewStore, e_listed = [], e_started = []\<rparr>"

definition sampleRun :: "error option \<times> nat ecrState" where
  "sampleRun = ECR_Reconcile sampleOps (''team'', ''remote'') sampleEcr"

lemma sampleRun_eq:
  "sampleRun = (None, \<lparr>e_world = 2,
     e_store = \<lparr>ms_store = [''team/remote/conf'' \<mapsto>
       \<lparr>inst_ResourceVersion = '''', inst_Manager = 0, inst_StopFunc = 1\<rparr>], ms_cancelled = []\<rparr>,
     e_listed = [(''team/remote/conf'', [remoteSCP])],
     e_started = [\<lparr>g_Manager = 0, g_Name = ''team/remote/conf'', g_Cancel = 1\<rparr>]\<rparr>)"
proof -
  have data: "secret_data remoteSecret = [(''conf'', Some ''kubeconfig'')]"
    "GenerateKeyNameFromSecret remoteSecret = [''team/remote/conf'']"
    "om_ResourceVersion (sec_meta remoteSecret) = ''''"
    by (simp_all add: GenerateKeyNameFromSecret_def joinKey_def remoteSecret_def secret_data_def zeroMeta_def)
  have idx: "ecrScp_ExtractValue remoteSCP = [''team/remote/conf'']"
    by (simp add: ecrScp_ExtractValue_def GenerateKeyNameFromSteward_def referenceNamespace_def joinKey_def)
  show ?thesis
    by (simp add: sampleRun_def ECR_Reconcile_def sampleOps_def sampleEcr_def data idx loadManager_def entryOf_def
        Let_def NewStore_def store_Get_def store_Stop_def store_Add_def)
qed

lemma sampleEcr_get: "x_getSecret sampleOps (''team'', ''remote'') (e_world sampleEcr) = (Inr remoteSecret, 0)"
  by (simp add: sampleOps_def sampleEcr_def)

theorem ECR_Reconcile_refines_witness:
  "\<exists>s'. ECR_Reconcile sampleOps (''team'', ''remote'') sampleEcr = (None, s') \<and>
     versions (e_store s') = syncVersions (GenerateKeyNameFromSecret remoteSecret) [''team/remote/conf''] '''' Map.empty"
proof -
  obtain s' where run: "ECR_Reconcile sampleOps (''team'', ''remote'') sampleEcr = (None, s')"
    and l: "e_listed s' = e_listed sampleEcr @ [(''team/remote/conf'', [remoteSCP])]"
    using sampleRun_eq unfolding sampleRun_def by (simp add: sampleEcr_def)
  have "om_ResourceVersion (sec_meta remoteSecret) = ''''" "versions (e_store sampleEcr) = Map.empty"
    by (simp_all add: remoteSecret_def zeroMeta_def sampleEcr_def NewStore_def versions_def fun_eq_iff)
  with ECR_Reconcile_refines [OF sampleEcr_get remote_sample(6) run l] run show ?thesis
    by (simp add: referenced_def)
qed

theorem ECR_Reconcile_no_leak_witness:
  "\<exists>s'. ECR_Reconcile sampleOps (''team'', ''remote'') sampleEcr = (None, s') \<and> e_started s' \<noteq> [] \<and>
     (\<forall>g \<in> set (e_started s'). \<exists>i. ms_store (e_store s') (g_Name g) = Some i \<and> inst_StopFunc i = g_Cancel g)"
proof -
  obtain s' where run: "ECR_Reconcile sampleOps (''team'', ''remote'') sampleEcr = (None, s')"
    and ne: "e_started s' = e_started sampleEcr @ e_started s'" "e_started s' \<noteq> []"
    using sampleRun_eq unfolding sampleRun_def by (simp add: sampleEcr_def)
  from ECR_Reconcile_no_leak [OF sampleEcr_get run ne(1)] run ne(2) show ?thesis by auto
qed

theorem ECR_Reconcile_idle_witness:
  "ms_store (e_store (snd (ECR_Reconcile sampleOps (''team'', ''remote'') (snd sampleRun)))) =
     ms_store (e_store (snd sampleRun)) \<and>
   e_started (snd (ECR_Reconcile sampleOps (''team'', ''remote'') (snd sampleRun))) = e_started (snd sampleRun)"
proof -
  let ?s = "snd sampleRun"
  have get: "x_getSecret sampleOps (''team'', ''remote'') w = (Inr remoteSecret, w)" for w
    by (simp add: sampleOps_def)
  have keys: "GenerateKeyNameFromSecret remoteSecret = [''team/remote/conf'']"
    "ecrScp_ExtractValue remoteSCP = [''team/remote/conf'']" "om_ResourceVersion (sec_meta remoteSecret) = ''''"
    by (simp_all add: GenerateKeyNameFromSecret_def joinKey_def remoteSecret_def secret_data_def zeroMeta_def
        ecrScp_ExtractValue_def GenerateKeyNameFromSteward_def referenceNamespace_def)
  have list: "x_listSCPs sampleOps f ''team/remote/conf'' v = (Inr [remoteSCP], v)" for f v
    by (simp add: sampleOps_def keys)
  have "e_listed (snd (ECR_Reconcile sampleOps (''team'', ''remote'') ?s)) = e_listed ?s @ [(''team/remote/conf'', [remoteSCP])]"
    by (simp add: ECR_Reconcile_def get keys sampleRun_eq loadManager_def store_Get_def Let_def list)
  from ECR_Reconcile_idle [OF get prod.collapse [symmetric] this] show ?thesis
    by (simp add: keys sampleRun_eq versions_def)
qed

theorem secretRequests_exact_witness:
  "(''team'', ''remote'') \<in> set (fst (secretRequests sampleOps remoteSCP 0))"
proof -
  have "answersSecrets sampleOps 0 [remoteSecret]" "list_all secretNamed [remoteSecret]"
    by (simp_all add: answersSecrets_def sampleOps_def)
  from secretRequests_exact [OF this, of remoteSCP "(''team'', ''remote'')"] show ?thesis
    by (simp add: referenceNamespace_def slashFree_def)
qed

theorem PushStewardChange_targets_witness:
  "\<exists>w2. PushStewardChange_Reconcile
     \<lparr>p_getTCP = (\<lambda>k w. (Inr (zeroTCP\<lparr>tcp_meta := zeroMeta\<lparr>om_Name := ''kcp-u-1''\<rparr>\<rparr>), w)),
      p_listSCPs = (\<lambda>f v w. (Inr (filter (\<lambda>x. v \<in> set (scpUID_ExtractValue x)) [remoteSCP]), w))\<rparr>
     (''tenants'', ''kcp-u-1'') (0 :: nat, []) = (None, (w2, [(''team'', ''cp'')]))"
proof -
  let ?p = "\<lparr>p_getTCP = (\<lambda>k w. (Inr (zeroTCP\<lparr>tcp_meta := zeroMeta\<lparr>om_Name := ''kcp-u-1''\<rparr>\<rparr>), w)),
      p_listSCPs = (\<lambda>f v w. (Inr (filter (\<lambda>x. v \<in> set (scpUID_ExtractValue x)) [remoteSCP]), w))\<rparr> :: nat pushOps"
  let ?tcp = "zeroTCP\<lparr>tcp_meta := zeroMeta\<lparr>om_Name := ''kcp-u-1''\<rparr>\<rparr>"
  have "answersUID ?p 0 [remoteSCP]" by (simp add: answersUID_def)
  moreover have "GenerateRemoteTenantControlPlaneNames remoteSCP = Some (om_Name (tcp_meta ?tcp), ''tenants'')"
    by (simp add: GenerateRemoteTenantControlPlaneNames_def RemoteTCPPrefix_def)
  moreover have "nsname (scp_meta remoteSCP) = (''team'', ''cp'')" by (simp add: remoteSCP_def nsname_def)
  ultimately show ?thesis
    using PushStewardChange_targets [of ?p "(''tenants'', ''kcp-u-1'')" 0 ?tcp 0 "[remoteSCP]" remoteSCP "''tenants''" "[]"]
    by simp
qed

end
