(* ===== verification/Manager_Lifecycle.thy ===== *)
theory Manager_Lifecycle
  imports External_Cluster_Reconciler
begin

text \<open>
  The life of the managers, as an interleaving: the worker of the Secret reconciler (controller-runtime
  runs one by default) and one goroutine \<open>startManager\<close> per manager started, over the shared store, whose operations
  are atomic. \<open>lstep\<close> has one rule per point at which the threads can be interrupted: the worker's
  stop of an entry, its \<open>go\<close> statement, its \<open>Add\<close>; the end of \<open>mgr.Start\<close>, with an error
  at any time or without one after its context was cancelled; and the \<open>Stop\<close> that follows an error.

  Shown are that at most one manager per entry runs without having been cancelled, that the sequential
  model of the loop body is a run of this relation, and the two races of the code: a manager that fails
  before it is added stays in the store for good, and the late \<open>Stop\<close> of a failed manager takes down its
  successor.
\<close>

datatype phase = Running | StartFailed | Ended

datatype worker = Idle | Loading string string | Adding string started

record lifecycle =
  l_store :: mapStore
  l_threads :: "CancelFunc \<rightharpoonup> started \<times> phase"
  l_worker :: worker

definition initial :: lifecycle where
  "initial = \<lparr>l_store = NewStore, l_threads = Map.empty, l_worker = Idle\<rparr>"

inductive lstep :: "lifecycle \<Rightarrow> lifecycle \<Rightarrow> bool" where
  w_unused: "l_worker st = Idle \<Longrightarrow> lstep st (st\<lparr>l_store := snd (store_Stop (l_store st) name)\<rparr>)"
| w_load: "l_worker st = Idle \<Longrightarrow> \<not> snd (store_Get (l_store st) name rv) \<Longrightarrow>
    lstep st (st\<lparr>l_store := snd (store_Stop (l_store st) name), l_worker := Loading name rv\<rparr>)"
| w_fail: "l_worker st = Loading name rv \<Longrightarrow> lstep st (st\<lparr>l_worker := Idle\<rparr>)"
| w_go: "l_worker st = Loading name rv \<Longrightarrow> l_threads st (g_Cancel g) = None \<Longrightarrow> g_Name g = name \<Longrightarrow>
    lstep st (st\<lparr>l_threads := (l_threads st)(g_Cancel g \<mapsto> (g, Running)), l_worker := Adding rv g\<rparr>)"
| w_add: "l_worker st = Adding rv g \<Longrightarrow>
    lstep st (st\<lparr>l_store := snd (store_Add (l_store st) (g_Name g) rv (g_Manager g) (g_Cancel g)),
                 l_worker := Idle\<rparr>)"
| t_cancelled: "l_threads st c = Some (g, Running) \<Longrightarrow> c \<in> set (ms_cancelled (l_store st)) \<Longrightarrow>
    lstep st (st\<lparr>l_store := startManager None (g_Name g) (l_store st),
                 l_threads := (l_threads st)(c \<mapsto> (g, Ended))\<rparr>)"
| t_error: "l_threads st c = Some (g, Running) \<Longrightarrow>
    lstep st (st\<lparr>l_threads := (l_threads st)(c \<mapsto> (g, StartFailed))\<rparr>)"
| t_stop: "l_threads st c = Some (g, StartFailed) \<Longrightarrow>
    lstep st (st\<lparr>l_store := startManager (Some e) (g_Name g) (l_store st),
                 l_threads := (l_threads st)(c \<mapsto> (g, Ended))\<rparr>)"

inductive reachable :: "lifecycle \<Rightarrow> bool" where
  start: "reachable initial"
| step: "reachable st \<Longrightarrow> lstep st st' \<Longrightarrow> reachable st'"

inductive_cases lstepE [consumes 1, case_names w_unused w_load w_fail w_go w_add t_cancelled t_error t_stop]:
  "lstep st st'"

section \<open>The invariant\<close>

text \<open>
  Every handle belongs to a thread; an entry of the store is of the thread it names; the entry the worker is
  about to add is free and its thread not cancelled; and a thread that runs without having been cancelled
  is in the store or about to be.
\<close>

definition threadsNamed :: "lifecycle \<Rightarrow> bool" where
  "threadsNamed st \<longleftrightarrow> (\<forall>c g p. l_threads st c = Some (g, p) \<longrightarrow> g_Cancel g = c)"

definition entriesOwned :: "lifecycle \<Rightarrow> bool" where
  "entriesOwned st \<longleftrightarrow>
     (\<forall>n i. ms_store (l_store st) n = Some i \<longrightarrow>
        (\<exists>g p. l_threads st (inst_StopFunc i) = Some (g, p) \<and> g_Name g = n))"

definition cancelledKnown :: "lifecycle \<Rightarrow> bool" where
  "cancelledKnown st \<longleftrightarrow> set (ms_cancelled (l_store st)) \<subseteq> dom (l_threads st)"

fun workerReady :: "lifecycle \<Rightarrow> worker \<Rightarrow> bool" where
  "workerReady st Idle = True"
| "workerReady st (Loading name rv) = (ms_store (l_store st) name = None)"
| "workerReady st (Adding rv g) =
     (ms_store (l_store st) (g_Name g) = None \<and> g_Cancel g \<notin> set (ms_cancelled (l_store st)) \<and>
      (\<exists>p. l_threads st (g_Cancel g) = Some (g, p)))"

definition runningKnown :: "lifecycle \<Rightarrow> bool" where
  "runningKnown st \<longleftrightarrow>
     (\<forall>c g. l_threads st c = Some (g, Running) \<longrightarrow> c \<notin> set (ms_cancelled (l_store st)) \<longrightarrow>
        (\<exists>i. ms_store (l_store st) (g_Name g) = Some i \<and> inst_StopFunc i = c) \<or>
        (\<exists>rv. l_worker st = Adding rv g))"

lemma runningKnownD:
  "runningKnown st \<Longrightarrow> l_threads st c = Some (g, Running) \<Longrightarrow> c \<notin> set (ms_cancelled (l_store st)) \<Longrightarrow>
   (\<exists>i. ms_store (l_store st) (g_Name g) = Some i \<and> inst_StopFunc i = c) \<or> (\<exists>rv. l_worker st = Adding rv g)"
  unfolding runningKnown_def by blast

definition consistent :: "lifecycle \<Rightarrow> bool" where
  "consistent st \<longleftrightarrow> threadsNamed st \<and> entriesOwned st \<and> cancelledKnown st \<and>
     workerReady st (l_worker st) \<and> runningKnown st"

lemmas consistent_defs = threadsNamed_def entriesOwned_def cancelledKnown_def runningKnown_def

lemma consistent_initial: "consistent initial"
  by (simp add: consistent_def consistent_defs initial_def NewStore_def)

text \<open>A stop of an entry, by whichever thread, keeps the invariant.\<close>

lemma workerReady_stop:
  assumes "workerReady st (l_worker st)" "entriesOwned st"
  shows "workerReady (st\<lparr>l_store := snd (store_Stop (l_store st) n)\<rparr>) (l_worker st)"
proof (cases "l_worker st")
  case (Adding rv g)
  with assms(1) obtain p where g: "ms_store (l_store st) (g_Name g) = None"
    "g_Cancel g \<notin> set (ms_cancelled (l_store st))" "l_threads st (g_Cancel g) = Some (g, p)" by auto
  have "inst_StopFunc i \<noteq> g_Cancel g" if "ms_store (l_store st) n = Some i" for i
    using assms(2) that g by (force simp: entriesOwned_def)
  with g Adding show ?thesis by (auto simp: mapstore.stop_entries mapstore.stop_cancelled split: option.splits)
qed (use assms in \<open>simp_all add: mapstore.stop_entries\<close>)

lemma consistent_stop:
  assumes "consistent st"
  shows "consistent (st\<lparr>l_store := snd (store_Stop (l_store st) n)\<rparr>)"
proof -
  let ?st = "st\<lparr>l_store := snd (store_Stop (l_store st) n)\<rparr>"
  from assms have c: "threadsNamed st" "entriesOwned st" "cancelledKnown st" "workerReady st (l_worker st)" "runningKnown st"
    by (simp_all add: consistent_def)
  have "cancelledKnown ?st"
    using c(2,3) by (auto simp: cancelledKnown_def entriesOwned_def mapstore.stop_cancelled split: option.splits) blast
  moreover have "runningKnown ?st"
    unfolding runningKnown_def
  proof (intro allI impI)
    fix x g
    assume x: "l_threads ?st x = Some (g, Running)" "x \<notin> set (ms_cancelled (l_store ?st))"
    then have "x \<notin> set (ms_cancelled (l_store st))" by (auto simp: mapstore.stop_cancelled split: option.splits)
    with runningKnownD [OF c(5), of x g] x(1) consider i where "ms_store (l_store st) (g_Name g) = Some i" "inst_StopFunc i = x"
      | rv where "l_worker st = Adding rv g" by auto
    then show "(\<exists>i. ms_store (l_store ?st) (g_Name g) = Some i \<and> inst_StopFunc i = x) \<or> (\<exists>rv. l_worker ?st = Adding rv g)"
      using x(2) by cases (auto simp: mapstore.stop_cancelled mapstore.stop_entries split: option.splits)
  qed
  ultimately show ?thesis
    using c workerReady_stop [OF c(4,2), of n]
    by (auto simp: consistent_def threadsNamed_def entriesOwned_def mapstore.stop_entries)
qed

text \<open>A change of the phase of a thread to one that does not run keeps it.\<close>

lemma workerReady_phase:
  assumes "workerReady st w" "l_threads st c = Some (g, p)"
  shows "workerReady (st\<lparr>l_threads := (l_threads st)(c \<mapsto> (g, q))\<rparr>) w"
  using assms by (cases w) auto

lemma consistent_phase:
  assumes "consistent st" "l_threads st c = Some (g, p)" "q \<noteq> Running"
  shows "consistent (st\<lparr>l_threads := (l_threads st)(c \<mapsto> (g, q))\<rparr>)"
proof -
  from assms(1) have "workerReady (st\<lparr>l_threads := (l_threads st)(c \<mapsto> (g, q))\<rparr>) (l_worker st)"
    using workerReady_phase [OF _ assms(2)] by (simp add: consistent_def)
  with assms show ?thesis
    by (auto simp: consistent_def threadsNamed_def entriesOwned_def cancelledKnown_def runningKnown_def) force
qed

lemma consistent_idle: "consistent st \<Longrightarrow> l_worker st = Loading n rv \<Longrightarrow> consistent (st\<lparr>l_worker := Idle\<rparr>)"
  by (auto simp: consistent_def consistent_defs)

lemma consistent_load:
  assumes "consistent st" "l_worker st = Idle"
  shows "consistent (st\<lparr>l_store := snd (store_Stop (l_store st) n), l_worker := Loading n rv\<rparr>)"
  using consistent_stop [OF assms(1), of n] assms(2)
  by (auto simp: consistent_def consistent_defs mapstore.stop_entries)

lemma consistent_go:
  assumes "consistent st" "l_worker st = Loading (g_Name g) rv" "l_threads st (g_Cancel g) = None"
  shows "consistent (st\<lparr>l_threads := (l_threads st)(g_Cancel g \<mapsto> (g, Running)), l_worker := Adding rv g\<rparr>)"
proof -
  have "g_Cancel g \<notin> set (ms_cancelled (l_store st))"
    using assms(1,3) by (auto simp: consistent_def cancelledKnown_def)
  moreover have "inst_StopFunc i \<noteq> g_Cancel g" if "ms_store (l_store st) n = Some i" for n i
    using assms(1,3) that by (fastforce simp: consistent_def entriesOwned_def)
  ultimately show ?thesis
    using assms by (auto simp: consistent_def consistent_defs)
qed

lemma consistent_add:
  assumes "consistent st" "l_worker st = Adding rv g"
  shows "consistent (st\<lparr>l_store := snd (store_Add (l_store st) (g_Name g) rv (g_Manager g) (g_Cancel g)),
    l_worker := Idle\<rparr>)"
proof -
  let ?st = "st\<lparr>l_store := snd (store_Add (l_store st) (g_Name g) rv (g_Manager g) (g_Cancel g)), l_worker := Idle\<rparr>"
  from assms obtain p where g: "ms_store (l_store st) (g_Name g) = None" "l_threads st (g_Cancel g) = Some (g, p)"
    by (auto simp: consistent_def)
  then have store: "ms_store (l_store ?st) = (ms_store (l_store st))(g_Name g \<mapsto>
      \<lparr>inst_ResourceVersion = rv, inst_Manager = g_Manager g, inst_StopFunc = g_Cancel g\<rparr>)"
    by (simp add: mapstore.add_entries)
  have canc: "ms_cancelled (l_store ?st) = ms_cancelled (l_store st)" by (simp add: mapstore.add_cancelled)
  have "runningKnown ?st"
    unfolding runningKnown_def
  proof (intro allI impI)
    fix c h
    assume c: "l_threads ?st c = Some (h, Running)" "c \<notin> set (ms_cancelled (l_store ?st))"
    have name: "g_Cancel h = c" using assms(1) c(1) by (auto simp: consistent_def threadsNamed_def)
    from runningKnownD [of st c h] assms c canc
    have "(\<exists>i. ms_store (l_store st) (g_Name h) = Some i \<and> inst_StopFunc i = c) \<or> h = g"
      by (auto simp: consistent_def)
    with store g(1) name show "(\<exists>i. ms_store (l_store ?st) (g_Name h) = Some i \<and> inst_StopFunc i = c) \<or>
        (\<exists>rv. l_worker ?st = Adding rv h)" by fastforce
  qed
  moreover have "entriesOwned ?st" using assms(1) g(2) store by (auto simp: consistent_def entriesOwned_def)
  ultimately show ?thesis using assms(1) canc by (simp add: consistent_def threadsNamed_def cancelledKnown_def)
qed

lemma consistent_step: "lstep st st' \<Longrightarrow> consistent st \<Longrightarrow> consistent st'"
proof (induction rule: lstep.induct)
  case (w_unused st name)
  then show ?case by (simp add: consistent_stop)
next
  case (w_load st name rv)
  then show ?case by (simp add: consistent_load)
next
  case (w_fail st name rv)
  then show ?case by (simp add: consistent_idle)
next
  case (w_go st name rv g)
  then show ?case using consistent_go by blast
next
  case (w_add st rv g)
  then show ?case by (simp add: consistent_add)
next
  case (t_cancelled st c g)
  then show ?case using consistent_phase [of st c g Running Ended] by (simp add: startManager_def)
next
  case (t_error st c g)
  then show ?case using consistent_phase [of st c g Running StartFailed] by simp
next
  case (t_stop st c g e)
  then show ?case
    using consistent_phase [OF consistent_stop [OF t_stop.prems, of "g_Name g"], of c g StartFailed Ended]
    by (simp add: startManager_def)
qed

lemma reachable_consistent: "reachable st \<Longrightarrow> consistent st"
  by (induction rule: reachable.induct) (auto simp: consistent_initial consistent_step)

section \<open>Properties\<close>

text \<open>
  (C5) However the worker and the managers interleave, at most one manager per entry of a Secret runs without having
  been cancelled; and whenever the worker adds a manager, its entry is free, so the result of \<open>Add\<close>,
  which the code ignores, is success.
\<close>

theorem one_running_manager_per_entry:
  assumes "reachable st"
  shows "(\<forall>c d g h. l_threads st c = Some (g, Running) \<and> l_threads st d = Some (h, Running) \<and>
      g_Name g = g_Name h \<and> c \<notin> set (ms_cancelled (l_store st)) \<and> d \<notin> set (ms_cancelled (l_store st)) \<longrightarrow>
      c = d) \<and>
    (\<forall>rv g m c. l_worker st = Adding rv g \<longrightarrow> fst (store_Add (l_store st) (g_Name g) rv m c))"
proof -
  have con: "consistent st" using assms by (rule reachable_consistent)
  have at: "(\<exists>i. ms_store (l_store st) (g_Name g) = Some i \<and> inst_StopFunc i = c) \<or> (\<exists>rv. l_worker st = Adding rv g)"
    if "l_threads st c = Some (g, Running)" "c \<notin> set (ms_cancelled (l_store st))" for c g
    using con that runningKnownD by (auto simp: consistent_def)
  have free: "ms_store (l_store st) (g_Name g) = None" if "l_worker st = Adding rv g" for rv g
    using con that by (auto simp: consistent_def)
  have name: "g_Cancel g = c" if "l_threads st c = Some (g, p)" for c g p
    using con that by (auto simp: consistent_def threadsNamed_def)
  have one: "c = d" if g: "l_threads st c = Some (g, Running)" "c \<notin> set (ms_cancelled (l_store st))"
    and h: "l_threads st d = Some (h, Running)" "d \<notin> set (ms_cancelled (l_store st))"
    and n: "g_Name g = g_Name h" for c d g h
  proof (cases "\<exists>rv. l_worker st = Adding rv g \<or> l_worker st = Adding rv h")
    case True
    then have "ms_store (l_store st) (g_Name g) = None" using free n by metis
    with at [OF g] at [OF h] n have "\<exists>rv. l_worker st = Adding rv g" "\<exists>rv. l_worker st = Adding rv h" by simp_all
    then have "g = h" by auto
    with name [OF g(1)] name [OF h(1)] show ?thesis by simp
  next
    case False
    with at [OF g] at [OF h] n show ?thesis by auto
  qed
  show ?thesis
  proof (intro conjI allI impI)
    show "c = d" if "l_threads st c = Some (g, Running) \<and> l_threads st d = Some (h, Running) \<and>
      g_Name g = g_Name h \<and> c \<notin> set (ms_cancelled (l_store st)) \<and> d \<notin> set (ms_cancelled (l_store st))" for c d g h
      using that by (elim conjE) (rule one)
    show "fst (store_Add (l_store st) (g_Name g) rv m c)" if "l_worker st = Adding rv g" for rv g m c
      using free [OF that] by (simp add: mapstore.add_result)
  qed
qed

text \<open>The body of the loop, run without interference, is a sequence of steps of the worker.\<close>

inductive lsteps :: "lifecycle \<Rightarrow> lifecycle \<Rightarrow> bool" where
  none: "lsteps st st"
| more: "lsteps st st' \<Longrightarrow> lstep st' st'' \<Longrightarrow> lsteps st st''"

lemma lsteps_reachable: "lsteps st st' \<Longrightarrow> reachable st \<Longrightarrow> reachable st'"
  by (induction rule: lsteps.induct) (auto intro: reachable.step)

text \<open>
  The sequential model refines the interleaved one: whatever \<open>loadManager\<close> does to the store, the worker can do
  in its steps, ending idle, with the started manager as a running thread.
\<close>

theorem loadManager_refines_steps:
  assumes run: "loadManager r secret key s = (x, s')" and new: "e_started s' = e_started s @ new"
    and st: "l_store st = e_store s" "l_worker st = Idle"
    and fresh: "\<forall>g \<in> set new. l_threads st (g_Cancel g) = None"
  shows "\<exists>st'. lsteps st st' \<and> l_store st' = e_store s' \<and> l_worker st' = Idle \<and>
    (\<forall>g \<in> set new. l_threads st' (g_Cancel g) = Some (g, Running))"
proof -
  let ?rv = "om_ResourceVersion (sec_meta secret)"
  let ?st1 = "st\<lparr>l_store := snd (store_Stop (l_store st) key), l_worker := Loading key ?rv\<rparr>"
  show ?thesis
  proof (cases "snd (store_Get (e_store s) key ?rv)")
    case True
    with run new st show ?thesis by (auto simp: loadManager_def intro!: exI [of _ st] lsteps.none)
  next
    case False
    with st have "lstep st ?st1" by (intro w_load) simp_all
    then have s1: "lsteps st ?st1" by (rule lsteps.more [OF lsteps.none])
    consider "x \<noteq> None" "e_store s' = snd (store_Stop (e_store s) key)" "new = []"
      | g where "new = [g]" "g_Name g = key"
          "e_store s' = snd (store_Add (snd (store_Stop (e_store s) key)) key ?rv (g_Manager g) (g_Cancel g))"
      using run new False by (auto simp: loadManager_def Let_def split: if_splits sum.splits prod.splits option.splits)
    then show ?thesis
    proof cases
      case 1
      have "lstep ?st1 (?st1\<lparr>l_worker := Idle\<rparr>)" by (rule w_fail) simp
      with s1 1 st show ?thesis by (intro exI [of _ "?st1\<lparr>l_worker := Idle\<rparr>"]) (auto intro: lsteps.more)
    next
      case (2 g)
      let ?st2 = "?st1\<lparr>l_threads := (l_threads ?st1)(g_Cancel g \<mapsto> (g, Running)), l_worker := Adding ?rv g\<rparr>"
      let ?st3 = "?st2\<lparr>l_store := snd (store_Add (l_store ?st2) (g_Name g) ?rv (g_Manager g) (g_Cancel g)), l_worker := Idle\<rparr>"
      have "lstep ?st1 ?st2" by (rule w_go [where name = key]) (use 2 fresh in auto)
      moreover have "lstep ?st2 ?st3" by (rule w_add) simp
      ultimately have "lsteps st ?st3" using s1 by (blast intro: lsteps.more)
      with 2 st show ?thesis by (intro exI [of _ ?st3]) simp
    qed
  qed
qed

text \<open>
  The two races. \<open>g\<close> stands for a manager of the entry \<open>n\<close>; a client built on a manager whose
  \<open>Start\<close> has ended has no running cache.
\<close>

definition deadEntry :: "lifecycle \<Rightarrow> string \<Rightarrow> string \<Rightarrow> bool" where
  "deadEntry st n rv \<longleftrightarrow> snd (store_Get (l_store st) n rv) \<and>
     (\<exists>i g. ms_store (l_store st) n = Some i \<and> l_threads st (inst_StopFunc i) = Some (g, Ended))"

definition manager :: "nat \<Rightarrow> string \<Rightarrow> started" where
  "manager k n = \<lparr>g_Manager = k, g_Name = n, g_Cancel = k\<rparr>"

definition addedDead :: lifecycle where
  "addedDead = \<lparr>l_store = \<lparr>ms_store = [''k'' \<mapsto> \<lparr>inst_ResourceVersion = ''1'', inst_Manager = 0, inst_StopFunc = 0\<rparr>],
       ms_cancelled = []\<rparr>,
     l_threads = [0 \<mapsto> (manager 0 ''k'', Ended)], l_worker = Idle\<rparr>"

lemma manager_simps [simp]: "g_Manager (manager k n) = k" "g_Name (manager k n) = n" "g_Cancel (manager k n) = k"
  by (simp_all add: manager_def)

lemmas lifecycle_eval = NewStore_def store_Get_def store_Stop_def store_Add_def startManager_def fun_upd_idem

lemma addedDead_reachable: "reachable addedDead"
proof -
  let ?s = "\<lambda>p w. \<lparr>l_store = NewStore, l_threads = (case p of None \<Rightarrow> Map.empty | Some q \<Rightarrow> [0 \<mapsto> (manager 0 ''k'', q)]), l_worker = w\<rparr>"
  let ?add = "Adding ''1'' (manager 0 ''k'')"
  have 0: "reachable (?s None Idle)" using reachable.start by (simp add: initial_def)
  have 1: "lstep (?s None Idle) (?s None (Loading ''k'' ''1''))"
    using w_load [of "?s None Idle" "''k''" "''1''"] by (simp add: lifecycle_eval)
  have 2: "lstep (?s None (Loading ''k'' ''1'')) (?s (Some Running) ?add)"
    using w_go [of "?s None (Loading ''k'' ''1'')" "''k''" "''1''" "manager 0 ''k''"] by simp
  have 3: "lstep (?s (Some Running) ?add) (?s (Some StartFailed) ?add)"
    using t_error [of "?s (Some Running) ?add" 0] by simp
  have 4: "lstep (?s (Some StartFailed) ?add) (?s (Some Ended) ?add)"
    using t_stop [of "?s (Some StartFailed) ?add" 0] by (simp add: lifecycle_eval)
  have 5: "lstep (?s (Some Ended) ?add) addedDead"
    using w_add [of "?s (Some Ended) ?add" "''1''" "manager 0 ''k''"] by (simp add: lifecycle_eval addedDead_def)
  show ?thesis
    by (rule reachable.step [OF reachable.step [OF reachable.step [OF reachable.step [OF reachable.step [OF 0 1] 2] 3] 4] 5])
qed

text \<open>An entry whose manager has ended, with no other manager of that name alive.\<close>

definition stuckEntry :: "lifecycle \<Rightarrow> string \<Rightarrow> string \<Rightarrow> bool" where
  "stuckEntry st n rv \<longleftrightarrow> deadEntry st n rv \<and>
     (\<forall>c g p. l_threads st c = Some (g, p) \<longrightarrow> g_Name g = n \<longrightarrow> p = Ended)"

lemma deadEntry_store:
  "deadEntry st n rv \<Longrightarrow> ms_store (l_store st') n = ms_store (l_store st) n \<Longrightarrow>
   (\<And>c g. l_threads st c = Some (g, Ended) \<Longrightarrow> l_threads st' c = Some (g, Ended)) \<Longrightarrow> deadEntry st' n rv"
  by (auto simp: deadEntry_def mapstore.get_spec)

lemma stuckEntry_stop: "stuckEntry st n rv \<Longrightarrow> m \<noteq> n \<Longrightarrow> stuckEntry (st\<lparr>l_store := snd (store_Stop (l_store st) m)\<rparr>) n rv"
  by (auto simp: stuckEntry_def mapstore.stop_entries elim!: deadEntry_store)

lemma stuckEntry_phase:
  assumes "stuckEntry st n rv" "l_threads st c = Some (g, p)" "p \<noteq> Ended"
  shows "stuckEntry (st\<lparr>l_threads := (l_threads st)(c \<mapsto> (g, q))\<rparr>) n rv" "g_Name g \<noteq> n"
proof -
  show n: "g_Name g \<noteq> n" using assms unfolding stuckEntry_def by blast
  have "deadEntry (st\<lparr>l_threads := (l_threads st)(c \<mapsto> (g, q))\<rparr>) n rv"
    by (rule deadEntry_store [where st = st]) (use assms in \<open>auto simp: stuckEntry_def\<close>)
  with n assms(1) show "stuckEntry (st\<lparr>l_threads := (l_threads st)(c \<mapsto> (g, q))\<rparr>) n rv"
    by (auto simp: stuckEntry_def)
qed

text \<open>
  (C40) A manager that fails before it is added is not replaced: once the store holds the entry of an ended manager, and
  no other manager of that entry is alive, every step leaves it so, unless the worker finds
  the entry unused or another version of the Secret. The worker, for which the entry is up to date,
  does not load it again, and the clients of the store are handed the ended manager.
\<close>

theorem failed_manager_stays:
  assumes "reachable st" "stuckEntry st n rv" "lstep st st'"
  shows "stuckEntry st' n rv \<or> l_store st' = snd (store_Stop (l_store st) n) \<and>
    (l_worker st' = Idle \<or> (\<exists>rv'. rv' \<noteq> rv \<and> l_worker st' = Loading n rv'))"
proof -
  have con: "consistent st" using assms(1) by (rule reachable_consistent)
  have held: "ms_store (l_store st) n \<noteq> None" "snd (store_Get (l_store st) n rv)"
    using assms(2) by (auto simp: stuckEntry_def deadEntry_def)
  have loading: "m \<noteq> n" if "l_worker st = Loading m v" for m v using con that held by (auto simp: consistent_def)
  have adding: "g_Name g \<noteq> n" if "l_worker st = Adding v g" for v g using con that held by (auto simp: consistent_def)
  show ?thesis
    using assms(3)
  proof (cases rule: lstepE)
    case (w_unused name)
    then show ?thesis using stuckEntry_stop [OF assms(2), of name] by (cases "name = n") auto
  next
    case (w_load name v)
    then show ?thesis
      using stuckEntry_stop [OF assms(2), of name] held(2)
      by (cases "name = n") (auto simp: stuckEntry_def deadEntry_def)
  next
    case (w_fail name v)
    with assms(2) show ?thesis by (simp add: stuckEntry_def deadEntry_def)
  next
    case (w_go v g)
    have "deadEntry st' n rv" using assms(2) w_go by (auto simp: stuckEntry_def intro!: deadEntry_store [of st])
    with assms(2) w_go loading [OF w_go(2)] show ?thesis by (auto simp: stuckEntry_def)
  next
    case (w_add v g)
    have "deadEntry st' n rv"
      using assms(2) w_add adding [OF w_add(2)]
      by (auto simp: stuckEntry_def mapstore.add_entries intro!: deadEntry_store [of st])
    with assms(2) w_add show ?thesis by (auto simp: stuckEntry_def)
  next
    case (t_cancelled c g)
    then show ?thesis using stuckEntry_phase(1) [OF assms(2) t_cancelled(2), where q = Ended] by (simp add: startManager_def)
  next
    case (t_error c g)
    then show ?thesis using stuckEntry_phase(1) [OF assms(2) t_error(2), where q = StartFailed] by simp
  next
    case (t_stop c g e)
    have n: "g_Name g \<noteq> n" using stuckEntry_phase(2) [OF assms(2) t_stop(2)] by simp
    from stuckEntry_phase(1) [OF stuckEntry_stop [OF assms(2) n], where c = c and g = g and p = StartFailed and q = Ended] t_stop
    show ?thesis by (simp add: startManager_def)
  qed
qed

text \<open>Such a state is reached when \<open>mgr.Start\<close> fails between the \<open>go\<close> statement and \<open>Add\<close>.\<close>

theorem failed_manager_stays_witness:
  "reachable addedDead \<and> stuckEntry addedDead ''k'' ''1'' \<and>
   stuckEntry (addedDead\<lparr>l_store := snd (store_Stop (l_store addedDead) ''other'')\<rparr>) ''k'' ''1''"
proof -
  have stuck: "stuckEntry addedDead ''k'' ''1''"
    by (simp add: stuckEntry_def deadEntry_def addedDead_def store_Get_def split: if_splits)
  have "lstep addedDead (addedDead\<lparr>l_store := snd (store_Stop (l_store addedDead) ''other'')\<rparr>)"
    by (rule w_unused) (simp add: addedDead_def)
  from failed_manager_stays [OF addedDead_reachable stuck this] stuck addedDead_reachable show ?thesis
    by (auto simp: addedDead_def store_Stop_def)
qed

text \<open>
  The second race: a failed manager whose \<open>Stop\<close> comes late, after its entry was loaded again from a new version of the
  Secret, cancels the new manager.
\<close>

definition succeeded :: "phase \<Rightarrow> mapStore \<Rightarrow> lifecycle" where
  "succeeded p m = \<lparr>l_store = m, l_threads = [0 \<mapsto> (manager 0 ''k'', p), 1 \<mapsto> (manager 1 ''k'', Running)],
     l_worker = Idle\<rparr>"

definition successor :: "mapStore" where
  "successor = \<lparr>ms_store = [''k'' \<mapsto> \<lparr>inst_ResourceVersion = ''2'', inst_Manager = 1, inst_StopFunc = 1\<rparr>],
     ms_cancelled = [0]\<rparr>"

lemma late_stop_cancels_successor:
  "reachable (succeeded StartFailed successor) \<and>
   lstep (succeeded StartFailed successor) (succeeded Ended \<lparr>ms_store = Map.empty, ms_cancelled = [0, 1]\<rparr>)"
proof -
  let ?g = "manager 0 ''k''" and ?h = "manager 1 ''k''"
  let ?m = "\<lparr>ms_store = [''k'' \<mapsto> \<lparr>inst_ResourceVersion = ''1'', inst_Manager = 0, inst_StopFunc = 0\<rparr>], ms_cancelled = []\<rparr>"
  let ?e = "\<lparr>ms_store = Map.empty, ms_cancelled = [0]\<rparr>"
  let ?s = "\<lambda>m t w. \<lparr>l_store = m, l_threads = t, l_worker = w\<rparr>"
  let ?R = "[0 \<mapsto> (?g, Running)]" and ?F = "[0 \<mapsto> (?g, StartFailed)]"
  let ?T = "[0 \<mapsto> (?g, StartFailed), 1 \<mapsto> (?h, Running)]"
  have 0: "reachable (?s NewStore Map.empty Idle)" using reachable.start by (simp add: initial_def)
  have 1: "lstep (?s NewStore Map.empty Idle) (?s NewStore Map.empty (Loading ''k'' ''1''))"
    using w_load [of "?s NewStore Map.empty Idle" "''k''" "''1''"] by (simp add: lifecycle_eval)
  have 2: "lstep (?s NewStore Map.empty (Loading ''k'' ''1'')) (?s NewStore ?R (Adding ''1'' ?g))"
    using w_go [of "?s NewStore Map.empty (Loading ''k'' ''1'')" "''k''" "''1''" ?g] by simp
  have 3: "lstep (?s NewStore ?R (Adding ''1'' ?g)) (?s ?m ?R Idle)"
    using w_add [of "?s NewStore ?R (Adding ''1'' ?g)" "''1''" ?g] by (simp add: lifecycle_eval)
  have 4: "lstep (?s ?m ?R Idle) (?s ?m ?F Idle)"
    using t_error [of "?s ?m ?R Idle" 0 ?g] by simp
  have 5: "lstep (?s ?m ?F Idle) (?s ?e ?F (Loading ''k'' ''2''))"
    using w_load [of "?s ?m ?F Idle" "''k''" "''2''"] by (simp add: store_Get_def store_Stop_def)
  have 6: "lstep (?s ?e ?F (Loading ''k'' ''2'')) (?s ?e ?T (Adding ''2'' ?h))"
    using w_go [of "?s ?e ?F (Loading ''k'' ''2'')" "''k''" "''2''" ?h] by simp
  have 7: "lstep (?s ?e ?T (Adding ''2'' ?h)) (succeeded StartFailed successor)"
    using w_add [of "?s ?e ?T (Adding ''2'' ?h)" "''2''" ?h]
    by (simp add: store_Add_def succeeded_def successor_def)
  note steps = reachable.step [OF reachable.step [OF reachable.step [OF reachable.step [OF 0 1] 2] 3] 4]
  have "reachable (succeeded StartFailed successor)"
    by (rule reachable.step [OF reachable.step [OF reachable.step [OF steps 5] 6] 7])
  moreover have "lstep (succeeded StartFailed successor) (succeeded Ended \<lparr>ms_store = Map.empty, ms_cancelled = [0, 1]\<rparr>)"
    using t_stop [of "succeeded StartFailed successor" 0 ?g "ErrNew ''start''"]
    by (simp add: succeeded_def successor_def startManager_def store_Stop_def fun_upd_twist)
  ultimately show ?thesis ..
qed

section \<open>Witnesses\<close>

theorem one_running_manager_per_entry_witness:
  "\<exists>c g. l_threads (succeeded StartFailed successor) c = Some (g, Running) \<and>
     (\<forall>d h. l_threads (succeeded StartFailed successor) d = Some (h, Running) \<and> g_Name h = g_Name g \<and>
        d \<notin> set (ms_cancelled successor) \<longrightarrow> c = d)"
proof -
  have "reachable (succeeded StartFailed successor)" using late_stop_cancels_successor ..
  note one = one_running_manager_per_entry [OF this, THEN conjunct1]
  have c: "l_threads (succeeded StartFailed successor) 1 = Some (manager 1 ''k'', Running)"
    "1 \<notin> set (ms_cancelled (l_store (succeeded StartFailed successor)))"
    by (simp_all add: succeeded_def successor_def)
  have "l_store (succeeded StartFailed successor) = successor" by (simp add: succeeded_def)
  with one c show ?thesis by (intro exI [of _ 1] exI [of _ "manager 1 ''k''"]) auto
qed

theorem loadManager_refines_steps_witness:
  "\<exists>x s' st'. loadManager sampleOps remoteSecret ''team/remote/conf'' sampleEcr = (x, s') \<and>
     lsteps initial st' \<and> l_store st' = e_store s'"
proof -
  obtain x s' where run: "loadManager sampleOps remoteSecret ''team/remote/conf'' sampleEcr = (x, s')" by fastforce
  have s: "e_started sampleEcr = []" "l_store initial = e_store sampleEcr" "l_worker initial = Idle"
    "\<forall>g \<in> set (e_started s'). l_threads initial (g_Cancel g) = None"
    by (simp_all add: sampleEcr_def initial_def)
  from loadManager_refines_steps [OF run _ s(2,3,4)] s(1) run show ?thesis by fastforce
qed

end
