(* ===== verification/Trigger_Channel.thy ===== *)
theory Trigger_Channel
  imports External_Cluster_Reconciler
begin

text \<open>
  The trigger channel, with its blocking: \<open>main.go\<close> makes it without a buffer, so a send of \<open>PushStewardChange.Reconcile\<close> waits until the
  channel source of the control plane controller receives. Every remote manager runs this reconciler in a worker of its own, and all of them
  send to the same channel. \<open>tstep\<close> has one rule per point at which a worker can be interrupted: the request it takes, its
  two API calls, each single send, its return; besides, the receiver starts and stops, and others change the world.

  Shown are that nothing is lost, duplicated or reordered per manager, under every interleaving; that what was listed can always
  be delivered while the receiver listens, and never without it; and that the sequential model of the reconciler,
  in which the sends are appended at once, is a run of this relation.
\<close>

datatype pusher = Waiting | Getting NamespacedName | Listing string | Sending "StewardControlPlane list"

record 'w trigger =
  q_world :: 'w
  q_pushers :: "Manager \<Rightarrow> pusher"
  q_received :: "(Manager \<times> NamespacedName) list"
  q_listed :: "(Manager \<times> NamespacedName) list"
  q_listening :: bool

definition quiet_start :: "'w \<Rightarrow> 'w trigger" where
  "quiet_start w = \<lparr>q_world = w, q_pushers = (\<lambda>_. Waiting), q_received = [], q_listed = [], q_listening = False\<rparr>"

text \<open>\<open>q_listed\<close> records, for the statements below only, the events a worker has set out to send.\<close>

definition eventsOf :: "Manager \<Rightarrow> StewardControlPlane list \<Rightarrow> (Manager \<times> NamespacedName) list" where
  "eventsOf m items = map (\<lambda>scp. (m, om_Namespace (scp_meta scp), om_Name (scp_meta scp))) items"

inductive tstep :: "(Manager \<Rightarrow> 'w pushOps) \<Rightarrow> 'w trigger \<Rightarrow> 'w trigger \<Rightarrow> bool" for ops where
  p_take: "q_pushers st m = Waiting \<Longrightarrow> tstep ops st (st\<lparr>q_pushers := (q_pushers st)(m := Getting request)\<rparr>)"
| p_no_tcp: "q_pushers st m = Getting request \<Longrightarrow> p_getTCP (ops m) request (q_world st) = (Inl e, w) \<Longrightarrow>
    tstep ops st (st\<lparr>q_world := w, q_pushers := (q_pushers st)(m := Waiting)\<rparr>)"
| p_tcp: "q_pushers st m = Getting request \<Longrightarrow> p_getTCP (ops m) request (q_world st) = (Inr tcp, w) \<Longrightarrow>
    value_of = ParseStewardControlPlaneUIDFromTenantControlPlane tcp \<Longrightarrow>
    tstep ops st (st\<lparr>q_world := w, q_pushers := (q_pushers st)(m := (if value_of = '''' then Waiting else Listing value_of))\<rparr>)"
| p_no_list: "q_pushers st m = Listing uid \<Longrightarrow> p_listSCPs (ops m) StewardControlPlaneUIDField uid (q_world st) = (Inl e, w) \<Longrightarrow>
    tstep ops st (st\<lparr>q_world := w, q_pushers := (q_pushers st)(m := Waiting)\<rparr>)"
| p_list: "q_pushers st m = Listing uid \<Longrightarrow> p_listSCPs (ops m) StewardControlPlaneUIDField uid (q_world st) = (Inr items, w) \<Longrightarrow>
    tstep ops st (st\<lparr>q_world := w, q_pushers := (q_pushers st)(m := Sending items), q_listed := q_listed st @ eventsOf m items\<rparr>)"
| p_send: "q_pushers st m = Sending (scp # items) \<Longrightarrow> q_listening st \<Longrightarrow>
    tstep ops st (st\<lparr>q_pushers := (q_pushers st)(m := Sending items), q_received := q_received st @ eventsOf m [scp]\<rparr>)"
| p_return: "q_pushers st m = Sending [] \<Longrightarrow> tstep ops st (st\<lparr>q_pushers := (q_pushers st)(m := Waiting)\<rparr>)"
| r_listen: "tstep ops st (st\<lparr>q_listening := True\<rparr>)"
| r_leave: "tstep ops st (st\<lparr>q_listening := False\<rparr>)"
| others: "tstep ops st (st\<lparr>q_world := w\<rparr>)"

inductive_cases tstepE [consumes 1, case_names p_take p_no_tcp p_tcp p_no_list p_list p_send p_return r_listen r_leave others]:
  "tstep ops st st'"

definition treachable :: "(Manager \<Rightarrow> 'w pushOps) \<Rightarrow> 'w trigger \<Rightarrow> bool" where
  "treachable ops st \<longleftrightarrow> (\<exists>w. (tstep ops)\<^sup>*\<^sup>* (quiet_start w) st)"

section \<open>What is on its way\<close>

fun pending :: "pusher \<Rightarrow> StewardControlPlane list" where
  "pending (Sending items) = items"
| "pending _ = []"

definition fromManager :: "Manager \<Rightarrow> (Manager \<times> NamespacedName) list \<Rightarrow> (Manager \<times> NamespacedName) list" where
  "fromManager m = filter (\<lambda>e. fst e = m)"

lemma fromManager_simps [simp]:
  "fromManager m [] = []" "fromManager m (xs @ ys) = fromManager m xs @ fromManager m ys"
  "fromManager m (eventsOf n items) = (if n = m then eventsOf m items else [])"
  by (auto simp: fromManager_def eventsOf_def filter_map comp_def)

lemma eventsOf_Nil [simp]: "eventsOf m [] = []"
  by (simp add: eventsOf_def)

lemma eventsOf_split: "eventsOf m [x] @ eventsOf m xs = eventsOf m (x # xs)"
  by (simp add: eventsOf_def)

definition balanced :: "Manager \<Rightarrow> 'w trigger \<Rightarrow> bool" where
  "balanced m st \<longleftrightarrow> fromManager m (q_received st) @ eventsOf m (pending (q_pushers st m)) = fromManager m (q_listed st)"

lemma balanced_step: "tstep ops st st' \<Longrightarrow> balanced n st \<Longrightarrow> balanced n st'"
  by (induction rule: tstep.induct) (auto simp: balanced_def eventsOf_split)

lemma balanced_reachable:
  assumes "treachable ops st"
  shows "balanced m st"
proof -
  from assms obtain w where "(tstep ops)\<^sup>*\<^sup>* (quiet_start w) st" by (auto simp: treachable_def)
  then show ?thesis
    by (induction rule: rtranclp_induct) (auto simp: balanced_def quiet_start_def intro: balanced_step [unfolded balanced_def])
qed

section \<open>Sending\<close>

text \<open>With a receiver a worker gets rid of what it has to send, one by one.\<close>

lemma sends:
  assumes "q_pushers st m = Sending items" "q_listening st"
  shows "(tstep ops)\<^sup>*\<^sup>* st (st\<lparr>q_pushers := (q_pushers st)(m := Waiting), q_received := q_received st @ eventsOf m items\<rparr>)"
  using assms
proof (induction items arbitrary: st)
  case Nil
  from p_return [OF Nil(1), of ops] show ?case by (simp add: r_into_rtranclp del: fun_upd_apply)
next
  case (Cons x xs)
  let ?st = "st\<lparr>q_pushers := (q_pushers st)(m := Sending xs), q_received := q_received st @ eventsOf m [x]\<rparr>"
  have "tstep ops st ?st" by (rule p_send) (use Cons in simp_all)
  moreover have "(tstep ops)\<^sup>*\<^sup>* ?st (?st\<lparr>q_pushers := (q_pushers ?st)(m := Waiting), q_received := q_received ?st @ eventsOf m xs\<rparr>)"
    by (rule Cons.IH) (use Cons in simp_all)
  ultimately show ?case by (simp add: eventsOf_split converse_rtranclp_into_rtranclp del: fun_upd_apply)
qed

text \<open>
  Without one it does not get on, whatever else happens but the return of the receiver: nothing but the receiver releases the send,
  and the cancellation of the manager in particular does not.
\<close>

lemma send_blocks:
  assumes "tstep ops st st'" "\<not> q_listening st" "q_pushers st m = Sending (scp # items)"
  shows "q_pushers st' m = Sending (scp # items)"
  using assms by (induction rule: tstep.induct) auto

section \<open>Properties\<close>

text \<open>
  (C34) The trigger channel delivers: in every reachable state of the interleaved workers, the events received from a manager,
  followed by those its worker has still to send, are the events it has listed, in their order and each once; and as
  long as the receiver listens there is a continuation after which all of them are received, and the worker is free.
\<close>

theorem trigger_delivers:
  assumes "treachable ops st"
  shows "fromManager m (q_received st) @ eventsOf m (pending (q_pushers st m)) = fromManager m (q_listed st) \<and>
    (q_listening st \<longrightarrow> pending (q_pushers st m) \<noteq> [] \<longrightarrow>
       (\<exists>st'. (tstep ops)\<^sup>*\<^sup>* st st' \<and> q_pushers st' m = Waiting \<and> fromManager m (q_received st') = fromManager m (q_listed st)))"
proof -
  have acc: "fromManager m (q_received st) @ eventsOf m (pending (q_pushers st m)) = fromManager m (q_listed st)"
    using balanced_reachable [OF assms] by (simp add: balanced_def)
  moreover have "\<exists>st'. (tstep ops)\<^sup>*\<^sup>* st st' \<and> q_pushers st' m = Waiting \<and> fromManager m (q_received st') = fromManager m (q_listed st)"
    if l: "q_listening st" and p: "pending (q_pushers st m) \<noteq> []"
  proof -
    from p obtain items where i: "q_pushers st m = Sending items" by (cases "q_pushers st m") auto
    let ?st = "st\<lparr>q_pushers := (q_pushers st)(m := Waiting), q_received := q_received st @ eventsOf m items\<rparr>"
    have "q_pushers ?st m = Waiting" "fromManager m (q_received ?st) = fromManager m (q_listed st)" using acc i by simp_all
    with sends [OF i l, of ops] show ?thesis by blast
  qed
  ultimately show ?thesis by blast
qed

text \<open>
  The sequential model of \<open>PushStewardChange.Reconcile\<close> is a run of the relation: with a receiver, a free worker can do what the
  function does, and the events it appends are the events received.
\<close>

theorem push_refines_steps:
  assumes run: "PushStewardChange_Reconcile (ops m) request (q_world st, sent) = (x, (w, sent'))"
    and st: "q_pushers st m = Waiting" "q_listening st"
  shows "\<exists>st' new. (tstep ops)\<^sup>*\<^sup>* st st' \<and> q_pushers st' = q_pushers st \<and> q_world st' = w \<and> sent' = sent @ new \<and>
    q_received st' = q_received st @ map (Pair m) new"
proof -
  let ?st1 = "st\<lparr>q_pushers := (q_pushers st)(m := Getting request)\<rparr>"
  have take: "(tstep ops)\<^sup>*\<^sup>* st ?st1" using p_take [OF st(1)] by blast
  obtain g w1 where g: "p_getTCP (ops m) request (q_world st) = (g, w1)" by fastforce
  show ?thesis
  proof (cases g)
    case (Inl e)
    from p_no_tcp [of ?st1 m request ops e w1] g Inl
    have "tstep ops ?st1 (st\<lparr>q_world := w1, q_pushers := (q_pushers st)(m := Waiting)\<rparr>)" by simp
    with take have "(tstep ops)\<^sup>*\<^sup>* st (st\<lparr>q_world := w1, q_pushers := (q_pushers st)(m := Waiting)\<rparr>)" by (rule rtranclp.rtrancl_into_rtrancl)
    with run g Inl st(1) show ?thesis
      by (intro exI [of _ "st\<lparr>q_world := w1, q_pushers := (q_pushers st)(m := Waiting)\<rparr>"] exI [of _ "[]"])
        (auto simp: PushStewardChange_Reconcile_def split: if_splits)
  next
    case (Inr tcp)
    let ?uid = "ParseStewardControlPlaneUIDFromTenantControlPlane tcp"
    let ?st2 = "st\<lparr>q_world := w1, q_pushers := (q_pushers st)(m := (if ?uid = '''' then Waiting else Listing ?uid))\<rparr>"
    from p_tcp [of ?st1 m request ops tcp w1 ?uid] g Inr have "tstep ops ?st1 ?st2" by simp
    with take have got: "(tstep ops)\<^sup>*\<^sup>* st ?st2" by (rule rtranclp.rtrancl_into_rtrancl)
    show ?thesis
    proof (cases "?uid = ''''")
      case True
      with got run g Inr st(1) show ?thesis
        by (intro exI [of _ ?st2] exI [of _ "[]"]) (auto simp: PushStewardChange_Reconcile_def)
    next
      case False
      obtain l w2 where l: "p_listSCPs (ops m) StewardControlPlaneUIDField ?uid w1 = (l, w2)" by fastforce
      show ?thesis
      proof (cases l)
        case (Inl e)
        let ?st3 = "st\<lparr>q_world := w2, q_pushers := (q_pushers st)(m := Waiting)\<rparr>"
        from p_no_list [of ?st2 m ?uid ops e w2] False l Inl have "tstep ops ?st2 ?st3" by simp
        with got have "(tstep ops)\<^sup>*\<^sup>* st ?st3" by (rule rtranclp.rtrancl_into_rtrancl)
        with run g \<open>g = Inr tcp\<close> False l Inl st(1) show ?thesis
          by (intro exI [of _ ?st3] exI [of _ "[]"]) (auto simp: PushStewardChange_Reconcile_def)
      next
        case (Inr items)
        let ?st3 = "st\<lparr>q_world := w2, q_pushers := (q_pushers st)(m := Sending items), q_listed := q_listed st @ eventsOf m items\<rparr>"
        let ?st4 = "?st3\<lparr>q_pushers := (q_pushers ?st3)(m := Waiting), q_received := q_received ?st3 @ eventsOf m items\<rparr>"
        from p_list [of ?st2 m ?uid ops items w2] False l Inr have "tstep ops ?st2 ?st3" by simp
        with got have "(tstep ops)\<^sup>*\<^sup>* st ?st3" by (rule rtranclp.rtrancl_into_rtrancl)
        moreover have "(tstep ops)\<^sup>*\<^sup>* ?st3 ?st4" by (rule sends) (use st(2) in simp_all)
        ultimately have "(tstep ops)\<^sup>*\<^sup>* st ?st4" by (rule rtranclp_trans)
        with run g \<open>g = Inr tcp\<close> False l Inr st(1) show ?thesis
          by (intro exI [of _ ?st4] exI [of _ "map (\<lambda>scp. (om_Namespace (scp_meta scp), om_Name (scp_meta scp))) items"])
            (auto simp: PushStewardChange_Reconcile_def eventsOf_def)
      qed
    qed
  qed
qed

section \<open>Witnesses\<close>

text \<open>A remote cluster with the \<open>TenantControlPlane\<close> of \<open>remoteSCP\<close>, and a worker that is about to send.\<close>

definition samplePush :: "nat pushOps" where
  "samplePush = \<lparr>p_getTCP = (\<lambda>k w. (Inr (zeroTCP\<lparr>tcp_meta := zeroMeta\<lparr>om_Name := ''kcp-u-1''\<rparr>\<rparr>), w)),
     p_listSCPs = (\<lambda>f v w. (Inr (filter (\<lambda>x. v \<in> set (scpUID_ExtractValue x)) [remoteSCP]), w))\<rparr>"

lemma sample_uid: "ParseStewardControlPlaneUIDFromTenantControlPlane (zeroTCP\<lparr>tcp_meta := zeroMeta\<lparr>om_Name := ''kcp-u-1''\<rparr>\<rparr>) = ''u-1''"
proof -
  have "om_Name (tcp_meta (zeroTCP\<lparr>tcp_meta := zeroMeta\<lparr>om_Name := ''kcp-u-1''\<rparr>\<rparr>)) = RemoteTCPPrefix @ ''u-1''"
    by (simp add: RemoteTCPPrefix_def)
  then show ?thesis unfolding ParseStewardControlPlaneUIDFromTenantControlPlane_def by (simp only:) simp
qed

definition sendingState :: "nat trigger" where
  "sendingState = \<lparr>q_world = 0, q_pushers = (\<lambda>_. Waiting)(7 := Sending [remoteSCP]), q_received = [], q_listed = eventsOf 7 [remoteSCP],
     q_listening = True\<rparr>"

lemma sending_reachable: "treachable (\<lambda>_. samplePush) sendingState"
proof -
  let ?ops = "\<lambda>_ :: Manager. samplePush"
  let ?s0 = "quiet_start (0 :: nat)"
  let ?s1 = "?s0\<lparr>q_listening := True\<rparr>"
  let ?s2 = "?s1\<lparr>q_pushers := (q_pushers ?s1)(7 := Getting (''tenants'', ''kcp-u-1''))\<rparr>"
  let ?s3 = "?s2\<lparr>q_world := 0, q_pushers := (q_pushers ?s2)(7 := Listing ''u-1'')\<rparr>"
  have "tstep ?ops ?s0 ?s1" by (rule r_listen)
  moreover have "tstep ?ops ?s1 ?s2" by (rule p_take) (simp add: quiet_start_def)
  moreover have "tstep ?ops ?s2 ?s3"
    using p_tcp [of ?s2 7 "(''tenants'', ''kcp-u-1'')" ?ops "zeroTCP\<lparr>tcp_meta := zeroMeta\<lparr>om_Name := ''kcp-u-1''\<rparr>\<rparr>" 0 "''u-1''"]
    by (simp add: samplePush_def quiet_start_def sample_uid)
  moreover have "tstep ?ops ?s3 sendingState"
    using p_list [of ?s3 7 "''u-1''" ?ops "[remoteSCP]" 0]
    by (simp add: samplePush_def quiet_start_def scpUID_ExtractValue_def remoteSCP_def sendingState_def)
  ultimately have "(tstep ?ops)\<^sup>*\<^sup>* ?s0 sendingState" by (blast intro: converse_rtranclp_into_rtranclp)
  then show ?thesis by (auto simp: treachable_def)
qed

theorem trigger_delivers_witness:
  "\<exists>st'. (tstep (\<lambda>_. samplePush))\<^sup>*\<^sup>* sendingState st' \<and> fromManager 7 (q_received st') = [(7, ''team'', ''cp'')]"
proof -
  have "fromManager 7 (q_listed sendingState) = [(7, ''team'', ''cp'')]"
    by (simp add: sendingState_def) (simp add: eventsOf_def remoteSCP_def)
  with trigger_delivers [OF sending_reachable, of 7] show ?thesis by (auto simp: sendingState_def)
qed

theorem push_refines_steps_witness:
  "\<exists>st'. (tstep (\<lambda>_. samplePush))\<^sup>*\<^sup>* ((quiet_start 0)\<lparr>q_listening := True\<rparr>) st' \<and> q_received st' = [(7, ''team'', ''cp'')]"
proof -
  let ?st = "(quiet_start 0)\<lparr>q_listening := True\<rparr>"
  have "PushStewardChange_Reconcile samplePush (''tenants'', ''kcp-u-1'') (q_world ?st, []) = (None, (0, [(''team'', ''cp'')]))"
    by (simp add: PushStewardChange_Reconcile_def samplePush_def quiet_start_def sample_uid scpUID_ExtractValue_def remoteSCP_def)
  from push_refines_steps [where ops = "\<lambda>_. samplePush" and m = 7, OF this] show ?thesis by (auto simp: quiet_start_def)
qed

end
