(* ===== verification/Main_Setup.thy ===== *)
theory Main_Setup
  imports External_Cluster_Reconciler External_Reference
begin

text \<open>
  \<open>main.go\<close> and the \<open>SetupWithManager\<close> methods of the controllers: what the process sets up, in which
  order, under which flags. The calls into controller-runtime, \<open>pflag\<close> and \<open>featuregate\<close> are
  \<open>setupOps\<close>, over a world \<open>'w\<close>; \<open>u_actions\<close> records the calls made, in order, with their errors. A call that fails
  ends the process with exit code 1, except for the flags: \<open>pflag.CommandLine\<close> exits from within \<open>Parse\<close>, with a code
  of its own (\<open>so_parseExit\<close>), so that the test after it is never reached with an error. The set-up of the log is left out.
\<close>

section \<open>What is set up\<close>

definition gateDefaults :: "(string \<times> bool) list" where
  "gateDefaults =
     [(FeatureExternalClusterReference, False), (FeatureExternalClusterReferenceCrossNamespace, False),
      (FeatureSkipInfraClusterPatch, False), (FeatureDynamicInfrastructureClusterPatch, False)]"

text \<open>The variables bound to flags, with the defaults they are declared with, and the gates.\<close>

record flagValues =
  fl_Enabled :: "string \<Rightarrow> bool"
  fl_dynamicInfraClusters :: "string list"
  fl_metricsAddr :: string
  fl_probeAddr :: string
  fl_enableLeaderElection :: bool
  fl_maxConcurrentReconciles :: int

definition flagDefaults :: flagValues where
  "flagDefaults = \<lparr>fl_Enabled = (\<lambda>f. map_of gateDefaults f = Some True), fl_dynamicInfraClusters = [],
     fl_metricsAddr = '':8080'', fl_probeAddr = '':8081'', fl_enableLeaderElection = False,
     fl_maxConcurrentReconciles = 1\<rparr>"

text \<open>
  The options of the manager. Those of the metrics server are what \<open>flags.GetManagerOptions\<close> made of the flags of
  Cluster API; the variable \<open>metricsAddr\<close> is not used.
\<close>

record managerOptions =
  mo_Metrics :: string
  mo_WebhookPort :: nat
  mo_CacheUnstructured :: bool
  mo_HealthProbeBindAddress :: string
  mo_LeaderElection :: bool
  mo_LeaderElectionID :: string

definition optionsOf :: "string \<Rightarrow> flagValues \<Rightarrow> managerOptions" where
  "optionsOf metricsOpts f = \<lparr>mo_Metrics = metricsOpts, mo_WebhookPort = 9443, mo_CacheUnstructured = True,
     mo_HealthProbeBindAddress = fl_probeAddr f, mo_LeaderElection = fl_enableLeaderElection f,
     mo_LeaderElectionID = ''steward.controlplane.cluster.x-k8s.io''\<rparr>"

text \<open>The fields of \<open>StewardControlPlaneReconciler\<close> that \<open>main\<close> fills in.\<close>

record reconcilerConfig =
  rc_ExternalClusterReferenceStore :: mapStore
  rc_FeatureGates :: "string \<Rightarrow> bool"
  rc_MaxConcurrentReconciles :: int
  rc_DynamicInfrastructureClusters :: "string set"

text \<open>The sources of events of a controller, as given to the builder.\<close>

datatype watch =
    ForStewardControlPlane
  | OwnsSecret
  | OwnsTenantControlPlane
  | TriggerChannel
  | ForSecret
  | WatchesStewardControlPlane
  | ForTenantControlPlane

datatype action =
    AddFeatureGates "(string \<times> bool) list"
  | ParseFlags
  | GetManagerOptions
  | NewManager managerOptions
  | NewClientset
  | DiscoverSteward
  | IndexField objectKind string
  | CompleteController "watch list"
  | AddHealthzCheck
  | AddReadyzCheck
  | StartManager

record 'w setupOps =
  so_do :: "action \<Rightarrow> 'w \<Rightarrow> error option \<times> 'w"
  so_parseExit :: "error \<Rightarrow> nat option"
  so_flags :: "'w \<Rightarrow> flagValues"
  so_metricsOpts :: "'w \<Rightarrow> string"

record 'w boot =
  u_world :: 'w
  u_actions :: "(action \<times> error option) list"
  u_flags :: flagValues
  u_metricsOpts :: string
  u_reconciler :: "reconcilerConfig option"

type_synonym 'w sstep = "('w boot, nat) step"

definition perform :: "'w setupOps \<Rightarrow> action \<Rightarrow> 'w boot \<Rightarrow> error option \<times> 'w boot" where
  "perform ops a s =
     (case so_do ops a (u_world s) of (e, w) \<Rightarrow> (e, s\<lparr>u_world := w, u_actions := u_actions s @ [(a, e)]\<rparr>))"

text \<open>\<open>if err != nil { ...; os.Exit(1) }\<close>.\<close>

definition orExit :: "('w boot \<Rightarrow> error option \<times> 'w boot) \<Rightarrow> 'w sstep" where
  "orExit f s = (case f s of (Some e, s1) \<Rightarrow> (Some 1, s1) | (None, s1) \<Rightarrow> (None, s1))"

section \<open>The controllers\<close>

text \<open>The predicate of the primary watch: only control planes with an owner are reconciled.\<close>

definition hasOwner :: "ObjectMeta \<Rightarrow> bool" where
  "hasOwner m \<longleftrightarrow> length (om_OwnerReferences m) > 0"

text \<open>
  The watches of the control plane controller: \<open>TenantControlPlane\<close>s only if the API server knows their
  group and version when the process starts.
\<close>

definition controlPlaneWatches :: "bool \<Rightarrow> watch list" where
  "controlPlaneWatches stewardServed =
     [ForStewardControlPlane, OwnsSecret, TriggerChannel] @ (if stewardServed then [OwnsTenantControlPlane] else [])"

definition StewardControlPlane_SetupWithManager :: "'w setupOps \<Rightarrow> 'w boot \<Rightarrow> error option \<times> 'w boot" where
  "StewardControlPlane_SetupWithManager ops s =
     (case perform ops NewClientset s of
        (Some csErr, s1) \<Rightarrow> (Some (wrapErr ''cannot create Kubernetes Client-set'' csErr), s1)
      | (None, s1) \<Rightarrow>
          (case perform ops DiscoverSteward s1 of
             (rsErr, s2) \<Rightarrow> perform ops (CompleteController (controlPlaneWatches (rsErr = None))) s2))"

definition ECR_SetupWithManager :: "'w setupOps \<Rightarrow> 'w boot \<Rightarrow> error option \<times> 'w boot" where
  "ECR_SetupWithManager ops s = perform ops (CompleteController [ForSecret, WatchesStewardControlPlane]) s"

definition PushStewardChange_SetupWithManager :: "'w setupOps \<Rightarrow> 'w boot \<Rightarrow> error option \<times> 'w boot" where
  "PushStewardChange_SetupWithManager ops s = perform ops (CompleteController [ForTenantControlPlane]) s"

section \<open>main\<close>

definition parseFlags :: "'w setupOps \<Rightarrow> 'w sstep" where
  "parseFlags ops s =
     (case perform ops ParseFlags s of
        (Some e, s1) \<Rightarrow> (Some (case so_parseExit ops e of Some code \<Rightarrow> code | None \<Rightarrow> 1), s1)
      | (None, s1) \<Rightarrow> (None, s1\<lparr>u_flags := so_flags ops (u_world s1)\<rparr>))"

definition getManagerOptions :: "'w setupOps \<Rightarrow> 'w boot \<Rightarrow> error option \<times> 'w boot" where
  "getManagerOptions ops s =
     (case perform ops GetManagerOptions s of
        (Some e, s1) \<Rightarrow> (Some e, s1)
      | (None, s1) \<Rightarrow> (None, s1\<lparr>u_metricsOpts := so_metricsOpts ops (u_world s1)\<rparr>))"

definition newManager :: "'w setupOps \<Rightarrow> 'w boot \<Rightarrow> error option \<times> 'w boot" where
  "newManager ops s = perform ops (NewManager (optionsOf (u_metricsOpts s) (u_flags s))) s"

definition guardDynamic :: "'w sstep" where
  "guardDynamic s =
     (if \<not> fl_Enabled (u_flags s) FeatureDynamicInfrastructureClusterPatch \<and>
         length (fl_dynamicInfraClusters (u_flags s)) > 0
      then (Some 1, s) else (None, s))"

definition setupReconciler :: "'w setupOps \<Rightarrow> 'w sstep" where
  "setupReconciler ops s =
     orExit (StewardControlPlane_SetupWithManager ops)
       (s\<lparr>u_reconciler := Some \<lparr>rc_ExternalClusterReferenceStore = NewStore,
          rc_FeatureGates = fl_Enabled (u_flags s),
          rc_MaxConcurrentReconciles = fl_maxConcurrentReconciles (u_flags s),
          rc_DynamicInfrastructureClusters = set (fl_dynamicInfraClusters (u_flags s))\<rparr>\<rparr>)"

definition setupIndexes :: "'w setupOps \<Rightarrow> 'w boot \<Rightarrow> error option \<times> 'w boot" where
  "setupIndexes ops s = indexers_SetupWithManager (\<lambda>kind field. perform ops (IndexField kind field)) s"

definition setupExternal :: "'w setupOps \<Rightarrow> 'w sstep" where
  "setupExternal ops s =
     (if fl_Enabled (u_flags s) FeatureExternalClusterReference \<or>
         fl_Enabled (u_flags s) FeatureExternalClusterReferenceCrossNamespace
      then run_steps [orExit (setupIndexes ops), orExit (ECR_SetupWithManager ops)] s
      else (None, s))"

definition main_steps :: "'w setupOps \<Rightarrow> 'w sstep list" where
  "main_steps ops =
     [orExit (perform ops (AddFeatureGates gateDefaults)),
      parseFlags ops,
      orExit (getManagerOptions ops),
      guardDynamic,
      orExit (newManager ops),
      setupReconciler ops,
      setupExternal ops,
      orExit (perform ops AddHealthzCheck),
      orExit (perform ops AddReadyzCheck),
      orExit (perform ops StartManager)]"

definition emptyBoot :: "'w \<Rightarrow> 'w boot" where
  "emptyBoot w = \<lparr>u_world = w, u_actions = [], u_flags = flagDefaults, u_metricsOpts = '''', u_reconciler = None\<rparr>"

text \<open>The exit code, 0 when \<open>mgr.Start\<close> returned without error, and what was set up.\<close>

definition main :: "'w setupOps \<Rightarrow> 'w \<Rightarrow> nat \<times> 'w boot" where
  "main ops w =
     (case run_steps (main_steps ops) (emptyBoot w) of
        (r, s) \<Rightarrow> (case r of Some code \<Rightarrow> code | None \<Rightarrow> 0, s))"

section \<open>Properties\<close>

lemma perform_run: "perform ops a s = (e, s') \<Longrightarrow>
   u_actions s' = u_actions s @ [(a, e)] \<and> u_flags s' = u_flags s \<and> u_reconciler s' = u_reconciler s \<and>
   u_metricsOpts s' = u_metricsOpts s"
  by (auto simp: perform_def split: prod.splits)

lemma orExit_None: "orExit f s = (None, s') \<longleftrightarrow> f s = (None, s')"
  by (auto simp: orExit_def split: prod.splits option.splits)

text \<open>The three indexes, then the controller that needs them.\<close>

definition externalActions :: "(string \<Rightarrow> bool) \<Rightarrow> (action \<times> error option) list" where
  "externalActions enabled =
     (if enabled ''ExternalClusterReference'' \<or> enabled ''ExternalClusterReferenceCrossNamespace''
      then [(IndexField KindStewardControlPlane ''externalClusterReferenceStewardControlPlane'', None),
            (IndexField KindSecret ''externalClusterReferenceSecret'', None),
            (IndexField KindStewardControlPlane ''stewardControlPlaneUID'', None),
            (CompleteController [ForSecret, WatchesStewardControlPlane], None)]
      else [])"

lemma setupIndexers_actions:
  "setupIndexers (\<lambda>kind field. perform ops (IndexField kind field)) is s = (None, s') \<Longrightarrow>
   u_actions s' = u_actions s @ map (\<lambda>i. (IndexField (idx_Object i) (idx_Field i), None)) is \<and>
   u_flags s' = u_flags s \<and> u_reconciler s' = u_reconciler s \<and> u_metricsOpts s' = u_metricsOpts s"
proof (induction "is" arbitrary: s)
  case (Cons i "is")
  obtain s1 where p: "perform ops (IndexField (idx_Object i) (idx_Field i)) s = (None, s1)"
    and rest: "setupIndexers (\<lambda>kind field. perform ops (IndexField kind field)) is s1 = (None, s')"
    using Cons.prems by (auto split: prod.splits option.splits)
  from Cons.IH [OF rest] perform_run [OF p] show ?case by simp
qed simp

lemma setupExternal_actions:
  "setupExternal ops s = (None, s') \<Longrightarrow>
   u_actions s' = u_actions s @ externalActions (fl_Enabled (u_flags s)) \<and>
   u_flags s' = u_flags s \<and> u_reconciler s' = u_reconciler s \<and> u_metricsOpts s' = u_metricsOpts s"
  by (auto simp: setupExternal_def externalActions_def orExit_None setupIndexes_def indexers_SetupWithManager_def
      ECR_SetupWithManager_def indexersList_def ecrScpIndexer_def ecrSecretIndexer_def scpUIDIndexer_def
      ExternalClusterReferenceStewardControlPlaneField_def ExternalClusterReferenceSecretField_def StewardControlPlaneUIDField_def
      FeatureExternalClusterReference_def FeatureExternalClusterReferenceCrossNamespace_def
      simp del: setupIndexers.simps split: if_splits prod.splits option.splits
      dest!: setupIndexers_actions perform_run)

text \<open>The options and the configuration that the flags describe.\<close>

definition wantedOptions :: "string \<Rightarrow> flagValues \<Rightarrow> managerOptions" where
  "wantedOptions metrics f = \<lparr>mo_Metrics = metrics, mo_WebhookPort = 9443, mo_CacheUnstructured = True,
     mo_HealthProbeBindAddress = fl_probeAddr f, mo_LeaderElection = fl_enableLeaderElection f,
     mo_LeaderElectionID = ''steward.controlplane.cluster.x-k8s.io''\<rparr>"

definition configOf :: "flagValues \<Rightarrow> reconcilerConfig" where
  "configOf f = \<lparr>rc_ExternalClusterReferenceStore = NewStore, rc_FeatureGates = fl_Enabled f,
     rc_MaxConcurrentReconciles = fl_maxConcurrentReconciles f,
     rc_DynamicInfrastructureClusters = set (fl_dynamicInfraClusters f)\<rparr>"

definition controllerActions :: "error option \<Rightarrow> (action \<times> error option) list" where
  "controllerActions rsErr =
     [(NewClientset, None), (DiscoverSteward, rsErr),
      (CompleteController ([ForStewardControlPlane, OwnsSecret, TriggerChannel] @ (if rsErr = None then [OwnsTenantControlPlane] else [])), None)]"

lemma setupReconciler_actions:
  assumes "setupReconciler ops s = (None, s')"
  shows "(\<exists>rsErr. u_actions s' = u_actions s @ controllerActions rsErr) \<and>
    u_flags s' = u_flags s \<and> u_reconciler s' = Some (configOf (u_flags s)) \<and> u_metricsOpts s' = u_metricsOpts s"
  using assms
  by (auto simp: setupReconciler_def orExit_None StewardControlPlane_SetupWithManager_def configOf_def controllerActions_def
      controlPlaneWatches_def split: prod.splits option.splits dest!: perform_run)

text \<open>Nothing before the last statement starts the manager.\<close>

definition notStarted :: "'w boot \<Rightarrow> bool" where
  "notStarted s \<longleftrightarrow> StartManager \<notin> fst ` set (u_actions s)"

lemma notStarted_perform: "a \<noteq> StartManager \<Longrightarrow> perform ops a s = (e, s') \<Longrightarrow> notStarted s \<Longrightarrow> notStarted s'"
  by (auto simp: notStarted_def dest!: perform_run)

lemma notStarted_indexers:
  "setupIndexers (\<lambda>kind field. perform ops (IndexField kind field)) is s = (e, s') \<Longrightarrow> notStarted s \<Longrightarrow> notStarted s'"
proof (induction "is" arbitrary: s)
  case (Cons i "is")
  obtain x s1 where p: "perform ops (IndexField (idx_Object i) (idx_Field i)) s = (x, s1)" by fastforce
  with notStarted_perform [OF _ p] Cons show ?case by (auto split: option.splits)
qed simp

lemma notStarted_orExit:
  assumes "\<And>s e s'. f s = (e, s') \<Longrightarrow> notStarted s \<Longrightarrow> notStarted s'"
  shows "keeps notStarted (orExit f)"
  using assms by (intro keepsI) (auto simp: orExit_def split: prod.splits option.splits)

lemma keeps_if: "keeps I f \<Longrightarrow> keeps I g \<Longrightarrow> keeps I (\<lambda>s. if b s then f s else g s)"
  by (simp add: keeps_def)

lemma main_notStarted:
  assumes "f \<in> set (butlast (main_steps ops))"
  shows "keeps notStarted f"
proof -
  have perf: "keeps notStarted (orExit (perform ops a))" if "a \<noteq> StartManager" for a
    using notStarted_perform [OF that] by (blast intro: notStarted_orExit)
  have parse: "keeps notStarted (parseFlags ops)"
    by (rule keepsI)
      (auto simp: parseFlags_def notStarted_def split: prod.splits option.splits dest!: perform_run)
  have opts: "keeps notStarted (orExit (getManagerOptions ops))"
    by (rule notStarted_orExit)
      (auto simp: getManagerOptions_def notStarted_def split: prod.splits option.splits dest!: perform_run)
  have new: "keeps notStarted (orExit (newManager ops))"
    by (rule notStarted_orExit) (auto simp: newManager_def notStarted_def dest!: perform_run)
  have guard: "keeps notStarted guardDynamic" by (simp add: keeps_def guardDynamic_def)
  have rec: "keeps notStarted (setupReconciler ops)"
    by (rule keepsI)
      (auto simp: setupReconciler_def orExit_def StewardControlPlane_SetupWithManager_def notStarted_def
        split: prod.splits option.splits dest!: perform_run)
  have idx: "keeps notStarted (orExit (setupIndexes ops))"
    unfolding setupIndexes_def [abs_def] indexers_SetupWithManager_def
    by (rule notStarted_orExit) (rule notStarted_indexers)
  have ecr: "keeps notStarted (orExit (ECR_SetupWithManager ops))"
    unfolding ECR_SetupWithManager_def [abs_def] by (rule notStarted_orExit) (rule notStarted_perform, simp_all)
  have ext: "keeps notStarted (setupExternal ops)"
    unfolding setupExternal_def [abs_def]
    by (intro keeps_if keeps_run_steps) (use idx ecr in \<open>auto simp: keeps_def\<close>)
  from assms perf parse opts new guard rec ext show ?thesis by (auto simp: main_steps_def)
qed

text \<open>The calls of a start-up that gets to its last statement.\<close>

definition startActions :: "flagValues \<Rightarrow> string \<Rightarrow> error option \<Rightarrow> (action \<times> error option) list" where
  "startActions f metrics rsErr =
     [(AddFeatureGates
         [(''ExternalClusterReference'', False), (''ExternalClusterReferenceCrossNamespace'', False),
          (''SkipInfraClusterPatch'', False), (''DynamicInfrastructureClusterPatch'', False)], None),
      (ParseFlags, None), (GetManagerOptions, None), (NewManager (wantedOptions metrics f), None)] @
     controllerActions rsErr @ externalActions (fl_Enabled f) @ [(AddHealthzCheck, None), (AddReadyzCheck, None)]"

lemma gateDefaults_eq: "gateDefaults =
    [(''ExternalClusterReference'', False), (''ExternalClusterReferenceCrossNamespace'', False),
     (''SkipInfraClusterPatch'', False), (''DynamicInfrastructureClusterPatch'', False)]"
  by (simp add: gateDefaults_def FeatureExternalClusterReference_def FeatureExternalClusterReferenceCrossNamespace_def
      FeatureSkipInfraClusterPatch_def FeatureDynamicInfrastructureClusterPatch_def)

lemma main_prefix:
  assumes "run_steps (butlast (main_steps ops)) (emptyBoot w) = (None, s)"
  shows "\<exists>rsErr w1 w2. u_actions s = startActions (u_flags s) (u_metricsOpts s) rsErr \<and>
    u_flags s = so_flags ops w1 \<and> u_metricsOpts s = so_metricsOpts ops w2 \<and> u_reconciler s = Some (configOf (u_flags s)) \<and>
    (fl_dynamicInfraClusters (u_flags s) \<noteq> [] \<longrightarrow> fl_Enabled (u_flags s) ''DynamicInfrastructureClusterPatch'')"
proof -
  from assms obtain s1 s2 s3 s5 s6 s7 s8 where
    a1: "perform ops (AddFeatureGates gateDefaults) (emptyBoot w) = (None, s1)" and
    a2: "parseFlags ops s1 = (None, s2)" and a3: "getManagerOptions ops s2 = (None, s3)" and
    a4: "guardDynamic s3 = (None, s3)" and a5: "newManager ops s3 = (None, s5)" and
    a6: "setupReconciler ops s5 = (None, s6)" and a7: "setupExternal ops s6 = (None, s7)" and
    a8: "perform ops AddHealthzCheck s7 = (None, s8)" and a9: "perform ops AddReadyzCheck s8 = (None, s)"
    by (simp add: main_steps_def orExit_None guardDynamic_def split: prod.splits option.splits if_splits)
  have b2: "u_actions s2 = u_actions s1 @ [(ParseFlags, None)]" "\<exists>w1. u_flags s2 = so_flags ops w1"
    using a2 by (auto simp: parseFlags_def split: prod.splits option.splits dest!: perform_run)
  have b3: "u_actions s3 = u_actions s2 @ [(GetManagerOptions, None)]" "u_flags s3 = u_flags s2" "\<exists>w2. u_metricsOpts s3 = so_metricsOpts ops w2"
    using a3 by (auto simp: getManagerOptions_def split: prod.splits option.splits dest!: perform_run)
  have b5: "u_actions s5 = u_actions s3 @ [(NewManager (wantedOptions (u_metricsOpts s3) (u_flags s3)), None)]"
      "u_flags s5 = u_flags s3" "u_metricsOpts s5 = u_metricsOpts s3"
    using perform_run [OF a5 [unfolded newManager_def]] by (simp_all add: optionsOf_def wantedOptions_def)
  have dyn: "fl_dynamicInfraClusters (u_flags s3) \<noteq> [] \<longrightarrow> fl_Enabled (u_flags s3) ''DynamicInfrastructureClusterPatch''"
    using a4 by (auto simp: guardDynamic_def FeatureDynamicInfrastructureClusterPatch_def split: if_splits)
  from setupReconciler_actions [OF a6] obtain rsErr where b6: "u_actions s6 = u_actions s5 @ controllerActions rsErr"
      "u_flags s6 = u_flags s5" "u_reconciler s6 = Some (configOf (u_flags s5))" "u_metricsOpts s6 = u_metricsOpts s5" by blast
  note rest = setupExternal_actions [OF a7] perform_run [OF a8] perform_run [OF a9]
  have "u_actions s = startActions (u_flags s) (u_metricsOpts s) rsErr"
    using perform_run [OF a1] b2(1) b3(1) b5 b6 rest by (simp add: startActions_def emptyBoot_def gateDefaults_eq)
  with b2(2) b3(2,3) b5(2,3) b6(2-4) rest dyn show ?thesis by auto
qed

lemma main_runs:
  assumes run: "main ops w = (code, s)" and started: "(StartManager, e) \<in> set (u_actions s)"
  shows "\<exists>rsErr w1 w2. u_actions s = startActions (u_flags s) (u_metricsOpts s) rsErr @ [(StartManager, e)] \<and>
    u_flags s = so_flags ops w1 \<and> u_metricsOpts s = so_metricsOpts ops w2 \<and> u_reconciler s = Some (configOf (u_flags s)) \<and>
    (fl_dynamicInfraClusters (u_flags s) \<noteq> [] \<longrightarrow> fl_Enabled (u_flags s) ''DynamicInfrastructureClusterPatch'') \<and>
    code = (if e = None then 0 else 1)"
proof -
  obtain r s1 where pre: "run_steps (butlast (main_steps ops)) (emptyBoot w) = (r, s1)" by fastforce
  have steps: "main_steps ops = butlast (main_steps ops) @ [orExit (perform ops StartManager)]"
    by (simp add: main_steps_def)
  have all: "run_steps (main_steps ops) (emptyBoot w) =
      (case r of Some x \<Rightarrow> (Some x, s1) | None \<Rightarrow> run_steps [orExit (perform ops StartManager)] s1)"
    by (subst steps) (simp only: run_steps_append pre case_prod_conv)
  have "keeps notStarted (run_steps (butlast (main_steps ops)))"
    by (rule keeps_run_steps) (rule main_notStarted)
  from keepsD [OF this, of "emptyBoot w"] pre have not: "notStarted s1" by (simp add: notStarted_def emptyBoot_def)
  have "r = None"
    using run started all not by (cases r) (force simp: main_def emptyBoot_def notStarted_def)+
  obtain x s2 where p: "perform ops StartManager s1 = (x, s2)" by fastforce
  have s: "s = s2" "code = (if x = None then 0 else 1)"
    using run all \<open>r = None\<close> p by (auto simp: main_def emptyBoot_def orExit_def split: option.splits)
  have "x = e" using started not s(1) perform_run [OF p] by (force simp: notStarted_def)
  with s perform_run [OF p] main_prefix [of ops w s1] pre \<open>r = None\<close> show ?thesis by auto
qed

text \<open>
  (C36) When the process gets to run its manager, everything is in place and in order. The four gates are off by default. The manager has the
  probe address and the leader election of the flags, but not their metrics address, and the election's name and the webhook port that are fixed; the control plane controller
  has the gates, the concurrency and the clusters of the flags, and watches \<open>TenantControlPlane\<close>s exactly if the API server was found to serve them; clusters
  to be patched dynamically are configured only if their gate is on; the three field indexes are registered before the controller that uses them, and both exactly
  if one of the two gates for external clusters is on. The exit code is that of the manager.
\<close>

theorem main_starts_configured:
  assumes "main ops w = (code, s)" "(StartManager, e) \<in> set (u_actions s)"
  shows "\<exists>rsErr w1 w2.
    u_actions s =
      [(AddFeatureGates
          [(''ExternalClusterReference'', False), (''ExternalClusterReferenceCrossNamespace'', False),
           (''SkipInfraClusterPatch'', False), (''DynamicInfrastructureClusterPatch'', False)], None),
       (ParseFlags, None), (GetManagerOptions, None),
       (NewManager \<lparr>mo_Metrics = so_metricsOpts ops w2, mo_WebhookPort = 9443, mo_CacheUnstructured = True,
          mo_HealthProbeBindAddress = fl_probeAddr (so_flags ops w1), mo_LeaderElection = fl_enableLeaderElection (so_flags ops w1),
          mo_LeaderElectionID = ''steward.controlplane.cluster.x-k8s.io''\<rparr>, None),
       (NewClientset, None), (DiscoverSteward, rsErr),
       (CompleteController
          ([ForStewardControlPlane, OwnsSecret, TriggerChannel] @ (if rsErr = None then [OwnsTenantControlPlane] else [])), None)] @
      (if fl_Enabled (so_flags ops w1) ''ExternalClusterReference'' \<or> fl_Enabled (so_flags ops w1) ''ExternalClusterReferenceCrossNamespace''
       then [(IndexField KindStewardControlPlane ''externalClusterReferenceStewardControlPlane'', None),
             (IndexField KindSecret ''externalClusterReferenceSecret'', None),
             (IndexField KindStewardControlPlane ''stewardControlPlaneUID'', None),
             (CompleteController [ForSecret, WatchesStewardControlPlane], None)]
       else []) @
      [(AddHealthzCheck, None), (AddReadyzCheck, None), (StartManager, e)] \<and>
    u_reconciler s = Some \<lparr>rc_ExternalClusterReferenceStore = NewStore, rc_FeatureGates = fl_Enabled (so_flags ops w1),
      rc_MaxConcurrentReconciles = fl_maxConcurrentReconciles (so_flags ops w1),
      rc_DynamicInfrastructureClusters = set (fl_dynamicInfraClusters (so_flags ops w1))\<rparr> \<and>
    (fl_dynamicInfraClusters (so_flags ops w1) \<noteq> [] \<longrightarrow> fl_Enabled (so_flags ops w1) ''DynamicInfrastructureClusterPatch'') \<and>
    code = (if e = None then 0 else 1)"
proof -
  from main_runs [OF assms] obtain rsErr w1 w2 where
    a: "u_actions s = startActions (u_flags s) (u_metricsOpts s) rsErr @ [(StartManager, e)]"
    and f: "u_flags s = so_flags ops w1" "u_metricsOpts s = so_metricsOpts ops w2" "u_reconciler s = Some (configOf (u_flags s))"
      "fl_dynamicInfraClusters (u_flags s) \<noteq> [] \<longrightarrow> fl_Enabled (u_flags s) ''DynamicInfrastructureClusterPatch''"
      "code = (if e = None then 0 else 1)" by blast
  show ?thesis
  proof (rule exI [of _ rsErr], rule exI [of _ w1], rule exI [of _ w2], intro conjI)
    show "code = (if e = None then 0 else 1)" by (rule f(5))
    show "fl_dynamicInfraClusters (so_flags ops w1) \<noteq> [] \<longrightarrow> fl_Enabled (so_flags ops w1) ''DynamicInfrastructureClusterPatch''"
      using f(1,4) by simp
  qed (simp_all add: a f(1-3) startActions_def controllerActions_def externalActions_def wantedOptions_def configOf_def)
qed

text \<open>
  The gate for references across namespaces does not stand alone: if only that gate is on, the process
  runs the controller of the external clusters and their indexes, but every control plane with an external
  reference is refused, as not enabled, before anything is read.
\<close>

lemma cross_namespace_gate_alone:
  assumes "main ops w = (code, s)" "(StartManager, e) \<in> set (u_actions s)"
    and "rc_FeatureGates (configOf (u_flags s)) FeatureExternalClusterReferenceCrossNamespace"
    and "\<not> rc_FeatureGates (configOf (u_flags s)) FeatureExternalClusterReference"
    and "r_FeatureGates env = rc_FeatureGates (configOf (u_flags s))"
  shows "(CompleteController [ForSecret, WatchesStewardControlPlane], None) \<in> set (u_actions s) \<and>
    extractRemoteClient env scp t = (Inl (Sentinel ErrExternalClusterReferenceNotEnabled), t)"
  using main_runs [OF assms(1,2)] assms(3-5)
  by (auto simp: startActions_def externalActions_def configOf_def extractRemoteClient_def FeatureExternalClusterReferenceCrossNamespace_def)

section \<open>Witnesses\<close>

definition workingOps :: "(string \<Rightarrow> bool) \<Rightarrow> string list \<Rightarrow> unit setupOps" where
  "workingOps enabled clusters = \<lparr>so_do = (\<lambda>a w. (None, w)), so_parseExit = (\<lambda>e. Some 2),
     so_flags = (\<lambda>w. flagDefaults\<lparr>fl_Enabled := enabled, fl_dynamicInfraClusters := clusters\<rparr>),
     so_metricsOpts = (\<lambda>w. '':8443'')\<rparr>"

lemma working_perform:
  "perform (workingOps enabled clusters) a s = (None, s\<lparr>u_world := u_world s, u_actions := u_actions s @ [(a, None)]\<rparr>)"
  by (simp add: perform_def workingOps_def)

lemma working_main:
  assumes "clusters \<noteq> [] \<longrightarrow> enabled FeatureDynamicInfrastructureClusterPatch"
  shows "\<exists>s. main (workingOps enabled clusters) () = (0, s) \<and> (StartManager, None) \<in> set (u_actions s) \<and> fl_Enabled (u_flags s) = enabled"
proof -
  have flags: "so_flags (workingOps enabled clusters) w =
      flagDefaults\<lparr>fl_Enabled := enabled, fl_dynamicInfraClusters := clusters\<rparr>" for w
    by (simp add: workingOps_def)
  show ?thesis
    using assms
    by (simp add: main_def main_steps_def orExit_def working_perform parseFlags_def flags guardDynamic_def getManagerOptions_def newManager_def emptyBoot_def
        setupReconciler_def StewardControlPlane_SetupWithManager_def setupExternal_def setupIndexes_def
        indexers_SetupWithManager_def indexersList_def ecrScpIndexer_def ecrSecretIndexer_def scpUIDIndexer_def ECR_SetupWithManager_def) blast
qed

theorem main_starts_configured_witness:
  "\<exists>s. main (workingOps (\<lambda>f. f = FeatureExternalClusterReference) []) () = (0, s) \<and>
     (NewManager \<lparr>mo_Metrics = '':8443'', mo_WebhookPort = 9443, mo_CacheUnstructured = True, mo_HealthProbeBindAddress = '':8081'',
        mo_LeaderElection = False, mo_LeaderElectionID = ''steward.controlplane.cluster.x-k8s.io''\<rparr>, None) \<in> set (u_actions s) \<and>
     (CompleteController [ForSecret, WatchesStewardControlPlane], None) \<in> set (u_actions s)"
proof -
  let ?gates = "\<lambda>f. f = FeatureExternalClusterReference"
  let ?ops = "workingOps ?gates []"
  have ops: "so_metricsOpts ?ops v = '':8443''" "fl_probeAddr (so_flags ?ops v) = '':8081''" "fl_enableLeaderElection (so_flags ?ops v) = False"
    "fl_Enabled (so_flags ?ops v) ''ExternalClusterReference''" for v
    by (simp_all add: workingOps_def flagDefaults_def FeatureExternalClusterReference_def)
  from working_main [of "[]" ?gates] obtain s where s: "main ?ops () = (0, s)" "(StartManager, None) \<in> set (u_actions s)" by auto
  from main_starts_configured [OF s] show ?thesis
    by (elim exE conjE, intro exI [of _ s] conjI) (simp_all add: s(1) ops)
qed

lemma cross_namespace_gate_alone_sample:
  "\<exists>s. main (workingOps (\<lambda>f. f = FeatureExternalClusterReferenceCrossNamespace) []) () = (0, s) \<and>
     (CompleteController [ForSecret, WatchesStewardControlPlane], None) \<in> set (u_actions s)"
proof -
  let ?gates = "\<lambda>f. f = FeatureExternalClusterReferenceCrossNamespace"
  from working_main [of "[]" ?gates] obtain s where s: "main (workingOps ?gates []) () = (0, s)"
    "(StartManager, None) \<in> set (u_actions s)" "fl_Enabled (u_flags s) = ?gates" by auto
  have "rc_FeatureGates (configOf (u_flags s)) = ?gates" using s(3) by (simp add: configOf_def)
  with cross_namespace_gate_alone [OF s(1,2), of "sampleEnv\<lparr>r_FeatureGates := ?gates\<rparr>"] s(1) show ?thesis
    by (simp add: FeatureExternalClusterReferenceCrossNamespace_def FeatureExternalClusterReference_def)
qed

end
