(* ===== verification/Api_Validation.thy ===== *)
theory Api_Validation
  imports Tenant_Control_Plane
begin

text \<open>
  The validation that \<open>api/v1alpha1\<close> asks of the API server: the \<open>kubebuilder\<close> markers of
  \<open>stewardcontrolplane_types.go\<close>, that is the CEL rules of \<open>NetworkComponent\<close>, \<open>LoadBalancerConfig\<close> and
  \<open>DataStoreUsername\<close>, the minimum lengths, the enumeration of ingress controllers and the defaults; and
  the template types, whose fields obey the same rules. A CEL expression evaluates to
  \<open>Some b\<close>, or to \<open>None\<close> where it is an error, as the selection of a field of an absent object is; a
  rule that does not evaluate to true refuses the object. The disjunction and the conjunction of CEL
  absorb an error of one side if the other decides.
\<close>

section \<open>CEL\<close>

type_synonym cel = "bool option"

definition celOr :: "cel \<Rightarrow> cel \<Rightarrow> cel" where
  "celOr a b = (if a = Some True \<or> b = Some True then Some True
     else if a = None \<or> b = None then None else Some False)"

definition celAnd :: "cel \<Rightarrow> cel \<Rightarrow> cel" where
  "celAnd a b = (if a = Some False \<or> b = Some False then Some False
     else if a = None \<or> b = None then None else Some True)"

definition celNot :: "cel \<Rightarrow> cel" where
  "celNot a = map_option Not a"

definition celEq :: "'a option \<Rightarrow> 'a option \<Rightarrow> cel" where
  "celEq a b = (case (a, b) of (Some x, Some y) \<Rightarrow> Some (x = y) | _ \<Rightarrow> None)"

text \<open>\<open>has(x)\<close>, and \<open>has(o.f)\<close> for an \<open>o\<close> that may be absent.\<close>

definition celHas :: "'a option \<Rightarrow> cel" where
  "celHas x = Some (x \<noteq> None)"

definition celHasField :: "'a option \<Rightarrow> ('a \<Rightarrow> 'b option) \<Rightarrow> cel" where
  "celHasField obj f = (case obj of None \<Rightarrow> None | Some x \<Rightarrow> Some (f x \<noteq> None))"

lemmas cel_defs = celOr_def celAnd_def celNot_def celEq_def celHas_def celHasField_def

section \<open>The rules of a network\<close>

definition isLoadBalancer :: "NetworkComponent \<Rightarrow> bool" where
  "isLoadBalancer net \<longleftrightarrow> net_ServiceType net = ''LoadBalancer''"

definition sourceRangesRule :: "NetworkComponent \<Rightarrow> cel" where
  "sourceRangesRule self =
     celOr (celOr (celNot (celHas (net_LoadBalancerConfig self)))
                  (celNot (celHasField (net_LoadBalancerConfig self) lb_SourceRanges)))
           (celOr (case net_LoadBalancerConfig self of
                     None \<Rightarrow> None
                   | Some lb \<Rightarrow> map_option (\<lambda>r. length r = 0) (lb_SourceRanges lb))
                  (Some (isLoadBalancer self)))"

definition classRule :: "NetworkComponent \<Rightarrow> cel" where
  "classRule self =
     celOr (celOr (celNot (celHas (net_LoadBalancerConfig self)))
                  (celNot (celHasField (net_LoadBalancerConfig self) lb_Class)))
           (Some (isLoadBalancer self))"

definition exposureRule :: "NetworkComponent \<Rightarrow> cel" where
  "exposureRule self = celNot (celAnd (celHas (net_Ingress self)) (celHas (net_Gateway self)))"

text \<open>The transition rule, for an update from \<open>oldSelf\<close> to \<open>self\<close>.\<close>

definition classTransitionRule :: "NetworkComponent \<Rightarrow> NetworkComponent \<Rightarrow> cel" where
  "classTransitionRule oldSelf self =
     celOr (celOr (celOr (Some (\<not> isLoadBalancer self))
                         (Some (\<not> isLoadBalancer oldSelf \<and> isLoadBalancer self)))
                  (celNot (celHas (net_LoadBalancerConfig self))))
           (celAnd (celHas (net_LoadBalancerConfig self))
                   (celEq (celHasField (net_LoadBalancerConfig self) lb_Class)
                          (celHasField (net_LoadBalancerConfig oldSelf) lb_Class)))"

text \<open>\<open>self == oldSelf\<close> on a field: checked only where both objects have it.\<close>

definition immutableRule :: "'a option \<Rightarrow> 'a option \<Rightarrow> bool" where
  "immutableRule old new \<longleftrightarrow> (case (old, new) of (Some x, Some y) \<Rightarrow> x = y | _ \<Rightarrow> True)"

definition lbClassOf :: "NetworkComponent \<Rightarrow> string option" where
  "lbClassOf net = (case net_LoadBalancerConfig net of None \<Rightarrow> None | Some lb \<Rightarrow> lb_Class lb)"

section \<open>Defaults and validation of an object\<close>

definition defaultServiceType :: "NetworkComponent \<Rightarrow> NetworkComponent" where
  "defaultServiceType net =
     (if net_ServiceType net = '''' then net\<lparr>net_ServiceType := ''LoadBalancer''\<rparr> else net)"

definition ingressControllers :: "string list" where
  "ingressControllers = [''haproxy'', ''nginx'', ''traefik'', ''generic'']"

definition validIngress :: "IngressComponent \<Rightarrow> bool" where
  "validIngress i \<longleftrightarrow> ing_Hostname i \<noteq> '''' \<and> (ing_ControllerType i = '''' \<or> ing_ControllerType i \<in> set ingressControllers)"

definition validGateway :: "GatewayComponent \<Rightarrow> bool" where
  "validGateway g \<longleftrightarrow> gw_Hostname g \<noteq> ''''"

definition validNetwork :: "NetworkComponent \<Rightarrow> bool" where
  "validNetwork net \<longleftrightarrow>
     sourceRangesRule net = Some True \<and> classRule net = Some True \<and> exposureRule net = Some True \<and>
     pred_option validIngress (net_Ingress net) \<and> pred_option validGateway (net_Gateway net) \<and>
     lbClassOf net \<noteq> Some ''''"

definition validReference :: "ExternalClusterReference \<Rightarrow> bool" where
  "validReference ecr \<longleftrightarrow> ecr_KubeconfigSecretName ecr \<noteq> '''' \<and> ecr_KubeconfigSecretKey ecr \<noteq> ''''"

definition validFields :: "StewardControlPlaneFields \<Rightarrow> bool" where
  "validFields f \<longleftrightarrow> validNetwork (defaultServiceType (Network f)) \<and>
     pred_option validReference (dep_ExternalClusterReference (Deployment f))"

text \<open>A string field with \<open>omitempty\<close> is absent when it is empty.\<close>

definition presentString :: "string \<Rightarrow> string option" where
  "presentString s = (if s = '''' then None else Some s)"

definition usernameRule :: "StewardControlPlaneFields \<Rightarrow> StewardControlPlaneFields \<Rightarrow> bool" where
  "usernameRule old new \<longleftrightarrow> immutableRule (presentString (DataStoreUsername old)) (presentString (DataStoreUsername new))"

definition acceptsUpdate :: "StewardControlPlaneFields \<Rightarrow> StewardControlPlaneFields \<Rightarrow> bool" where
  "acceptsUpdate old new \<longleftrightarrow> validFields new \<and>
     (let o1 = defaultServiceType (Network old); n1 = defaultServiceType (Network new)
      in classTransitionRule o1 n1 = Some True \<and> immutableRule (lbClassOf o1) (lbClassOf n1)) \<and>
     usernameRule old new"

section \<open>Templates and lists\<close>

record StewardControlPlaneTemplateResource =
  tr_ObjectMeta :: "smap \<times> smap"
  tr_Spec :: StewardControlPlaneFields

record StewardControlPlaneTemplateSpec =
  ts_Template :: StewardControlPlaneTemplateResource

record StewardControlPlaneTemplate =
  st_meta :: ObjectMeta
  st_Spec :: StewardControlPlaneTemplateSpec

record StewardControlPlaneTemplateList =
  tl_Items :: "StewardControlPlaneTemplate list"

record StewardControlPlaneList =
  cl_Items :: "StewardControlPlane list"

definition validTemplate :: "StewardControlPlaneTemplate \<Rightarrow> bool" where
  "validTemplate t \<longleftrightarrow> validFields (tr_Spec (ts_Template (st_Spec t)))"

section \<open>Properties\<close>

lemma defaultServiceType_config [simp]:
  "net_LoadBalancerConfig (defaultServiceType net) = net_LoadBalancerConfig net"
  "net_Ingress (defaultServiceType net) = net_Ingress net" "net_Gateway (defaultServiceType net) = net_Gateway net"
  by (simp_all add: defaultServiceType_def)

lemma classTransition_iff:
  "classTransitionRule old new = Some True \<longleftrightarrow>
     isLoadBalancer old \<and> isLoadBalancer new \<and> net_LoadBalancerConfig new \<noteq> None \<longrightarrow>
     net_LoadBalancerConfig old \<noteq> None \<and> (lbClassOf new = None \<longleftrightarrow> lbClassOf old = None)"
  by (cases "net_LoadBalancerConfig old"; cases "net_LoadBalancerConfig new")
    (auto simp: classTransitionRule_def cel_defs lbClassOf_def)

text \<open>Whether a network is a load balancer, the default included.\<close>

definition servedByLoadBalancer :: "StewardControlPlaneFields \<Rightarrow> bool" where
  "servedByLoadBalancer f \<longleftrightarrow> net_ServiceType (Network f) = '''' \<or> net_ServiceType (Network f) = ''LoadBalancer''"

lemma isLoadBalancer_default: "isLoadBalancer (defaultServiceType (Network f)) \<longleftrightarrow> servedByLoadBalancer f"
  by (simp add: isLoadBalancer_def defaultServiceType_def servedByLoadBalancer_def)

lemma lbClassOf_bind: "lbClassOf net = Option.bind (net_LoadBalancerConfig net) lb_Class"
  by (simp add: lbClassOf_def split: option.split)

lemma immutableRule_iff: "immutableRule old new \<longleftrightarrow> old = None \<or> new = None \<or> old = new"
  by (auto simp: immutableRule_def split: option.splits)

text \<open>
  (C37) Which updates of the fields are accepted, exactly. A new state that is valid by itself is refused in three cases only: both states name a
  class and they differ; the control plane stays a load balancer and its new configuration comes from none at all, or from one that had a class where
  this has none, or the other way round; both states name a user of the data store and they differ. So the class cannot be changed to
  another one, but it can be removed, by removing the whole configuration, and the name of the user can be removed as well.
\<close>

theorem accepted_updates_exactly:
  assumes valid: "validFields new"
  shows "acceptsUpdate old new \<longleftrightarrow>
    (let class = (\<lambda>f. Option.bind (net_LoadBalancerConfig (Network f)) lb_Class)
     in (class old = None \<or> class new = None \<or> class old = class new) \<and>
        (servedByLoadBalancer old \<and> servedByLoadBalancer new \<and> net_LoadBalancerConfig (Network new) \<noteq> None \<longrightarrow>
           net_LoadBalancerConfig (Network old) \<noteq> None \<and> (class old = None \<longleftrightarrow> class new = None)) \<and>
        (DataStoreUsername old = '''' \<or> DataStoreUsername new = '''' \<or> DataStoreUsername old = DataStoreUsername new))"
proof -
  have tr: "classTransitionRule (defaultServiceType (Network old)) (defaultServiceType (Network new)) = Some True \<longleftrightarrow>
      servedByLoadBalancer old \<and> servedByLoadBalancer new \<and> net_LoadBalancerConfig (Network new) \<noteq> None \<longrightarrow>
      net_LoadBalancerConfig (Network old) \<noteq> None \<and>
      (Option.bind (net_LoadBalancerConfig (Network new)) lb_Class = None \<longleftrightarrow> Option.bind (net_LoadBalancerConfig (Network old)) lb_Class = None)"
    by (simp only: classTransition_iff isLoadBalancer_default lbClassOf_bind defaultServiceType_config)
  have us: "usernameRule old new \<longleftrightarrow>
      DataStoreUsername old = '''' \<or> DataStoreUsername new = '''' \<or> DataStoreUsername old = DataStoreUsername new"
    by (auto simp: usernameRule_def immutableRule_iff presentString_def)
  show ?thesis
    using valid by (simp add: acceptsUpdate_def Let_def tr us lbClassOf_bind immutableRule_iff del: not_None_eq) blast
qed

text \<open>
  The transition rule selects \<open>oldSelf.loadBalancerConfig.loadBalancerClass\<close> without asking whether
  there was a configuration: a control plane created without one can never be given one, not even to restrict the
  source ranges.
\<close>

lemma first_configuration_refused:
  assumes "isLoadBalancer (defaultServiceType (Network old))" "isLoadBalancer (defaultServiceType (Network new))"
    and "net_LoadBalancerConfig (Network old) = None" "net_LoadBalancerConfig (Network new) \<noteq> None"
  shows "\<not> acceptsUpdate old new"
  using assms by (simp add: acceptsUpdate_def Let_def classTransition_iff)

text \<open>The rules of the markers on the network, read on the spec that the mutate function writes.\<close>

definition obeysRules :: "TenantControlPlane \<Rightarrow> bool" where
  "obeysRules t \<longleftrightarrow>
     (let sp = tcp_spec t; np = tp_NetworkProfile sp; balanced = (ts_ServiceType (tp_Service sp) = ''LoadBalancer'')
      in (np_LoadBalancerSourceRanges np = None \<or> np_LoadBalancerSourceRanges np = Some [] \<or> balanced) \<and>
         (np_LoadBalancerClass np = None \<or> balanced) \<and>
         (tp_Ingress sp = None \<or> tp_Gateway sp = None))"

lemma validNetwork_rules:
  assumes "validNetwork net"
  shows "net_ServiceType net = ''LoadBalancer'' \<or> Option.bind (net_LoadBalancerConfig net) lb_Class = None"
    "net_ServiceType net = ''LoadBalancer'' \<or> Option.bind (net_LoadBalancerConfig net) lb_SourceRanges = None \<or>
      Option.bind (net_LoadBalancerConfig net) lb_SourceRanges = Some []"
    "net_Ingress net = None \<or> net_Gateway net = None"
proof -
  show "net_ServiceType net = ''LoadBalancer'' \<or> Option.bind (net_LoadBalancerConfig net) lb_Class = None"
    using assms by (cases "net_LoadBalancerConfig net")
      (auto simp: validNetwork_def classRule_def cel_defs isLoadBalancer_def split: if_splits)
  show "net_ServiceType net = ''LoadBalancer'' \<or> Option.bind (net_LoadBalancerConfig net) lb_SourceRanges = None \<or>
      Option.bind (net_LoadBalancerConfig net) lb_SourceRanges = Some []"
    using assms by (cases "net_LoadBalancerConfig net")
      (auto simp: validNetwork_def sourceRangesRule_def cel_defs isLoadBalancer_def split: if_splits option.splits)
  show "net_Ingress net = None \<or> net_Gateway net = None"
    using assms by (auto simp: validNetwork_def exposureRule_def cel_defs split: if_splits)
qed


text \<open>
  The class and the source ranges of the load balancer are set but never removed, so a control plane that was a load balancer with a class and is changed
  to another service type, as validation allows, leaves the class on its \<open>TenantControlPlane\<close>.
\<close>

lemma load_balancer_settings_stay:
  assumes "net_LoadBalancerConfig (scp_Network scp) = None"
  shows "np_LoadBalancerClass (tp_NetworkProfile (tcp_spec (mutated env cluster scp tcp))) =
      np_LoadBalancerClass (tp_NetworkProfile (tcp_spec tcp))"
    and "np_LoadBalancerSourceRanges (tp_NetworkProfile (tcp_spec (mutated env cluster scp tcp))) =
      np_LoadBalancerSourceRanges (tp_NetworkProfile (tcp_spec tcp))"
  using assms by (simp_all add: mutated_eq mutateSpec_network networkOf_def Let_def)

section \<open>Samples and witnesses\<close>

definition balancedNetwork :: "string \<Rightarrow> LoadBalancerConfig option \<Rightarrow> NetworkComponent" where
  "balancedNetwork t lb = zeroNetwork\<lparr>net_ServiceType := t, net_LoadBalancerConfig := lb\<rparr>"

definition balancedFields :: "string \<Rightarrow> LoadBalancerConfig option \<Rightarrow> StewardControlPlaneFields" where
  "balancedFields t lb = zeroFields\<lparr>Network := balancedNetwork t lb\<rparr>"

definition metalConfig :: LoadBalancerConfig where
  "metalConfig = \<lparr>lb_SourceRanges = Some [''10.0.0.0/8''], lb_Class = Some ''metal''\<rparr>"

lemma balanced_valid:
  "validNetwork (balancedNetwork ''LoadBalancer'' (Some metalConfig))" "validNetwork (balancedNetwork t None)"
  by (simp_all add: validNetwork_def sourceRangesRule_def classRule_def exposureRule_def lbClassOf_def
      isLoadBalancer_def cel_defs balancedNetwork_def metalConfig_def zeroNetwork_def)

lemma balanced_validFields:
  assumes "t = ''NodePort'' \<and> lb = None \<or> t = ''LoadBalancer'' \<and> (lb = None \<or> lb = Some metalConfig)"
  shows "validFields (balancedFields t lb)"
proof -
  have "defaultServiceType (balancedNetwork t lb) = balancedNetwork t lb"
    using assms by (auto simp: defaultServiceType_def balancedNetwork_def)
  then show ?thesis
    using assms balanced_valid by (auto simp: validFields_def balancedFields_def zeroFields_def zeroDeployment_def)
qed

text \<open>The class is unset at run time, with its configuration or with the service type; so is the user of the data store.\<close>

lemma service_type_may_change:
  "acceptsUpdate (balancedFields ''LoadBalancer'' (Some metalConfig)) (balancedFields ''NodePort'' None)"
  using balanced_validFields [of "''NodePort''" None]
  by (simp add: acceptsUpdate_def classTransition_iff immutableRule_iff usernameRule_def presentString_def lbClassOf_def
      isLoadBalancer_default servedByLoadBalancer_def balancedFields_def balancedNetwork_def zeroFields_def)

lemma class_may_be_unset:
  "acceptsUpdate (balancedFields ''LoadBalancer'' (Some metalConfig)) (balancedFields ''LoadBalancer'' None)"
  using balanced_validFields [of "''LoadBalancer''" None]
  by (simp add: acceptsUpdate_def classTransition_iff immutableRule_iff usernameRule_def presentString_def lbClassOf_def
      balancedFields_def balancedNetwork_def zeroFields_def)

lemma username_may_be_cleared:
  "acceptsUpdate ((balancedFields ''LoadBalancer'' None)\<lparr>DataStoreUsername := ''tenant''\<rparr>) (balancedFields ''LoadBalancer'' None)"
  using balanced_validFields [of "''LoadBalancer''" None]
  by (simp add: acceptsUpdate_def classTransition_iff immutableRule_iff usernameRule_def presentString_def lbClassOf_def
      balancedFields_def balancedNetwork_def zeroFields_def)

theorem accepted_updates_exactly_witness:
  "acceptsUpdate (balancedFields ''LoadBalancer'' (Some \<lparr>lb_SourceRanges = None, lb_Class = Some ''metal''\<rparr>))
     (balancedFields ''LoadBalancer'' (Some metalConfig)) \<and>
   \<not> acceptsUpdate (balancedFields ''LoadBalancer'' (Some \<lparr>lb_SourceRanges = None, lb_Class = Some ''cloud''\<rparr>))
     (balancedFields ''LoadBalancer'' (Some metalConfig))"
  using accepted_updates_exactly [OF balanced_validFields [of "''LoadBalancer''" "Some metalConfig"]]
  by (simp add: Let_def balancedFields_def balancedNetwork_def metalConfig_def servedByLoadBalancer_def)


end
