(* ===== verification/Go_Memory.thy ===== *)
theory Go_Memory
  imports Prelude "HOL-Library.AList" "HOL-Library.Monad_Syntax"
begin

text \<open>
  Memory, for the code whose point is that nothing is shared. A value is an atom, a struct with its fields
  in line, \<open>nil\<close>, a pointer or a map (\<open>Ref\<close>), or a slice: an array, an offset and a length. The heap is
  a list of cells, the address of a new cell is its length. \<open>gotype\<close> is the layout of a type; \<open>view h t v\<close>
  is the value behind \<open>v\<close> with all references followed, or \<open>None\<close> if \<open>v\<close> is no value of that
  type in \<open>h\<close>.

  A \<open>DeepCopyInto\<close> method is a function from the value of \<open>*in\<close> to that of \<open>*out\<close> that may allocate. The
  operations of this theory are the statements such a method consists of; \<open>deep\<close> is what it promises: the copy looks like the
  original, memory that existed before is not changed, and, whatever is written to that memory
  later, the copy stays what it is.
\<close>

named_theorems deep_intros \<open>the statements that copy deeply\<close>

section \<open>Values, types and the heap\<close>

datatype atom = AString string | AInt int | ABool bool

datatype val =
    Atom atom
  | Struct "(string \<times> val) list"
  | VNil
  | Ref nat
  | Slice nat nat nat

datatype cell =
    CVal val
  | CArr "val list"
  | CMap "(string \<times> val) list"

type_synonym heap = "cell list"

datatype gotype =
    TString
  | TInt
  | TBool
  | TStruct "(string \<times> gotype) list"
  | TPtr gotype
  | TSlice gotype
  | TMap gotype

datatype tree =
    LAtom atom
  | LStruct "(string \<times> tree) list"
  | LNil
  | LPtr tree
  | LSlice "tree list"
  | LMap "(string \<times> tree) list"

definition lookup :: "heap \<Rightarrow> nat \<Rightarrow> cell option" where
  "lookup h a = (if a < length h then Some (h ! a) else None)"

definition pointee :: "heap \<Rightarrow> nat \<Rightarrow> val option" where
  "pointee h a = (case lookup h a of Some (CVal v) \<Rightarrow> Some v | _ \<Rightarrow> None)"

definition elements :: "heap \<Rightarrow> nat \<Rightarrow> nat \<Rightarrow> nat \<Rightarrow> val list option" where
  "elements h a start n =
     (case lookup h a of
        Some (CArr xs) \<Rightarrow> if start + n \<le> length xs then Some (take n (drop start xs)) else None
      | _ \<Rightarrow> None)"

definition entries :: "heap \<Rightarrow> nat \<Rightarrow> (string \<times> val) list option" where
  "entries h a =
     (case lookup h a of Some (CMap kvs) \<Rightarrow> if distinct (map fst kvs) then Some kvs else None | _ \<Rightarrow> None)"

fun view :: "heap \<Rightarrow> gotype \<Rightarrow> val \<Rightarrow> tree option"
and viewFields :: "heap \<Rightarrow> (string \<times> gotype) list \<Rightarrow> (string \<times> val) list \<Rightarrow> (string \<times> tree) list option" where
  "view h TString v = (case v of Atom (AString s) \<Rightarrow> Some (LAtom (AString s)) | _ \<Rightarrow> None)"
| "view h TInt v = (case v of Atom (AInt i) \<Rightarrow> Some (LAtom (AInt i)) | _ \<Rightarrow> None)"
| "view h TBool v = (case v of Atom (ABool b) \<Rightarrow> Some (LAtom (ABool b)) | _ \<Rightarrow> None)"
| "view h (TStruct fs) v = (case v of Struct vs \<Rightarrow> map_option LStruct (viewFields h fs vs) | _ \<Rightarrow> None)"
| "view h (TPtr t) v =
     (case v of
        VNil \<Rightarrow> Some LNil
      | Ref a \<Rightarrow> do { x \<leftarrow> pointee h a; u \<leftarrow> view h t x; Some (LPtr u) }
      | _ \<Rightarrow> None)"
| "view h (TSlice t) v =
     (case v of
        VNil \<Rightarrow> Some LNil
      | Slice a start n \<Rightarrow> do { xs \<leftarrow> elements h a start n; us \<leftarrow> those (map (view h t) xs); Some (LSlice us) }
      | _ \<Rightarrow> None)"
| "view h (TMap t) v =
     (case v of
        VNil \<Rightarrow> Some LNil
      | Ref a \<Rightarrow> do { kvs \<leftarrow> entries h a; us \<leftarrow> those (map (\<lambda>(k, x). map_option (Pair k) (view h t x)) kvs);
                      Some (LMap us) }
      | _ \<Rightarrow> None)"
| "viewFields h [] vs = (if vs = [] then Some [] else None)"
| "viewFields h ((n, t) # fs) vs =
     (case vs of
        (m, x) # ws \<Rightarrow>
          if m = n then do { u \<leftarrow> view h t x; us \<leftarrow> viewFields h fs ws; Some ((n, u) # us) } else None
      | [] \<Rightarrow> None)"

text \<open>Types without references, whose assignment is already a copy.\<close>

fun plain :: "gotype \<Rightarrow> bool" where
  "plain TString = True"
| "plain TInt = True"
| "plain TBool = True"
| "plain (TStruct fs) = list_all (\<lambda>(n, t). plain t) fs"
| "plain (TPtr t) = False"
| "plain (TSlice t) = False"
| "plain (TMap t) = False"

text \<open>The zero value, with which \<open>new\<close> and \<open>make\<close> fill what they allocate.\<close>

fun zeroOf :: "gotype \<Rightarrow> val" where
  "zeroOf TString = Atom (AString [])"
| "zeroOf TInt = Atom (AInt 0)"
| "zeroOf TBool = Atom (ABool False)"
| "zeroOf (TStruct fs) = Struct (map (\<lambda>(n, t). (n, zeroOf t)) fs)"
| "zeroOf (TPtr t) = VNil"
| "zeroOf (TSlice t) = VNil"
| "zeroOf (TMap t) = VNil"

section \<open>The statements of a deep copy\<close>

type_synonym copier = "val \<Rightarrow> heap \<Rightarrow> (val \<times> heap) option"

definition getField :: "string \<Rightarrow> val \<Rightarrow> val option" where
  "getField n v = (case v of Struct vs \<Rightarrow> map_of vs n | _ \<Rightarrow> None)"

definition setField :: "string \<Rightarrow> val \<Rightarrow> val \<Rightarrow> val option" where
  "setField n y v =
     (case v of Struct vs \<Rightarrow> if n \<in> set (map fst vs) then Some (Struct (AList.update n y vs)) else None | _ \<Rightarrow> None)"

text \<open>\<open>*out = *in\<close> on a value: what its references point to is shared.\<close>

definition assign :: copier where
  "assign v h = Some (v, h)"

text \<open>\<open>if in != nil { *out = new(T); (*in).DeepCopyInto(*out) }\<close>.\<close>

definition copyPtr :: "gotype \<Rightarrow> copier \<Rightarrow> copier" where
  "copyPtr t into v h =
     (case v of
        VNil \<Rightarrow> Some (VNil, h)
      | Ref a \<Rightarrow>
          let b = length h; h1 = h @ [CVal (zeroOf t)]
          in do { x \<leftarrow> pointee h1 a; (y, h2) \<leftarrow> into x h1; Some (Ref b, h2[b := CVal y]) }
      | _ \<Rightarrow> None)"

text \<open>The loop \<open>for i := range *in { (*in)[i].DeepCopyInto(&(*out)[i]) }\<close> over the given indices.\<close>

fun copyElements :: "copier \<Rightarrow> nat \<Rightarrow> nat \<Rightarrow> nat \<Rightarrow> nat list \<Rightarrow> heap \<Rightarrow> heap option" where
  "copyElements into a start b [] h = Some h"
| "copyElements into a start b (i # is) h =
     (case lookup h a of
        Some (CArr xs) \<Rightarrow>
          (if start + i < length xs
           then do { (y, h1) \<leftarrow> into (xs ! (start + i)) h;
                     h2 \<leftarrow> (case lookup h1 b of
                             Some (CArr ys) \<Rightarrow> if i < length ys then Some (h1[b := CArr (ys[i := y])]) else None
                           | _ \<Rightarrow> None);
                     copyElements into a start b is h2 }
           else None)
      | _ \<Rightarrow> None)"

text \<open>\<open>*out = make([]T, len(*in))\<close> and that loop.\<close>

definition copySlice :: "gotype \<Rightarrow> copier \<Rightarrow> copier" where
  "copySlice t into v h =
     (case v of
        VNil \<Rightarrow> Some (VNil, h)
      | Slice a start n \<Rightarrow>
          let b = length h
          in do { h1 \<leftarrow> copyElements into a start b [0..<n] (h @ [CArr (replicate n (zeroOf t))]);
                  Some (Slice b 0 n, h1) }
      | _ \<Rightarrow> None)"

text \<open>\<open>*out = make([]T, len(*in)); copy(*out, *in)\<close>.\<close>

definition copyPlainSlice :: "gotype \<Rightarrow> copier" where
  "copyPlainSlice t v h =
     (case v of
        VNil \<Rightarrow> Some (VNil, h)
      | Slice a start n \<Rightarrow>
          let b = length h; h1 = h @ [CArr (replicate n (zeroOf t))]
          in do { xs \<leftarrow> elements h1 a start n; Some (Slice b 0 n, h1[b := CArr xs]) }
      | _ \<Rightarrow> None)"

text \<open>\<open>*out = make(map[string]T, len(*in)); for key, val := range *in { (*out)[key] = val }\<close>.\<close>

definition copyPlainMap :: copier where
  "copyPlainMap v h =
     (case v of
        VNil \<Rightarrow> Some (VNil, h)
      | Ref a \<Rightarrow>
          let b = length h; h1 = h @ [CMap []]
          in do { kvs \<leftarrow> entries h1 a; Some (Ref b, h1[b := CMap (fold (\<lambda>(k, x). AList.update k x) kvs [])]) }
      | _ \<Rightarrow> None)"

text \<open>
  The body of a method: after \<open>*out = *in\<close>, the statements for single fields, each reading from \<open>in\<close> and writing to \<open>out\<close>.
\<close>

fun copyFields :: "(string \<times> copier) list \<Rightarrow> val \<Rightarrow> val \<Rightarrow> heap \<Rightarrow> (val \<times> heap) option" where
  "copyFields [] src out h = Some (out, h)"
| "copyFields ((n, f) # steps) src out h =
     do { x \<leftarrow> getField n src; (y, h1) \<leftarrow> f x h; out1 \<leftarrow> setField n y out; copyFields steps src out1 h1 }"

definition copyStruct :: "(string \<times> copier) list \<Rightarrow> copier" where
  "copyStruct steps src h = do { (out, h1) \<leftarrow> assign src h; copyFields steps src out h1 }"

section \<open>The promise\<close>

definition deep :: "gotype \<Rightarrow> copier \<Rightarrow> bool" where
  "deep t into \<longleftrightarrow>
     (\<forall>h v u. view h t v = Some u \<longrightarrow>
        (\<exists>v' new. into v h = Some (v', h @ new) \<and>
           (\<forall>old. length old = length h \<longrightarrow> view (old @ new) t v' = Some u)))"


lemma deepI:
  assumes "\<And>h v u. view h t v = Some u \<Longrightarrow>
    \<exists>v' new. into v h = Some (v', h @ new) \<and> (\<forall>old. length old = length h \<longrightarrow> view (old @ new) t v' = Some u)"
  shows "deep t into"
  using assms by (simp add: deep_def)

lemma deepE:
  assumes "deep t into" "view h t v = Some u"
  obtains v' new where "into v h = Some (v', h @ new)" "\<And>old. length old = length h \<Longrightarrow> view (old @ new) t v' = Some u"
  using assms unfolding deep_def by blast

section \<open>Growing heaps and values without references\<close>

lemma those_eq_Some: "those xs = Some ys \<longleftrightarrow> xs = map Some ys"
  by (induction xs arbitrary: ys) (auto simp: map_eq_Cons_conv split: option.splits)

lemma those_map_mono:
  assumes "those (map f xs) = Some us" "\<And>x u. x \<in> set xs \<Longrightarrow> f x = Some u \<Longrightarrow> g x = Some u"
  shows "those (map g xs) = Some us"
  using assms by (induction xs arbitrary: us) (auto split: option.splits)

lemma lookup_append: "lookup h a = Some c \<Longrightarrow> lookup (h @ new) a = Some c"
  by (auto simp: lookup_def nth_append split: if_splits)

lemma lookup_new [simp]: "lookup (h @ c # new) (length h) = Some c" "length old = n \<Longrightarrow> lookup (old @ c # new) n = Some c"
  by (simp_all add: lookup_def nth_append)

lemma pointee_append: "pointee h a = Some v \<Longrightarrow> pointee (h @ new) a = Some v"
  by (auto simp: pointee_def lookup_append split: option.splits cell.splits)

lemma elements_append: "elements h a i n = Some vs \<Longrightarrow> elements (h @ new) a i n = Some vs"
  by (auto simp: elements_def lookup_append split: option.splits cell.splits if_splits)

lemma entries_append: "entries h a = Some kvs \<Longrightarrow> entries (h @ new) a = Some kvs"
  by (auto simp: entries_def lookup_append split: option.splits cell.splits if_splits)

text \<open>What is allocated later does not matter to a value.\<close>

lemma view_append: "view h t v = Some u \<Longrightarrow> view (h @ new) t v = Some u"
  and viewFields_append: "viewFields h fs vs = Some us \<Longrightarrow> viewFields (h @ new) fs vs = Some us"
proof (induction h t v and h fs vs arbitrary: u and us rule: view_viewFields.induct)
  case (5 h t v)
  then show ?case by (auto simp: pointee_append bind_eq_Some_conv split: val.splits)
next
  case (6 h t v)
  then show ?case
    by (fastforce simp: elements_append bind_eq_Some_conv split: val.splits elim: those_map_mono)
next
  case (7 h t v)
  then show ?case
    by (fastforce simp: entries_append bind_eq_Some_conv split: val.splits prod.splits elim: those_map_mono)
qed (auto simp: bind_eq_Some_conv split: val.splits list.splits if_splits prod.splits)

lemma view_plain: "plain t \<Longrightarrow> view h t v = view h' t v"
  and viewFields_plain: "list_all (\<lambda>(n, t). plain t) fs \<Longrightarrow> viewFields h fs vs = viewFields h' fs vs"
  by (induction h t v and h fs vs rule: view_viewFields.induct) (auto split: val.splits list.splits intro!: Option.bind_cong)

lemma view_plainD: "plain t \<Longrightarrow> view h t v = Some u \<Longrightarrow> view h' t v = Some u"
  using view_plain by metis

text \<open>The fields of a struct, by position.\<close>

lemma viewFields_iff:
  "viewFields h fs vs = Some us \<longleftrightarrow>
     map fst vs = map fst fs \<and> map fst us = map fst fs \<and>
     (\<forall>i < length fs. view h (snd (fs ! i)) (snd (vs ! i)) = Some (snd (us ! i)))"
proof (induction fs arbitrary: vs us)
  case Nil
  show ?case by auto
next
  case (Cons f fs)
  then show ?case
    by (cases f; cases vs; cases us)
      (auto simp: bind_eq_Some_conv All_less_Suc2 split: if_splits)
qed


section \<open>The statements copy deeply\<close>

lemma deep_assign [deep_intros]: "plain t \<Longrightarrow> deep t assign"
proof (rule deepI)
  fix h v u
  assume "plain t" "view h t v = Some u"
  then have "view (old @ []) t v = Some u" for old by (rule view_plainD)
  then show "\<exists>v' new. assign v h = Some (v', h @ new) \<and> (\<forall>old. length old = length h \<longrightarrow> view (old @ new) t v' = Some u)"
    by (auto simp: assign_def intro: exI [of _ "[]"])
qed

lemma deep_copyPtr [deep_intros]:
  assumes "deep t into"
  shows "deep (TPtr t) (copyPtr t into)"
proof (rule deepI)
  fix h v u
  assume "view h (TPtr t) v = Some u"
  then consider "v = VNil" "u = LNil"
    | a x w where "v = Ref a" "pointee h a = Some x" "view h t x = Some w" "u = LPtr w"
    by (auto simp: bind_eq_Some_conv split: val.splits)
  then show "\<exists>v' new. copyPtr t into v h = Some (v', h @ new) \<and>
      (\<forall>old. length old = length h \<longrightarrow> view (old @ new) (TPtr t) v' = Some u)"
  proof cases
    case 1
    then show ?thesis by (auto simp: copyPtr_def intro: exI [of _ "[]"])
  next
    case (2 a x w)
    let ?h = "h @ [CVal (zeroOf t)]"
    from assms view_append [OF 2(3), of "[CVal (zeroOf t)]"] obtain y new where
      y: "into x ?h = Some (y, ?h @ new)" "\<And>old. length old = length ?h \<Longrightarrow> view (old @ new) t y = Some w"
      by (rule deepE) blast
    have "copyPtr t into v h = Some (Ref (length h), h @ CVal y # new)"
      using 2(1) pointee_append [OF 2(2)] y(1) by (simp add: copyPtr_def list_update_append)
    moreover have "view (old @ CVal y # new) (TPtr t) (Ref (length h)) = Some u" if "length old = length h" for old
      using y(2) [of "old @ [CVal y]"] that 2(4) by (simp add: pointee_def)
    ultimately show ?thesis by blast
  qed
qed

text \<open>
  The loop over a slice: \<open>ys\<close> is the part of the new array that is done, \<open>new\<close> what was allocated for it.
\<close>

lemma copyElements_deep:
  assumes into: "deep t into"
    and src: "elements h a start (length us) = Some xs" "those (map (view h t) xs) = Some us"
    and i: "i + k = length us" "length ys = i"
    and finished: "\<And>old. length old = Suc (length h) \<Longrightarrow> those (map (view (old @ new) t) ys) = Some (take i us)"
  shows "\<exists>zs new'. copyElements into a start (length h) [i..<length us] (h @ CArr (ys @ replicate k z) # new) =
      Some (h @ CArr zs # new') \<and> length zs = length us \<and>
      (\<forall>old. length old = Suc (length h) \<longrightarrow> those (map (view (old @ new') t) zs) = Some us)"
  using i finished
proof (induction k arbitrary: i ys new)
  case 0
  then show ?case by auto
next
  case (Suc k)
  let ?h = "h @ CArr (ys @ replicate (Suc k) z) # new"
  have i: "i < length us" using Suc.prems(1) by simp
  obtain arr where arr: "lookup h a = Some (CArr arr)" "start + length us \<le> length arr" "xs = take (length us) (drop start arr)"
    using src(1) by (auto simp: elements_def split: option.splits cell.splits if_splits)
  have x: "arr ! (start + i) = xs ! i" "start + i < length arr" using arr i by simp_all
  have len: "length xs = length us" using src(2) by (metis length_map those_eq_Some)
  have "view h t (xs ! i) = Some (us ! i)" using src(2) i len by (metis nth_map those_eq_Some)
  from deepE [OF into view_append [OF this]] obtain y more where
    y: "into (xs ! i) ?h = Some (y, ?h @ more)" "\<And>old. length old = length ?h \<Longrightarrow> view (old @ more) t y = Some (us ! i)"
    by metis
  let ?h' = "h @ CArr ((ys @ [y]) @ replicate k z) # new @ more"
  have step: "copyElements into a start (length h) [i..<length us] ?h =
      copyElements into a start (length h) [Suc i..<length us] ?h'"
    using i x y(1) lookup_append [OF arr(1)] Suc.prems(2)
    by (simp add: upt_conv_Cons list_update_append)
  have "those (map (view (old @ new @ more) t) (ys @ [y])) = Some (take (Suc i) us)"
    if "length old = Suc (length h)" for old
  proof -
    have "those (map (view ((old @ new) @ more) t) ys) = Some (take i us)"
      by (rule those_map_mono [OF Suc.prems(3) [OF that]]) (rule view_append)
    moreover have "view ((old @ new) @ more) t y = Some (us ! i)" using y(2) [of "old @ new"] that by simp
    ultimately show ?thesis using i by (simp add: those_eq_Some take_Suc_conv_app_nth)
  qed
  with Suc.IH [of "Suc i" "ys @ [y]" "new @ more"] Suc.prems step show ?case by simp
qed

lemma deep_copySlice [deep_intros]:
  assumes "deep t into"
  shows "deep (TSlice t) (copySlice t into)"
proof (rule deepI)
  fix h v u
  assume "view h (TSlice t) v = Some u"
  then consider "v = VNil" "u = LNil"
    | a start n xs us where "v = Slice a start n" "elements h a start n = Some xs" "those (map (view h t) xs) = Some us" "u = LSlice us"
    by (auto simp: bind_eq_Some_conv split: val.splits)
  then show "\<exists>v' new. copySlice t into v h = Some (v', h @ new) \<and>
      (\<forall>old. length old = length h \<longrightarrow> view (old @ new) (TSlice t) v' = Some u)"
  proof cases
    case 1
    then show ?thesis by (auto simp: copySlice_def intro: exI [of _ "[]"])
  next
    case (2 a start n xs us)
    have n: "n = length us"
      using 2(2,3) by (auto simp: elements_def those_eq_Some dest!: arg_cong [where f = length] split: option.splits cell.splits if_splits)
    from copyElements_deep [OF assms 2(2) [unfolded n] 2(3), of 0 n "[]" "[]" "zeroOf t"] n obtain zs new where
      zs: "copyElements into a start (length h) [0..<n] (h @ [CArr (replicate n (zeroOf t))]) = Some (h @ CArr zs # new)"
        "length zs = length us" "\<And>old. length old = Suc (length h) \<Longrightarrow> those (map (view (old @ new) t) zs) = Some us"
      by auto
    have "copySlice t into v h = Some (Slice (length h) 0 n, h @ CArr zs # new)"
      using 2(1) zs(1) by (simp add: copySlice_def)
    moreover have "view (old @ CArr zs # new) (TSlice t) (Slice (length h) 0 n) = Some u" if "length old = length h" for old
      using zs(2) zs(3) [of "old @ [CArr zs]"] that 2(4) n by (simp add: elements_def)
    ultimately show ?thesis by blast
  qed
qed

lemma deep_copyPlainSlice [deep_intros]:
  assumes "plain t"
  shows "deep (TSlice t) (copyPlainSlice t)"
proof (rule deepI)
  fix h v u
  assume "view h (TSlice t) v = Some u"
  then consider "v = VNil" "u = LNil"
    | a start n xs us where "v = Slice a start n" "elements h a start n = Some xs" "those (map (view h t) xs) = Some us" "u = LSlice us"
    by (auto simp: bind_eq_Some_conv split: val.splits)
  then show "\<exists>v' new. copyPlainSlice t v h = Some (v', h @ new) \<and>
      (\<forall>old. length old = length h \<longrightarrow> view (old @ new) (TSlice t) v' = Some u)"
  proof cases
    case 1
    then show ?thesis by (auto simp: copyPlainSlice_def intro: exI [of _ "[]"])
  next
    case (2 a start n xs us)
    have n: "n = length xs" using 2(2) by (auto simp: elements_def split: option.splits cell.splits if_splits)
    have "copyPlainSlice t v h = Some (Slice (length h) 0 n, h @ [CArr xs])"
      using 2(1) elements_append [OF 2(2)] by (simp add: copyPlainSlice_def list_update_append)
    moreover have "view (old @ [CArr xs]) (TSlice t) (Slice (length h) 0 n) = Some u" if "length old = length h" for old
      using that 2(4) n those_map_mono [OF 2(3) view_plainD [OF assms, where h' = "old @ [CArr xs]"]] by (simp add: elements_def)
    ultimately show ?thesis by blast
  qed
qed


lemma fold_update_distinct:
  assumes "distinct (map fst acc @ map fst kvs)"
  shows "fold (\<lambda>(k, x). AList.update k x) kvs acc = acc @ kvs"
  using assms
proof (induction kvs arbitrary: acc)
  case (Cons kv kvs)
  obtain k x where kv: "kv = (k, x)" by fastforce
  from Cons.prems kv have "k \<notin> set (map fst acc)" by auto
  then have "AList.update k x acc = acc @ [(k, x)]" by (induction acc) auto
  with Cons kv show ?case by simp
qed simp

lemma deep_copyPlainMap [deep_intros]:
  assumes "plain t"
  shows "deep (TMap t) copyPlainMap"
proof (rule deepI)
  fix h v u
  let ?entry = "\<lambda>h (k, x). map_option (Pair k) (view h t x)"
  assume "view h (TMap t) v = Some u"
  then consider "v = VNil" "u = LNil"
    | a kvs us where "v = Ref a" "entries h a = Some kvs" "those (map (?entry h) kvs) = Some us" "u = LMap us"
    by (auto simp: bind_eq_Some_conv split: val.splits)
  then show "\<exists>v' new. copyPlainMap v h = Some (v', h @ new) \<and>
      (\<forall>old. length old = length h \<longrightarrow> view (old @ new) (TMap t) v' = Some u)"
  proof cases
    case 1
    then show ?thesis by (auto simp: copyPlainMap_def intro: exI [of _ "[]"])
  next
    case (2 a kvs us)
    have d: "distinct (map fst kvs)" using 2(2) by (auto simp: entries_def split: option.splits cell.splits if_splits)
    then have "copyPlainMap v h = Some (Ref (length h), h @ [CMap kvs])"
      using 2(1) entries_append [OF 2(2)] fold_update_distinct [of "[]" kvs]
      by (simp add: copyPlainMap_def list_update_append)
    moreover have "view (old @ [CMap kvs]) (TMap t) (Ref (length h)) = Some u" if "length old = length h" for old
    proof -
      have "those (map (?entry (old @ [CMap kvs])) kvs) = Some us"
        by (rule those_map_mono [OF 2(3)]) (auto split: prod.splits intro: view_plainD [OF assms])
      with that d 2(4) show ?thesis by (simp add: entries_def)
    qed
    ultimately show ?thesis by blast
  qed
qed

section \<open>Structs\<close>

lemma names_nth: "map fst vs = map fst fs \<Longrightarrow> i < length fs \<Longrightarrow> i < length vs \<and> fst (vs ! i) = fst (fs ! i)"
  by (metis length_map nth_map)

lemma map_of_nth:
  assumes "distinct (map fst vs)" "i < length vs"
  shows "map_of vs (fst (vs ! i)) = Some (snd (vs ! i))"
  using assms by (metis map_of_eq_Some_iff nth_mem prod.collapse)

lemma update_nth:
  assumes "distinct (map fst vs)" "i < length vs"
  shows "AList.update (fst (vs ! i)) y vs = vs[i := (fst (vs ! i), y)]"
  using assms
proof (induction vs arbitrary: i)
  case (Cons v vs)
  then show ?case by (cases i; cases v) (fastforce dest: nth_mem)+
qed simp

text \<open>
  \<open>copied fs vs us P new ws\<close>: of the fields \<open>fs\<close>, those named in \<open>P\<close> have their copy in \<open>ws\<close>, which shows the trees \<open>us\<close>;
  the others still have the value of the source.
\<close>

definition copied :: "nat \<Rightarrow> (string \<times> gotype) list \<Rightarrow> (string \<times> val) list \<Rightarrow> (string \<times> tree) list \<Rightarrow>
    string set \<Rightarrow> heap \<Rightarrow> (string \<times> val) list \<Rightarrow> bool" where
  "copied n fs vs us P new ws \<longleftrightarrow>
     map fst ws = map fst fs \<and>
     (\<forall>i < length fs. if fst (fs ! i) \<in> P
        then \<forall>old. length old = n \<longrightarrow> view (old @ new) (snd (fs ! i)) (snd (ws ! i)) = Some (snd (us ! i))
        else ws ! i = vs ! i)"

lemma copied_step:
  assumes c: "copied n fs vs us P new ws" and i: "i < length fs" "distinct (map fst fs)"
    and y: "\<And>old. length old = n + length new \<Longrightarrow> view (old @ more) (snd (fs ! i)) y = Some (snd (us ! i))"
  shows "copied n fs vs us (insert (fst (fs ! i)) P) (new @ more) (ws[i := (fst (fs ! i), y)])"
  unfolding copied_def
proof (intro conjI allI impI)
  have names: "map fst ws = map fst fs" using c by (simp add: copied_def)
  then show "map fst (ws[i := (fst (fs ! i), y)]) = map fst fs"
    using i(1) by (metis fst_conv list_update_id map_update nth_map)
  have len: "length ws = length fs" using names by (metis length_map)
  fix j
  assume j: "j < length fs"
  show "if fst (fs ! j) \<in> insert (fst (fs ! i)) P
     then \<forall>old. length old = n \<longrightarrow>
       view (old @ new @ more) (snd (fs ! j)) (snd (ws[i := (fst (fs ! i), y)] ! j)) = Some (snd (us ! j))
     else ws[i := (fst (fs ! i), y)] ! j = vs ! j"
  proof (cases "j = i")
    case True
    then show ?thesis using y [of "_ @ new"] i(1) len by simp
  next
    case False
    with i j have "fst (fs ! j) \<noteq> fst (fs ! i)" by (metis distinct_conv_nth length_map nth_map)
    with False c j show ?thesis
      by (auto simp: copied_def intro: view_append [of "_ @ new", simplified])
  qed
qed

lemma copyFields_deep:
  assumes "copied (length h) fs vs us P new ws" "distinct (map fst fs)" "viewFields h fs vs = Some us"
    and "\<And>n f. (n, f) \<in> set steps \<Longrightarrow> \<exists>t. (n, t) \<in> set fs \<and> deep t f"
  shows "\<exists>ws' new'. copyFields steps (Struct vs) (Struct ws) (h @ new) = Some (Struct ws', h @ new') \<and>
    copied (length h) fs vs us (P \<union> fst ` set steps) new' ws'"
  using assms(1,4)
proof (induction steps arbitrary: P new ws)
  case Nil
  then show ?case by auto
next
  case (Cons step steps)
  obtain n f where step: "step = (n, f)" by fastforce
  then have "(n, f) \<in> set (step # steps)" by simp
  from Cons.prems(2) [OF this] obtain t where t: "(n, t) \<in> set fs" "deep t f" by blast
  then obtain i where i: "i < length fs" "fs ! i = (n, t)" by (metis in_set_conv_nth)
  have names: "map fst vs = map fst fs" "view h t (snd (vs ! i)) = Some (snd (us ! i))"
    using assms(3) i unfolding viewFields_iff by auto
  have names': "map fst ws = map fst fs" using Cons.prems(1) by (simp add: copied_def)
  have nth: "fst (vs ! i) = n" "fst (ws ! i) = n" "i < length vs" "i < length ws"
    using names_nth [OF names(1) i(1)] names_nth [OF names' i(1)] i by simp_all
  from t(2) view_append [OF names(2), of new] obtain y more where
    y: "f (snd (vs ! i)) (h @ new) = Some (y, (h @ new) @ more)"
      "\<And>old. length old = length (h @ new) \<Longrightarrow> view (old @ more) t y = Some (snd (us ! i))" by (rule deepE) blast
  have "getField n (Struct vs) = Some (snd (vs ! i))"
    using map_of_nth [of vs i] names(1) nth assms(2) by (simp add: getField_def)
  moreover have "n \<in> set (map fst ws)" using nth(2) nth_mem [OF nth(4)] by force
  then have "setField n y (Struct ws) = Some (Struct (ws[i := (n, y)]))"
    using update_nth [of ws i y] names' nth assms(2) by (simp add: setField_def)
  ultimately have "copyFields (step # steps) (Struct vs) (Struct ws) (h @ new) =
      copyFields steps (Struct vs) (Struct (ws[i := (n, y)])) (h @ new @ more)"
    using step y(1) by simp
  moreover have "copied (length h) fs vs us (insert n P) (new @ more) (ws[i := (n, y)])"
    using copied_step [OF Cons.prems(1) i(1) assms(2), of more y] y(2) i(2) by simp
  ultimately show ?case
    using Cons.IH [of "insert n P" "new @ more" "ws[i := (n, y)]"] Cons.prems(2) step by simp
qed

text \<open>
  A method copies deeply if each of its statements does so for its field, and every field without a statement
  is plain. The fields and statements that belong together are found by computation.
\<close>

definition covers :: "(string \<times> gotype) list \<Rightarrow> (string \<times> copier) list \<Rightarrow> bool" where
  "covers fs steps \<longleftrightarrow>
     distinct (map fst fs) \<and> distinct (map fst steps) \<and> list_all (\<lambda>(n, f). n \<in> set (map fst fs)) steps \<and>
     list_all (\<lambda>(n, t). case map_of steps n of Some f \<Rightarrow> deep t f | None \<Rightarrow> plain t) fs"

lemma coversD:
  assumes "covers fs steps"
  shows "distinct (map fst fs)"
    and "(n, f) \<in> set steps \<Longrightarrow> \<exists>t. (n, t) \<in> set fs \<and> deep t f"
    and "(n, t) \<in> set fs \<Longrightarrow> n \<notin> fst ` set steps \<Longrightarrow> plain t"
proof -
  show "distinct (map fst fs)" using assms by (simp add: covers_def)
  show "\<exists>t. (n, t) \<in> set fs \<and> deep t f" if nf: "(n, f) \<in> set steps"
  proof -
    from assms nf obtain t where "(n, t) \<in> set fs" by (fastforce simp: covers_def list_all_iff)
    moreover have "map_of steps n = Some f" using assms nf by (simp add: covers_def)
    ultimately show ?thesis using assms by (fastforce simp: covers_def list_all_iff)
  qed
  show "plain t" if "(n, t) \<in> set fs" "n \<notin> fst ` set steps"
  proof -
    from that(2) have "map_of steps n = None" by (simp add: map_of_eq_None_iff)
    with assms that(1) show ?thesis by (fastforce simp: covers_def list_all_iff)
  qed
qed

lemma deep_copyStruct:
  assumes "covers fs steps"
  shows "deep (TStruct fs) (copyStruct steps)"
proof (rule deepI)
  fix h v u
  assume "view h (TStruct fs) v = Some u"
  then obtain vs us where v: "v = Struct vs" "viewFields h fs vs = Some us" "u = LStruct us"
    by (auto split: val.splits)
  then have "copied (length h) fs vs us {} [] vs" by (simp add: copied_def viewFields_iff)
  from copyFields_deep [OF this coversD(1) [OF assms] v(2), of steps] coversD(2) [OF assms] obtain ws new where
    ws: "copyFields steps (Struct vs) (Struct vs) h = Some (Struct ws, h @ new)"
      "copied (length h) fs vs us (fst ` set steps) new ws" by auto
  have "viewFields (old @ new) fs ws = Some us" if "length old = length h" for old
    unfolding viewFields_iff
  proof (intro conjI allI impI)
    show "map fst ws = map fst fs" using ws(2) by (simp add: copied_def)
    show "map fst us = map fst fs" using v(2) by (simp add: viewFields_iff)
    fix i
    assume i: "i < length fs"
    show "view (old @ new) (snd (fs ! i)) (snd (ws ! i)) = Some (snd (us ! i))"
    proof (cases "fst (fs ! i) \<in> fst ` set steps")
      case True
      with ws(2) i that show ?thesis by (simp add: copied_def)
    next
      case False
      with ws(2) i have "ws ! i = vs ! i" by (simp add: copied_def)
      moreover have "plain (snd (fs ! i))" using coversD(3) [OF assms] False i by (metis nth_mem prod.collapse)
      ultimately show ?thesis using v(2) i view_plainD unfolding viewFields_iff by metis
    qed
  qed
  then show "\<exists>v' new. copyStruct steps v h = Some (v', h @ new) \<and>
      (\<forall>old. length old = length h \<longrightarrow> view (old @ new) (TStruct fs) v' = Some u)"
    using ws(1) v(1,3) by (auto simp: copyStruct_def assign_def)
qed


text \<open>A field of a struct can be read, and written.\<close>

lemma view_field:
  assumes "view h (TStruct fs) v = Some u" "distinct (map fst fs)" "(n, t) \<in> set fs"
  obtains y w where "getField n v = Some y" "view h t y = Some w" "\<And>z. setField n z v \<noteq> None"
proof -
  from assms(1) obtain vs us where v: "v = Struct vs" "viewFields h fs vs = Some us" by (auto split: val.splits)
  from assms(3) obtain i where i: "i < length fs" "fs ! i = (n, t)" by (metis in_set_conv_nth)
  have names: "map fst vs = map fst fs" "view h t (snd (vs ! i)) = Some (snd (us ! i))"
    using v(2) i unfolding viewFields_iff by auto
  have nth: "i < length vs" "fst (vs ! i) = n" using names_nth [OF names(1) i(1)] i by simp_all
  have "getField n v = Some (snd (vs ! i))"
    using map_of_nth [of vs i] names(1) nth assms(2) v(1) by (simp add: getField_def)
  moreover have "n \<in> set (map fst vs)" using nth nth_mem [OF nth(1)] by force
  then have "setField n z v \<noteq> None" for z using v(1) by (simp add: setField_def)
  ultimately show thesis using that names(2) by blast
qed

text \<open>The zero value of a type is a value of it.\<close>

lemma view_zeroOf: "\<exists>u. view h t (zeroOf t) = Some u"
proof (induction t rule: zeroOf.induct)
  case (4 fs)
  then have "\<forall>(n, t) \<in> set fs. \<exists>u. view h t (zeroOf t) = Some u" by fastforce
  then have "\<exists>us. viewFields h fs (map (\<lambda>(n, t). (n, zeroOf t)) fs) = Some us"
    by (induction fs) auto
  then show ?case by auto
qed simp_all

section \<open>Assignment through a pointer\<close>

fun setPath :: "string list \<Rightarrow> val \<Rightarrow> val \<Rightarrow> val option" where
  "setPath [] y v = Some y"
| "setPath (n # ns) y v = do { x \<leftarrow> getField n v; z \<leftarrow> setPath ns y x; setField n z v }"

fun getPath :: "string list \<Rightarrow> val \<Rightarrow> val option" where
  "getPath [] v = Some v"
| "getPath (n # ns) v = do { x \<leftarrow> getField n v; getPath ns x }"

text \<open>\<open>p.a.b = y\<close>; \<open>None\<close> is the panic for nil.\<close>

definition assignThrough :: "val \<Rightarrow> string list \<Rightarrow> val \<Rightarrow> heap \<Rightarrow> heap option" where
  "assignThrough p path y h =
     (case p of Ref a \<Rightarrow> do { v \<leftarrow> pointee h a; w \<leftarrow> setPath path y v; Some (h[a := CVal w]) } | _ \<Rightarrow> None)"

lemma getField_setField:
  "setField n y v = Some w \<Longrightarrow> getField m w = (if m = n then Some y else getField m v)"
  by (auto simp: setField_def getField_def update_conv split: val.splits if_splits)

lemma getPath_setPath: "setPath path y v = Some w \<Longrightarrow> getPath path w = Some y"
  by (induction path y v arbitrary: w rule: setPath.induct) (auto simp: bind_eq_Some_conv getField_setField)

text \<open>Where two paths part, the assignment along one is not seen along the other.\<close>

fun parted :: "string list \<Rightarrow> string list \<Rightarrow> bool" where
  "parted (m # ms) (n # ns) = (m \<noteq> n \<or> parted ms ns)"
| "parted _ _ = False"

lemma getPath_setPath_other: "setPath path y v = Some w \<Longrightarrow> parted path other \<Longrightarrow> getPath other w = getPath other v"
proof (induction path y v arbitrary: w other rule: setPath.induct)
  case (2 n ns y v)
  then obtain x z where x: "getField n v = Some x" "setPath ns y x = Some z" "setField n z v = Some w"
    by (auto simp: bind_eq_Some_conv)
  from 2(3) obtain m ms where other: "other = m # ms" "n \<noteq> m \<or> parted ns ms" by (cases other) auto
  show ?case
  proof (cases "m = n")
    case True
    with 2(1) [OF x(1,2)] other x show ?thesis by (simp add: getField_setField [OF x(3)])
  next
    case False
    with other show ?thesis by (simp add: getField_setField [OF x(3)])
  qed
qed simp

text \<open>Assignment alone is no deep copy: the copy of a pointer follows the original.\<close>

lemma assign_shares: "\<not> deep (TPtr TString) assign"
proof
  assume "deep (TPtr TString) assign"
  moreover have "view [CVal (Atom (AString ''a''))] (TPtr TString) (Ref 0) = Some (LPtr (LAtom (AString ''a'')))"
    by (simp add: pointee_def lookup_def)
  ultimately obtain v' new where "assign (Ref 0) [CVal (Atom (AString ''a''))] = Some (v', [CVal (Atom (AString ''a''))] @ new)"
    "\<And>old. length old = length [CVal (Atom (AString ''a''))] \<Longrightarrow>
       view (old @ new) (TPtr TString) v' = Some (LPtr (LAtom (AString ''a'')))"
    by (rule deepE) blast
  from this(1) this(2) [of "[CVal (Atom (AString ''b''))]"] show False
    by (auto simp: assign_def pointee_def lookup_def)
qed

end
