(* ===== verification/Deep_Copy.thy ===== *)
theory Deep_Copy
  imports Go_Memory
begin

text \<open>
  \<open>api/v1alpha1/zz_generated.deepcopy.go\<close> against \<open>api/v1alpha1/*_types.go\<close>: for every struct its layout
  (\<open>T_type\<close>, from the type declaration) and its methods \<open>DeepCopyInto\<close>, \<open>DeepCopy\<close> and \<open>DeepCopyObject\<close> (from the
  generated file), statement by statement. The layouts and the \<open>DeepCopyInto\<close> methods of types of other modules are the parameter
  \<open>external\<close>. What the generated code relies on is \<open>externalContract\<close>: those methods copy
  deeply, and the types that are copied by assignment have no references.

  The locale \<open>deep_method\<close> is what a generated pair of methods promises; each of the nineteen types is an interpretation,
  so that the generated file is shown to cover every field of the declared types.
\<close>

section \<open>Types of other modules\<close>

record external =
  x_type :: "string \<Rightarrow> gotype"
  x_DeepCopyInto :: "string \<Rightarrow> copier"

definition copiedTypes :: "string list" where
  "copiedTypes =
     [''corev1.VolumeMount'', ''corev1.ResourceRequirements'', ''corev1.Affinity'', ''corev1.Toleration'',
      ''corev1.TopologySpreadConstraint'', ''corev1.Container'', ''corev1.Volume'', ''appsv1.DeploymentStrategy'',
      ''metav1.ObjectMeta'', ''metav1.ListMeta'', ''metav1.Condition'', ''clusterv1.ObjectMeta'', ''gatewayv1.ParentReference'',
      ''stewardv1alpha1.AddonsSpec'', ''stewardv1alpha1.AdditionalMetadata'', ''stewardv1alpha1.KubeletSpec'']"

definition assignedTypes :: "string list" where
  "assignedTypes =
     [''metav1.TypeMeta'', ''capiv1beta1.APIEndpoint'', ''stewardv1alpha1.AddonSpec'', ''stewardv1alpha1.ServiceType'',
      ''stewardv1alpha1.AdmissionController'']"

definition externalContract :: "external \<Rightarrow> bool" where
  "externalContract x \<longleftrightarrow>
     (\<forall>n \<in> set copiedTypes. deep (x_type x n) (x_DeepCopyInto x n)) \<and> (\<forall>n \<in> set assignedTypes. plain (x_type x n))"

section \<open>The declared types\<close>

definition ControlPlaneComponent_type :: "external \<Rightarrow> gotype" where
  "ControlPlaneComponent_type x = TStruct
     [(''ExtraVolumeMounts'', TSlice (x_type x ''corev1.VolumeMount'')),
      (''ExtraArgs'', TSlice TString),
      (''Resources'', x_type x ''corev1.ResourceRequirements''),
      (''ContainerImageName'', TString)]"

definition KineComponent_type :: "external \<Rightarrow> gotype" where
  "KineComponent_type x = TStruct
     [(''ExtraArgs'', TSlice TString),
      (''Resources'', x_type x ''corev1.ResourceRequirements'')]"

definition IngressComponent_type :: "external \<Rightarrow> gotype" where
  "IngressComponent_type x = TStruct
     [(''ClassName'', TString),
      (''Hostname'', TString),
      (''ControllerType'', TString),
      (''ExtraLabels'', TMap TString),
      (''ExtraAnnotations'', TMap TString)]"

definition GatewayComponent_type :: "external \<Rightarrow> gotype" where
  "GatewayComponent_type x = TStruct
     [(''ParentRefs'', TSlice (x_type x ''gatewayv1.ParentReference'')),
      (''Hostname'', TString),
      (''ExtraLabels'', TMap TString),
      (''ExtraAnnotations'', TMap TString)]"

definition LoadBalancerConfig_type :: "external \<Rightarrow> gotype" where
  "LoadBalancerConfig_type x = TStruct
     [(''LoadBalancerSourceRanges'', TSlice TString),
      (''LoadBalancerClass'', TPtr TString)]"

definition NetworkComponent_type :: "external \<Rightarrow> gotype" where
  "NetworkComponent_type x = TStruct
     [(''LoadBalancerConfig'', TPtr (LoadBalancerConfig_type x)),
      (''Ingress'', TPtr (IngressComponent_type x)),
      (''Gateway'', TPtr (GatewayComponent_type x)),
      (''ServiceType'', x_type x ''stewardv1alpha1.ServiceType''),
      (''ServiceAddress'', TString),
      (''ServiceLabels'', TMap TString),
      (''ServiceAnnotations'', TMap TString),
      (''CertSANs'', TSlice TString),
      (''DNSServiceIPs'', TSlice TString)]"

definition CoreDNSAddonSpec_type :: "external \<Rightarrow> gotype" where
  "CoreDNSAddonSpec_type x = TStruct
     [(''AddonSpec'', TPtr (x_type x ''stewardv1alpha1.AddonSpec'')),
      (''DNSServiceIPs'', TSlice TString)]"

definition AddonsSpec_type :: "external \<Rightarrow> gotype" where
  "AddonsSpec_type x = TStruct
     [(''AddonsSpec'', x_type x ''stewardv1alpha1.AddonsSpec''),
      (''CoreDNS'', TPtr (CoreDNSAddonSpec_type x))]"

definition ExternalClusterReference_type :: "external \<Rightarrow> gotype" where
  "ExternalClusterReference_type x = TStruct
     [(''KubeconfigSecretName'', TString),
      (''KubeconfigSecretKey'', TString),
      (''KubeconfigSecretNamespace'', TString),
      (''DeploymentNamespace'', TString)]"

definition DeploymentComponent_type :: "external \<Rightarrow> gotype" where
  "DeploymentComponent_type x = TStruct
     [(''NodeSelector'', TMap TString),
      (''RuntimeClassName'', TString),
      (''AdditionalMetadata'', x_type x ''stewardv1alpha1.AdditionalMetadata''),
      (''PodAdditionalMetadata'', x_type x ''stewardv1alpha1.AdditionalMetadata''),
      (''ServiceAccountName'', TString),
      (''Strategy'', x_type x ''appsv1.DeploymentStrategy''),
      (''Affinity'', TPtr (x_type x ''corev1.Affinity'')),
      (''Tolerations'', TSlice (x_type x ''corev1.Toleration'')),
      (''TopologySpreadConstraints'', TSlice (x_type x ''corev1.TopologySpreadConstraint'')),
      (''ExtraInitContainers'', TSlice (x_type x ''corev1.Container'')),
      (''ExtraContainers'', TSlice (x_type x ''corev1.Container'')),
      (''ExtraVolumes'', TSlice (x_type x ''corev1.Volume'')),
      (''ExternalClusterReference'', TPtr (ExternalClusterReference_type x))]"

definition StewardControlPlaneFields_type :: "external \<Rightarrow> gotype" where
  "StewardControlPlaneFields_type x = TStruct
     [(''DataStoreName'', TString),
      (''DataStoreSchema'', TString),
      (''DataStoreUsername'', TString),
      (''Addons'', AddonsSpec_type x),
      (''AdmissionControllers'', TSlice (x_type x ''stewardv1alpha1.AdmissionController'')),
      (''ContainerRegistry'', TString),
      (''ControllerManager'', ControlPlaneComponent_type x),
      (''ApiServer'', ControlPlaneComponent_type x),
      (''Scheduler'', ControlPlaneComponent_type x),
      (''Kine'', KineComponent_type x),
      (''Kubelet'', x_type x ''stewardv1alpha1.KubeletSpec''),
      (''Network'', NetworkComponent_type x),
      (''Deployment'', DeploymentComponent_type x)]"

definition StewardControlPlaneSpec_type :: "external \<Rightarrow> gotype" where
  "StewardControlPlaneSpec_type x = TStruct
     [(''StewardControlPlaneFields'', StewardControlPlaneFields_type x),
      (''ControlPlaneEndpoint'', x_type x ''capiv1beta1.APIEndpoint''),
      (''Replicas'', TPtr TInt),
      (''Version'', TString)]"

definition StewardControlPlaneStatus_type :: "external \<Rightarrow> gotype" where
  "StewardControlPlaneStatus_type x = TStruct
     [(''Initialized'', TBool),
      (''Ready'', TBool),
      (''ReadyReplicas'', TInt),
      (''Replicas'', TInt),
      (''Selector'', TString),
      (''UnavailableReplicas'', TInt),
      (''UpdatedReplicas'', TInt),
      (''ExternalManagedControlPlane'', TPtr TBool),
      (''FailureReason'', TString),
      (''FailureMessage'', TString),
      (''Version'', TString),
      (''Conditions'', TSlice (x_type x ''metav1.Condition''))]"

definition StewardControlPlane_type :: "external \<Rightarrow> gotype" where
  "StewardControlPlane_type x = TStruct
     [(''TypeMeta'', x_type x ''metav1.TypeMeta''),
      (''ObjectMeta'', x_type x ''metav1.ObjectMeta''),
      (''Spec'', StewardControlPlaneSpec_type x),
      (''Status'', StewardControlPlaneStatus_type x)]"

definition StewardControlPlaneList_type :: "external \<Rightarrow> gotype" where
  "StewardControlPlaneList_type x = TStruct
     [(''TypeMeta'', x_type x ''metav1.TypeMeta''),
      (''ListMeta'', x_type x ''metav1.ListMeta''),
      (''Items'', TSlice (StewardControlPlane_type x))]"

definition StewardControlPlaneTemplateResource_type :: "external \<Rightarrow> gotype" where
  "StewardControlPlaneTemplateResource_type x = TStruct
     [(''ObjectMeta'', x_type x ''clusterv1.ObjectMeta''),
      (''Spec'', StewardControlPlaneFields_type x)]"

definition StewardControlPlaneTemplateSpec_type :: "external \<Rightarrow> gotype" where
  "StewardControlPlaneTemplateSpec_type x = TStruct
     [(''Template'', StewardControlPlaneTemplateResource_type x)]"

definition StewardControlPlaneTemplate_type :: "external \<Rightarrow> gotype" where
  "StewardControlPlaneTemplate_type x = TStruct
     [(''TypeMeta'', x_type x ''metav1.TypeMeta''),
      (''ObjectMeta'', x_type x ''metav1.ObjectMeta''),
      (''Spec'', StewardControlPlaneTemplateSpec_type x)]"

definition StewardControlPlaneTemplateList_type :: "external \<Rightarrow> gotype" where
  "StewardControlPlaneTemplateList_type x = TStruct
     [(''TypeMeta'', x_type x ''metav1.TypeMeta''),
      (''ListMeta'', x_type x ''metav1.ListMeta''),
      (''Items'', TSlice (StewardControlPlaneTemplate_type x))]"

section \<open>DeepCopyInto\<close>

definition ControlPlaneComponent_DeepCopyInto :: "external \<Rightarrow> copier" where
  "ControlPlaneComponent_DeepCopyInto x = copyStruct
     [(''ExtraVolumeMounts'', copySlice (x_type x ''corev1.VolumeMount'') (x_DeepCopyInto x ''corev1.VolumeMount'')),
      (''ExtraArgs'', copyPlainSlice TString),
      (''Resources'', x_DeepCopyInto x ''corev1.ResourceRequirements'')]"

definition KineComponent_DeepCopyInto :: "external \<Rightarrow> copier" where
  "KineComponent_DeepCopyInto x = copyStruct
     [(''ExtraArgs'', copyPlainSlice TString),
      (''Resources'', x_DeepCopyInto x ''corev1.ResourceRequirements'')]"

definition IngressComponent_DeepCopyInto :: "external \<Rightarrow> copier" where
  "IngressComponent_DeepCopyInto x = copyStruct
     [(''ExtraLabels'', copyPlainMap),
      (''ExtraAnnotations'', copyPlainMap)]"

definition GatewayComponent_DeepCopyInto :: "external \<Rightarrow> copier" where
  "GatewayComponent_DeepCopyInto x = copyStruct
     [(''ParentRefs'', copySlice (x_type x ''gatewayv1.ParentReference'') (x_DeepCopyInto x ''gatewayv1.ParentReference'')),
      (''ExtraLabels'', copyPlainMap),
      (''ExtraAnnotations'', copyPlainMap)]"

definition LoadBalancerConfig_DeepCopyInto :: "external \<Rightarrow> copier" where
  "LoadBalancerConfig_DeepCopyInto x = copyStruct
     [(''LoadBalancerSourceRanges'', copyPlainSlice TString),
      (''LoadBalancerClass'', copyPtr TString assign)]"

definition NetworkComponent_DeepCopyInto :: "external \<Rightarrow> copier" where
  "NetworkComponent_DeepCopyInto x = copyStruct
     [(''LoadBalancerConfig'', copyPtr (LoadBalancerConfig_type x) (LoadBalancerConfig_DeepCopyInto x)),
      (''Ingress'', copyPtr (IngressComponent_type x) (IngressComponent_DeepCopyInto x)),
      (''Gateway'', copyPtr (GatewayComponent_type x) (GatewayComponent_DeepCopyInto x)),
      (''ServiceLabels'', copyPlainMap),
      (''ServiceAnnotations'', copyPlainMap),
      (''CertSANs'', copyPlainSlice TString),
      (''DNSServiceIPs'', copyPlainSlice TString)]"

definition CoreDNSAddonSpec_DeepCopyInto :: "external \<Rightarrow> copier" where
  "CoreDNSAddonSpec_DeepCopyInto x = copyStruct
     [(''AddonSpec'', copyPtr (x_type x ''stewardv1alpha1.AddonSpec'') assign),
      (''DNSServiceIPs'', copyPlainSlice TString)]"

definition AddonsSpec_DeepCopyInto :: "external \<Rightarrow> copier" where
  "AddonsSpec_DeepCopyInto x = copyStruct
     [(''AddonsSpec'', x_DeepCopyInto x ''stewardv1alpha1.AddonsSpec''),
      (''CoreDNS'', copyPtr (CoreDNSAddonSpec_type x) (CoreDNSAddonSpec_DeepCopyInto x))]"

definition ExternalClusterReference_DeepCopyInto :: "external \<Rightarrow> copier" where
  "ExternalClusterReference_DeepCopyInto x = copyStruct []"

definition DeploymentComponent_DeepCopyInto :: "external \<Rightarrow> copier" where
  "DeploymentComponent_DeepCopyInto x = copyStruct
     [(''NodeSelector'', copyPlainMap),
      (''AdditionalMetadata'', x_DeepCopyInto x ''stewardv1alpha1.AdditionalMetadata''),
      (''PodAdditionalMetadata'', x_DeepCopyInto x ''stewardv1alpha1.AdditionalMetadata''),
      (''Strategy'', x_DeepCopyInto x ''appsv1.DeploymentStrategy''),
      (''Affinity'', copyPtr (x_type x ''corev1.Affinity'') (x_DeepCopyInto x ''corev1.Affinity'')),
      (''Tolerations'', copySlice (x_type x ''corev1.Toleration'') (x_DeepCopyInto x ''corev1.Toleration'')),
      (''TopologySpreadConstraints'', copySlice (x_type x ''corev1.TopologySpreadConstraint'') (x_DeepCopyInto x ''corev1.TopologySpreadConstraint'')),
      (''ExtraInitContainers'', copySlice (x_type x ''corev1.Container'') (x_DeepCopyInto x ''corev1.Container'')),
      (''ExtraContainers'', copySlice (x_type x ''corev1.Container'') (x_DeepCopyInto x ''corev1.Container'')),
      (''ExtraVolumes'', copySlice (x_type x ''corev1.Volume'') (x_DeepCopyInto x ''corev1.Volume'')),
      (''ExternalClusterReference'', copyPtr (ExternalClusterReference_type x) assign)]"

definition StewardControlPlaneFields_DeepCopyInto :: "external \<Rightarrow> copier" where
  "StewardControlPlaneFields_DeepCopyInto x = copyStruct
     [(''Addons'', AddonsSpec_DeepCopyInto x),
      (''AdmissionControllers'', copyPlainSlice (x_type x ''stewardv1alpha1.AdmissionController'')),
      (''ControllerManager'', ControlPlaneComponent_DeepCopyInto x),
      (''ApiServer'', ControlPlaneComponent_DeepCopyInto x),
      (''Scheduler'', ControlPlaneComponent_DeepCopyInto x),
      (''Kine'', KineComponent_DeepCopyInto x),
      (''Kubelet'', x_DeepCopyInto x ''stewardv1alpha1.KubeletSpec''),
      (''Network'', NetworkComponent_DeepCopyInto x),
      (''Deployment'', DeploymentComponent_DeepCopyInto x)]"

definition StewardControlPlaneSpec_DeepCopyInto :: "external \<Rightarrow> copier" where
  "StewardControlPlaneSpec_DeepCopyInto x = copyStruct
     [(''StewardControlPlaneFields'', StewardControlPlaneFields_DeepCopyInto x),
      (''ControlPlaneEndpoint'', assign),
      (''Replicas'', copyPtr TInt assign)]"

definition StewardControlPlaneStatus_DeepCopyInto :: "external \<Rightarrow> copier" where
  "StewardControlPlaneStatus_DeepCopyInto x = copyStruct
     [(''ExternalManagedControlPlane'', copyPtr TBool assign),
      (''Conditions'', copySlice (x_type x ''metav1.Condition'') (x_DeepCopyInto x ''metav1.Condition''))]"

definition StewardControlPlane_DeepCopyInto :: "external \<Rightarrow> copier" where
  "StewardControlPlane_DeepCopyInto x = copyStruct
     [(''TypeMeta'', assign),
      (''ObjectMeta'', x_DeepCopyInto x ''metav1.ObjectMeta''),
      (''Spec'', StewardControlPlaneSpec_DeepCopyInto x),
      (''Status'', StewardControlPlaneStatus_DeepCopyInto x)]"

definition StewardControlPlaneList_DeepCopyInto :: "external \<Rightarrow> copier" where
  "StewardControlPlaneList_DeepCopyInto x = copyStruct
     [(''TypeMeta'', assign),
      (''ListMeta'', x_DeepCopyInto x ''metav1.ListMeta''),
      (''Items'', copySlice (StewardControlPlane_type x) (StewardControlPlane_DeepCopyInto x))]"

definition StewardControlPlaneTemplateResource_DeepCopyInto :: "external \<Rightarrow> copier" where
  "StewardControlPlaneTemplateResource_DeepCopyInto x = copyStruct
     [(''ObjectMeta'', x_DeepCopyInto x ''clusterv1.ObjectMeta''),
      (''Spec'', StewardControlPlaneFields_DeepCopyInto x)]"

definition StewardControlPlaneTemplateSpec_DeepCopyInto :: "external \<Rightarrow> copier" where
  "StewardControlPlaneTemplateSpec_DeepCopyInto x = copyStruct
     [(''Template'', StewardControlPlaneTemplateResource_DeepCopyInto x)]"

definition StewardControlPlaneTemplate_DeepCopyInto :: "external \<Rightarrow> copier" where
  "StewardControlPlaneTemplate_DeepCopyInto x = copyStruct
     [(''TypeMeta'', assign),
      (''ObjectMeta'', x_DeepCopyInto x ''metav1.ObjectMeta''),
      (''Spec'', StewardControlPlaneTemplateSpec_DeepCopyInto x)]"

definition StewardControlPlaneTemplateList_DeepCopyInto :: "external \<Rightarrow> copier" where
  "StewardControlPlaneTemplateList_DeepCopyInto x = copyStruct
     [(''TypeMeta'', assign),
      (''ListMeta'', x_DeepCopyInto x ''metav1.ListMeta''),
      (''Items'', copySlice (StewardControlPlaneTemplate_type x) (StewardControlPlaneTemplate_DeepCopyInto x))]"

section \<open>DeepCopy and DeepCopyObject\<close>

text \<open>
  \<open>DeepCopy\<close> of a pointer: nil for nil, otherwise a new object and \<open>DeepCopyInto\<close>, the statements of \<open>copyPtr\<close>.
\<close>

definition ControlPlaneComponent_DeepCopy :: "external \<Rightarrow> copier" where
  "ControlPlaneComponent_DeepCopy x = copyPtr (ControlPlaneComponent_type x) (ControlPlaneComponent_DeepCopyInto x)"

definition KineComponent_DeepCopy :: "external \<Rightarrow> copier" where
  "KineComponent_DeepCopy x = copyPtr (KineComponent_type x) (KineComponent_DeepCopyInto x)"

definition IngressComponent_DeepCopy :: "external \<Rightarrow> copier" where
  "IngressComponent_DeepCopy x = copyPtr (IngressComponent_type x) (IngressComponent_DeepCopyInto x)"

definition GatewayComponent_DeepCopy :: "external \<Rightarrow> copier" where
  "GatewayComponent_DeepCopy x = copyPtr (GatewayComponent_type x) (GatewayComponent_DeepCopyInto x)"

definition LoadBalancerConfig_DeepCopy :: "external \<Rightarrow> copier" where
  "LoadBalancerConfig_DeepCopy x = copyPtr (LoadBalancerConfig_type x) (LoadBalancerConfig_DeepCopyInto x)"

definition NetworkComponent_DeepCopy :: "external \<Rightarrow> copier" where
  "NetworkComponent_DeepCopy x = copyPtr (NetworkComponent_type x) (NetworkComponent_DeepCopyInto x)"

definition CoreDNSAddonSpec_DeepCopy :: "external \<Rightarrow> copier" where
  "CoreDNSAddonSpec_DeepCopy x = copyPtr (CoreDNSAddonSpec_type x) (CoreDNSAddonSpec_DeepCopyInto x)"

definition AddonsSpec_DeepCopy :: "external \<Rightarrow> copier" where
  "AddonsSpec_DeepCopy x = copyPtr (AddonsSpec_type x) (AddonsSpec_DeepCopyInto x)"

definition ExternalClusterReference_DeepCopy :: "external \<Rightarrow> copier" where
  "ExternalClusterReference_DeepCopy x = copyPtr (ExternalClusterReference_type x) (ExternalClusterReference_DeepCopyInto x)"

definition DeploymentComponent_DeepCopy :: "external \<Rightarrow> copier" where
  "DeploymentComponent_DeepCopy x = copyPtr (DeploymentComponent_type x) (DeploymentComponent_DeepCopyInto x)"

definition StewardControlPlaneFields_DeepCopy :: "external \<Rightarrow> copier" where
  "StewardControlPlaneFields_DeepCopy x = copyPtr (StewardControlPlaneFields_type x) (StewardControlPlaneFields_DeepCopyInto x)"

definition StewardControlPlaneSpec_DeepCopy :: "external \<Rightarrow> copier" where
  "StewardControlPlaneSpec_DeepCopy x = copyPtr (StewardControlPlaneSpec_type x) (StewardControlPlaneSpec_DeepCopyInto x)"

definition StewardControlPlaneStatus_DeepCopy :: "external \<Rightarrow> copier" where
  "StewardControlPlaneStatus_DeepCopy x = copyPtr (StewardControlPlaneStatus_type x) (StewardControlPlaneStatus_DeepCopyInto x)"

definition StewardControlPlane_DeepCopy :: "external \<Rightarrow> copier" where
  "StewardControlPlane_DeepCopy x = copyPtr (StewardControlPlane_type x) (StewardControlPlane_DeepCopyInto x)"

definition StewardControlPlaneList_DeepCopy :: "external \<Rightarrow> copier" where
  "StewardControlPlaneList_DeepCopy x = copyPtr (StewardControlPlaneList_type x) (StewardControlPlaneList_DeepCopyInto x)"

definition StewardControlPlaneTemplateResource_DeepCopy :: "external \<Rightarrow> copier" where
  "StewardControlPlaneTemplateResource_DeepCopy x = copyPtr (StewardControlPlaneTemplateResource_type x) (StewardControlPlaneTemplateResource_DeepCopyInto x)"

definition StewardControlPlaneTemplateSpec_DeepCopy :: "external \<Rightarrow> copier" where
  "StewardControlPlaneTemplateSpec_DeepCopy x = copyPtr (StewardControlPlaneTemplateSpec_type x) (StewardControlPlaneTemplateSpec_DeepCopyInto x)"

definition StewardControlPlaneTemplate_DeepCopy :: "external \<Rightarrow> copier" where
  "StewardControlPlaneTemplate_DeepCopy x = copyPtr (StewardControlPlaneTemplate_type x) (StewardControlPlaneTemplate_DeepCopyInto x)"

definition StewardControlPlaneTemplateList_DeepCopy :: "external \<Rightarrow> copier" where
  "StewardControlPlaneTemplateList_DeepCopy x = copyPtr (StewardControlPlaneTemplateList_type x) (StewardControlPlaneTemplateList_DeepCopyInto x)"

text \<open>
  \<open>DeepCopyObject\<close> returns the interface \<open>runtime.Object\<close>, which is nil (\<open>None\<close>) only if it holds no type; a nil
  pointer must not become a non-nil interface.
\<close>

definition asObject :: "copier \<Rightarrow> val \<Rightarrow> heap \<Rightarrow> (val option \<times> heap) option" where
  "asObject copy v h = do { (c, h1) \<leftarrow> copy v h; Some (if c \<noteq> VNil then Some c else None, h1) }"

definition StewardControlPlane_DeepCopyObject :: "external \<Rightarrow> val \<Rightarrow> heap \<Rightarrow> (val option \<times> heap) option" where
  "StewardControlPlane_DeepCopyObject x = asObject (StewardControlPlane_DeepCopy x)"

definition StewardControlPlaneList_DeepCopyObject :: "external \<Rightarrow> val \<Rightarrow> heap \<Rightarrow> (val option \<times> heap) option" where
  "StewardControlPlaneList_DeepCopyObject x = asObject (StewardControlPlaneList_DeepCopy x)"

definition StewardControlPlaneTemplate_DeepCopyObject :: "external \<Rightarrow> val \<Rightarrow> heap \<Rightarrow> (val option \<times> heap) option" where
  "StewardControlPlaneTemplate_DeepCopyObject x = asObject (StewardControlPlaneTemplate_DeepCopy x)"

definition StewardControlPlaneTemplateList_DeepCopyObject :: "external \<Rightarrow> val \<Rightarrow> heap \<Rightarrow> (val option \<times> heap) option" where
  "StewardControlPlaneTemplateList_DeepCopyObject x = asObject (StewardControlPlaneTemplateList_DeepCopy x)"

section \<open>The interface of the generated methods\<close>

locale deep_method =
  fixes layout :: "external \<Rightarrow> gotype" and into :: "external \<Rightarrow> copier" and copy :: "external \<Rightarrow> copier"
  assumes into_deep: "externalContract x \<Longrightarrow> deep (layout x) (into x)"
    and copy_new: "copy x = copyPtr (layout x) (into x)"
begin

lemma copy_deep: "externalContract x \<Longrightarrow> deep (TPtr (layout x)) (copy x)"
  by (simp add: copy_new deep_copyPtr into_deep)

lemma copy_nil: "copy x VNil h = Some (VNil, h)"
  by (simp add: copy_new copyPtr_def)

text \<open>The pointer returned for a pointer is a new one.\<close>

lemma copy_ref:
  assumes "copy x (Ref a) h = Some (q, h')"
  shows "q = Ref (length h)"
  using assms by (auto simp: copy_new copyPtr_def Let_def bind_eq_Some_conv)

lemma copy_isolated:
  assumes "externalContract x" "view h (TPtr (layout x)) p = Some u"
  obtains q new where "copy x p h = Some (q, h @ new)"
    "\<And>old more. length old = length h \<Longrightarrow> view (old @ new @ more) (TPtr (layout x)) q = Some u"
proof -
  from copy_deep [OF assms(1)] assms(2) obtain q new where
    q: "copy x p h = Some (q, h @ new)" "\<And>old. length old = length h \<Longrightarrow> view (old @ new) (TPtr (layout x)) q = Some u"
    by (rule deepE) blast
  have "view (old @ new @ more) (TPtr (layout x)) q = Some u" if "length old = length h" for old more
    using view_append [OF q(2) [OF that], of more] by (simp del: view.simps)
  with that q(1) show thesis by blast
qed

end

locale object_method = deep_method +
  fixes object :: "external \<Rightarrow> val \<Rightarrow> heap \<Rightarrow> (val option \<times> heap) option"
  assumes object_copy: "object x = asObject (copy x)"
begin

lemma object_nil: "object x VNil h = Some (None, h)"
  by (simp add: object_copy asObject_def copy_nil)

lemma object_isolated:
  assumes "externalContract x" "view h (TPtr (layout x)) (Ref a) = Some u"
  shows "\<exists>new. object x (Ref a) h = Some (Some (Ref (length h)), h @ new) \<and>
    (\<forall>old. length old = length h \<longrightarrow> view (old @ new) (TPtr (layout x)) (Ref (length h)) = Some u)"
proof -
  from copy_isolated [OF assms] obtain q new where
    q: "copy x (Ref a) h = Some (q, h @ new)"
      "\<And>old more. length old = length h \<Longrightarrow> view (old @ new @ more) (TPtr (layout x)) q = Some u" by metis
  from copy_ref [OF q(1)] have "q = Ref (length h)" .
  with q(1) q(2) [of _ "[]"] show ?thesis by (simp add: object_copy asObject_def)
qed

end

text \<open>The contract, for the goals that the statements of a method leave.\<close>

lemma external_deep: "externalContract x \<Longrightarrow> n \<in> set copiedTypes \<Longrightarrow> deep (x_type x n) (x_DeepCopyInto x n)"
  by (simp add: externalContract_def)

lemma external_plain: "externalContract x \<Longrightarrow> n \<in> set assignedTypes \<Longrightarrow> plain (x_type x n)"
  by (simp add: externalContract_def)


lemmas external_simps = covers_def external_deep external_plain copiedTypes_def assignedTypes_def

lemma ControlPlaneComponent_deep [deep_intros]:
  "externalContract x \<Longrightarrow> deep (ControlPlaneComponent_type x) (ControlPlaneComponent_DeepCopyInto x)"
  unfolding ControlPlaneComponent_type_def ControlPlaneComponent_DeepCopyInto_def
  by (rule deep_copyStruct) (simp add: external_simps deep_intros)

lemma KineComponent_deep [deep_intros]:
  "externalContract x \<Longrightarrow> deep (KineComponent_type x) (KineComponent_DeepCopyInto x)"
  unfolding KineComponent_type_def KineComponent_DeepCopyInto_def
  by (rule deep_copyStruct) (simp add: external_simps deep_intros)

lemma IngressComponent_deep [deep_intros]:
  "externalContract x \<Longrightarrow> deep (IngressComponent_type x) (IngressComponent_DeepCopyInto x)"
  unfolding IngressComponent_type_def IngressComponent_DeepCopyInto_def
  by (rule deep_copyStruct) (simp add: external_simps deep_intros)

lemma GatewayComponent_deep [deep_intros]:
  "externalContract x \<Longrightarrow> deep (GatewayComponent_type x) (GatewayComponent_DeepCopyInto x)"
  unfolding GatewayComponent_type_def GatewayComponent_DeepCopyInto_def
  by (rule deep_copyStruct) (simp add: external_simps deep_intros)

lemma LoadBalancerConfig_deep [deep_intros]:
  "externalContract x \<Longrightarrow> deep (LoadBalancerConfig_type x) (LoadBalancerConfig_DeepCopyInto x)"
  unfolding LoadBalancerConfig_type_def LoadBalancerConfig_DeepCopyInto_def
  by (rule deep_copyStruct) (simp add: external_simps deep_intros)

lemma NetworkComponent_deep [deep_intros]:
  "externalContract x \<Longrightarrow> deep (NetworkComponent_type x) (NetworkComponent_DeepCopyInto x)"
  unfolding NetworkComponent_type_def NetworkComponent_DeepCopyInto_def
  by (rule deep_copyStruct) (simp add: external_simps deep_intros)

lemma CoreDNSAddonSpec_deep [deep_intros]:
  "externalContract x \<Longrightarrow> deep (CoreDNSAddonSpec_type x) (CoreDNSAddonSpec_DeepCopyInto x)"
  unfolding CoreDNSAddonSpec_type_def CoreDNSAddonSpec_DeepCopyInto_def
  by (rule deep_copyStruct) (simp add: external_simps deep_intros)

lemma AddonsSpec_deep [deep_intros]:
  "externalContract x \<Longrightarrow> deep (AddonsSpec_type x) (AddonsSpec_DeepCopyInto x)"
  unfolding AddonsSpec_type_def AddonsSpec_DeepCopyInto_def
  by (rule deep_copyStruct) (simp add: external_simps deep_intros)

lemma ExternalClusterReference_deep [deep_intros]:
  "externalContract x \<Longrightarrow> deep (ExternalClusterReference_type x) (ExternalClusterReference_DeepCopyInto x)"
  unfolding ExternalClusterReference_type_def ExternalClusterReference_DeepCopyInto_def
  by (rule deep_copyStruct) (simp add: external_simps deep_intros)

lemma DeploymentComponent_deep [deep_intros]:
  "externalContract x \<Longrightarrow> deep (DeploymentComponent_type x) (DeploymentComponent_DeepCopyInto x)"
  unfolding DeploymentComponent_type_def DeploymentComponent_DeepCopyInto_def
  by (rule deep_copyStruct) (simp add: external_simps deep_intros ExternalClusterReference_type_def)

lemma StewardControlPlaneFields_deep [deep_intros]:
  "externalContract x \<Longrightarrow> deep (StewardControlPlaneFields_type x) (StewardControlPlaneFields_DeepCopyInto x)"
  unfolding StewardControlPlaneFields_type_def StewardControlPlaneFields_DeepCopyInto_def
  by (rule deep_copyStruct) (simp add: external_simps deep_intros)

lemma StewardControlPlaneSpec_deep [deep_intros]:
  "externalContract x \<Longrightarrow> deep (StewardControlPlaneSpec_type x) (StewardControlPlaneSpec_DeepCopyInto x)"
  unfolding StewardControlPlaneSpec_type_def StewardControlPlaneSpec_DeepCopyInto_def
  by (rule deep_copyStruct) (simp add: external_simps deep_intros)

lemma StewardControlPlaneStatus_deep [deep_intros]:
  "externalContract x \<Longrightarrow> deep (StewardControlPlaneStatus_type x) (StewardControlPlaneStatus_DeepCopyInto x)"
  unfolding StewardControlPlaneStatus_type_def StewardControlPlaneStatus_DeepCopyInto_def
  by (rule deep_copyStruct) (simp add: external_simps deep_intros)

lemma StewardControlPlane_deep [deep_intros]:
  "externalContract x \<Longrightarrow> deep (StewardControlPlane_type x) (StewardControlPlane_DeepCopyInto x)"
  unfolding StewardControlPlane_type_def StewardControlPlane_DeepCopyInto_def
  by (rule deep_copyStruct) (simp add: external_simps deep_intros)

lemma StewardControlPlaneList_deep [deep_intros]:
  "externalContract x \<Longrightarrow> deep (StewardControlPlaneList_type x) (StewardControlPlaneList_DeepCopyInto x)"
  unfolding StewardControlPlaneList_type_def StewardControlPlaneList_DeepCopyInto_def
  by (rule deep_copyStruct) (simp add: external_simps deep_intros)

lemma StewardControlPlaneTemplateResource_deep [deep_intros]:
  "externalContract x \<Longrightarrow> deep (StewardControlPlaneTemplateResource_type x) (StewardControlPlaneTemplateResource_DeepCopyInto x)"
  unfolding StewardControlPlaneTemplateResource_type_def StewardControlPlaneTemplateResource_DeepCopyInto_def
  by (rule deep_copyStruct) (simp add: external_simps deep_intros)

lemma StewardControlPlaneTemplateSpec_deep [deep_intros]:
  "externalContract x \<Longrightarrow> deep (StewardControlPlaneTemplateSpec_type x) (StewardControlPlaneTemplateSpec_DeepCopyInto x)"
  unfolding StewardControlPlaneTemplateSpec_type_def StewardControlPlaneTemplateSpec_DeepCopyInto_def
  by (rule deep_copyStruct) (simp add: external_simps deep_intros)

lemma StewardControlPlaneTemplate_deep [deep_intros]:
  "externalContract x \<Longrightarrow> deep (StewardControlPlaneTemplate_type x) (StewardControlPlaneTemplate_DeepCopyInto x)"
  unfolding StewardControlPlaneTemplate_type_def StewardControlPlaneTemplate_DeepCopyInto_def
  by (rule deep_copyStruct) (simp add: external_simps deep_intros)

lemma StewardControlPlaneTemplateList_deep [deep_intros]:
  "externalContract x \<Longrightarrow> deep (StewardControlPlaneTemplateList_type x) (StewardControlPlaneTemplateList_DeepCopyInto x)"
  unfolding StewardControlPlaneTemplateList_type_def StewardControlPlaneTemplateList_DeepCopyInto_def
  by (rule deep_copyStruct) (simp add: external_simps deep_intros)

section \<open>The generated methods keep the promise\<close>

interpretation component: deep_method ControlPlaneComponent_type ControlPlaneComponent_DeepCopyInto ControlPlaneComponent_DeepCopy
  by unfold_locales (simp_all add: ControlPlaneComponent_deep ControlPlaneComponent_DeepCopy_def)

interpretation kine: deep_method KineComponent_type KineComponent_DeepCopyInto KineComponent_DeepCopy
  by unfold_locales (simp_all add: KineComponent_deep KineComponent_DeepCopy_def)

interpretation ingress: deep_method IngressComponent_type IngressComponent_DeepCopyInto IngressComponent_DeepCopy
  by unfold_locales (simp_all add: IngressComponent_deep IngressComponent_DeepCopy_def)

interpretation gateway: deep_method GatewayComponent_type GatewayComponent_DeepCopyInto GatewayComponent_DeepCopy
  by unfold_locales (simp_all add: GatewayComponent_deep GatewayComponent_DeepCopy_def)

interpretation loadbalancer: deep_method LoadBalancerConfig_type LoadBalancerConfig_DeepCopyInto LoadBalancerConfig_DeepCopy
  by unfold_locales (simp_all add: LoadBalancerConfig_deep LoadBalancerConfig_DeepCopy_def)

interpretation network: deep_method NetworkComponent_type NetworkComponent_DeepCopyInto NetworkComponent_DeepCopy
  by unfold_locales (simp_all add: NetworkComponent_deep NetworkComponent_DeepCopy_def)

interpretation coredns: deep_method CoreDNSAddonSpec_type CoreDNSAddonSpec_DeepCopyInto CoreDNSAddonSpec_DeepCopy
  by unfold_locales (simp_all add: CoreDNSAddonSpec_deep CoreDNSAddonSpec_DeepCopy_def)

interpretation addons: deep_method AddonsSpec_type AddonsSpec_DeepCopyInto AddonsSpec_DeepCopy
  by unfold_locales (simp_all add: AddonsSpec_deep AddonsSpec_DeepCopy_def)

interpretation reference: deep_method ExternalClusterReference_type ExternalClusterReference_DeepCopyInto ExternalClusterReference_DeepCopy
  by unfold_locales (simp_all add: ExternalClusterReference_deep ExternalClusterReference_DeepCopy_def)

interpretation deployment: deep_method DeploymentComponent_type DeploymentComponent_DeepCopyInto DeploymentComponent_DeepCopy
  by unfold_locales (simp_all add: DeploymentComponent_deep DeploymentComponent_DeepCopy_def)

interpretation fields: deep_method StewardControlPlaneFields_type StewardControlPlaneFields_DeepCopyInto StewardControlPlaneFields_DeepCopy
  by unfold_locales (simp_all add: StewardControlPlaneFields_deep StewardControlPlaneFields_DeepCopy_def)

interpretation spec: deep_method StewardControlPlaneSpec_type StewardControlPlaneSpec_DeepCopyInto StewardControlPlaneSpec_DeepCopy
  by unfold_locales (simp_all add: StewardControlPlaneSpec_deep StewardControlPlaneSpec_DeepCopy_def)

interpretation status: deep_method StewardControlPlaneStatus_type StewardControlPlaneStatus_DeepCopyInto StewardControlPlaneStatus_DeepCopy
  by unfold_locales (simp_all add: StewardControlPlaneStatus_deep StewardControlPlaneStatus_DeepCopy_def)

interpretation controlplane: object_method StewardControlPlane_type StewardControlPlane_DeepCopyInto StewardControlPlane_DeepCopy StewardControlPlane_DeepCopyObject
  by unfold_locales (simp_all add: StewardControlPlane_deep StewardControlPlane_DeepCopy_def StewardControlPlane_DeepCopyObject_def)

interpretation controlplanes: object_method StewardControlPlaneList_type StewardControlPlaneList_DeepCopyInto StewardControlPlaneList_DeepCopy StewardControlPlaneList_DeepCopyObject
  by unfold_locales (simp_all add: StewardControlPlaneList_deep StewardControlPlaneList_DeepCopy_def StewardControlPlaneList_DeepCopyObject_def)

interpretation resource: deep_method StewardControlPlaneTemplateResource_type StewardControlPlaneTemplateResource_DeepCopyInto StewardControlPlaneTemplateResource_DeepCopy
  by unfold_locales (simp_all add: StewardControlPlaneTemplateResource_deep StewardControlPlaneTemplateResource_DeepCopy_def)

interpretation templatespec: deep_method StewardControlPlaneTemplateSpec_type StewardControlPlaneTemplateSpec_DeepCopyInto StewardControlPlaneTemplateSpec_DeepCopy
  by unfold_locales (simp_all add: StewardControlPlaneTemplateSpec_deep StewardControlPlaneTemplateSpec_DeepCopy_def)

interpretation template: object_method StewardControlPlaneTemplate_type StewardControlPlaneTemplate_DeepCopyInto StewardControlPlaneTemplate_DeepCopy StewardControlPlaneTemplate_DeepCopyObject
  by unfold_locales (simp_all add: StewardControlPlaneTemplate_deep StewardControlPlaneTemplate_DeepCopy_def StewardControlPlaneTemplate_DeepCopyObject_def)

interpretation templates: object_method StewardControlPlaneTemplateList_type StewardControlPlaneTemplateList_DeepCopyInto StewardControlPlaneTemplateList_DeepCopy StewardControlPlaneTemplateList_DeepCopyObject
  by unfold_locales (simp_all add: StewardControlPlaneTemplateList_deep StewardControlPlaneTemplateList_DeepCopy_def StewardControlPlaneTemplateList_DeepCopyObject_def)

text \<open>All of them, by name: the layout and the two methods.\<close>

definition deepCopyMethods :: "external \<Rightarrow> (string \<times> gotype \<times> copier \<times> copier) list" where
  "deepCopyMethods x =
     [(''ControlPlaneComponent'', ControlPlaneComponent_type x, ControlPlaneComponent_DeepCopyInto x, ControlPlaneComponent_DeepCopy x),
      (''KineComponent'', KineComponent_type x, KineComponent_DeepCopyInto x, KineComponent_DeepCopy x),
      (''IngressComponent'', IngressComponent_type x, IngressComponent_DeepCopyInto x, IngressComponent_DeepCopy x),
      (''GatewayComponent'', GatewayComponent_type x, GatewayComponent_DeepCopyInto x, GatewayComponent_DeepCopy x),
      (''LoadBalancerConfig'', LoadBalancerConfig_type x, LoadBalancerConfig_DeepCopyInto x, LoadBalancerConfig_DeepCopy x),
      (''NetworkComponent'', NetworkComponent_type x, NetworkComponent_DeepCopyInto x, NetworkComponent_DeepCopy x),
      (''CoreDNSAddonSpec'', CoreDNSAddonSpec_type x, CoreDNSAddonSpec_DeepCopyInto x, CoreDNSAddonSpec_DeepCopy x),
      (''AddonsSpec'', AddonsSpec_type x, AddonsSpec_DeepCopyInto x, AddonsSpec_DeepCopy x),
      (''ExternalClusterReference'', ExternalClusterReference_type x, ExternalClusterReference_DeepCopyInto x, ExternalClusterReference_DeepCopy x),
      (''DeploymentComponent'', DeploymentComponent_type x, DeploymentComponent_DeepCopyInto x, DeploymentComponent_DeepCopy x),
      (''StewardControlPlaneFields'', StewardControlPlaneFields_type x, StewardControlPlaneFields_DeepCopyInto x, StewardControlPlaneFields_DeepCopy x),
      (''StewardControlPlaneSpec'', StewardControlPlaneSpec_type x, StewardControlPlaneSpec_DeepCopyInto x, StewardControlPlaneSpec_DeepCopy x),
      (''StewardControlPlaneStatus'', StewardControlPlaneStatus_type x, StewardControlPlaneStatus_DeepCopyInto x, StewardControlPlaneStatus_DeepCopy x),
      (''StewardControlPlane'', StewardControlPlane_type x, StewardControlPlane_DeepCopyInto x, StewardControlPlane_DeepCopy x),
      (''StewardControlPlaneList'', StewardControlPlaneList_type x, StewardControlPlaneList_DeepCopyInto x, StewardControlPlaneList_DeepCopy x),
      (''StewardControlPlaneTemplateResource'', StewardControlPlaneTemplateResource_type x, StewardControlPlaneTemplateResource_DeepCopyInto x, StewardControlPlaneTemplateResource_DeepCopy x),
      (''StewardControlPlaneTemplateSpec'', StewardControlPlaneTemplateSpec_type x, StewardControlPlaneTemplateSpec_DeepCopyInto x, StewardControlPlaneTemplateSpec_DeepCopy x),
      (''StewardControlPlaneTemplate'', StewardControlPlaneTemplate_type x, StewardControlPlaneTemplate_DeepCopyInto x, StewardControlPlaneTemplate_DeepCopy x),
      (''StewardControlPlaneTemplateList'', StewardControlPlaneTemplateList_type x, StewardControlPlaneTemplateList_DeepCopyInto x, StewardControlPlaneTemplateList_DeepCopy x)]"

lemma deepCopyMethods_deep:
  assumes "externalContract x" "(name, t, into, copy) \<in> set (deepCopyMethods x)"
  shows "deep t into" "copy = copyPtr t into"
proof -
  have "list_all (\<lambda>(name, t, into, copy). deep t into) (deepCopyMethods x)"
    using assms(1) by (simp add: deepCopyMethods_def deep_intros)
  with assms(2) show "deep t into" by (auto simp: list_all_iff)
  have "list_all (\<lambda>(name, t, into, copy). copy = copyPtr t into) (deepCopyMethods x)"
    by (simp add: deepCopyMethods_def ControlPlaneComponent_DeepCopy_def KineComponent_DeepCopy_def IngressComponent_DeepCopy_def GatewayComponent_DeepCopy_def LoadBalancerConfig_DeepCopy_def NetworkComponent_DeepCopy_def CoreDNSAddonSpec_DeepCopy_def AddonsSpec_DeepCopy_def ExternalClusterReference_DeepCopy_def DeploymentComponent_DeepCopy_def StewardControlPlaneFields_DeepCopy_def StewardControlPlaneSpec_DeepCopy_def StewardControlPlaneStatus_DeepCopy_def StewardControlPlane_DeepCopy_def StewardControlPlaneList_DeepCopy_def StewardControlPlaneTemplateResource_DeepCopy_def StewardControlPlaneTemplateSpec_DeepCopy_def StewardControlPlaneTemplate_DeepCopy_def StewardControlPlaneTemplateList_DeepCopy_def)
  with assms(2) show "copy = copyPtr t into" by (auto simp: list_all_iff)
qed

lemma copyPtr_nil_iff: "copyPtr t into p h = Some (q, h') \<Longrightarrow> q = VNil \<longleftrightarrow> p = VNil"
  by (auto simp: copyPtr_def Let_def bind_eq_Some_conv split: val.splits)

section \<open>The one use: the base of the merge patch\<close>

text \<open>
  \<open>patchControlPlaneEndpoint\<close>: \<open>patch := client.MergeFrom(controlPlane.DeepCopy())\<close>, then the assignment of the
  new endpoint through the pointer. The base of the patch is the first component of the result.
\<close>

definition prepareEndpointPatch :: "external \<Rightarrow> val \<Rightarrow> val \<Rightarrow> heap \<Rightarrow> (val \<times> heap) option" where
  "prepareEndpointPatch x controlPlane endpoint h =
     do { (base, h1) \<leftarrow> StewardControlPlane_DeepCopy x controlPlane h;
          h2 \<leftarrow> assignThrough controlPlane [''Spec'', ''ControlPlaneEndpoint''] endpoint h1;
          Some (base, h2) }"

lemma endpoint_assignable:
  assumes "view h (StewardControlPlane_type x) v = Some u"
  obtains w where "setPath [''Spec'', ''ControlPlaneEndpoint''] y v = Some w"
proof -
  from assms obtain spec u1 where spec: "getField ''Spec'' v = Some spec" "view h (StewardControlPlaneSpec_type x) spec = Some u1"
    "\<And>z. setField ''Spec'' z v \<noteq> None"
    unfolding StewardControlPlane_type_def
    by (rule view_field [where n = "''Spec''" and t = "StewardControlPlaneSpec_type x"]) simp_all
  from spec(2) obtain ep u2 where "getField ''ControlPlaneEndpoint'' spec = Some ep" "\<And>z. setField ''ControlPlaneEndpoint'' z spec \<noteq> None"
    unfolding StewardControlPlaneSpec_type_def
    by (rule view_field [where n = "''ControlPlaneEndpoint''" and t = "x_type x ''capiv1beta1.APIEndpoint''"]) simp_all
  with spec that show thesis by (fastforce simp: bind_eq_Some_conv)
qed

section \<open>Properties\<close>

text \<open>
  (C11) Every \<open>DeepCopy\<close> of the package is a deep copy. For each of the nineteen types, a pointer to a value of the
  declared type is copied without an error and without a change of memory that existed before; the
  copy shows the same value as the original, and goes on showing it whatever is written to the memory that existed
  before or allocated later; the original is not affected by what is written to the new memory. Only nil is copied to nil.
\<close>

theorem DeepCopy_isolates:
  assumes "externalContract x" and "(name, t, into, copy) \<in> set (deepCopyMethods x)"
    and "view h (TPtr t) p = Some u"
  shows "\<exists>q new. copy p h = Some (q, h @ new) \<and>
     (\<forall>old more. length old = length h \<longrightarrow> view (old @ new @ more) (TPtr t) q = Some u) \<and>
     (\<forall>other. view (h @ other) (TPtr t) p = Some u) \<and> (q = VNil \<longleftrightarrow> p = VNil)"
proof -
  note m = deepCopyMethods_deep [OF assms(1,2)]
  from deep_copyPtr [OF m(1)] assms(3) obtain q new where
    q: "copyPtr t into p h = Some (q, h @ new)"
      "\<And>old. length old = length h \<Longrightarrow> view (old @ new) (TPtr t) q = Some u" by (rule deepE) blast
  have "view (old @ new @ more) (TPtr t) q = Some u" if "length old = length h" for old more
    using view_append [OF q(2) [OF that], of more] by (simp del: view.simps)
  with q(1) m(2) copyPtr_nil_iff [OF q(1)] view_append [OF assms(3)] show ?thesis by blast
qed

text \<open>
  (C12) The endpoint is published by a patch against what the object was: after the assignment of the new endpoint
  through the pointer, the base of the merge patch still shows the whole object as it was before, the object has the new
  endpoint, every field off that path has kept its value, and no other cell of the memory has changed.
\<close>

theorem endpoint_patch_base_is_snapshot:
  assumes "externalContract x" and "view h (TPtr (StewardControlPlane_type x)) (Ref a) = Some u"
  shows "\<exists>base h' v v'. prepareEndpointPatch x (Ref a) endpoint h = Some (base, h') \<and>
     view h' (TPtr (StewardControlPlane_type x)) base = Some u \<and>
     pointee h a = Some v \<and> pointee h' a = Some v' \<and>
     getPath [''Spec'', ''ControlPlaneEndpoint''] v' = Some endpoint \<and>
     (\<forall>path. parted [''Spec'', ''ControlPlaneEndpoint''] path \<longrightarrow> getPath path v' = getPath path v) \<and>
     (\<forall>b < length h. b \<noteq> a \<longrightarrow> h' ! b = h ! b)"
proof -
  from assms(2) obtain v w where v: "pointee h a = Some v" "view h (StewardControlPlane_type x) v = Some w"
    by (auto simp: bind_eq_Some_conv)
  have a: "a < length h" using v(1) by (auto simp: pointee_def lookup_def split: option.splits if_splits)
  from controlplane.copy_isolated [OF assms] obtain base new where
    c: "StewardControlPlane_DeepCopy x (Ref a) h = Some (base, h @ new)"
      "\<And>old more. length old = length h \<Longrightarrow> view (old @ new @ more) (TPtr (StewardControlPlane_type x)) base = Some u"
    by metis
  from v(2) obtain v' where v': "setPath [''Spec'', ''ControlPlaneEndpoint''] endpoint v = Some v'"
    by (rule endpoint_assignable)
  have "prepareEndpointPatch x (Ref a) endpoint h = Some (base, h[a := CVal v'] @ new)"
    using c(1) pointee_append [OF v(1)] v' a
    by (simp add: prepareEndpointPatch_def assignThrough_def list_update_append del: setPath.simps)
  moreover have "view (h[a := CVal v'] @ new) (TPtr (StewardControlPlane_type x)) base = Some u"
    using c(2) [of "h[a := CVal v']" "[]"] by (simp del: view.simps)
  moreover have "pointee (h[a := CVal v'] @ new) a = Some v'"
    using a by (simp add: pointee_def lookup_def nth_append)
  moreover have "(h[a := CVal v'] @ new) ! b = h ! b" if "b < length h" "b \<noteq> a" for b
    using that by (simp add: nth_append)
  ultimately show ?thesis
    using v(1) getPath_setPath [OF v'] getPath_setPath_other [OF v'] by blast
qed

text \<open>
  \<open>DeepCopyObject\<close> never wraps a nil pointer: for the four kinds of the API a nil pointer gives the nil interface, and a
  pointer to an object gives a new pointer, to a copy of the object.
\<close>

theorem DeepCopyObject_nil_or_copy:
  assumes "externalContract x"
    and "(t, object) \<in> {(StewardControlPlane_type x, StewardControlPlane_DeepCopyObject x),
      (StewardControlPlaneList_type x, StewardControlPlaneList_DeepCopyObject x),
      (StewardControlPlaneTemplate_type x, StewardControlPlaneTemplate_DeepCopyObject x),
      (StewardControlPlaneTemplateList_type x, StewardControlPlaneTemplateList_DeepCopyObject x)}"
  shows "object VNil h = Some (None, h) \<and>
     (\<forall>a u. view h (TPtr t) (Ref a) = Some u \<longrightarrow>
       (\<exists>new. object (Ref a) h = Some (Some (Ref (length h)), h @ new) \<and>
         (\<forall>old. length old = length h \<longrightarrow> view (old @ new) (TPtr t) (Ref (length h)) = Some u)))"
  using assms(2) controlplane.object_isolated [OF assms(1)] controlplanes.object_isolated [OF assms(1)]
    template.object_isolated [OF assms(1)] templates.object_isolated [OF assms(1)]
  by (auto simp: controlplane.object_nil controlplanes.object_nil template.object_nil templates.object_nil simp del: view.simps)

section \<open>Witnesses\<close>

text \<open>Layouts for the types of other modules: metadata with labels, an endpoint of host and port, strings.\<close>

definition sampleExternal :: external where
  "sampleExternal =
     \<lparr>x_type = (\<lambda>n. if n \<in> set copiedTypes then TStruct [(''Labels'', TMap TString)]
                else if n = ''capiv1beta1.APIEndpoint'' then TStruct [(''Host'', TString), (''Port'', TInt)] else TString),
      x_DeepCopyInto = (\<lambda>n. copyStruct [(''Labels'', copyPlainMap)])\<rparr>"

lemma sampleExternal_contract [simp]: "externalContract sampleExternal"
proof -
  have "deep (TStruct [(''Labels'', TMap TString)]) (copyStruct [(''Labels'', copyPlainMap)])"
    by (rule deep_copyStruct) (simp add: covers_def deep_intros)
  then show ?thesis by (simp add: externalContract_def sampleExternal_def copiedTypes_def assignedTypes_def)
qed

definition sampleIngress :: heap where
  "sampleIngress =
     [CMap [(''team'', Atom (AString ''blue''))],
      CVal (Struct [(''ClassName'', Atom (AString ''haproxy'')), (''Hostname'', Atom (AString ''kube.example'')),
        (''ControllerType'', Atom (AString '''')), (''ExtraLabels'', Ref 0), (''ExtraAnnotations'', VNil)])]"

definition sampleIngressTree :: tree where
  "sampleIngressTree = LPtr (LStruct [(''ClassName'', LAtom (AString ''haproxy'')), (''Hostname'', LAtom (AString ''kube.example'')),
     (''ControllerType'', LAtom (AString '''')), (''ExtraLabels'', LMap [(''team'', LAtom (AString ''blue''))]),
     (''ExtraAnnotations'', LNil)])"

lemma sampleIngress_view: "view sampleIngress (TPtr (IngressComponent_type x)) (Ref 1) = Some sampleIngressTree"
  by (simp add: sampleIngress_def sampleIngressTree_def IngressComponent_type_def pointee_def lookup_def entries_def)

text \<open>The label of the original is changed; the copy keeps its own.\<close>

theorem DeepCopy_isolates_witness:
  "\<exists>q new. IngressComponent_DeepCopy sampleExternal (Ref 1) sampleIngress = Some (q, sampleIngress @ new) \<and>
     view ([CMap [(''team'', Atom (AString ''red''))], sampleIngress ! 1] @ new) (TPtr (IngressComponent_type sampleExternal)) q =
       Some sampleIngressTree"
proof -
  have "(''IngressComponent'', IngressComponent_type sampleExternal, IngressComponent_DeepCopyInto sampleExternal,
      IngressComponent_DeepCopy sampleExternal) \<in> set (deepCopyMethods sampleExternal)"
    by (simp add: deepCopyMethods_def)
  from DeepCopy_isolates [OF sampleExternal_contract this sampleIngress_view] obtain q new where
    "IngressComponent_DeepCopy sampleExternal (Ref 1) sampleIngress = Some (q, sampleIngress @ new)"
    "\<And>old more. length old = length sampleIngress \<Longrightarrow>
       view (old @ new @ more) (TPtr (IngressComponent_type sampleExternal)) q = Some sampleIngressTree" by blast
  moreover from this(2) [of "[CMap [(''team'', Atom (AString ''red''))], sampleIngress ! 1]" "[]"]
  have "view ([CMap [(''team'', Atom (AString ''red''))], sampleIngress ! 1] @ new) (TPtr (IngressComponent_type sampleExternal)) q =
       Some sampleIngressTree" by (simp add: sampleIngress_def del: view.simps)
  ultimately show ?thesis by blast
qed

definition sampleObject :: heap where
  "sampleObject = [CVal (zeroOf (StewardControlPlane_type sampleExternal))]"

lemma sampleObject_view: "\<exists>u. view sampleObject (TPtr (StewardControlPlane_type sampleExternal)) (Ref 0) = Some u"
  using view_zeroOf [of sampleObject "StewardControlPlane_type sampleExternal"]
  by (auto simp: sampleObject_def pointee_def lookup_def)

theorem endpoint_patch_base_is_snapshot_witness:
  "\<exists>base h'. prepareEndpointPatch sampleExternal (Ref 0) (Struct [(''Host'', Atom (AString ''cp'')), (''Port'', Atom (AInt 6443))])
       sampleObject = Some (base, h') \<and>
     view h' (TPtr (StewardControlPlane_type sampleExternal)) base =
       view sampleObject (TPtr (StewardControlPlane_type sampleExternal)) (Ref 0)"
proof -
  from sampleObject_view obtain u where u: "view sampleObject (TPtr (StewardControlPlane_type sampleExternal)) (Ref 0) = Some u"
    by blast
  from endpoint_patch_base_is_snapshot [OF sampleExternal_contract u] u show ?thesis by metis
qed

theorem DeepCopyObject_nil_or_copy_witness:
  "StewardControlPlane_DeepCopyObject sampleExternal VNil [] = Some (None, []) \<and>
   (\<exists>new. StewardControlPlane_DeepCopyObject sampleExternal (Ref 0) sampleObject = Some (Some (Ref 1), sampleObject @ new))"
proof -
  from sampleObject_view obtain u where u: "view sampleObject (TPtr (StewardControlPlane_type sampleExternal)) (Ref 0) = Some u"
    by blast
  have len: "length sampleObject = 1" by (simp add: sampleObject_def)
  from DeepCopyObject_nil_or_copy [OF sampleExternal_contract insertI1] u len show ?thesis by metis
qed

end
