(* ===== verification/Scheme_Registration.thy ===== *)
theory Scheme_Registration
  imports Go_Std
begin

text \<open>
  \<open>api/v1alpha1/groupversion_info.go\<close>, the \<open>init\<close> functions of the types, and that of \<open>main.go\<close>: which kinds the
  scheme of the process knows before \<open>main\<close> runs. The scheme, its builder and the \<open>AddToScheme\<close>
  functions of other modules are parameters. Go initialises a package before those that import it, its variables before its
  \<open>init\<close> functions, and those in the order of the file names. \<open>AddToScheme\<close> is bound to the builder's pointer, so it adds what the
  builder holds when it is called.
\<close>

record GroupVersion =
  gv_Group :: string
  gv_Version :: string

definition GroupVersion_v1alpha1 :: GroupVersion where
  "GroupVersion_v1alpha1 = \<lparr>gv_Group = ''controlplane.cluster.x-k8s.io'', gv_Version = ''v1alpha1''\<rparr>"

record ('b, 's) schemeOps =
  sb_Builder :: "GroupVersion \<Rightarrow> 'b"
  sb_Register :: "string list \<Rightarrow> 'b \<Rightarrow> 'b"
  sb_AddToScheme :: "'b \<Rightarrow> 's \<Rightarrow> error option \<times> 's"
  so_NewScheme :: 's
  so_clientgo :: "'s \<Rightarrow> error option \<times> 's"
  so_steward :: "'s \<Rightarrow> error option \<times> 's"
  so_capi :: "'s \<Rightarrow> error option \<times> 's"
  so_Recognizes :: "'s \<Rightarrow> GroupVersion \<Rightarrow> string \<Rightarrow> bool"
  sb_GroupVersion :: "'b \<Rightarrow> GroupVersion"
  sb_registered :: "'b \<Rightarrow> string set"

section \<open>Initialisation\<close>

definition SchemeBuilder :: "('b, 's) schemeOps \<Rightarrow> 'b" where
  "SchemeBuilder ops = sb_Builder ops GroupVersion_v1alpha1"

definition init_types :: "('b, 's) schemeOps \<Rightarrow> 'b \<Rightarrow> 'b" where
  "init_types ops b = sb_Register ops [''StewardControlPlane'', ''StewardControlPlaneList''] b"

definition init_templateTypes :: "('b, 's) schemeOps \<Rightarrow> 'b \<Rightarrow> 'b" where
  "init_templateTypes ops b = sb_Register ops [''StewardControlPlaneTemplate'', ''StewardControlPlaneTemplateList''] b"

definition init_v1alpha1 :: "('b, 's) schemeOps \<Rightarrow> 'b" where
  "init_v1alpha1 ops = init_templateTypes ops (init_types ops (SchemeBuilder ops))"

text \<open>\<open>utilruntime.Must(f(scheme))\<close>: an error is a panic.\<close>

definition must :: "('s \<Rightarrow> error option \<times> 's) \<Rightarrow> ('s, error) step" where
  "must f s = (case f s of (Some e, s1) \<Rightarrow> (Some e, s1) | (None, s1) \<Rightarrow> (None, s1))"

definition init_main :: "('b, 's) schemeOps \<Rightarrow> error option \<times> 's" where
  "init_main ops =
     run_steps [must (so_clientgo ops), must (so_steward ops), must (so_capi ops),
       must (sb_AddToScheme ops (init_v1alpha1 ops))] (so_NewScheme ops)"

section \<open>Known kinds\<close>

text \<open>
  The builder collects what is registered under its group and version; adding to a scheme makes the kinds known and forgets
  none; the other modules register the kinds they are used for.
\<close>

definition keepsKinds :: "('b, 's) schemeOps \<Rightarrow> ('s \<Rightarrow> error option \<times> 's) \<Rightarrow> bool" where
  "keepsKinds ops f \<longleftrightarrow>
     (\<forall>s s' gv k. f s = (None, s') \<longrightarrow> so_Recognizes ops s gv k \<longrightarrow> so_Recognizes ops s' gv k)"

definition addsKind :: "('b, 's) schemeOps \<Rightarrow> ('s \<Rightarrow> error option \<times> 's) \<Rightarrow> GroupVersion \<Rightarrow> string \<Rightarrow> bool" where
  "addsKind ops f gv k \<longleftrightarrow> (\<forall>s s'. f s = (None, s') \<longrightarrow> so_Recognizes ops s' gv k)"

definition schemeContract :: "('b, 's) schemeOps \<Rightarrow> bool" where
  "schemeContract ops \<longleftrightarrow>
     (\<forall>gv. sb_GroupVersion ops (sb_Builder ops gv) = gv \<and> sb_registered ops (sb_Builder ops gv) = {}) \<and>
     (\<forall>ks b. sb_GroupVersion ops (sb_Register ops ks b) = sb_GroupVersion ops b \<and>
        sb_registered ops (sb_Register ops ks b) = sb_registered ops b \<union> set ks) \<and>
     (\<forall>b. keepsKinds ops (sb_AddToScheme ops b) \<and>
        (\<forall>k \<in> sb_registered ops b. addsKind ops (sb_AddToScheme ops b) (sb_GroupVersion ops b) k)) \<and>
     keepsKinds ops (so_steward ops) \<and> keepsKinds ops (so_capi ops)"

definition ownKinds :: "string set" where
  "ownKinds = {''StewardControlPlane'', ''StewardControlPlaneList'', ''StewardControlPlaneTemplate'', ''StewardControlPlaneTemplateList''}"

lemma init_v1alpha1_kinds:
  assumes "schemeContract ops"
  shows "sb_registered ops (init_v1alpha1 ops) = ownKinds" "sb_GroupVersion ops (init_v1alpha1 ops) = GroupVersion_v1alpha1"
  using assms
  by (auto simp: schemeContract_def init_v1alpha1_def init_templateTypes_def init_types_def SchemeBuilder_def ownKinds_def)

lemma must_None: "must f s = (None, s') \<longleftrightarrow> f s = (None, s')"
  by (auto simp: must_def split: prod.splits option.splits)

text \<open>
  When \<open>main\<close> is reached the scheme knows the four kinds of the package, the two controllers' own and the templates, and every
  kind that the modules of client-go, Steward and Cluster API add: Secrets, \<open>TenantControlPlane\<close>s and Clusters.
\<close>

theorem init_registers:
  assumes c: "schemeContract ops" and run: "init_main ops = (None, s)"
  shows "(\<forall>k \<in> ownKinds. so_Recognizes ops s GroupVersion_v1alpha1 k) \<and>
     (\<forall>gv k. addsKind ops (so_clientgo ops) gv k \<or> addsKind ops (so_steward ops) gv k \<or> addsKind ops (so_capi ops) gv k \<longrightarrow>
        so_Recognizes ops s gv k)"
proof -
  from run obtain s1 s2 s3 where
    s1: "so_clientgo ops (so_NewScheme ops) = (None, s1)" and s2: "so_steward ops s1 = (None, s2)" and
    s3: "so_capi ops s2 = (None, s3)" and s: "sb_AddToScheme ops (init_v1alpha1 ops) s3 = (None, s)"
    by (auto simp: init_main_def must_None split: prod.splits option.splits)
  have keep: "keepsKinds ops (so_steward ops)" "keepsKinds ops (so_capi ops)" "keepsKinds ops (sb_AddToScheme ops (init_v1alpha1 ops))"
    using c by (simp_all add: schemeContract_def)
  have own: "so_Recognizes ops s GroupVersion_v1alpha1 k" if "k \<in> ownKinds" for k
  proof -
    have "addsKind ops (sb_AddToScheme ops (init_v1alpha1 ops)) (sb_GroupVersion ops (init_v1alpha1 ops)) k"
      using c that init_v1alpha1_kinds(1) [OF c] by (simp add: schemeContract_def)
    then show ?thesis using s init_v1alpha1_kinds(2) [OF c] by (simp add: addsKind_def)
  qed
  have k1: "so_Recognizes ops s1 gv k" if "addsKind ops (so_clientgo ops) gv k" for gv k
    using that s1 unfolding addsKind_def by blast
  have k2: "so_Recognizes ops s2 gv k" if "addsKind ops (so_steward ops) gv k \<or> so_Recognizes ops s1 gv k" for gv k
    using that s2 keep(1) unfolding addsKind_def keepsKinds_def by blast
  have k3: "so_Recognizes ops s3 gv k" if "addsKind ops (so_capi ops) gv k \<or> so_Recognizes ops s2 gv k" for gv k
    using that s3 keep(2) unfolding addsKind_def keepsKinds_def by blast
  have k4: "so_Recognizes ops s gv k" if "so_Recognizes ops s3 gv k" for gv k
    using that s keep(3) unfolding keepsKinds_def by blast
  show ?thesis using own k1 k2 k3 k4 by blast
qed

section \<open>A scheme\<close>

text \<open>A builder is its group version with the kinds registered, a scheme the list of known kinds.\<close>

definition sampleAdd :: "(GroupVersion \<times> string) list \<Rightarrow> (GroupVersion \<times> string) list \<Rightarrow> error option \<times> (GroupVersion \<times> string) list" where
  "sampleAdd ks s = (None, s @ ks)"

definition sampleScheme :: "(GroupVersion \<times> string list, (GroupVersion \<times> string) list) schemeOps" where
  "sampleScheme = \<lparr>sb_Builder = (\<lambda>gv. (gv, [])), sb_Register = (\<lambda>ks b. (fst b, snd b @ ks)),
     sb_AddToScheme = (\<lambda>b. sampleAdd (map (Pair (fst b)) (snd b))), so_NewScheme = [],
     so_clientgo = sampleAdd [(\<lparr>gv_Group = '''', gv_Version = ''v1''\<rparr>, ''Secret'')],
     so_steward = sampleAdd [(\<lparr>gv_Group = ''steward.butlerlabs.dev'', gv_Version = ''v1alpha1''\<rparr>, ''TenantControlPlane'')],
     so_capi = sampleAdd [(\<lparr>gv_Group = ''cluster.x-k8s.io'', gv_Version = ''v1beta1''\<rparr>, ''Cluster'')],
     so_Recognizes = (\<lambda>s gv k. (gv, k) \<in> set s), sb_GroupVersion = fst, sb_registered = (\<lambda>b. set (snd b))\<rparr>"

lemma sample_schemeContract: "schemeContract sampleScheme"
  by (auto simp: schemeContract_def keepsKinds_def addsKind_def sampleScheme_def sampleAdd_def)

theorem init_registers_witness:
  "\<exists>s. init_main sampleScheme = (None, s) \<and> so_Recognizes sampleScheme s GroupVersion_v1alpha1 ''StewardControlPlane''"
proof -
  obtain s where s: "init_main sampleScheme = (None, s)"
    by (simp add: init_main_def must_def sampleScheme_def sampleAdd_def)
  with init_registers [OF sample_schemeContract s] show ?thesis by (auto simp: ownKinds_def)
qed

end
