(* ===== verification/Spec2Isabelle.thy ===== *)
theory Spec2Isabelle
  imports Indexers Reconcile_Completion Manager_Lifecycle Trigger_Channel Main_Setup Api_Validation Deep_Copy Scheme_Registration
begin

text \<open>
  A verification library for the Cluster API control plane provider of Steward. The provider turns a
  \<open>StewardControlPlane\<close> (short \<open>scp\<close>) of the management cluster into a \<open>TenantControlPlane\<close> (\<open>tcp\<close>) of Steward,
  publishes the address of the tenant's API server to the Cluster API objects, and
  copies kubeconfig and certificate authority to the Secrets that Cluster API expects.

  \<^bold>\<open>The program and how its parts interact.\<close> \<open>main.go\<close> builds a manager with two controllers that share
  a store of remote managers and a channel. \<open>StewardControlPlaneReconciler.Reconcile\<close> brings one \<open>scp\<close>
  closer to what its spec says; if the \<open>scp\<close> names an external cluster, its \<open>tcp\<close> lives there and is reached
  through the store. \<open>ExternalClusterReferenceReconciler.Reconcile\<close> fills this store from the
  Secrets with kubeconfigs, one manager per referenced entry, each running in a goroutine of its own; a
  controller on each manager (\<open>PushStewardChange\<close>) sends changes of remote \<open>tcp\<close>s to the channel, which the first
  controller watches. The indexes of \<open>pkg/indexers\<close> and the names of \<open>pkg/externalclusterreference\<close> tie
  the objects together.

  \<^bold>\<open>How code is modelled.\<close> A struct is a record with the source's fields, a pointer an \<open>option\<close>, an \<open>int32\<close>
  or \<open>int64\<close> a word, a map a partial function (an association list where the code ranges over it). A
  function with a receiver or with effects takes and returns the state explicitly. A function body with early
  returns is a list of steps run by \<open>run_steps\<close>, with the Hoare triples of \<open>Prelude\<close>. Errors are values of
  \<open>Go_Std.error\<close>; a nil dereference is \<open>ErrPanic\<close>, or \<open>None\<close> where nothing else can fail. Code of other
  modules is a parameter (\<open>client\<close>, \<open>env\<close>, \<open>ecrOps\<close>, \<open>setupOps\<close>, \<open>schemeOps\<close>, \<open>external\<close>) over an arbitrary world \<open>'w\<close>, which stands for the
  API servers, their other writers and the network. What a theorem needs of it is a
  named hypothesis: \<open>retryContract\<close> (the closure runs at least once, again after a conflict, and the last outcome
  counts), \<open>ownerContract\<close> and \<open>secretOwnerContract\<close> (owner references only change), \<open>findContract\<close> and \<open>setContract\<close>
  (conditions), \<open>unsortedContract\<close> (sets of finalizers), \<open>nestedContract\<close> (fields of unstructured objects),
  \<open>noSentinel\<close> (libraries do not return this package's sentinel), \<open>externalContract\<close> (deep copies of foreign types are deep), \<open>schemeContract\<close> (a scheme knows what was added).
  Where the sharing of memory is the point, in the deep copies, values live in an explicit heap of objects, arrays and maps.
  \<open>Sample_Environment\<close> and \<open>Sample_Run\<close> hold a concrete world, a small in-memory API server, in which they
  hold; the witnesses evaluate the model there.

  \<^bold>\<open>Theories.\<close>
  \<^item> \<open>Prelude\<close>: strings, steps with early returns and their triples. \<open>Go_Std\<close>: errors and their
    chains, \<open>net.SplitHostPort\<close>, \<open>strconv.ParseInt\<close> and \<open>Itoa\<close>, with round trips.
  \<^item> \<open>Api_Types\<close>, \<open>Zero_Values\<close>: \<open>api/v1alpha1/*_types.go\<close>, \<open>*_conditions.go\<close>, and the types of other
    modules as far as they are read or written. \<open>Api_Validation\<close>: the validation markers as CEL
    expressions with their errors, and the template types.
  \<^item> \<open>External_Names\<close>: \<open>name_generator.go\<close>; \<open>External_Store\<close>: \<open>store.go\<close>, its interface as the locale \<open>manager_store\<close>,
    interpreted by the map store; \<open>Indexers\<close>: \<open>pkg/indexers\<close>, the locale \<open>field_index\<close> with its three
    interpretations.
  \<^item> \<open>Environment\<close>: the reconciler's fields, the client, the state \<open>rst\<close> of a reconciliation and its log of API calls.
  \<^item> \<open>Conditions\<close>: \<open>conditions.go\<close>; \<open>Tenant_Control_Plane\<close>: \<open>_tcp.go\<close>; \<open>Cluster_Patch\<close>: \<open>_cluster_patch.go\<close> and
    its errors; \<open>Required_Resources\<close>: \<open>_resources.go\<close>; \<open>External_Reference\<close>: \<open>_externalreference.go\<close>,
    \<open>stewardcontrolplane_finalizer.go\<close>, \<open>features.go\<close>.
  \<^item> \<open>Control_Plane_Reconciler\<close>: \<open>stewardcontrolplane_controller.go\<close>, \<open>Reconcile\<close> as the list \<open>prologue\<close> followed by the list
    \<open>body\<close> under the deferred update; \<open>Sample_Run\<close>, \<open>Reconcile_Order\<close>, \<open>Reconcile_Outcome\<close>, \<open>Reconcile_Liveness\<close>, \<open>Reconcile_Completion\<close>: its
    properties.
  \<^item> \<open>External_Cluster_Reconciler\<close>: \<open>externalclusterreference_controller.go\<close>; \<open>Manager_Lifecycle\<close>: the same
    code as threads, an inductive step relation with its reachable states; \<open>Trigger_Channel\<close>: the channel from \<open>main.go\<close> without
    a buffer, its senders, the workers of \<open>PushStewardChange\<close>, and its receiver, as another such relation.
  \<^item> \<open>Main_Setup\<close>: \<open>main.go\<close> and the \<open>SetupWithManager\<close> methods; \<open>Scheme_Registration\<close>: \<open>groupversion_info.go\<close> and
    the \<open>init\<close> functions of the types and of \<open>main.go\<close>.
  \<^item> \<open>Go_Memory\<close>: Go's heap, the values that a typed reference shows, the statements that generated copies are
    made of, and what it means for them to copy deeply; \<open>Deep_Copy\<close>: \<open>zz_generated.deepcopy.go\<close>, method by method, as interpretations of the
    locales \<open>deep_method\<close> and \<open>object_method\<close>.

  \<^bold>\<open>What is shown.\<close>
  \<^item> The reconciler as a whole: every reconciliation talks to the API servers in the intended order, writes
    Secrets for a validated cluster only, protects a remote \<open>tcp\<close> with a finalizer before it is created, claims success
    only after all of the work, asks for another try only while something is missing, sends the conditions it tracked however it ends, deletes the
    remote \<open>tcp\<close> before it gives up the finalizer, does nothing for paused or unowned objects, and reports
    ready what is ready. A \<open>tcp\<close> that is not serving is not scheduled again, unlike intended.
  \<^item> It gets there: in a healthy environment one reconciliation, for a local or a remote \<open>tcp\<close>, runs through all of its steps, leaves the environment
    healthy, and asks for no further try. \<open>healthy\<close> asks of the API server that what was just read can be written back, of the \<open>tcp\<close> that it exists under its name, that Steward has
    processed it and that no other controller owns it, of the \<open>Cluster\<close> that it has endpoint and infrastructure, and of \<open>CreateOrUpdate\<close> and \<open>SetControllerReference\<close> no
    more than their documentation: the first succeeds if the function given to it succeeds on the object that exists and does not rename it, the second if no other controller owns the
    object and the namespaces agree. \<open>liveEnv\<close> is such an environment that refuses everything else.
  \<^item> Its parts: the mutation of the \<open>tcp\<close> field by field, its idempotence and the certificate names; the endpoint
    with its bounds, including the rejection of ports from 32768 on; the patch of
    each known kind of infrastructure cluster and the protection of foreign addresses; the Secrets contract; the
    condition of each outcome; the finalizer.
  \<^item> The secret reconciler refines an abstract synchronisation of entries and versions, leaks no manager, and does
    nothing when nothing has changed. Under every interleaving of its worker with the managers' goroutines at most one
    manager per entry runs uncancelled; the sequential model is a run of the step relation; two races
    leave a failed manager in the store, or stop a healthy one. The channel delivers every event once and in the order of its
    sender, and blocks the sender, whatever happens to its manager, while nobody receives.
  \<^item> Start-up hands the flags to the manager and the reconcilers and registers the controllers and indexes that they ask for. The updates that the validation rules
    accept are characterised exactly, and so is when the \<open>tcp\<close> of a validated control plane obeys the same rules; the
    class of a load balancer cannot be changed, but it can be removed, and then stays on the \<open>tcp\<close>.
  \<^item> Every \<open>DeepCopy\<close> gives an equal value that shares no memory with the original, and so the base of the merge patch
    that publishes the endpoint is the object as it was. The scheme knows the kinds of the package when \<open>main\<close> runs.
  \<^item> Across components, below: a reconciled Secret gives the \<open>scp\<close> its remote client, and lets its reconciliation complete; the published
    host is covered by the certificate.

  \<^bold>\<open>Bounds and fuel.\<close> All recursion is structural. \<open>retry.RetryOnConflict\<close> is a parameter, taken to return, as it does after a bounded number of attempts; no bound is
  assumed, and \<open>boundedRetry\<close> with four attempts is its instance in the sample environment only.

  \<^bold>\<open>Not modelled.\<close> The set-up and the text of logs, the formatting of error texts; the tests. The interleaving of two
  reconciliations of the same kind is covered by the arbitrary world for the API objects, and by \<open>Manager_Lifecycle\<close> for the store. The
  queues, caches and retries of the controller runtime belong to another module: a request is taken as it comes, and the receiver of the
  trigger channel listens or does not. The heap is used for the deep copies only; elsewhere a value of the model is
  immutable, and where the code depends on sharing, as for the conditions slice, it is written out.

  \<^bold>\<open>Next.\<close> The infrastructure kinds that are checked before they are patched, in the healthy environment; the managers' lifecycle and the
  trigger channel in one relation.
\<close>

section \<open>Properties that span components\<close>

text \<open>After the reconciliation of a Secret the store has a manager, of its version, for every entry found referenced.\<close>

lemma synced_manager:
  assumes get: "x_getSecret r req (e_world s) = (Inr secret, w)" and named: "secretNamed secret"
    and run: "ECR_Reconcile r req s = (None, s')" and new: "e_listed s' = e_listed s @ new"
    and found: "(key, items) \<in> set new" "items \<noteq> []"
  obtains m where "store_Get (e_store s') key (om_ResourceVersion (sec_meta secret)) = (Some m, True)"
proof -
  let ?rv = "om_ResourceVersion (sec_meta secret)"
  from ECR_sync [OF get named run new] have
    "versions (e_store s') = syncVersions (GenerateKeyNameFromSecret secret) (referenced new) ?rv (versions (e_store s))"
    "map fst new = GenerateKeyNameFromSecret secret" by simp_all
  moreover have "key \<in> set (referenced new)" using found by (force simp: referenced_def)
  moreover have "key \<in> set (map fst new)" using found(1) by force
  ultimately have "versions (e_store s') key = Some ?rv" by (simp add: syncVersions_def)
  with that show thesis by (auto simp: versions_def mapstore.get_spec)
qed

text \<open>
  (C6) The two controllers meet in the store: once the reconciliation of a Secret has succeeded and found a reference
  to one of its entries, the control plane that names this entry gets a remote client, the one of
  the manager in the store, as long as the Secret is unchanged, the entry is not empty, the gates permit the
  reference and the remote cluster serves \<open>TenantControlPlane\<close>s.
\<close>

theorem reconciled_secret_serves_client:
  assumes get: "x_getSecret r req (e_world s) = (Inr secret, w)" and named: "secretNamed secret"
    and run: "ECR_Reconcile r req s = (None, s')" and new: "e_listed s' = e_listed s @ new"
    and ref: "scp_ecr scp = Some ecr" "GenerateKeyNameFromSteward scp = Some key"
    and found: "(key, items) \<in> set new" "items \<noteq> []"
    and gates: "r_FeatureGates env FeatureExternalClusterReference"
      "r_FeatureGates env FeatureExternalClusterReferenceCrossNamespace \<or>
       referenceNamespace scp ecr = om_Namespace (scp_meta scp)"
    and read: "k_getSecret (r_client env) (referenceNamespace scp ecr, ecr_KubeconfigSecretName ecr) (world t) = (Inr secret, w2)"
    and entry: "map_of (secret_data secret) (ecr_KubeconfigSecretKey ecr) = Some (Some kubeconfig)"
    and store: "mstore t = e_store s'"
    and kind: "\<And>m v. fst (mgr_KindFor env m v) = None"
  shows "\<exists>m t'. extractRemoteClient env scp t = (Inr m, t') \<and>
    store_Get (e_store s') key (om_ResourceVersion (sec_meta secret)) = (Some m, True)"
proof -
  let ?rv = "om_ResourceVersion (sec_meta secret)"
  obtain m where m: "store_Get (e_store s') key ?rv = (Some m, True)"
    by (rule synced_manager [OF get named run new found])
  have data: "sec_Data secret \<noteq> None" using entry by (auto simp: secret_data_def split: option.splits)
  obtain v where v: "mgr_KindFor env m w2 = (None, v)" using kind [of m w2] by (metis prod.collapse)
  have "fst (extractRemoteClient env scp t) = Inr m"
    using ref gates read entry data store m v
    by (auto simp: extractRemoteClient_def referenceNamespace_def getSecret_def logged_def clientOf_def Let_def
        split: if_splits)
  with m show ?thesis by (metis prod.collapse)
qed


text \<open>The host that is published and the one that is added to the certificate are taken from the same name.\<close>

lemma parseHostname_hostOf:
  assumes "parseHostnameWithDefault h d label = Inr (host, port)" "CHR ''['' \<notin> set h" "CHR '']'' \<notin> set h" "d < 2 ^ 63"
  shows "host = hostOf h"
proof (cases "CHR '':'' \<in> set h")
  case True
  then have "length (splitOn CHR '':'' h) \<noteq> 1" by (simp add: splitOn_single_iff [unfolded One_nat_def])
  with assms(1) show ?thesis
    by (auto simp: parseHostnameWithDefault_def hostOf_def split: sum.splits)
next
  case False
  with assms(2,3) have h: "plain_host h" by (simp add: plain_host_def)
  have "SplitHostPort h = Inl (AddrError ''missing port in address'' h)"
    using False by (simp add: SplitHostPort_def Let_def)
  with parseHostname_no_port [OF h assms(4)] assms(1) show ?thesis by (simp add: hostOf_def)
qed

text \<open>
  (C8) The published endpoint is covered by the serving certificate: whenever a control plane is exposed by an Ingress or a
  Gateway, under a name without brackets, the host that the provider publishes in the cluster's endpoint is among
  the certificate SANs it has Steward issue for the \<open>TenantControlPlane\<close>.
\<close>

theorem published_host_is_certified:
  assumes "ownerContract (setControllerReferenceTCP env)"
    and "mutateTCP env cluster scp delegated tcp = (None, tcp')"
    and "controlPlaneEndpoint scp statusEndpoint = Inr (host, port)"
    and exposed: "net_Ingress (scp_Network scp) \<noteq> None \<or> net_Gateway (scp_Network scp) \<noteq> None"
    and "\<forall>i. net_Ingress (scp_Network scp) = Some i \<longrightarrow> CHR ''['' \<notin> set (ing_Hostname i) \<and> CHR '']'' \<notin> set (ing_Hostname i)"
    and "\<forall>g. net_Gateway (scp_Network scp) = Some g \<longrightarrow> CHR ''['' \<notin> set (gw_Hostname g) \<and> CHR '']'' \<notin> set (gw_Hostname g)"
  shows "host \<in> set (np_CertSANs (tp_NetworkProfile (tcp_spec tcp')))"
proof -
  have ports: "defaultIngressPort < 2 ^ 63" "defaultGatewayPort < 2 ^ 63"
    by (simp_all add: defaultIngressPort_def defaultGatewayPort_def)
  have "(\<exists>i. net_Ingress (scp_Network scp) = Some i \<and> host = hostOf (ing_Hostname i)) \<or>
      (\<exists>g. net_Gateway (scp_Network scp) = Some g \<and> host = hostOf (gw_Hostname g))"
    using assms(3) exposed assms(5,6) parseHostname_hostOf [OF _ _ _ ports(1)] parseHostname_hostOf [OF _ _ _ ports(2)]
    by (auto simp: controlPlaneEndpoint_def Let_def split: sum.splits prod.splits option.splits)
  moreover have "np_CertSANs (tp_NetworkProfile (tcp_spec tcp')) =
      np_CertSANs (tp_NetworkProfile (tcp_spec (mutated env cluster scp tcp)))"
    using mutateTCP_NoneD [OF assms(1,2)] by (auto simp: withOwners_def)
  ultimately show ?thesis by (auto simp: mutated_SANs)
qed

section \<open>Witnesses\<close>

theorem reconciled_secret_serves_client_witness:
  "\<exists>m t'. extractRemoteClient ecrEnv remoteSCP
      ((startState (remoteMem []) NewStore)\<lparr>mstore := e_store (snd sampleRun)\<rparr>) = (Inr m, t')"
proof -
  let ?t = "(startState (remoteMem []) NewStore)\<lparr>mstore := e_store (snd sampleRun)\<rparr>"
  have run: "ECR_Reconcile sampleOps (''team'', ''remote'') sampleEcr = (None, snd sampleRun)"
    using sampleRun_eq unfolding sampleRun_def by simp
  have l: "e_listed (snd sampleRun) = e_listed sampleEcr @ [(''team/remote/conf'', [remoteSCP])]"
    by (simp add: sampleRun_eq sampleEcr_def)
  have key: "GenerateKeyNameFromSteward remoteSCP = Some ''team/remote/conf''"
    by (simp add: GenerateKeyNameFromSteward_def referenceNamespace_def joinKey_def)
  have read: "k_getSecret (r_client ecrEnv) (''team'', ''remote'') (world ?t) = (Inr remoteSecret, world ?t)"
    by (simp add: sampleClient_def found_def startState_def)
  show ?thesis
    using reconciled_secret_serves_client [OF sampleEcr_get remote_sample(6) run l remote_sample(1) key, where env = ecrEnv and t = ?t]
      read
    by (simp add: referenceNamespace_def) blast
qed


theorem published_host_is_certified_witness:
  "''kube.example'' \<in> set (np_CertSANs (tp_NetworkProfile (tcp_spec
     (snd (mutateTCP sampleEnv zeroCluster (ingressSCP ''kube.example'') True zeroTCP)))))"
proof -
  let ?scp = "ingressSCP ''kube.example''"
  have net: "net_Ingress (scp_Network ?scp) = Some \<lparr>ing_ClassName = '''', ing_Hostname = ''kube.example'', ing_ControllerType = '''',
       ing_ExtraLabels = Map.empty, ing_ExtraAnnotations = Map.empty\<rparr>" "net_Gateway (scp_Network ?scp) = None"
    "net_CertSANs (scp_Network ?scp) = []"
    by (simp_all add: ingressSCP_def zeroNetwork_def)
  have "SplitHostPort sampleHostPort = Inr (''cp'', Itoa 6443)"
    unfolding sampleHostPort_def
    by (rule SplitHostPort_plain [OF _ digits_plain_host [OF Itoa_digits]]) (simp add: plain_host_def)
  moreover have "ParseInt (Itoa 6443) 16 = Inr (word_of_int (int 6443))" by (intro ParseInt_Itoa) simp
  ultimately have "controlPlaneEndpoint ?scp sampleHostPort = Inr (''kube.example'', word_of_int (int 443))"
    using parseHostname_no_port [of "''kube.example''" 443 "''Ingress''"] net
    by (simp add: controlPlaneEndpoint_def plain_host_def defaultIngressPort_def)
  moreover have "mutateTCP sampleEnv zeroCluster ?scp True zeroTCP =
      (None, snd (mutateTCP sampleEnv zeroCluster ?scp True zeroTCP))"
    by (simp add: mutateTCP_eq net)
  ultimately show ?thesis
    using published_host_is_certified [OF sample_ownerContract] net by fastforce
qed

end
